(* ===== verification/Go_Prelude.thy ===== *)
theory Go_Prelude
  imports Main "HOL-Library.List_Lexorder" "HOL-Library.Char_ord" "HOL-Library.Word"
begin

text \<open>
  What the components share: the outcome of a Go call (a value, an error, or a crash of the
  process), computations over an explicit state with Go's \<open>if err != nil { return err }\<close>
  as their sequencing, and the functions of Go's standard library \<^verbatim>\<open>strings\<close>,
  \<^verbatim>\<open>strconv\<close> and \<^verbatim>\<open>slices\<close> that the sources use.

  A Go string is a sequence of bytes and is a HOL \<^typ>\<open>string\<close> here. The functions of
  \<^verbatim>\<open>strings\<close> that classify characters (\<^verbatim>\<open>TrimSpace\<close>, \<^verbatim>\<open>Fields\<close>,
  \<^verbatim>\<open>ToLower\<close>) are modelled on the ASCII range.
\<close>

section \<open>Collections of rewrite rules\<close>

named_theorems io_simps \<open>symbolic execution of stateful computations\<close>
named_theorems str_simps \<open>evaluation of string functions\<close>

section \<open>Outcomes and computations\<close>

text \<open>
  An error value carries its message; the sentinel errors that the sources compare with
  \<^verbatim>\<open>errors.Is\<close> and the error types they switch on are constructors of their own.
  \<open>Crash\<close> is the end of the process: \<^verbatim>\<open>log.Fatal\<close>, an index out of range, a nil
  dereference.
\<close>

datatype error =
    Error string
  | NotFound
  | NotExist
  | ESRCH
  | PassThroughJsonError string string
  | ParameterError "(string \<times> string list) list"
  | ServiceError string int

fun join_with :: "string \<Rightarrow> string list \<Rightarrow> string" where
  "join_with sep [] = []"
| "join_with sep [s] = s"
| "join_with sep (s # t # ss) = s @ sep @ join_with sep (t # ss)"

fun err_text :: "error \<Rightarrow> string" where
  "err_text (Error m) = m"
| "err_text NotFound = ''app not found''"
| "err_text NotExist = ''file does not exist''"
| "err_text ESRCH = ''no such process''"
| "err_text (PassThroughJsonError m j) = m"
| "err_text (ParameterError pms) = ''There'' @ [CHR 0x27] @ ''s an error in parameters: ''
     @ join_with ''; '' (map (\<lambda>(p, ms). p @ '': '' @ join_with '', '' ms) pms)"
| "err_text (ServiceError m status) = m"

datatype 'a res = Ok 'a | Err error | Crash string

type_synonym ('w, 'a) io = "'w \<Rightarrow> 'a res \<times> 'w"

definition ret :: "'a \<Rightarrow> ('w, 'a) io" where
  "ret a = (\<lambda>w. (Ok a, w))"

definition throw :: "error \<Rightarrow> ('w, 'a) io" where
  "throw e = (\<lambda>w. (Err e, w))"

definition crash :: "string \<Rightarrow> ('w, 'a) io" where
  "crash p = (\<lambda>w. (Crash p, w))"

definition andThen :: "('w, 'a) io \<Rightarrow> ('a \<Rightarrow> ('w, 'b) io) \<Rightarrow> ('w, 'b) io" where
  "andThen m k = (\<lambda>w. case m w of
      (Ok a, w') \<Rightarrow> k a w'
    | (Err e, w') \<Rightarrow> (Err e, w')
    | (Crash p, w') \<Rightarrow> (Crash p, w'))"

text \<open>\<open>attempt m\<close> hands the error to the caller, as \<^verbatim>\<open>v, err := m()\<close> does.\<close>

definition attempt :: "('w, 'a) io \<Rightarrow> ('w, error + 'a) io" where
  "attempt m = (\<lambda>w. case m w of
      (Ok a, w') \<Rightarrow> (Ok (Inr a), w')
    | (Err e, w') \<Rightarrow> (Ok (Inl e), w')
    | (Crash p, w') \<Rightarrow> (Crash p, w'))"

definition gets :: "('w \<Rightarrow> 'a) \<Rightarrow> ('w, 'a) io" where
  "gets f = (\<lambda>w. (Ok (f w), w))"

definition modify :: "('w \<Rightarrow> 'w) \<Rightarrow> ('w, unit) io" where
  "modify f = (\<lambda>w. (Ok (), f w))"

fun forEach :: "'a list \<Rightarrow> ('a \<Rightarrow> ('w, unit) io) \<Rightarrow> ('w, unit) io" where
  "forEach [] f = ret ()"
| "forEach (x # xs) f = andThen (f x) (\<lambda>_. forEach xs f)"

definition is_Ok :: "'a res \<Rightarrow> bool" where
  "is_Ok r = (case r of Ok _ \<Rightarrow> True | _ \<Rightarrow> False)"

text \<open>Running a part of a larger state.\<close>

definition zoom :: "('w \<Rightarrow> 'p) \<Rightarrow> ('p \<Rightarrow> 'w \<Rightarrow> 'w) \<Rightarrow> ('p, 'a) io \<Rightarrow> ('w, 'a) io" where
  "zoom g p m = (\<lambda>w. case m (g w) of (r, s) \<Rightarrow> (r, p s w))"

text \<open>The identity keeps these rules from rewriting the computations themselves.\<close>

lemma ret_apply [simp]: "ret a w = (Ok a, id w)"
  by (simp add: ret_def)

lemma throw_apply [simp]: "throw e w = (Err e, id w)"
  by (simp add: throw_def)

lemma crash_apply [simp]: "crash p w = (Crash p, id w)"
  by (simp add: crash_def)

lemma gets_apply [simp]: "gets f w = (Ok (f w), w)"
  by (simp add: gets_def)

lemma modify_apply [simp]: "modify f w = (Ok (), f w)"
  by (simp add: modify_def)

lemma is_Ok_simps [simp]: "is_Ok (Ok a)" "\<not> is_Ok (Err e)" "\<not> is_Ok (Crash p)"
  by (simp_all add: is_Ok_def)

lemma andThen_Ok [simp]: "m w = (Ok a, w') \<Longrightarrow> andThen m k w = k a w'"
  by (simp add: andThen_def)

text \<open>Boolean results need rules of their own: an equation with \<open>False\<close> is rewritten to a negation.\<close>

lemma andThen_Ok_bool [simp]:
  "m w = (Ok True, w') \<Longrightarrow> andThen m k w = k True w'"
  "m w = (Ok False, w') \<Longrightarrow> andThen m k w = k False w'"
  by (simp_all add: andThen_def)

lemma andThen_Err [simp]: "m w = (Err e, w') \<Longrightarrow> andThen m k w = (Err e, w')"
  by (simp add: andThen_def)

lemma andThen_Crash [simp]: "m w = (Crash p, w') \<Longrightarrow> andThen m k w = (Crash p, w')"
  by (simp add: andThen_def)

lemma attempt_Ok [simp]: "m w = (Ok a, w') \<Longrightarrow> attempt m w = (Ok (Inr a), w')"
  by (simp add: attempt_def)

lemma attempt_Err [simp]: "m w = (Err e, w') \<Longrightarrow> attempt m w = (Ok (Inl e), w')"
  by (simp add: attempt_def)

lemma attempt_Crash [simp]: "m w = (Crash p, w') \<Longrightarrow> attempt m w = (Crash p, w')"
  by (simp add: attempt_def)

text \<open>The sequencing is a monad, with errors and crashes as left zeros.\<close>

lemma andThen_ret_left: "andThen (ret a) k = k a"
  by (rule ext) simp

lemma andThen_ret_right: "andThen m ret = m"
  by (rule ext) (simp add: andThen_def ret_def split: prod.splits res.splits)

lemma andThen_assoc: "andThen (andThen m k) h = andThen m (\<lambda>a. andThen (k a) h)"
  by (rule ext) (simp add: andThen_def split: prod.splits res.splits)

lemma andThen_Ok_iff:
  "andThen m k w = (Ok b, w'') \<longleftrightarrow> (\<exists>a w'. m w = (Ok a, w') \<and> k a w' = (Ok b, w''))"
  by (auto simp: andThen_def split: prod.splits res.splits)

lemma andThen_ErrE:
  assumes "andThen m k w = (Err e, w'')"
  obtains "m w = (Err e, w'')" | a w' where "m w = (Ok a, w')" "k a w' = (Err e, w'')"
  using assms by (auto simp: andThen_def split: prod.splits res.splits)

lemma forEach_append:
  "forEach (xs @ ys) f = andThen (forEach xs f) (\<lambda>_. forEach ys f)"
  by (induction xs) (simp_all add: andThen_ret_left andThen_assoc)

subsection \<open>Relations kept by a computation\<close>

text \<open>
  \<open>keeps R m\<close>: whatever its outcome, \<open>m\<close> moves the state along the relation \<open>R\<close>.
  With a reflexive and transitive \<open>R\<close> (a frame, a history that only grows) it follows
  from the parts of a computation, and \<open>keeps_intros\<close> drives such proofs.
\<close>

named_theorems safe_intros \<open>computations that never panic\<close>
named_theorems keeps_intros \<open>introduction rules for kept relations\<close>

definition keeps :: "('w \<Rightarrow> 'w \<Rightarrow> bool) \<Rightarrow> ('w, 'a) io \<Rightarrow> bool" where
  "keeps R m \<longleftrightarrow> (\<forall>w r w'. m w = (r, w') \<longrightarrow> R w w')"

lemma keepsD: "keeps R m \<Longrightarrow> m w = (r, w') \<Longrightarrow> R w w'"
  by (simp add: keeps_def)

lemma keepsI: "(\<And>w r w'. m w = (r, w') \<Longrightarrow> R w w') \<Longrightarrow> keeps R m"
  by (simp add: keeps_def)

lemma keeps_ret [keeps_intros]: "reflp R \<Longrightarrow> keeps R (ret a)"
  by (auto simp: keeps_def reflp_def)

lemma keeps_throw [keeps_intros]: "reflp R \<Longrightarrow> keeps R (throw e)"
  by (auto simp: keeps_def reflp_def)

lemma keeps_crash [keeps_intros]: "reflp R \<Longrightarrow> keeps R (crash p)"
  by (auto simp: keeps_def reflp_def)

lemma keeps_gets [keeps_intros]: "reflp R \<Longrightarrow> keeps R (gets f)"
  by (auto simp: keeps_def reflp_def)

lemma keeps_andThen [keeps_intros]:
  assumes "transp R" "keeps R m" "\<And>a. keeps R (k a)"
  shows "keeps R (andThen m k)"
proof (rule keepsI)
  fix w r w' assume *: "andThen m k w = (r, w')"
  show "R w w'"
  proof (cases "m w")
    case (Pair q v)
    with assms(2) have mv: "R w v" by (rule keepsD)
    show ?thesis
    proof (cases q)
      case (Ok a)
      with Pair * have "k a v = (r, w')" by simp
      with assms(3) have "R v w'" by (rule keepsD)
      with assms(1) mv show ?thesis by (rule transpD)
    qed (use * Pair mv in auto)
  qed
qed

lemma keeps_attempt [keeps_intros]: "keeps R m \<Longrightarrow> keeps R (attempt m)"
  by (auto simp: keeps_def attempt_def split: prod.splits res.splits)

lemma keeps_if [keeps_intros]: "keeps R m \<Longrightarrow> keeps R n \<Longrightarrow> keeps R (if b then m else n)"
  by simp

lemma keeps_forEach [keeps_intros]:
  assumes "reflp R" "transp R" "\<And>x. x \<in> set xs \<Longrightarrow> keeps R (f x)"
  shows "keeps R (forEach xs f)"
  using assms(3)
proof (induction xs)
  case Nil
  show ?case using keeps_ret [OF assms(1), of "()"] by (simp only: forEach.simps)
next
  case (Cons x xs)
  then show ?case using assms(2) by (auto intro!: keeps_andThen)
qed

text \<open>\<open>safe m\<close>: the computation never panics and never exits the program.\<close>

definition safe :: "('w, 'a) io \<Rightarrow> bool" where
  "safe m \<longleftrightarrow> (\<forall>w p. fst (m w) \<noteq> Crash p)"

lemma safeD: "safe m \<Longrightarrow> m w \<noteq> (Crash p, w')"
  unfolding safe_def by (metis fst_conv)

lemma safe_basic [safe_intros]:
  "safe (ret a)" "safe (throw e)" "safe (gets f)" "safe (modify g)"
  by (simp_all add: safe_def)

lemma safe_andThen [safe_intros]:
  assumes "safe m" "\<And>a. safe (k a)"
  shows "safe (andThen m k)"
  unfolding safe_def
proof (intro allI)
  fix w p
  show "fst (andThen m k w) \<noteq> Crash p"
    using assms by (cases "m w"; cases "fst (m w)") (auto simp: safe_def, metis fst_conv)
qed

lemma safe_attempt [safe_intros]: "safe m \<Longrightarrow> safe (attempt m)"
  unfolding safe_def attempt_def by (auto split: prod.splits res.splits) (metis fst_conv)

lemma safe_if [safe_intros]: "safe m \<Longrightarrow> safe n \<Longrightarrow> safe (if b then m else n)"
  by simp

lemma safe_forEach [safe_intros]:
  assumes "\<And>x. safe (f x)"
  shows "safe (forEach xs f)"
  using assms by (induction xs) (auto intro!: safe_intros)

section \<open>Strings\<close>

definition is_space :: "char \<Rightarrow> bool" where
  "is_space c \<longleftrightarrow> c = CHR '' '' \<or> (9 \<le> (of_char c :: nat) \<and> (of_char c :: nat) \<le> 13)"

definition is_digit :: "char \<Rightarrow> bool" where
  "is_digit c \<longleftrightarrow> 48 \<le> (of_char c :: nat) \<and> (of_char c :: nat) \<le> 57"

definition is_lower :: "char \<Rightarrow> bool" where
  "is_lower c \<longleftrightarrow> 97 \<le> (of_char c :: nat) \<and> (of_char c :: nat) \<le> 122"

definition is_upper :: "char \<Rightarrow> bool" where
  "is_upper c \<longleftrightarrow> 65 \<le> (of_char c :: nat) \<and> (of_char c :: nat) \<le> 90"

definition HasPrefix :: "string \<Rightarrow> string \<Rightarrow> bool" where
  "HasPrefix s p \<longleftrightarrow> take (length p) s = p"

definition HasSuffix :: "string \<Rightarrow> string \<Rightarrow> bool" where
  "HasSuffix s p \<longleftrightarrow> length p \<le> length s \<and> drop (length s - length p) s = p"

definition TrimPrefix :: "string \<Rightarrow> string \<Rightarrow> string" where
  "TrimPrefix s p = (if HasPrefix s p then drop (length p) s else s)"

definition TrimSuffix :: "string \<Rightarrow> string \<Rightarrow> string" where
  "TrimSuffix s p = (if HasSuffix s p then take (length s - length p) s else s)"

definition CutPrefix :: "string \<Rightarrow> string \<Rightarrow> string option" where
  "CutPrefix s p = (if HasPrefix s p then Some (drop (length p) s) else None)"

fun Contains :: "string \<Rightarrow> string \<Rightarrow> bool" where
  "Contains [] sub \<longleftrightarrow> sub = []"
| "Contains (c # s) sub \<longleftrightarrow> HasPrefix (c # s) sub \<or> Contains s sub"

definition TrimSpace :: "string \<Rightarrow> string" where
  "TrimSpace s = rev (dropWhile is_space (rev (dropWhile is_space s)))"

text \<open>\<open>Split s c\<close> for a separator of one byte: never empty, \<open>n\<close> separators give \<open>n + 1\<close> parts.\<close>

fun Split :: "string \<Rightarrow> char \<Rightarrow> string list" where
  "Split [] c = [[]]"
| "Split (x # s) c =
     (if x = c then [] # Split s c
      else (case Split s c of [] \<Rightarrow> [[x]] | p # ps \<Rightarrow> (x # p) # ps))"

abbreviation Join :: "string list \<Rightarrow> string \<Rightarrow> string" where
  "Join ss sep \<equiv> join_with sep ss"

definition ToLower :: "string \<Rightarrow> string" where
  "ToLower s = map (\<lambda>c. if is_upper c then char_of ((of_char c :: nat) + 32) else c) s"

text \<open>\<^verbatim>\<open>strings.Fields\<close>: the maximal runs of bytes that are not space.\<close>

fun fields_acc :: "string \<Rightarrow> string \<Rightarrow> string list" where
  "fields_acc acc [] = (if acc = [] then [] else [acc])"
| "fields_acc acc (c # s) =
     (if is_space c then (if acc = [] then fields_acc [] s else acc # fields_acc [] s)
      else fields_acc (acc @ [c]) s)"

definition Fields :: "string \<Rightarrow> string list" where
  "Fields s = fields_acc [] s"

text \<open>
  \<^verbatim>\<open>for _, r := range s\<close>: the code points of UTF-8 text; a byte that starts no well-formed
  sequence counts as the replacement character. \<open>rune_len\<close> is the length of the sequence at
  the start, by the ranges that Unicode allows for its first two bytes.
\<close>

definition cont_bytes :: "nat \<Rightarrow> nat \<Rightarrow> nat list \<Rightarrow> bool" where
  "cont_bytes lo hi bs \<longleftrightarrow> (case bs of [] \<Rightarrow> False | b # r \<Rightarrow> lo \<le> b \<and> b \<le> hi \<and> list_all (\<lambda>x. 128 \<le> x \<and> x \<le> 191) r)"

definition rune_len :: "nat \<Rightarrow> nat list \<Rightarrow> nat" where
  "rune_len b bs =
     (if b < 128 then 1
      else if 194 \<le> b \<and> b \<le> 223 \<and> cont_bytes 128 191 (take 1 bs) then 2
      else if 224 \<le> b \<and> b \<le> 239 \<and> 2 \<le> length bs
        \<and> cont_bytes (if b = 224 then 160 else 128) (if b = 237 then 159 else 191) (take 2 bs) then 3
      else if 240 \<le> b \<and> b \<le> 244 \<and> 3 \<le> length bs
        \<and> cont_bytes (if b = 240 then 144 else 128) (if b = 244 then 143 else 191) (take 3 bs) then 4
      else 0)"

definition rune_val :: "nat \<Rightarrow> nat list \<Rightarrow> nat" where
  "rune_val b bs = (case rune_len b bs of
     0 \<Rightarrow> 65533
   | Suc n \<Rightarrow> foldl (\<lambda>v x. v * 64 + x mod 64) (if n = 0 then b else b mod 2 ^ (6 - n)) (take n bs))"

function runes :: "nat list \<Rightarrow> nat list" where
  "runes [] = []"
| "runes (b # bs) = rune_val b bs # runes (drop (rune_len b bs - 1) bs)"
  by pat_completeness auto

termination by (relation "measure length") auto

definition runes_of :: "string \<Rightarrow> nat list" where
  "runes_of s = runes (map of_char s)"

text \<open>\<^verbatim>\<open>strings.ReplaceAll\<close> for a text that is not empty.\<close>

function (sequential) ReplaceAll :: "string \<Rightarrow> string \<Rightarrow> string \<Rightarrow> string" where
  "ReplaceAll [] old new = []"
| "ReplaceAll (c # s) old new =
     (if old \<noteq> [] \<and> HasPrefix (c # s) old then new @ ReplaceAll (drop (length old) (c # s)) old new
      else c # ReplaceAll s old new)"
  by pat_completeness auto

termination by (relation "measure (\<lambda>(s, old, new). length s)") auto

text \<open>\<^verbatim>\<open>strings.Index\<close> as a cut: what is before the first occurrence and what is after it.\<close>

fun CutAt :: "string \<Rightarrow> string \<Rightarrow> (string \<times> string) option" where
  "CutAt sep [] = (if sep = [] then Some ([], []) else None)"
| "CutAt sep (c # s) =
     (if HasPrefix (c # s) sep then Some ([], drop (length sep) (c # s))
      else map_option (\<lambda>(a, b). (c # a, b)) (CutAt sep s))"

lemma Split_not_Nil [simp]: "Split s c \<noteq> []"
  by (induction s) (auto split: list.splits)

lemma Join_Split: "Join (Split s c) [c] = s"
proof (induction s)
  case Nil
  show ?case by simp
next
  case (Cons x s)
  obtain p ps where ps: "Split s c = p # ps"
    using Split_not_Nil by (meson list.exhaust)
  show ?case
  proof (cases ps)
    case Nil
    with Cons ps show ?thesis by auto
  next
    case (Cons q qs)
    with ps Cons.IH show ?thesis by auto
  qed
qed

lemma Split_no_sep: "c \<notin> set s \<Longrightarrow> Split s c = [s]"
  by (induction s) auto

lemma Split_append_sep: "c \<notin> set s \<Longrightarrow> Split (s @ c # t) c = s # Split t c"
  by (induction s) auto

lemma HasPrefix_append [simp]: "HasPrefix (p @ s) p"
  by (simp add: HasPrefix_def)

lemma HasPrefix_iff: "HasPrefix s p \<longleftrightarrow> (\<exists>t. s = p @ t)"
  by (metis HasPrefix_append HasPrefix_def append_take_drop_id)

lemma HasSuffix_iff: "HasSuffix s p \<longleftrightarrow> (\<exists>t. s = t @ p)"
proof
  assume "HasSuffix s p"
  then have "s = take (length s - length p) s @ p"
    by (metis HasSuffix_def append_take_drop_id)
  then show "\<exists>t. s = t @ p" ..
qed (auto simp: HasSuffix_def)

lemma Contains_iff: "Contains s sub \<longleftrightarrow> (\<exists>a b. s = a @ sub @ b)"
proof (induction s)
  case Nil
  show ?case by auto
next
  case (Cons c s)
  show ?case
  proof
    assume "Contains (c # s) sub"
    then consider "HasPrefix (c # s) sub" | "Contains s sub" by auto
    then show "\<exists>a b. c # s = a @ sub @ b"
    proof cases
      case 1
      then obtain t where "c # s = sub @ t" by (auto simp: HasPrefix_iff)
      then show ?thesis by (metis append_Nil)
    next
      case 2
      with Cons obtain a b where "s = a @ sub @ b" by auto
      then show ?thesis by (metis append_Cons)
    qed
  next
    assume "\<exists>a b. c # s = a @ sub @ b"
    then obtain a b where ab: "c # s = a @ sub @ b" by auto
    show "Contains (c # s) sub"
    proof (cases a)
      case Nil
      with ab have "HasPrefix (c # s) sub" by (simp add: HasPrefix_iff)
      then show ?thesis by simp
    next
      case (Cons d a')
      with ab have "s = a' @ sub @ b" by simp
      with Cons.IH show ?thesis by auto
    qed
  qed
qed

lemma TrimPrefix_append [simp]: "TrimPrefix (p @ s) p = s"
  by (simp add: TrimPrefix_def)

lemma CutPrefix_append [simp]: "CutPrefix (p @ s) p = Some s"
  by (simp add: CutPrefix_def)

lemma CutAt_Some: "CutAt sep s = Some (a, b) \<Longrightarrow> s = a @ sep @ b"
proof (induction sep s arbitrary: a b rule: CutAt.induct)
  case (1 sep)
  then show ?case by (auto split: if_splits)
next
  case (2 sep c s)
  show ?case
  proof (cases "HasPrefix (c # s) sep")
    case True
    with 2 show ?thesis by (auto simp: HasPrefix_iff)
  next
    case False
    with 2 show ?thesis by auto
  qed
qed

lemma CutAt_None: "CutAt sep s = None \<longleftrightarrow> \<not> Contains s sep"
  by (induction sep s rule: CutAt.induct) (auto simp: HasPrefix_def)

section \<open>Decimal integers\<close>

definition digit_char :: "nat \<Rightarrow> char" where
  "digit_char d = char_of (48 + d)"

definition digit_val :: "char \<Rightarrow> nat" where
  "digit_val c = of_char c - 48"

fun nat_dec :: "nat \<Rightarrow> string" where
  "nat_dec n = (if n < 10 then [digit_char n] else nat_dec (n div 10) @ [digit_char (n mod 10)])"

declare nat_dec.simps [simp del]

definition Itoa :: "int \<Rightarrow> string" where
  "Itoa i = (if i < 0 then CHR ''-'' # nat_dec (nat (- i)) else nat_dec (nat i))"

fun digits_val :: "nat \<Rightarrow> string \<Rightarrow> nat option" where
  "digits_val acc [] = Some acc"
| "digits_val acc (c # cs) =
     (if is_digit c then digits_val (10 * acc + digit_val c) cs else None)"

definition in_bits :: "nat \<Rightarrow> int \<Rightarrow> bool" where
  "in_bits b i \<longleftrightarrow> - (2 ^ (b - 1)) \<le> i \<and> i < 2 ^ (b - 1)"

text \<open>
  \<^verbatim>\<open>strconv.ParseInt(s, 10, bits)\<close>: an optional sign, at least one digit, digits only;
  \<open>None\<close> is either of its errors (syntax, range). \<^verbatim>\<open>strconv.Atoi\<close> is the 64 bit case,
  \<^verbatim>\<open>strconv.ParseUint\<close> takes no sign.
\<close>

definition ParseInt :: "nat \<Rightarrow> string \<Rightarrow> int option" where
  "ParseInt bits s =
     (let neg = (s \<noteq> [] \<and> hd s = CHR ''-'');
          ds = (if s \<noteq> [] \<and> (hd s = CHR ''-'' \<or> hd s = CHR ''+'') then tl s else s)
      in if ds = [] then None
         else (case digits_val 0 ds of
             None \<Rightarrow> None
           | Some n \<Rightarrow> (let v = (if neg then - int n else int n)
                        in if in_bits bits v then Some v else None)))"

definition Atoi :: "string \<Rightarrow> int option" where
  "Atoi s = ParseInt 64 s"

definition ParseUint64 :: "string \<Rightarrow> nat option" where
  "ParseUint64 s =
     (if s = [] then None
      else (case digits_val 0 s of
          None \<Rightarrow> None
        | Some n \<Rightarrow> if n < 2 ^ 64 then Some n else None))"

lemma digit_char_eval [str_simps]:
  "digit_char 0 = CHR ''0''"
  "digit_char (Suc 0) = CHR ''1''"
  "digit_char 2 = CHR ''2''"
  "digit_char 3 = CHR ''3''"
  "digit_char 4 = CHR ''4''"
  "digit_char 5 = CHR ''5''"
  "digit_char 6 = CHR ''6''"
  "digit_char 7 = CHR ''7''"
  "digit_char 8 = CHR ''8''"
  "digit_char 9 = CHR ''9''"
  by code_simp+

lemma of_char_digit_char: "d < 10 \<Longrightarrow> (of_char (digit_char d) :: nat) = 48 + d"
  by (simp add: digit_char_def)

lemma is_digit_digit_char: "d < 10 \<Longrightarrow> is_digit (digit_char d)"
  by (simp add: is_digit_def of_char_digit_char)

lemma digit_val_digit_char: "d < 10 \<Longrightarrow> digit_val (digit_char d) = d"
  by (simp add: digit_val_def of_char_digit_char)

lemma digits_val_append:
  "digits_val acc (xs @ ys) =
     (case digits_val acc xs of None \<Rightarrow> None | Some a \<Rightarrow> digits_val a ys)"
  by (induction xs arbitrary: acc) auto

lemma nat_dec_digits: "c \<in> set (nat_dec n) \<Longrightarrow> is_digit c"
proof (induction n rule: nat_dec.induct)
  case (1 n)
  then show ?case
    by (cases "n < 10")
      (auto simp: nat_dec.simps [of n] is_digit_digit_char)
qed

lemma nat_dec_not_Nil [simp]: "nat_dec n \<noteq> []"
  by (subst nat_dec.simps) simp

lemma digits_val_nat_dec: "digits_val 0 (nat_dec n) = Some n"
proof (induction n rule: nat_dec.induct)
  case (1 n)
  show ?case
  proof (cases "n < 10")
    case True
    then show ?thesis
      by (simp add: nat_dec.simps [of n] is_digit_digit_char digit_val_digit_char)
  next
    case False
    with 1 show ?thesis
      by (simp add: nat_dec.simps [of n] digits_val_append is_digit_digit_char digit_val_digit_char)
  qed
qed

lemma hd_nat_dec_not_sign: "hd (nat_dec n) \<noteq> CHR ''-''" "hd (nat_dec n) \<noteq> CHR ''+''"
  using nat_dec_digits [of "hd (nat_dec n)" n] by (auto simp: is_digit_def)

text \<open>Printing and parsing back is the identity exactly on the integers of the width.\<close>

lemma ParseInt_Itoa: "ParseInt bits (Itoa i) = (if in_bits bits i then Some i else None)"
  by (auto simp: ParseInt_def Itoa_def digits_val_nat_dec hd_nat_dec_not_sign Let_def)

lemma ParseUint64_nat_dec: "ParseUint64 (nat_dec n) = (if n < 2 ^ 64 then Some n else None)"
  by (simp add: ParseUint64_def digits_val_nat_dec)

lemma ParseInt_in_bits: "ParseInt bits s = Some i \<Longrightarrow> in_bits bits i"
  by (auto simp: ParseInt_def Let_def split: if_splits option.splits)

section \<open>Go integers\<close>

text \<open>\<^verbatim>\<open>int64\<close> arithmetic wraps around; division truncates towards zero.\<close>

definition int64 :: "int \<Rightarrow> int" where
  "int64 i = (i + 2 ^ 63) mod 2 ^ 64 - 2 ^ 63"

definition go_div :: "int \<Rightarrow> int \<Rightarrow> int" where
  "go_div a b = sgn a * sgn b * (\<bar>a\<bar> div \<bar>b\<bar>)"

lemma int64_id: "in_bits 64 i \<Longrightarrow> int64 i = i"
  by (simp add: int64_def in_bits_def)

lemma go_div_nonneg: "0 \<le> a \<Longrightarrow> 0 < b \<Longrightarrow> go_div a b = a div b"
  by (cases "a = 0") (auto simp: go_div_def)

section \<open>Association lists as tables with a primary key\<close>

text \<open>\<^verbatim>\<open>INSERT OR REPLACE\<close> removes the row with the same key and appends the new one.\<close>

definition row_put :: "'k \<Rightarrow> 'v \<Rightarrow> ('k \<times> 'v) list \<Rightarrow> ('k \<times> 'v) list" where
  "row_put k v rows = filter (\<lambda>r. fst r \<noteq> k) rows @ [(k, v)]"

definition row_del :: "'k \<Rightarrow> ('k \<times> 'v) list \<Rightarrow> ('k \<times> 'v) list" where
  "row_del k rows = filter (\<lambda>r. fst r \<noteq> k) rows"

lemma map_of_filter_neq: "map_of (filter (\<lambda>r. fst r \<noteq> k) rows) = (map_of rows)(k := None)"
  by (induction rows) (auto simp: fun_eq_iff)

lemma map_of_row_put [simp]: "map_of (row_put k v rows) = (map_of rows)(k \<mapsto> v)"
proof -
  have "map_of [(k, v)] ++ (map_of rows)(k := None) = (map_of rows)(k \<mapsto> v)"
    by (auto simp: fun_eq_iff map_add_def split: option.splits)
  then show ?thesis
    by (auto simp: row_put_def map_of_filter_neq fun_eq_iff map_add_def split: option.splits)
qed

lemma map_of_row_del [simp]: "map_of (row_del k rows) = (map_of rows)(k := None)"
  by (simp add: row_del_def map_of_filter_neq)

lemma distinct_row_put: "distinct (map fst rows) \<Longrightarrow> distinct (map fst (row_put k v rows))"
  by (auto simp: row_put_def distinct_map inj_on_def)

lemma distinct_row_del: "distinct (map fst rows) \<Longrightarrow> distinct (map fst (row_del k rows))"
  by (auto simp: row_del_def distinct_map inj_on_def)

section \<open>Paths\<close>

text \<open>\<^verbatim>\<open>path/filepath\<close>: \<open>Clean\<close> resolves dots lexically, \<open>path_join\<close> is \<open>Join\<close>.\<close>

fun clean_parts :: "bool \<Rightarrow> string list \<Rightarrow> string list \<Rightarrow> string list" where
  "clean_parts rooted [] st = rev st"
| "clean_parts rooted (p # ps) st =
     (if p = [] \<or> p = ''.'' then clean_parts rooted ps st
      else if p = ''..'' then
        (case st of
           [] \<Rightarrow> clean_parts rooted ps (if rooted then [] else [''..''])
         | t # ts \<Rightarrow> clean_parts rooted ps (if t = ''..'' then ''..'' # st else ts))
      else clean_parts rooted ps (p # st))"

definition Clean :: "string \<Rightarrow> string" where
  "Clean p = (if p = [] then ''.''
     else let rooted = hd p = CHR ''/''; ps = clean_parts rooted (Split p CHR ''/'') []
          in if rooted then ''/'' @ Join ps ''/'' else if ps = [] then ''.'' else Join ps ''/'')"

definition path_join :: "string list \<Rightarrow> string" where
  "path_join es = (let es' = dropWhile (\<lambda>e. e = []) es in if es' = [] then [] else Clean (Join es' ''/''))"

text \<open>A path part that \<open>Clean\<close> keeps.\<close>

definition plain_part :: "string \<Rightarrow> bool" where
  "plain_part p \<longleftrightarrow> p \<noteq> [] \<and> p \<noteq> ''.'' \<and> p \<noteq> ''..'' \<and> CHR ''/'' \<notin> set p"

lemma clean_parts_plain: "list_all plain_part ps \<Longrightarrow> clean_parts r ps st = rev st @ ps"
  by (induction ps arbitrary: st) (auto simp: plain_part_def)

lemma clean_parts_rooted_no_dotdot:
  "''..'' \<notin> set st \<Longrightarrow> ''..'' \<notin> set (clean_parts True ps st)"
proof (induction ps arbitrary: st)
  case (Cons p ps)
  then show ?case by (cases st) auto
qed simp

lemma Split_plain_part: "plain_part p \<Longrightarrow> Split p CHR ''/'' = [p]"
  by (simp add: plain_part_def Split_no_sep)

lemma Clean_child:
  assumes "plain_part d" "plain_part n"
  shows "Clean (''/'' @ d @ ''/'' @ n) = ''/'' @ d @ ''/'' @ n"
proof -
  have "Split (d @ CHR ''/'' # n) CHR ''/'' = [d, n]"
    using assms by (simp add: plain_part_def Split_append_sep Split_no_sep)
  then show ?thesis
    using assms clean_parts_plain [of "[d, n]" True "[]"] by (simp add: Clean_def Let_def)
qed

lemma Split_append: "Split (s @ c # t) c = Split s c @ Split t c"
proof (induction s)
  case (Cons a s)
  then show ?case by (cases "Split s c") auto
qed simp

lemma Split_Join: "ps \<noteq> [] \<Longrightarrow> \<forall>p\<in>set ps. c \<notin> set p \<Longrightarrow> Split (Join ps [c]) c = ps"
proof (induction ps rule: induct_list012)
  case (3 p q ps)
  then show ?case using Split_append [of p c "Join (q # ps) [c]"] by (simp add: Split_no_sep)
qed (simp_all add: Split_no_sep)

lemma clean_parts_append:
  "list_all plain_part as \<Longrightarrow> clean_parts r (as @ bs) st = clean_parts r bs (rev as @ st)"
  by (induction as arbitrary: st) (auto simp: plain_part_def)

lemma Split_Join_plain:
  "list_all plain_part ps \<Longrightarrow> ps \<noteq> [] \<Longrightarrow> Split (Join ps ''/'') CHR ''/'' = ps"
  by (rule Split_Join) (auto simp: list_all_iff plain_part_def)

lemma Join_append: "ps \<noteq> [] \<Longrightarrow> Join (ps @ [n]) sep = Join ps sep @ sep @ n"
  by (induction ps rule: induct_list012) auto

text \<open>Joining a plain name to a clean absolute path appends it.\<close>

lemma path_join_child:
  assumes "list_all plain_part ps" "ps \<noteq> []" "plain_part n"
  shows "path_join [''/'' @ Join ps ''/'', n] = ''/'' @ Join ps ''/'' @ ''/'' @ n"
proof -
  have "Split (Join (ps @ [n]) ''/'') CHR ''/'' = ps @ [n]"
    using assms by (intro Split_Join_plain) auto
  then have "Split (CHR ''/'' # Join ps ''/'' @ CHR ''/'' # n) CHR ''/'' = [] # ps @ [n]"
    using assms by (simp add: Join_append)
  moreover have "clean_parts True (ps @ [n]) [] = ps @ [n]"
    using clean_parts_plain [of "ps @ [n]"] assms by simp
  ultimately show ?thesis
    using assms by (simp add: path_join_def Clean_def Let_def Join_append)
qed

end
