(* ===== verification/Access_Change.thy ===== *)
theory Access_Change
  imports Go_Prelude
begin

text \<open>
  The runner of access change events (\<^verbatim>\<open>backend/event/access_change.go\<close>). Any number of
  goroutines call \<open>Trigger\<close>; at most one goroutine at a time runs the event on the apps, and
  a trigger that arrives during a run causes another run. The two critical sections are
  functions of the fields \<open>dirty\<close> and \<open>running\<close>; the goroutines around them are a step
  relation that also has the window between the unlock of \<open>Trigger\<close> and the start of the
  spawned goroutine.
\<close>

section \<open>The critical sections\<close>

record runner =
  dirty :: bool
  running :: bool

definition NewAccessChangeRunner :: runner where
  "NewAccessChangeRunner = \<lparr>dirty = False, running = False\<rparr>"

text \<open>\<open>Trigger\<close> up to its unlock; the result says whether it goes on to spawn \<open>run\<close>.\<close>

definition Trigger_section :: "runner \<Rightarrow> bool \<times> runner" where
  "Trigger_section r =
     (let r1 = r\<lparr>dirty := True\<rparr>
      in if running r1 then (False, r1) else (True, r1\<lparr>running := True\<rparr>))"

text \<open>One turn of the loop of \<open>run\<close> up to its unlock; the result says whether it goes on to
  run the event (otherwise the goroutine returns).\<close>

definition run_section :: "runner \<Rightarrow> bool \<times> runner" where
  "run_section r =
     (if \<not> dirty r then (False, r\<lparr>running := False\<rparr>) else (True, r\<lparr>dirty := False\<rparr>))"

section \<open>Goroutines\<close>

text \<open>
  \<open>spawning\<close> counts callers of \<open>Trigger\<close> between unlock and spawn, \<open>at_lock\<close> the runner
  goroutines before their critical section, \<open>in_event\<close> those inside
  \<open>RunAccessChangeEvent\<close>. \<open>triggers\<close> counts the triggers so far, \<open>covered\<close> how many of
  them had happened when the latest run of the event began, \<open>delivered\<close> the same for the
  latest run that ended.
\<close>

record events =
  rn :: runner
  spawning :: nat
  at_lock :: nat
  in_event :: nat
  triggers :: nat
  covered :: nat
  delivered :: nat

definition events_init :: events where
  "events_init = \<lparr>rn = NewAccessChangeRunner, spawning = 0, at_lock = 0, in_event = 0,
                   triggers = 0, covered = 0, delivered = 0\<rparr>"

text \<open>Steps of the runner goroutines.\<close>

inductive runner_step :: "events \<Rightarrow> events \<Rightarrow> bool" where
  spawn: "0 < spawning s \<Longrightarrow>
     runner_step s (s\<lparr>spawning := spawning s - 1, at_lock := at_lock s + 1\<rparr>)"
| enter: "0 < at_lock s \<Longrightarrow> run_section (rn s) = (True, r') \<Longrightarrow>
     runner_step s (s\<lparr>rn := r', at_lock := at_lock s - 1, in_event := in_event s + 1,
                     covered := triggers s\<rparr>)"
| leave: "0 < at_lock s \<Longrightarrow> run_section (rn s) = (False, r') \<Longrightarrow>
     runner_step s (s\<lparr>rn := r', at_lock := at_lock s - 1\<rparr>)"
| event_done: "0 < in_event s \<Longrightarrow>
     runner_step s (s\<lparr>in_event := in_event s - 1, at_lock := at_lock s + 1,
                     delivered := covered s\<rparr>)"

inductive event_step :: "events \<Rightarrow> events \<Rightarrow> bool" where
  trigger_spawns: "Trigger_section (rn s) = (True, r') \<Longrightarrow>
     event_step s (s\<lparr>rn := r', spawning := spawning s + 1, triggers := triggers s + 1\<rparr>)"
| trigger_returns: "Trigger_section (rn s) = (False, r') \<Longrightarrow>
     event_step s (s\<lparr>rn := r', triggers := triggers s + 1\<rparr>)"
| internal: "runner_step s t \<Longrightarrow> event_step s t"

inductive events_reachable :: "events \<Rightarrow> bool" where
  init: "events_reachable events_init"
| step: "events_reachable s \<Longrightarrow> event_step s t \<Longrightarrow> events_reachable t"

definition live :: "events \<Rightarrow> nat" where
  "live s = spawning s + at_lock s + in_event s"

definition events_inv :: "events \<Rightarrow> bool" where
  "events_inv s \<longleftrightarrow>
     live s = (if running (rn s) then 1 else 0)
     \<and> (dirty (rn s) \<longrightarrow> running (rn s))
     \<and> (spawning s > 0 \<longrightarrow> dirty (rn s))
     \<and> (\<not> dirty (rn s) \<longrightarrow> covered s = triggers s)
     \<and> (in_event s = 0 \<longrightarrow> delivered s = covered s)
     \<and> covered s \<le> triggers s \<and> delivered s \<le> covered s"

lemmas events_defs = events_inv_def live_def Trigger_section_def run_section_def Let_def

lemma events_inv_init: "events_inv events_init"
  by (simp add: events_defs events_init_def NewAccessChangeRunner_def)

lemma events_inv_runner_step: "runner_step s t \<Longrightarrow> events_inv s \<Longrightarrow> events_inv t"
proof (induction rule: runner_step.induct)
  case (spawn s)
  then show ?case by (auto simp: events_defs split: if_splits)
next
  case (enter s r')
  then show ?case by (auto simp: events_defs split: if_splits)
next
  case (leave s r')
  then show ?case by (auto simp: events_defs split: if_splits)
next
  case (event_done s)
  then show ?case by (auto simp: events_defs split: if_splits)
qed

lemma events_inv_step: "event_step s t \<Longrightarrow> events_inv s \<Longrightarrow> events_inv t"
proof (induction rule: event_step.induct)
  case (trigger_spawns s r')
  then show ?case by (auto simp: events_defs split: if_splits)
next
  case (trigger_returns s r')
  then show ?case by (auto simp: events_defs split: if_splits)
next
  case (internal s t)
  then show ?case by (rule events_inv_runner_step)
qed

lemma events_reachable_inv: "events_reachable s \<Longrightarrow> events_inv s"
  by (induction rule: events_reachable.induct) (blast intro: events_inv_init events_inv_step)+

text \<open>How much the runner goroutines still have to do without new triggers.\<close>

definition work_left :: "events \<Rightarrow> nat" where
  "work_left s = 2 * spawning s + at_lock s + 2 * in_event s + (if dirty (rn s) then 2 else 0)"

lemma runner_step_work: "runner_step s t \<Longrightarrow> work_left t < work_left s"
  by (induction rule: runner_step.induct) (auto simp: work_left_def run_section_def split: if_splits)

lemma runner_step_triggers: "runner_step s t \<Longrightarrow> triggers t = triggers s"
  by (induction rule: runner_step.induct) auto

lemma runner_step_enabled:
  assumes "live s \<noteq> 0"
  shows "\<exists>t. runner_step s t"
proof -
  obtain b r' where b: "run_section (rn s) = (b, r')" by (cases "run_section (rn s)")
  consider "0 < spawning s" | "0 < at_lock s" | "0 < in_event s"
    using assms by (auto simp: live_def)
  then show ?thesis
  proof cases
    case 1
    then show ?thesis by (blast dest: runner_step.spawn)
  next
    case 2
    then show ?thesis
      using b runner_step.enter [of s r'] runner_step.leave [of s r'] by (cases b) auto
  next
    case 3
    then show ?thesis by (blast dest: runner_step.event_done)
  qed
qed

lemma runner_finishes: "\<exists>t. runner_step\<^sup>*\<^sup>* s t \<and> live t = 0"
proof (induction "work_left s" arbitrary: s rule: less_induct)
  case less
  show ?case
  proof (cases "live s = 0")
    case True
    then show ?thesis by blast
  next
    case False
    then obtain u where u: "runner_step s u" using runner_step_enabled by blast
    with less [of u] runner_step_work obtain t where "runner_step\<^sup>*\<^sup>* u t" "live t = 0" by blast
    with u show ?thesis by (meson converse_rtranclp_into_rtranclp)
  qed
qed

lemma runner_steps_inv: "runner_step\<^sup>*\<^sup>* s t \<Longrightarrow> events_inv s \<Longrightarrow> events_inv t \<and> triggers t = triggers s"
  by (induction rule: rtranclp_induct) (auto simp: events_inv_runner_step runner_step_triggers)

section \<open>Properties\<close>

text \<open>
  C18. At most one goroutine runs the access change event at any time, and exactly when the
  field \<open>running\<close> is set there is one that will look at \<open>dirty\<close> again: no trigger can be
  stored with nobody to serve it.
\<close>

theorem access_change_mutual_exclusion:
  assumes "events_reachable s"
  shows "in_event s \<le> 1 \<and> live s \<le> 1 \<and> (running (rn s) \<longleftrightarrow> live s = 1)
         \<and> (dirty (rn s) \<longrightarrow> live s = 1)"
  using events_reachable_inv [OF assms] by (auto simp: events_defs split: if_splits)

theorem access_change_mutual_exclusion_witness:
  "in_event events_init \<le> 1 \<and> live events_init \<le> 1"
  using access_change_mutual_exclusion [OF events_reachable.init] by blast

text \<open>
  C2. No trigger is lost: from every reachable state the runner goroutines reach, without
  further triggers, a state in which none is left, and in every such state the latest
  completed run of the event began after the last trigger.
\<close>

theorem access_change_no_lost_trigger:
  assumes "events_reachable s"
  shows "(\<exists>t. runner_step\<^sup>*\<^sup>* s t \<and> live t = 0)
    \<and> (\<forall>t. runner_step\<^sup>*\<^sup>* s t \<and> live t = 0 \<longrightarrow> delivered t = triggers s \<and> \<not> dirty (rn t) \<and> \<not> running (rn t))"
proof (intro conjI allI impI)
  show "\<exists>t. runner_step\<^sup>*\<^sup>* s t \<and> live t = 0" by (rule runner_finishes)
next
  fix t
  assume t: "runner_step\<^sup>*\<^sup>* s t \<and> live t = 0"
  with events_reachable_inv [OF assms] have "events_inv t" "triggers t = triggers s"
    using runner_steps_inv by blast+
  with t show "delivered t = triggers s" "\<not> dirty (rn t)" "\<not> running (rn t)"
    by (auto simp: events_defs split: if_splits)
qed

theorem access_change_no_lost_trigger_witness:
  "let s = events_init\<lparr>rn := \<lparr>dirty = True, running = True\<rparr>, spawning := 1, triggers := 1\<rparr>
   in \<exists>t. runner_step\<^sup>*\<^sup>* s t \<and> live t = 0 \<and> delivered t = 1"
proof -
  let ?s = "events_init\<lparr>rn := \<lparr>dirty = True, running = True\<rparr>, spawning := 1, triggers := 1\<rparr>"
  have "Trigger_section (rn events_init) = (True, \<lparr>dirty = True, running = True\<rparr>)"
    by (simp add: Trigger_section_def events_init_def NewAccessChangeRunner_def Let_def)
  from event_step.trigger_spawns [OF this] have "event_step events_init ?s"
    by (simp add: events_init_def)
  then have "events_reachable ?s" by (rule events_reachable.step [OF events_reachable.init])
  from access_change_no_lost_trigger [OF this] show ?thesis
    by (auto simp: Let_def)
qed

text \<open>
  C19. The loop of \<open>run\<close> ends: every step of the runner goroutines consumes work that only a
  new trigger can add, so there is no infinite run of them without triggers, and they are
  never stuck before they are done.
\<close>

theorem access_change_runner_terminates:
  "wfP (\<lambda>t s. runner_step s t) \<and> (\<forall>s. live s \<noteq> 0 \<longrightarrow> (\<exists>t. runner_step s t))"
proof
  show "wfP (\<lambda>t s. runner_step s t)"
    by (rule wfp_if_convertible_to_nat [where f = work_left]) (rule runner_step_work)
  show "\<forall>s. live s \<noteq> 0 \<longrightarrow> (\<exists>t. runner_step s t)"
    using runner_step_enabled by blast
qed

theorem access_change_runner_terminates_witness:
  "\<exists>t. runner_step (events_init\<lparr>spawning := 1\<rparr>) t"
  using access_change_runner_terminates by (auto simp: events_init_def live_def)

end
