(* ===== verification/Config_Db.thy ===== *)
theory Config_Db
  imports Go_Prelude
begin

text \<open>
  The settings database (\<^verbatim>\<open>backend/config/db.go\<close>): an SQLite file whose table
  \<open>config\<close> maps keys to values. The state is the content of the tables; the statements of
  the source are written out with their SQL meaning. \<open>db_up\<close> says whether the driver can
  run statements at all, so that every error branch of the source is a branch of the model.
  The methods that end in \<^verbatim>\<open>log.Fatal\<close> crash there.

  The locale \<open>settings_store\<close> is what the rest of the platform relies on; it is interpreted
  on the operations of this theory.
\<close>

section \<open>Tables\<close>

text \<open>The columns that migrations add or drop are flags of their table.\<close>

record oidc_row =
  oc_id :: string
  oc_secret :: string
  oc_redirect_uri :: string
  oc_require_pkce :: int
  oc_auth_method :: string

record oidc_table =
  has_redirect_uri :: bool
  oidc_rows :: "oidc_row list"

record proxy_row =
  px_name :: string
  px_host :: string
  px_port :: int
  px_https :: int
  px_authelia :: int

record proxy_table =
  has_https :: bool
  has_authelia :: bool
  proxy_rows :: "proxy_row list"

record database =
  db_up :: bool
  config_t :: "(string \<times> string) list option"
  oidc_client_t :: "oidc_table option"
  oidc_uri_t :: "(string \<times> string) list option"
  custom_proxy_t :: "proxy_table option"
  goose_version :: nat

definition empty_database :: database where
  "empty_database = \<lparr>db_up = True, config_t = None, oidc_client_t = None, oidc_uri_t = None,
     custom_proxy_t = None, goose_version = 0\<rparr>"

definition sql_error :: error where
  "sql_error = Error ''sql''"

text \<open>A statement on a table: it fails when the driver or the table is not there.\<close>

definition on_table :: "(database \<Rightarrow> 't option) \<Rightarrow> ('t \<Rightarrow> (database, 'a) io) \<Rightarrow> (database, 'a) io" where
  "on_table t f = (\<lambda>d. if db_up d then (case t d of None \<Rightarrow> (Err sql_error, d) | Some x \<Rightarrow> f x d)
                       else (Err sql_error, d))"

text \<open>\<^verbatim>\<open>if err != nil { log.Fatal(err) }\<close>\<close>

definition or_fatal :: "('w, 'a) io \<Rightarrow> ('w, 'a) io" where
  "or_fatal m = andThen (attempt m) (\<lambda>x. case x of Inl e \<Rightarrow> crash ''log.Fatal'' | Inr a \<Rightarrow> ret a)"

section \<open>Operations\<close>

definition Db_Init :: "(database, unit) io" where
  "Db_Init = (\<lambda>d. if db_up d \<and> config_t d = None then (Ok (), d\<lparr>config_t := Some []\<rparr>)
                  else (Err (Error ''unable to init db''), d))"

definition Db_Upsert :: "string \<Rightarrow> string \<Rightarrow> (database, unit) io" where
  "Db_Upsert key v = or_fatal (on_table config_t
     (\<lambda>rows. modify (\<lambda>d. d\<lparr>config_t := Some (row_put key v rows)\<rparr>)))"

definition Db_Delete :: "string \<Rightarrow> (database, unit) io" where
  "Db_Delete key = or_fatal (on_table config_t
     (\<lambda>rows. modify (\<lambda>d. d\<lparr>config_t := Some (row_del key rows)\<rparr>)))"

definition Db_GetOrNilString :: "string \<Rightarrow> (database, string option) io" where
  "Db_GetOrNilString key = or_fatal (on_table config_t (\<lambda>rows. ret (map_of rows key)))"

definition Db_Get :: "string \<Rightarrow> string \<Rightarrow> (database, string) io" where
  "Db_Get key dflt = andThen (Db_GetOrNilString key)
     (\<lambda>v. case v of None \<Rightarrow> ret dflt | Some x \<Rightarrow> ret x)"

definition True_str :: string where "True_str = ''true''"
definition False_str :: string where "False_str = ''false''"

definition fromBool :: "bool \<Rightarrow> string" where
  "fromBool b = (if b then True_str else False_str)"

definition Db_GetBool :: "string \<Rightarrow> bool \<Rightarrow> (database, bool) io" where
  "Db_GetBool key dflt = andThen (Db_Get key (fromBool dflt)) (\<lambda>v. ret (v = True_str))"

definition Db_UpsertBool :: "string \<Rightarrow> bool \<Rightarrow> (database, unit) io" where
  "Db_UpsertBool key b = Db_Upsert key (fromBool b)"

definition Db_GetOrDefaultString :: "string \<Rightarrow> string \<Rightarrow> (database, string) io" where
  "Db_GetOrDefaultString key dflt = Db_Get key dflt"

definition Db_GetStringOrError :: "string \<Rightarrow> (database, string) io" where
  "Db_GetStringOrError key = andThen (Db_GetOrNilString key)
     (\<lambda>v. case v of None \<Rightarrow> throw (Error (key @ '' is not found'')) | Some x \<Rightarrow> ret x)"

definition Db_GetOrNilInt :: "string \<Rightarrow> (database, int option) io" where
  "Db_GetOrNilInt key = andThen (Db_GetOrNilString key)
     (\<lambda>v. case v of None \<Rightarrow> ret None | Some x \<Rightarrow> ret (Atoi x))"

definition Db_GetOrDefaultInt :: "string \<Rightarrow> int \<Rightarrow> (database, int) io" where
  "Db_GetOrDefaultInt key dflt = andThen (Db_GetOrNilInt key)
     (\<lambda>v. case v of None \<Rightarrow> ret dflt | Some i \<Rightarrow> ret i)"

text \<open>The source parses with bit size 32 although the result type is \<^verbatim>\<open>int64\<close>.\<close>

definition Db_GetOrNilInt64 :: "string \<Rightarrow> (database, int option) io" where
  "Db_GetOrNilInt64 key = andThen (Db_GetOrNilString key)
     (\<lambda>v. case v of None \<Rightarrow> ret None | Some x \<Rightarrow> ret (ParseInt 32 x))"

definition Db_GetOrDefaultInt64 :: "string \<Rightarrow> int \<Rightarrow> (database, int) io" where
  "Db_GetOrDefaultInt64 key dflt = andThen (Db_GetOrNilInt64 key)
     (\<lambda>v. case v of None \<Rightarrow> ret dflt | Some i \<Rightarrow> ret i)"

text \<open>\<open>List\<close> logs a failed query and returns the empty map.\<close>

definition Db_List :: "(database, string \<rightharpoonup> string) io" where
  "Db_List = andThen (attempt (on_table config_t (\<lambda>rows. ret (map_of rows))))
     (\<lambda>x. case x of Inl e \<Rightarrow> ret Map.empty | Inr m \<Rightarrow> ret m)"

section \<open>The key-value view\<close>

definition db_ready :: "database \<Rightarrow> bool" where
  "db_ready d \<longleftrightarrow> db_up d \<and> config_t d \<noteq> None"

definition db_view :: "database \<Rightarrow> string \<rightharpoonup> string" where
  "db_view d = (case config_t d of None \<Rightarrow> Map.empty | Some rows \<Rightarrow> map_of rows)"

definition db_put :: "string \<Rightarrow> string \<Rightarrow> database \<Rightarrow> database" where
  "db_put key v d = d\<lparr>config_t := map_option (row_put key v) (config_t d)\<rparr>"

definition db_del :: "string \<Rightarrow> database \<Rightarrow> database" where
  "db_del key d = d\<lparr>config_t := map_option (row_del key) (config_t d)\<rparr>"

lemma db_ready_put [simp]: "db_ready (db_put k v d) = db_ready d"
  by (auto simp: db_ready_def db_put_def)

lemma db_ready_del [simp]: "db_ready (db_del k d) = db_ready d"
  by (auto simp: db_ready_def db_del_def)

lemma db_view_put [simp]: "db_ready d \<Longrightarrow> db_view (db_put k v d) = (db_view d)(k \<mapsto> v)"
  by (auto simp: db_ready_def db_put_def db_view_def)

lemma db_view_del [simp]: "db_ready d \<Longrightarrow> db_view (db_del k d) = (db_view d)(k := None)"
  by (auto simp: db_ready_def db_del_def db_view_def)

lemma Db_Upsert_ready [io_simps]: "db_ready d \<Longrightarrow> Db_Upsert k v d = (Ok (), db_put k v d)"
  by (auto simp: db_ready_def Db_Upsert_def or_fatal_def andThen_def attempt_def on_table_def db_put_def)

lemma Db_Delete_ready [io_simps]: "db_ready d \<Longrightarrow> Db_Delete k d = (Ok (), db_del k d)"
  by (auto simp: db_ready_def Db_Delete_def or_fatal_def andThen_def attempt_def on_table_def db_del_def)

lemma Db_GetOrNilString_ready [io_simps]: "db_ready d \<Longrightarrow> Db_GetOrNilString k d = (Ok (db_view d k), d)"
  by (auto simp: db_ready_def Db_GetOrNilString_def or_fatal_def andThen_def attempt_def on_table_def db_view_def)

text \<open>Where the database cannot be used, the accessors end the process.\<close>

lemma Db_ops_fatal:
  assumes "\<not> db_ready d"
  shows "Db_Upsert k v d = (Crash ''log.Fatal'', d)" "Db_Delete k d = (Crash ''log.Fatal'', d)"
    "Db_GetOrNilString k d = (Crash ''log.Fatal'', d)"
  using assms
  by (auto simp: db_ready_def Db_Upsert_def Db_Delete_def Db_GetOrNilString_def or_fatal_def
      andThen_def attempt_def on_table_def split: option.splits)

definition view_str :: "database \<Rightarrow> string \<Rightarrow> string \<Rightarrow> string" where
  "view_str d k dflt = (case db_view d k of None \<Rightarrow> dflt | Some v \<Rightarrow> v)"

definition view_bool :: "database \<Rightarrow> string \<Rightarrow> bool \<Rightarrow> bool" where
  "view_bool d k dflt = (view_str d k (fromBool dflt) = True_str)"

lemma Db_Get_ready [io_simps]: "db_ready d \<Longrightarrow> Db_Get k dflt d = (Ok (view_str d k dflt), d)"
  by (auto simp: Db_Get_def io_simps view_str_def split: option.splits)

lemma Db_GetOrDefaultString_ready [io_simps]:
  "db_ready d \<Longrightarrow> Db_GetOrDefaultString k dflt d = (Ok (view_str d k dflt), d)"
  by (simp add: Db_GetOrDefaultString_def io_simps)

lemma Db_GetBool_ready [io_simps]: "db_ready d \<Longrightarrow> Db_GetBool k dflt d = (Ok (view_bool d k dflt), d)"
  by (simp add: Db_GetBool_def io_simps view_bool_def)

lemma Db_UpsertBool_ready [io_simps]:
  "db_ready d \<Longrightarrow> Db_UpsertBool k b d = (Ok (), db_put k (fromBool b) d)"
  by (simp add: Db_UpsertBool_def io_simps)

lemma Db_GetOrNilInt_ready [io_simps]:
  "db_ready d \<Longrightarrow> Db_GetOrNilInt k d = (Ok (Option.bind (db_view d k) Atoi), d)"
  by (auto simp: Db_GetOrNilInt_def io_simps split: option.splits)

lemma Db_GetOrDefaultInt_ready [io_simps]:
  "db_ready d \<Longrightarrow> Db_GetOrDefaultInt k dflt d =
     (Ok (case Option.bind (db_view d k) Atoi of None \<Rightarrow> dflt | Some i \<Rightarrow> i), d)"
  by (auto simp: Db_GetOrDefaultInt_def io_simps split: option.splits)

lemma Db_GetOrNilInt64_ready [io_simps]:
  "db_ready d \<Longrightarrow> Db_GetOrNilInt64 k d = (Ok (Option.bind (db_view d k) (ParseInt 32)), d)"
  by (auto simp: Db_GetOrNilInt64_def io_simps split: option.splits)

lemma fromBool_eq_True [simp]: "fromBool b = True_str \<longleftrightarrow> b"
  by (simp add: fromBool_def True_str_def False_str_def)

lemma view_bool_put: "db_ready d \<Longrightarrow>
   view_bool (db_put k (fromBool b) d) k' dflt = (if k = k' then b else view_bool d k' dflt)"
  by (simp add: view_bool_def view_str_def)

text \<open>A new database with its settings table, for concrete runs.\<close>

definition fresh_db :: database where
  "fresh_db = empty_database\<lparr>config_t := Some []\<rparr>"

lemma fresh_db_ready [simp]: "db_ready fresh_db"
  by (simp add: fresh_db_def db_ready_def empty_database_def)

lemma fresh_db_view [simp]: "db_view fresh_db = Map.empty"
  by (simp add: fresh_db_def db_view_def)

section \<open>The contract of the settings store\<close>

locale settings_store =
  fixes upsert :: "string \<Rightarrow> string \<Rightarrow> ('s, unit) io"
    and delete :: "string \<Rightarrow> ('s, unit) io"
    and lookup :: "string \<Rightarrow> ('s, string option) io"
    and ready :: "'s \<Rightarrow> bool"
    and view :: "'s \<Rightarrow> string \<rightharpoonup> string"
  assumes upsert_ready:
      "ready s \<Longrightarrow> \<exists>s'. upsert k v s = (Ok (), s') \<and> ready s' \<and> view s' = (view s)(k \<mapsto> v)"
    and delete_ready:
      "ready s \<Longrightarrow> \<exists>s'. delete k s = (Ok (), s') \<and> ready s' \<and> view s' = (view s)(k := None)"
    and lookup_ready: "ready s \<Longrightarrow> lookup k s = (Ok (view s k), s)"
begin

text \<open>A batch of writes: the last value written to a key is the one read.\<close>

lemma writes_read:
  assumes "ready s"
  shows "\<exists>s'. forEach kvs (\<lambda>(k, v). upsert k v) s = (Ok (), s') \<and> ready s'
           \<and> view s' = view s ++ map_of (rev kvs)"
  using assms
proof (induction kvs arbitrary: s)
  case Nil
  then show ?case by simp
next
  case (Cons kv kvs)
  obtain k v where kv: "kv = (k, v)" by (cases kv)
  obtain s1 where s1: "upsert k v s = (Ok (), s1)" "ready s1" "view s1 = (view s)(k \<mapsto> v)"
    using upsert_ready [OF Cons.prems] by blast
  obtain s2 where s2: "forEach kvs (\<lambda>(k, v). upsert k v) s1 = (Ok (), s2)" "ready s2"
      "view s2 = view s1 ++ map_of (rev kvs)"
    using Cons.IH [OF s1(2)] by blast
  have "view s2 = view s ++ map_of (rev (kv # kvs))"
    unfolding s2(3) s1(3) kv by (auto simp: fun_eq_iff map_add_def split: option.splits)
  then show ?case using s1 s2 kv by auto
qed

lemma delete_lookup:
  assumes "ready s"
  shows "\<exists>s'. andThen (delete k) (\<lambda>_. lookup k) s = (Ok None, s')"
  using delete_ready [OF assms, of k] lookup_ready by fastforce

end

interpretation config_store: settings_store Db_Upsert Db_Delete Db_GetOrNilString db_ready db_view
  by unfold_locales (auto simp: Db_Upsert_ready Db_Delete_ready Db_GetOrNilString_ready)

section \<open>Properties\<close>

text \<open>
  C27. The database is a key-value store: after any sequence of writes each key reads as the
  last value written to it, or its old value when none was, and \<open>List\<close> returns exactly this
  map.
\<close>

theorem db_last_write_wins:
  assumes "db_ready d"
  shows "\<exists>d'. forEach kvs (\<lambda>(k, v). Db_Upsert k v) d = (Ok (), d')
     \<and> (\<forall>k. Db_GetOrNilString k d' =
          (Ok (case map_of (rev kvs) k of Some v \<Rightarrow> Some v | None \<Rightarrow> db_view d k), d'))
     \<and> Db_List d' = (Ok (db_view d ++ map_of (rev kvs)), d')"
proof -
  obtain d' where d': "forEach kvs (\<lambda>(k, v). Db_Upsert k v) d = (Ok (), d')" "db_ready d'"
      "db_view d' = db_view d ++ map_of (rev kvs)"
    using config_store.writes_read [OF assms] by blast
  have "Db_List d' = (Ok (db_view d'), d')"
    using d'(2) by (auto simp: db_ready_def Db_List_def andThen_def attempt_def on_table_def db_view_def)
  with d' show ?thesis
    by (auto simp: io_simps map_add_def split: option.splits)
qed

theorem db_last_write_wins_witness:
  "\<exists>d'. forEach [(''a'', ''1''), (''b'', ''2''), (''a'', ''3'')] (\<lambda>(k, v). Db_Upsert k v)
         (empty_database\<lparr>config_t := Some [(''c'', ''0'')]\<rparr>) = (Ok (), d')
     \<and> Db_GetOrNilString ''a'' d' = (Ok (Some ''3''), d')"
  using db_last_write_wins [of "empty_database\<lparr>config_t := Some [(''c'', ''0'')]\<rparr>"
      "[(''a'', ''1''), (''b'', ''2''), (''a'', ''3'')]"]
  by (auto simp: db_ready_def empty_database_def)

end
