(* ===== verification/User_Config.thy ===== *)
theory User_Config
  imports Config_Db
begin

text \<open>
  The user settings (\<^verbatim>\<open>backend/config/user_config.go\<close>) and the settings of the
  redirect service (\<^verbatim>\<open>backend/config/redirect.go\<close>) over the settings database. Times
  are Unix seconds; the zero \<^verbatim>\<open>time.Time\<close> is the first second of year 1.
\<close>

type_synonym 'a cfg = "(database, 'a) io"

section \<open>Switches\<close>

definition IsIpv4Enabled :: "bool cfg" where
  "IsIpv4Enabled = Db_GetBool ''platform.ipv4_enabled'' True"

definition SetIpv4Enabled :: "bool \<Rightarrow> unit cfg" where
  "SetIpv4Enabled enabled = Db_UpsertBool ''platform.ipv4_enabled'' enabled"

definition IsIpv4Public :: "bool cfg" where
  "IsIpv4Public = Db_GetBool ''platform.ipv4_public'' True"

definition SetIpv4Public :: "bool \<Rightarrow> unit cfg" where
  "SetIpv4Public enabled = Db_UpsertBool ''platform.ipv4_public'' enabled"

definition IsIpv6Enabled :: "bool cfg" where
  "IsIpv6Enabled = Db_GetBool ''platform.ipv6_enabled'' True"

definition SetIpv6Enabled :: "bool \<Rightarrow> unit cfg" where
  "SetIpv6Enabled enabled = Db_UpsertBool ''platform.ipv6_enabled'' enabled"

definition IsRelayEnabled :: "bool cfg" where
  "IsRelayEnabled = Db_GetBool ''platform.relay_enabled'' False"

definition SetRelayEnabled :: "bool \<Rightarrow> unit cfg" where
  "SetRelayEnabled enabled = Db_UpsertBool ''platform.relay_enabled'' enabled"

definition IsMailRelayEnabled :: "bool cfg" where
  "IsMailRelayEnabled = Db_GetBool ''platform.mail_relay_enabled'' False"

definition SetMailRelayEnabled :: "bool \<Rightarrow> unit cfg" where
  "SetMailRelayEnabled enabled = Db_UpsertBool ''platform.mail_relay_enabled'' enabled"

definition IsRedirectEnabled :: "bool cfg" where
  "IsRedirectEnabled = Db_GetBool ''platform.redirect_enabled'' False"

definition SetRedirectEnabled :: "bool \<Rightarrow> unit cfg" where
  "SetRedirectEnabled enabled = Db_UpsertBool ''platform.redirect_enabled'' enabled"

definition IsTwoFactorEnabled :: "bool cfg" where
  "IsTwoFactorEnabled = Db_GetBool ''platform.two_factor_enabled'' False"

definition SetTwoFactorEnabled :: "bool \<Rightarrow> unit cfg" where
  "SetTwoFactorEnabled enabled = Db_UpsertBool ''platform.two_factor_enabled'' enabled"

definition SetActivated :: "unit cfg" where
  "SetActivated = Db_UpsertBool ''platform.activated'' True"

definition SetDeactivated :: "unit cfg" where
  "SetDeactivated = Db_UpsertBool ''platform.activated'' False"

definition IsActivated :: "bool cfg" where
  "IsActivated = Db_GetBool ''platform.activated'' False"

definition IsCertbotStaging :: "bool cfg" where
  "IsCertbotStaging = Db_GetBool ''certbot.staging'' False"

section \<open>Strings and numbers\<close>

definition SetWebSecretKey :: "string \<Rightarrow> unit cfg" where
  "SetWebSecretKey key = Db_Upsert ''platform.web_secret_key'' key"

definition GetWebSecretKey :: "string cfg" where
  "GetWebSecretKey = Db_GetOrDefaultString ''platform.web_secret_key'' ''default''"

definition SetDomain :: "string \<Rightarrow> unit cfg" where
  "SetDomain domain = Db_Upsert ''platform.domain'' domain"

definition getDomain :: "string option cfg" where
  "getDomain = Db_GetOrNilString ''platform.domain''"

definition UpdateDomainToken :: "string \<Rightarrow> unit cfg" where
  "UpdateDomainToken token = Db_Upsert ''platform.domain_update_token'' token"

definition GetDomainUpdateToken :: "string option cfg" where
  "GetDomainUpdateToken = Db_GetOrNilString ''platform.domain_update_token''"

text \<open>A nil pointer deletes the key.\<close>

definition set_or_delete :: "string \<Rightarrow> string option \<Rightarrow> unit cfg" where
  "set_or_delete key v = (case v of None \<Rightarrow> Db_Delete key | Some x \<Rightarrow> Db_Upsert key x)"

definition GetDkimKey :: "string option cfg" where
  "GetDkimKey = Db_GetOrNilString ''dkim_key''"

definition SetDkimKey :: "string option \<Rightarrow> unit cfg" where
  "SetDkimKey key = set_or_delete ''dkim_key'' key"

definition GetMailInboundSocket :: "string option cfg" where
  "GetMailInboundSocket = Db_GetOrNilString ''mail.inbound_socket''"

definition SetMailInboundSocket :: "string option \<Rightarrow> unit cfg" where
  "SetMailInboundSocket socket = set_or_delete ''mail.inbound_socket'' socket"

definition SetPublicIp :: "string option \<Rightarrow> unit cfg" where
  "SetPublicIp publicIp = set_or_delete ''platform.public_ip'' publicIp"

definition GetPublicIp :: "string option cfg" where
  "GetPublicIp = Db_GetOrNilString ''platform.public_ip''"

definition SetPublicPort :: "int option \<Rightarrow> unit cfg" where
  "SetPublicPort port = set_or_delete ''platform.manual_access_port'' (map_option Itoa port)"

definition GetPublicPort :: "int option cfg" where
  "GetPublicPort = Db_GetOrNilInt ''platform.manual_access_port''"

definition GetCustomDomain :: "string option cfg" where
  "GetCustomDomain = Db_GetOrNilString ''platform.custom_domain''"

definition SetCustomDomain :: "string \<Rightarrow> unit cfg" where
  "SetCustomDomain domain = Db_Upsert ''platform.custom_domain'' domain"

definition GetTimezone :: "string cfg" where
  "GetTimezone = Db_Get ''platform.timezone'' ''UTC''"

definition SetTimezone :: "string \<Rightarrow> unit cfg" where
  "SetTimezone timezone = Db_Upsert ''platform.timezone'' timezone"

section \<open>Automatic backups\<close>

definition GetBackupAuto :: "string cfg" where
  "GetBackupAuto = andThen (Db_GetOrNilString ''platform.backup_auto'')
     (\<lambda>auto. case auto of None \<Rightarrow> ret ''no'' | Some a \<Rightarrow> ret a)"

definition SetBackupAuto :: "string \<Rightarrow> unit cfg" where
  "SetBackupAuto auto =
     (if auto = ''no'' \<or> auto = ''backup'' \<or> auto = ''restore''
      then Db_Upsert ''platform.backup_auto'' auto else ret ())"

definition GetBackupAutoDay :: "int cfg" where
  "GetBackupAutoDay = Db_GetOrDefaultInt ''platform.backup_auto_day'' 0"

definition SetBackupAutoDay :: "int \<Rightarrow> unit cfg" where
  "SetBackupAutoDay day = Db_Upsert ''platform.backup_auto_day'' (Itoa day)"

definition GetBackupAutoHour :: "int cfg" where
  "GetBackupAutoHour = Db_GetOrDefaultInt ''platform.backup_auto_hour'' 0"

definition SetBackupAutoHour :: "int \<Rightarrow> unit cfg" where
  "SetBackupAutoHour hour = Db_Upsert ''platform.backup_auto_hour'' (Itoa hour)"

definition zero_time :: int where
  "zero_time = - 62135596800"

definition backup_time_key :: "string \<Rightarrow> string \<Rightarrow> string" where
  "backup_time_key app mode = ''platform.backup.'' @ app @ ''.'' @ mode"

definition GetBackupAppTime :: "string \<Rightarrow> string \<Rightarrow> int cfg" where
  "GetBackupAppTime app mode = andThen (Db_GetOrNilInt64 (backup_time_key app mode))
     (\<lambda>v. case v of None \<Rightarrow> ret zero_time | Some t \<Rightarrow> ret t)"

definition SetBackupAppTime :: "string \<Rightarrow> string \<Rightarrow> int \<Rightarrow> unit cfg" where
  "SetBackupAppTime app mode t = Db_Upsert (backup_time_key app mode) (Itoa t)"

section \<open>Domain and URLs\<close>

definition GetDeviceDomain :: "string cfg" where
  "GetDeviceDomain = andThen IsRedirectEnabled (\<lambda>redirect.
     if redirect
     then andThen getDomain (\<lambda>domain.
            case domain of None \<Rightarrow> ret ''www.localhost'' | Some d \<Rightarrow> ret d)
     else andThen GetCustomDomain (\<lambda>customDomain.
            case customDomain of None \<Rightarrow> ret ''www.localhost'' | Some d \<Rightarrow> ret d))"

definition ConstructUrl :: "int option \<Rightarrow> string \<Rightarrow> string" where
  "ConstructUrl port domain =
     (let externalPort = (case port of None \<Rightarrow> []
        | Some p \<Rightarrow> if p \<noteq> 80 \<and> p \<noteq> 443 then '':'' @ Itoa p else [])
      in ''https://'' @ domain @ externalPort)"

definition DeviceUrl :: "string cfg" where
  "DeviceUrl = andThen GetPublicPort (\<lambda>port. andThen GetDeviceDomain (\<lambda>domain.
     ret (ConstructUrl port domain)))"

definition AppDomain :: "string \<Rightarrow> string cfg" where
  "AppDomain app = andThen GetDeviceDomain (\<lambda>domain. ret (app @ ''.'' @ domain))"

definition Url :: "string \<Rightarrow> string cfg" where
  "Url app = andThen GetPublicPort (\<lambda>port. andThen GetDeviceDomain (\<lambda>domain.
     ret (ConstructUrl port (app @ ''.'' @ domain))))"

section \<open>Settings of the redirect service\<close>

definition DefaultRedirectDomain :: string where
  "DefaultRedirectDomain = ''syncloud.it''"

definition Redirect_Domain :: "string cfg" where
  "Redirect_Domain = Db_Get ''redirect.domain'' DefaultRedirectDomain"

definition Redirect_SetDomain :: "string \<Rightarrow> unit cfg" where
  "Redirect_SetDomain domain = andThen (Db_Delete ''redirect.api_url'')
     (\<lambda>_. Db_Upsert ''redirect.domain'' domain)"

definition Redirect_ApiUrl :: "string cfg" where
  "Redirect_ApiUrl = andThen Redirect_Domain (\<lambda>domain.
     Db_Get ''redirect.api_url'' (''https://api.'' @ domain))"

definition Redirect_UpdateApiUrl :: "string \<Rightarrow> unit cfg" where
  "Redirect_UpdateApiUrl apiUrl = Db_Upsert ''redirect.api_url'' apiUrl"

definition Redirect_UserEmail :: "string option cfg" where
  "Redirect_UserEmail = Db_GetOrNilString ''redirect.user_email''"

definition Redirect_SetUserEmail :: "string \<Rightarrow> unit cfg" where
  "Redirect_SetUserEmail email = Db_Upsert ''redirect.user_email'' email"

definition Redirect_UserUpdateToken :: "string cfg" where
  "Redirect_UserUpdateToken = Db_GetStringOrError ''redirect.user_update_token''"

definition Redirect_SetUserUpdateToken :: "string \<Rightarrow> unit cfg" where
  "Redirect_SetUserUpdateToken token = Db_Upsert ''redirect.user_update_token'' token"

section \<open>Reading the settings of a usable database\<close>

lemmas switch_defs =
  IsIpv4Enabled_def SetIpv4Enabled_def
  IsIpv4Public_def SetIpv4Public_def
  IsIpv6Enabled_def SetIpv6Enabled_def
  IsRelayEnabled_def SetRelayEnabled_def
  IsMailRelayEnabled_def SetMailRelayEnabled_def
  IsRedirectEnabled_def SetRedirectEnabled_def
  IsTwoFactorEnabled_def SetTwoFactorEnabled_def
  SetActivated_def SetDeactivated_def IsActivated_def IsCertbotStaging_def

definition db_set :: "string \<Rightarrow> string option \<Rightarrow> database \<Rightarrow> database" where
  "db_set k v d = (case v of None \<Rightarrow> db_del k d | Some x \<Rightarrow> db_put k x d)"

lemma set_or_delete_ready [io_simps]: "db_ready d \<Longrightarrow> set_or_delete k v d = (Ok (), db_set k v d)"
  by (simp add: set_or_delete_def db_set_def io_simps split: option.splits)

lemma db_ready_set [simp]: "db_ready (db_set k v d) = db_ready d"
  by (simp add: db_set_def split: option.splits)

lemma db_view_set [simp]: "db_ready d \<Longrightarrow> db_view (db_set k v d) = (db_view d)(k := v)"
  by (simp add: db_set_def split: option.splits)

definition device_domain :: "database \<Rightarrow> string" where
  "device_domain d =
     (case db_view d (if view_bool d ''platform.redirect_enabled'' False
                      then ''platform.domain'' else ''platform.custom_domain'') of
        None \<Rightarrow> ''www.localhost'' | Some x \<Rightarrow> x)"

lemma GetDeviceDomain_ready [io_simps]: "db_ready d \<Longrightarrow> GetDeviceDomain d = (Ok (device_domain d), d)"
  by (auto simp: GetDeviceDomain_def getDomain_def GetCustomDomain_def IsRedirectEnabled_def
      device_domain_def io_simps split: option.splits)

lemma GetPublicPort_ready [io_simps]:
  "db_ready d \<Longrightarrow> GetPublicPort d = (Ok (Option.bind (db_view d ''platform.manual_access_port'') Atoi), d)"
  by (simp add: GetPublicPort_def io_simps)

lemma GetBackupAuto_ready [io_simps]:
  "db_ready d \<Longrightarrow> GetBackupAuto d = (Ok (view_str d ''platform.backup_auto'' ''no''), d)"
  by (auto simp: GetBackupAuto_def view_str_def io_simps split: option.splits)

lemma GetBackupAppTime_ready [io_simps]:
  "db_ready d \<Longrightarrow> GetBackupAppTime app mode d =
     (Ok (case Option.bind (db_view d (backup_time_key app mode)) (ParseInt 32) of
            None \<Rightarrow> zero_time | Some t \<Rightarrow> t), d)"
  by (auto simp: GetBackupAppTime_def io_simps split: option.splits)

lemma SetBackupAppTime_ready [io_simps]:
  "db_ready d \<Longrightarrow> SetBackupAppTime app mode t d = (Ok (), db_put (backup_time_key app mode) (Itoa t) d)"
  by (simp add: SetBackupAppTime_def io_simps)

section \<open>Properties\<close>

text \<open>The switches with a setter and a getter, for the statement that they are independent.\<close>

definition switches :: "((bool \<Rightarrow> unit cfg) \<times> bool cfg) list" where
  "switches =
     [(SetIpv4Enabled, IsIpv4Enabled),
      (SetIpv4Public, IsIpv4Public),
      (SetIpv6Enabled, IsIpv6Enabled),
      (SetRelayEnabled, IsRelayEnabled),
      (SetMailRelayEnabled, IsMailRelayEnabled),
      (SetRedirectEnabled, IsRedirectEnabled),
      (SetTwoFactorEnabled, IsTwoFactorEnabled),
      (\<lambda>b. if b then SetActivated else SetDeactivated, IsActivated)]"

lemma switches_keys:
  "\<exists>keys dflts. length keys = length switches \<and> length dflts = length switches \<and> distinct keys
     \<and> (\<forall>i < length switches. fst (switches ! i) = Db_UpsertBool (keys ! i)
          \<and> snd (switches ! i) = Db_GetBool (keys ! i) (dflts ! i))"
proof -
  let ?keys = "[''platform.ipv4_enabled'', ''platform.ipv4_public'', ''platform.ipv6_enabled'', ''platform.relay_enabled'', ''platform.mail_relay_enabled'', ''platform.redirect_enabled'', ''platform.two_factor_enabled'', ''platform.activated'']"
  let ?dflts = "[True, True, True, False, False, False, False, False]"
  have act: "(\<lambda>b. if b then SetActivated else SetDeactivated) = Db_UpsertBool ''platform.activated''"
    by (auto simp: fun_eq_iff SetActivated_def SetDeactivated_def)
  have n: "length switches = 8" by (simp add: switches_def)
  have "fst (switches ! i) = Db_UpsertBool (?keys ! i)
      \<and> snd (switches ! i) = Db_GetBool (?keys ! i) (?dflts ! i)" if "i < 8" for i
  proof -
    have "i \<in> {0, 1, 2, 3, 4, 5, 6, 7}" using that by auto
    then show ?thesis by (auto simp: switches_def act switch_defs fun_eq_iff)
  qed
  then have "length ?keys = length switches \<and> length ?dflts = length switches \<and> distinct ?keys
     \<and> (\<forall>i < length switches. fst (switches ! i) = Db_UpsertBool (?keys ! i)
          \<and> snd (switches ! i) = Db_GetBool (?keys ! i) (?dflts ! i))"
    using n by simp
  then show ?thesis by blast
qed

text \<open>
  The eight switches are independent settings: after setting switch \<open>i\<close> its getter
  returns the value set, and every other getter returns what it returned before.
\<close>

lemma switches_independent:
  assumes "db_ready d" "i < length switches" "j < length switches"
  shows "\<exists>d'. fst (switches ! i) b d = (Ok (), d') \<and> db_ready d'
     \<and> fst (snd (switches ! j) d') = (if i = j then Ok b else fst (snd (switches ! j) d))"
proof -
  obtain keys dflts where k: "length keys = length switches" "distinct keys"
      "\<And>i. i < length switches \<Longrightarrow> fst (switches ! i) = Db_UpsertBool (keys ! i)
          \<and> snd (switches ! i) = Db_GetBool (keys ! i) (dflts ! i)"
    using switches_keys by metis
  have "keys ! i = keys ! j \<longleftrightarrow> i = j"
    using k(1,2) assms(2,3) by (simp add: nth_eq_iff_index_eq)
  then show ?thesis
    using assms k(3) by (auto simp: io_simps view_bool_put)
qed

lemma switches_independent_example:
  "\<exists>d'. SetRelayEnabled True fresh_db = (Ok (), d')
     \<and> fst (IsIpv4Public d') = Ok True"
proof -
  have "fst (IsIpv4Public fresh_db) = Ok True"
    by (simp add: IsIpv4Public_def io_simps view_bool_def view_str_def)
  with switches_independent [OF fresh_db_ready, of 3 1 True] show ?thesis
    by (auto simp: switches_def)
qed

text \<open>
  C40. The time of an app's last backup survives storing exactly within the range of 32 bit
  seconds: from 2038 on (and before 1901) the stored time is read back as the zero time,
  because \<open>GetOrNilInt64\<close> parses with bit size 32.
\<close>

theorem backup_time_roundtrip:
  assumes "db_ready d"
  shows "\<exists>d'. SetBackupAppTime app mode t d = (Ok (), d') \<and> db_ready d'
     \<and> GetBackupAppTime app mode d' =
         (Ok (if - 2147483648 \<le> t \<and> t \<le> 2147483647 then t else zero_time), d')"
proof -
  have "in_bits 32 t \<longleftrightarrow> - 2147483648 \<le> t \<and> t \<le> 2147483647"
    by (auto simp: in_bits_def)
  then show ?thesis using assms by (simp add: io_simps ParseInt_Itoa)
qed

theorem backup_time_roundtrip_witness:
  "\<exists>d'. SetBackupAppTime ''nextcloud'' ''backup'' 2147483648 fresh_db
         = (Ok (), d')
     \<and> GetBackupAppTime ''nextcloud'' ''backup'' d' = (Ok zero_time, d')"
  using backup_time_roundtrip [of fresh_db "''nextcloud''" "''backup''" 2147483648]
  by auto

text \<open>
  The automatic backup mode is always one of the three the scheduler knows, whatever
  strings are passed to \<open>SetBackupAuto\<close>, and a rejected string leaves the mode as it was.
\<close>

lemma backup_auto_modes:
  assumes "db_ready d" "fst (GetBackupAuto d) = Ok m" "m \<in> {''no'', ''backup'', ''restore''}"
  shows "\<exists>d'. SetBackupAuto a d = (Ok (), d') \<and> db_ready d'
     \<and> fst (GetBackupAuto d') = Ok (if a \<in> {''no'', ''backup'', ''restore''} then a else m)"
  using assms by (auto simp: SetBackupAuto_def io_simps view_str_def)

lemma backup_auto_modes_example:
  "\<exists>d'. SetBackupAuto ''weekly'' fresh_db = (Ok (), d')
     \<and> fst (GetBackupAuto d') = Ok ''no''"
  using backup_auto_modes [of fresh_db "''no''" "''weekly''"]
  by (auto simp: io_simps view_str_def)

text \<open>
  The public port is stored exactly for every Go \<^verbatim>\<open>int\<close>, nil clears it, and the
  device URL shows it unless it is absent or a default port.
\<close>

lemma public_port_in_url:
  assumes "db_ready d" "\<And>p. port = Some p \<Longrightarrow> in_bits 64 p"
  shows "\<exists>d'. SetPublicPort port d = (Ok (), d') \<and> GetPublicPort d' = (Ok port, d')
     \<and> DeviceUrl d' = (Ok (case port of
           Some p \<Rightarrow> if p = 80 \<or> p = 443 then ''https://'' @ device_domain d
                    else ''https://'' @ device_domain d @ '':'' @ Itoa p
         | None \<Rightarrow> ''https://'' @ device_domain d), d')"
proof -
  let ?k = "''platform.manual_access_port''"
  let ?d = "db_set ?k (map_option Itoa port) d"
  have set: "SetPublicPort port d = (Ok (), ?d)" and ready: "db_ready ?d"
    using assms(1) by (simp_all add: SetPublicPort_def io_simps)
  have dom: "device_domain ?d = device_domain d"
    using assms(1) by (simp add: device_domain_def view_bool_def view_str_def)
  have get: "GetPublicPort ?d = (Ok port, ?d)"
    using assms ready by (cases port) (simp_all add: io_simps Atoi_def ParseInt_Itoa)
  have "DeviceUrl ?d = (Ok (ConstructUrl port (device_domain d)), ?d)"
    using get ready by (simp add: DeviceUrl_def GetDeviceDomain_ready dom)
  moreover have "ConstructUrl port (device_domain d) = (case port of
           Some p \<Rightarrow> if p = 80 \<or> p = 443 then ''https://'' @ device_domain d
                    else ''https://'' @ device_domain d @ '':'' @ Itoa p
         | None \<Rightarrow> ''https://'' @ device_domain d)"
    by (auto simp: ConstructUrl_def split: option.splits)
  ultimately show ?thesis using set get by auto
qed

lemma public_port_in_url_example:
  "\<exists>d'. SetPublicPort (Some 8443) fresh_db = (Ok (), d')
     \<and> DeviceUrl d' = (Ok ''https://www.localhost:8443'', d')"
proof -
  have bits: "\<And>p. Some 8443 = Some p \<Longrightarrow> in_bits 64 p" by (auto simp: in_bits_def)
  have dom: "device_domain fresh_db = ''www.localhost''" by (simp add: device_domain_def)
  have port: "Itoa 8443 = ''8443''" by (simp add: Itoa_def nat_dec.simps str_simps)
  obtain d' where "SetPublicPort (Some 8443) fresh_db = (Ok (), d')"
      "DeviceUrl d' = (Ok (''https://'' @ ''www.localhost'' @ '':'' @ ''8443''), d')"
    using public_port_in_url [OF fresh_db_ready, of "Some 8443", OF bits] dom port by auto
  then show ?thesis by auto
qed

text \<open>
  Setting the redirect domain takes effect: afterwards the domain is the one set and the
  API URL is derived from it, even when a URL had been stored before; an explicitly stored
  URL wins until the domain is set again.
\<close>

lemma redirect_domain_resets_api_url:
  assumes "db_ready d"
  shows "\<exists>d' d''. Redirect_UpdateApiUrl url d = (Ok (), d') \<and> Redirect_ApiUrl d' = (Ok url, d')
     \<and> Redirect_SetDomain domain d' = (Ok (), d'') \<and> Redirect_Domain d'' = (Ok domain, d'')
     \<and> Redirect_ApiUrl d'' = (Ok (''https://api.'' @ domain), d'')"
  using assms
  by (simp add: Redirect_UpdateApiUrl_def Redirect_ApiUrl_def Redirect_SetDomain_def
      Redirect_Domain_def io_simps view_str_def)

lemma redirect_domain_resets_api_url_example:
  "\<exists>d' d''. Redirect_UpdateApiUrl ''http://test'' fresh_db = (Ok (), d')
     \<and> Redirect_SetDomain ''syncloud.test'' d' = (Ok (), d'')
     \<and> Redirect_ApiUrl d'' = (Ok ''https://api.syncloud.test'', d'')"
  using redirect_domain_resets_api_url
    [of fresh_db "''http://test''" "''syncloud.test''"]
  by auto

end
