(* ===== verification/Job.thy ===== *)
theory Job
  imports Go_Prelude
begin

text \<open>
  The single-slot job queue of the backend (\<^verbatim>\<open>backend/job\<close>): \<open>SingleJobMaster\<close> holds at
  most one job, REST handlers and cron jobs \<open>Offer\<close> work to it, one \<open>Worker\<close> goroutine
  takes it, runs it and completes it. A job is a Go closure \<^verbatim>\<open>func() error\<close>; the master
  only stores it, so its type is a parameter, and \<open>None\<close> is the nil closure.

  The theory has the operations as functions (each runs under the master's mutex, so it is one
  atomic step), the worker's loop body over any provider of \<open>Take\<close> and \<open>Complete\<close>
  (locale \<open>job_source\<close>), and the interleaving of clients and worker as a step relation.
\<close>

section \<open>Status and master\<close>

definition Idle :: int where "Idle = 0"
definition Waiting :: int where "Waiting = 1"
definition Busy :: int where "Busy = 2"

lemmas status_defs = Idle_def Waiting_def Busy_def

record job_status =
  status_Name :: string
  status_Status :: string

text \<open>The index expression panics outside the literal's three elements.\<close>

definition NewStatus :: "string \<Rightarrow> int \<Rightarrow> job_status res" where
  "NewStatus nm st =
     (let names = [''Idle'', ''Waiting'', ''Busy'']
      in if 0 \<le> st \<and> st < int (length names)
         then Ok \<lparr>status_Name = nm, status_Status = names ! nat st\<rparr>
         else Crash ''index out of range'')"

record 'j master =
  m_status :: int
  m_job :: "'j option"
  m_name :: string

definition NewMaster :: "'j master" where
  "NewMaster = \<lparr>m_status = Idle, m_job = None, m_name = ''''\<rparr>"

definition Master_Status :: "'j master \<Rightarrow> job_status res" where
  "Master_Status m = NewStatus (m_name m) (m_status m)"

definition Offer :: "string \<Rightarrow> 'j option \<Rightarrow> ('j master, unit) io" where
  "Offer nm j = (\<lambda>m.
     if m_status m = Idle
     then (Ok (), m\<lparr>m_status := Waiting, m_job := j, m_name := nm\<rparr>)
     else (Err (Error ''busy''), m))"

definition Take :: "'j master \<Rightarrow> 'j option \<times> 'j master" where
  "Take m =
     (if m_status m = Waiting then (m_job m, m\<lparr>m_status := Busy\<rparr>) else (None, m))"

definition Complete :: "('j master, unit) io" where
  "Complete = (\<lambda>m.
     if m_status m = Busy
     then (Ok (), m\<lparr>m_status := Idle, m_job := None, m_name := ''''\<rparr>)
     else (Err (Error ''nothing to complete''), m))"

text \<open>
  Well-formed masters: one of the three statuses, and an idle master holds neither job nor
  name (the slot is really empty).
\<close>

definition master_wf :: "'j master \<Rightarrow> bool" where
  "master_wf m \<longleftrightarrow> m_status m \<in> {Idle, Waiting, Busy}
     \<and> (m_status m = Idle \<longrightarrow> m_job m = None \<and> m_name m = '''')"

lemma master_wf_New [simp]: "master_wf NewMaster"
  by (simp add: master_wf_def NewMaster_def)

lemma master_wf_Offer: "master_wf m \<Longrightarrow> Offer nm j m = (r, m') \<Longrightarrow> master_wf m'"
  by (auto simp: master_wf_def Offer_def status_defs split: if_splits)

lemma master_wf_Take: "master_wf m \<Longrightarrow> Take m = (j, m') \<Longrightarrow> master_wf m'"
  by (auto simp: master_wf_def Take_def status_defs split: if_splits)

lemma master_wf_Complete: "master_wf m \<Longrightarrow> Complete m = (r, m') \<Longrightarrow> master_wf m'"
  by (auto simp: master_wf_def Complete_def status_defs split: if_splits)

section \<open>The worker\<close>

text \<open>
  \<open>Worker.Do\<close> over the operations of the interface \<open>Master\<close>. Running the job may change
  the rest of the program's state \<open>'w\<close>; its error is only logged, and so is one of
  \<open>Complete\<close>.
\<close>

definition worker_Do ::
  "('m \<Rightarrow> 'j option \<times> 'm) \<Rightarrow> ('m, unit) io \<Rightarrow> ('j \<Rightarrow> ('w, unit) io) \<Rightarrow> ('m \<times> 'w, bool) io"
where
  "worker_Do take_op complete_op run = (\<lambda>(m, w).
     case take_op m of
       (None, m1) \<Rightarrow> (Ok False, (m1, w))
     | (Some j, m1) \<Rightarrow>
         (case run j w of
            (Crash p, w1) \<Rightarrow> (Crash p, (m1, w1))
          | (_, w1) \<Rightarrow>
              (case complete_op m1 of
                 (Crash p, m2) \<Rightarrow> (Crash p, (m2, w1))
               | (_, m2) \<Rightarrow> (Ok True, (m2, w1)))))"

text \<open>
  What the worker relies on: \<open>waiting\<close> is the job that \<open>Take\<close> hands out, taking it makes
  it the job that runs, and completing gives an empty slot again. \<open>ok\<close> is the provider's
  invariant.
\<close>

locale job_source =
  fixes take_op :: "'m \<Rightarrow> 'j option \<times> 'm"
    and complete_op :: "('m, unit) io"
    and ok :: "'m \<Rightarrow> bool"
    and waiting :: "'m \<Rightarrow> 'j option"
    and taken :: "'m \<Rightarrow> bool"
  assumes take_waiting: "fst (take_op m) = waiting m"
    and take_some: "waiting m = Some j \<Longrightarrow> taken (snd (take_op m))"
    and take_none: "ok m \<Longrightarrow> waiting m = None \<Longrightarrow> snd (take_op m) = m"
    and complete_taken:
      "taken m \<Longrightarrow> \<exists>m'. complete_op m = (Ok (), m') \<and> ok m' \<and> \<not> taken m' \<and> waiting m' = None"
begin

lemma do_runs_waiting:
  assumes "waiting m = Some j" "run j w = (r, w')" "\<forall>p. r \<noteq> Crash p"
  shows "\<exists>m'. worker_Do take_op complete_op run (m, w) = (Ok True, (m', w'))
           \<and> ok m' \<and> \<not> taken m' \<and> waiting m' = None"
proof -
  obtain m1 where t: "take_op m = (Some j, m1)" and k: "taken m1"
    using take_waiting [of m] take_some [OF assms(1)] assms(1) by (cases "take_op m") auto
  obtain m2 where c: "complete_op m1 = (Ok (), m2)" "ok m2" "\<not> taken m2" "waiting m2 = None"
    using complete_taken [OF k] by auto
  show ?thesis using t c assms(2,3) by (cases r) (auto simp: worker_Do_def)
qed

lemma do_idle:
  assumes "ok m" "waiting m = None"
  shows "worker_Do take_op complete_op run (m, w) = (Ok False, (m, w))"
  using take_waiting [of m] take_none [OF assms] assms(2)
  by (cases "take_op m") (auto simp: worker_Do_def)

end

text \<open>
  The master provides the contract where a waiting job is never the nil closure, which
  every caller of \<open>Offer\<close> in the backend keeps (they pass function literals).
\<close>

definition master_ok :: "'j master \<Rightarrow> bool" where
  "master_ok m \<longleftrightarrow> master_wf m \<and> (m_status m = Waiting \<longrightarrow> m_job m \<noteq> None)"

definition master_waiting :: "'j master \<Rightarrow> 'j option" where
  "master_waiting m = (if m_status m = Waiting then m_job m else None)"

definition master_taken :: "'j master \<Rightarrow> bool" where
  "master_taken m \<longleftrightarrow> m_status m = Busy"

interpretation single_master: job_source Take Complete master_ok master_waiting master_taken
  by unfold_locales
    (auto simp: Take_def Complete_def master_ok_def master_wf_def master_waiting_def
      master_taken_def status_defs split: if_splits)

section \<open>Clients and worker interleaved\<close>

text \<open>
  Every operation of the master holds its mutex from its first to its last line, so an
  execution of the program is an interleaving of whole operations. The worker alternates
  between polling and running the job it took; \<open>accepted\<close>, \<open>started\<close> and \<open>finished\<close> are
  history variables.
\<close>

datatype 'j phase = Polling | Running 'j

record 'j jobs =
  mst :: "'j master"
  wph :: "'j phase"
  accepted :: "'j list"
  started :: "'j list"
  finished :: "'j list"

definition jobs_init :: "'j jobs" where
  "jobs_init = \<lparr>mst = NewMaster, wph = Polling, accepted = [], started = [], finished = []\<rparr>"

inductive job_step :: "'j jobs \<Rightarrow> 'j jobs \<Rightarrow> bool" where
  offer_accepted: "Offer nm (Some j) (mst s) = (Ok (), m') \<Longrightarrow>
     job_step s (s\<lparr>mst := m', accepted := accepted s @ [j]\<rparr>)"
| offer_refused: "Offer nm (Some j) (mst s) = (Err e, m') \<Longrightarrow> job_step s (s\<lparr>mst := m'\<rparr>)"
| take_nothing: "wph s = Polling \<Longrightarrow> Take (mst s) = (None, m') \<Longrightarrow> job_step s (s\<lparr>mst := m'\<rparr>)"
| take_job: "wph s = Polling \<Longrightarrow> Take (mst s) = (Some j, m') \<Longrightarrow>
     job_step s (s\<lparr>mst := m', wph := Running j, started := started s @ [j]\<rparr>)"
| complete: "wph s = Running j \<Longrightarrow> Complete (mst s) = (r, m') \<Longrightarrow>
     job_step s (s\<lparr>mst := m', wph := Polling, finished := finished s @ [j]\<rparr>)"

inductive jobs_reachable :: "'j jobs \<Rightarrow> bool" where
  init: "jobs_reachable jobs_init"
| step: "jobs_reachable s \<Longrightarrow> job_step s t \<Longrightarrow> jobs_reachable t"

text \<open>
  The invariant ties the master's status to the worker's phase and accounts for every job
  ever accepted.
\<close>

definition in_slot :: "'j master \<Rightarrow> 'j list" where
  "in_slot m = (case master_waiting m of None \<Rightarrow> [] | Some j \<Rightarrow> [j])"

definition in_hand :: "'j phase \<Rightarrow> 'j list" where
  "in_hand p = (case p of Polling \<Rightarrow> [] | Running j \<Rightarrow> [j])"

definition jobs_inv :: "'j jobs \<Rightarrow> bool" where
  "jobs_inv s \<longleftrightarrow> master_ok (mst s)
     \<and> (m_status (mst s) = Busy \<longleftrightarrow> wph s \<noteq> Polling)
     \<and> accepted s = started s @ in_slot (mst s)
     \<and> started s = finished s @ in_hand (wph s)"

lemmas jobs_defs = jobs_inv_def master_ok_def master_wf_def in_slot_def in_hand_def
  master_waiting_def status_defs

lemma jobs_inv_init: "jobs_inv jobs_init"
  by (simp add: jobs_defs jobs_init_def NewMaster_def)

lemma jobs_inv_step: "job_step s t \<Longrightarrow> jobs_inv s \<Longrightarrow> jobs_inv t"
proof (induction rule: job_step.induct)
  case (offer_accepted nm j s m')
  then show ?case by (auto simp: jobs_defs Offer_def split: if_splits phase.splits)
next
  case (offer_refused nm j s e m')
  then have "m' = mst s" by (auto simp: Offer_def split: if_splits)
  with offer_refused show ?case by (simp add: jobs_inv_def)
next
  case (take_nothing s m')
  then have "m' = mst s" by (auto simp: jobs_defs Take_def split: if_splits)
  with take_nothing show ?case by (simp add: jobs_inv_def)
next
  case (take_job s j m')
  then show ?case by (auto simp: jobs_defs Take_def split: if_splits phase.splits)
next
  case (complete s j r m')
  then show ?case by (auto simp: jobs_defs Complete_def split: if_splits phase.splits)
qed

lemma jobs_reachable_inv: "jobs_reachable s \<Longrightarrow> jobs_inv s"
proof (induction rule: jobs_reachable.induct)
  case init
  show ?case by (rule jobs_inv_init)
next
  case (step s t)
  then show ?case using jobs_inv_step by blast
qed

section \<open>Properties\<close>

text \<open>
  C1. Whatever the interleaving of \<open>Offer\<close>s with the worker's \<open>Take\<close> and \<open>Complete\<close>, no
  accepted job is lost, run twice or reordered: the accepted jobs are, in order, those
  finished, the one that runs, and the one in the slot; and at most one of the last two
  exists at any time.
\<close>

theorem jobs_exactly_once:
  assumes "jobs_reachable s"
  shows "accepted s = finished s @ in_hand (wph s) @ in_slot (mst s)
         \<and> length (in_hand (wph s)) + length (in_slot (mst s)) \<le> 1"
proof -
  have "jobs_inv s" using assms by (rule jobs_reachable_inv)
  then show ?thesis
    by (auto simp: jobs_defs split: phase.splits)
qed

theorem jobs_exactly_once_witness:
  "let s = jobs_init\<lparr>mst := snd (Offer ''backup'' (Some (7::nat)) NewMaster), accepted := [7]\<rparr>
   in accepted s = finished s @ in_hand (wph s) @ in_slot (mst s)
      \<and> length (in_hand (wph s)) + length (in_slot (mst s)) \<le> 1"
proof -
  have "Offer ''backup'' (Some (7::nat)) (mst jobs_init)
      = (Ok (), snd (Offer ''backup'' (Some 7) NewMaster))"
    by (simp add: jobs_init_def NewMaster_def Offer_def)
  from job_step.offer_accepted [OF this]
  have "job_step jobs_init
      (jobs_init\<lparr>mst := snd (Offer ''backup'' (Some (7::nat)) NewMaster), accepted := [7]\<rparr>)"
    by (simp add: jobs_init_def)
  from jobs_exactly_once [OF jobs_reachable.step [OF jobs_reachable.init this]]
  show ?thesis by (simp add: Let_def)
qed

text \<open>
  In every reachable state the worker's \<open>Complete\<close> succeeds when it runs a job, a
  waiting job is handed out by the next \<open>Take\<close>, and \<open>Status\<close> never indexes outside its
  table.
\<close>

lemma jobs_progress:
  assumes "jobs_reachable s"
  shows "(\<forall>j. wph s = Running j \<longrightarrow> (\<exists>m'. Complete (mst s) = (Ok (), m') \<and> m_status m' = Idle))
    \<and> (m_status (mst s) = Waiting \<longrightarrow> wph s = Polling \<and> (\<exists>j m'. Take (mst s) = (Some j, m')))
    \<and> is_Ok (Master_Status (mst s))"
proof -
  have inv: "jobs_inv s" using assms by (rule jobs_reachable_inv)
  have "is_Ok (Master_Status (mst s))"
    using inv by (auto simp: jobs_defs Master_Status_def NewStatus_def)
  moreover have "\<exists>m'. Complete (mst s) = (Ok (), m') \<and> m_status m' = Idle"
    if "wph s = Running j" for j
    using inv that by (auto simp: jobs_defs Complete_def)
  moreover have "wph s = Polling \<and> (\<exists>j m'. Take (mst s) = (Some j, m'))"
    if "m_status (mst s) = Waiting"
    using inv that by (auto simp: jobs_defs Take_def)
  ultimately show ?thesis by blast
qed

lemma jobs_progress_example:
  "is_Ok (Master_Status (mst (jobs_init :: nat jobs))) \<and> wph (jobs_init :: nat jobs) = Polling"
  using jobs_progress [OF jobs_reachable.init [where 'j = nat]]
  by (simp add: jobs_init_def)

text \<open>
  One turn of the worker's loop: a waiting job is run exactly once on the program's
  state, an error it returns does not matter, and the master is free for the next \<open>Offer\<close>;
  with no waiting job nothing changes.
\<close>

lemma worker_Do_correct:
  assumes "master_ok m"
  shows "(\<forall>j r w'. m_status m = Waiting \<longrightarrow> m_job m = Some j \<longrightarrow> run j w = (r, w') \<longrightarrow> (\<forall>p. r \<noteq> Crash p) \<longrightarrow>
           (\<exists>m'. worker_Do Take Complete run (m, w) = (Ok True, (m', w')) \<and> m_status m' = Idle))
       \<and> (m_status m \<noteq> Waiting \<longrightarrow> worker_Do Take Complete run (m, w) = (Ok False, (m, w)))"
proof (intro conjI allI impI)
  fix j r w'
  assume "m_status m = Waiting" "m_job m = Some j" "run j w = (r, w')" "\<forall>p. r \<noteq> Crash p"
  then obtain m' where m': "worker_Do Take Complete run (m, w) = (Ok True, (m', w'))"
      "master_ok m'" "\<not> master_taken m'" "master_waiting m' = None"
    using single_master.do_runs_waiting [of m j run w r w'] by (auto simp: master_waiting_def)
  then have "m_status m' = Idle"
    by (auto simp: master_ok_def master_wf_def master_taken_def master_waiting_def)
  with m' show "\<exists>m'. worker_Do Take Complete run (m, w) = (Ok True, (m', w')) \<and> m_status m' = Idle"
    by blast
next
  assume "m_status m \<noteq> Waiting"
  then show "worker_Do Take Complete run (m, w) = (Ok False, (m, w))"
    using single_master.do_idle [OF assms] by (simp add: master_waiting_def)
qed

lemma worker_Do_correct_example:
  "\<exists>m'. worker_Do Take Complete (\<lambda>j w. (Err (Error ''failed''), w + j))
       (\<lparr>m_status = Waiting, m_job = Some (5::nat), m_name = ''backup''\<rparr>, 1)
     = (Ok True, (m', 6)) \<and> m_status m' = Idle"
  using worker_Do_correct [of "\<lparr>m_status = Waiting, m_job = Some (5::nat), m_name = ''backup''\<rparr>"
      "\<lambda>j w. (Err (Error ''failed''), w + j)" 1]
  by (simp add: master_ok_def master_wf_def status_defs)

end
