(* ===== verification/World.thy ===== *)
theory World
  imports User_Config Job "HOL-Library.Sublist"
begin

text \<open>
  The state that the components of the backend share. What the program does outside its own
  memory and database (commands, HTTP, files) goes through \<open>call\<close>s: each call is appended to
  the history, and its reply is chosen by an environment that may depend on the whole
  history. A theorem over all worlds therefore holds for every behaviour of the commands,
  services and file system around the program.

  JSON bodies are given as the value they encode (\<open>None\<close>: not JSON) beside their text; the
  decoders below follow \<^verbatim>\<open>encoding/json\<close> into a struct: a missing key or null is the
  zero value, a value of another type is an error, keys match by their exact names (of several
  the last one counts; spelling a key in another case, which Go would accept, is not modelled).
\<close>

section \<open>JSON\<close>

text \<open>Numbers are integers, or decimals \<open>JDec m e\<close> with the value \<open>m\<close> times ten to the power of \<open>e\<close>.\<close>

datatype json =
    JNull
  | JBool bool
  | JNum int
  | JDec int int
  | JStr string
  | JArr "json list"
  | JObj "(string \<times> json) list"

definition jkey :: "string \<Rightarrow> (string \<times> json) list \<Rightarrow> json" where
  "jkey k kvs = (case map_of (rev kvs) k of None \<Rightarrow> JNull | Some v \<Rightarrow> v)"

fun dec_str :: "json \<Rightarrow> string option" where
  "dec_str JNull = Some ''''"
| "dec_str (JStr s) = Some s"
| "dec_str _ = None"

fun dec_bool :: "json \<Rightarrow> bool option" where
  "dec_bool JNull = Some False"
| "dec_bool (JBool b) = Some b"
| "dec_bool _ = None"

fun dec_int :: "json \<Rightarrow> int option" where
  "dec_int JNull = Some 0"
| "dec_int (JNum i) = (if in_bits 64 i then Some i else None)"
| "dec_int _ = None"

text \<open>A pointer field: nil for a missing key or null.\<close>

fun dec_opt :: "(json \<Rightarrow> 'a option) \<Rightarrow> json \<Rightarrow> 'a option option" where
  "dec_opt f JNull = Some None"
| "dec_opt f v = map_option Some (f v)"

fun dec_list :: "(json \<Rightarrow> 'a option) \<Rightarrow> json \<Rightarrow> 'a list option" where
  "dec_list f JNull = Some []"
| "dec_list f (JArr vs) = those (map f vs)"
| "dec_list f _ = None"

text \<open>The fields of a struct; null leaves the zero struct.\<close>

fun dec_obj :: "((string \<Rightarrow> json) \<Rightarrow> 'a option) \<Rightarrow> json \<Rightarrow> 'a option" where
  "dec_obj f JNull = f (\<lambda>_. JNull)"
| "dec_obj f (JObj kvs) = f (\<lambda>k. jkey k kvs)"
| "dec_obj f _ = None"

record body =
  body_text :: string
  body_json :: "json option"

record response =
  StatusCode :: int
  resp_Status :: string
  Body :: "error + body"

section \<open>Calls and the environment\<close>

datatype call =
    Exec string "string list"
  | SnapdGet string
  | SnapdPost string json
  | SnapdPut string json
  | HttpGet string
  | HttpPost string json
  | WriteJson string json
  | Sys string "string list"

text \<open>What the program reads of a parsed X.509 certificate.\<close>

record certificate =
  NotAfter :: int
  CommonName :: string
  Organization :: "string list"

text \<open>
  The environment. \<open>e_tz\<close>, \<open>e_sha1\<close>, \<open>e_sha256\<close>, \<open>e_letter\<close>, \<open>e_digit\<close>, \<open>e_cert\<close>,
  \<open>e_json\<close>, \<open>e_location\<close> and \<open>e_rfc3339\<close> are functions of the standard library that are not modelled: the offset of the time
  zone, the hashes, the Unicode tables of letters and digits, the decoding of a certificate file
  (\<open>None\<close>: no PEM block, \<open>Some None\<close>: not a certificate), the JSON parser, and the names of
  time zones with the text of an instant in them. \<open>e_seal\<close> and
  \<open>e_unseal\<close> are the cookie library: it encodes the values of a session with a key, and
  decodes a cookie with a key as long as it is authentic and fresh.
\<close>

record environment =
  e_unit :: "call list \<Rightarrow> call \<Rightarrow> error option"
  e_exec :: "call list \<Rightarrow> call \<Rightarrow> string \<times> error option"
  e_str :: "call list \<Rightarrow> call \<Rightarrow> error + string"
  e_strs :: "call list \<Rightarrow> call \<Rightarrow> error + string list"
  e_pairs :: "call list \<Rightarrow> call \<Rightarrow> error + (string \<times> string) list"
  e_ldap :: "call list \<Rightarrow> call \<Rightarrow> error + (string \<times> string list) list list"
  e_u64 :: "call list \<Rightarrow> call \<Rightarrow> error + 64 word"
  e_int :: "call list \<Rightarrow> call \<Rightarrow> error + int"
  e_http :: "call list \<Rightarrow> call \<Rightarrow> error + response"
  e_now :: "call list \<Rightarrow> int"
  e_tz :: "int \<Rightarrow> int"
  e_sha1 :: "string \<Rightarrow> string"
  e_sha256 :: "string \<Rightarrow> string"
  e_letter :: "nat \<Rightarrow> bool"
  e_digit :: "nat \<Rightarrow> bool"
  e_cert :: "string \<Rightarrow> certificate option option"
  e_json :: "string \<Rightarrow> json option"
  e_location :: "string \<Rightarrow> bool"
  e_rfc3339 :: "string \<Rightarrow> int \<Rightarrow> string"
  e_unseal :: "call list \<Rightarrow> string \<Rightarrow> string \<Rightarrow> (string \<times> string) list option"
  e_seal :: "call list \<Rightarrow> string \<Rightarrow> (string \<times> string) list \<Rightarrow> error + string"

text \<open>
  The closures that the backend offers to the job queue are named by a constructor each, and
  long-lived objects keep their fields in the world.
\<close>

datatype closure =
    UpgradeSnapd string
  | CreateBackup string
  | RestoreBackup string
  | ExtendBoot
  | ActivateOnPartition string
  | ActivateOnDisks "string list" bool
  | RunShutdown "string list"

record world =
  w_db :: database
  w_hist :: "call list"
  w_env :: environment
  w_jobs :: "closure master"
  timesync_lastRun :: int
  snapd_lastRun :: int
  disks_lastError :: "error option"
  cookies_key :: "string option"
  w_spawned :: "closure list"

text \<open>
  \<open>cookies_key\<close> is the key of the store of sessions once it is set up, \<open>w_spawned\<close> holds the
  goroutines that the program has started and whose end nobody waits for.
\<close>

type_synonym 'a go = "(world, 'a) io"

definition record_call :: "call \<Rightarrow> world \<Rightarrow> world" where
  "record_call c w = w\<lparr>w_hist := w_hist w @ [c]\<rparr>"

definition do_unit :: "call \<Rightarrow> unit go" where
  "do_unit c = (\<lambda>w. (case e_unit (w_env w) (w_hist w) c of None \<Rightarrow> Ok () | Some e \<Rightarrow> Err e, record_call c w))"

definition of_sum :: "error + 'a \<Rightarrow> 'a res" where
  "of_sum x = (case x of Inl e \<Rightarrow> Err e | Inr a \<Rightarrow> Ok a)"

definition do_str :: "call \<Rightarrow> string go" where
  "do_str c = (\<lambda>w. (of_sum (e_str (w_env w) (w_hist w) c), record_call c w))"

definition do_strs :: "call \<Rightarrow> string list go" where
  "do_strs c = (\<lambda>w. (of_sum (e_strs (w_env w) (w_hist w) c), record_call c w))"

definition do_pairs :: "call \<Rightarrow> (string \<times> string) list go" where
  "do_pairs c = (\<lambda>w. (of_sum (e_pairs (w_env w) (w_hist w) c), record_call c w))"

text \<open>A search of the LDAP server: entries with the values of their attributes.\<close>

definition do_ldap :: "call \<Rightarrow> (string \<times> string list) list list go" where
  "do_ldap c = (\<lambda>w. (of_sum (e_ldap (w_env w) (w_hist w) c), record_call c w))"

definition do_u64 :: "call \<Rightarrow> 64 word go" where
  "do_u64 c = (\<lambda>w. (of_sum (e_u64 (w_env w) (w_hist w) c), record_call c w))"

definition do_int :: "call \<Rightarrow> int go" where
  "do_int c = (\<lambda>w. (of_sum (e_int (w_env w) (w_hist w) c), record_call c w))"

text \<open>A call that cannot fail and returns nothing, such as sleeping.\<close>

definition do_void :: "call \<Rightarrow> unit go" where
  "do_void c = modify (record_call c)"

definition do_http :: "call \<Rightarrow> response go" where
  "do_http c = (\<lambda>w. (of_sum (e_http (w_env w) (w_hist w) c), record_call c w))"

text \<open>The clock (seconds since 1970) is read without leaving a mark in the history; \<open>e_tz\<close> is the
  offset of the local time zone at an instant.\<close>

definition Now :: "int go" where
  "Now = (\<lambda>w. (Ok (e_now (w_env w) (w_hist w)), w))"

text \<open>
  \<^verbatim>\<open>cli.Executor.CombinedOutput\<close> gives output and error; \<open>CombinedOutput\<close> hands both to
  the caller, \<open>run_cmd\<close> is the common use that only propagates the error.
\<close>

definition CombinedOutput :: "string \<Rightarrow> string list \<Rightarrow> (string \<times> error option) go" where
  "CombinedOutput cmd args = (\<lambda>w.
     (Ok (e_exec (w_env w) (w_hist w) (Exec cmd args)), record_call (Exec cmd args) w))"

definition run_cmd :: "string \<Rightarrow> string list \<Rightarrow> string go" where
  "run_cmd cmd args = andThen (CombinedOutput cmd args)
     (\<lambda>(out, err). case err of None \<Rightarrow> ret out | Some e \<Rightarrow> throw e)"

definition do_sys :: "string \<Rightarrow> string list \<Rightarrow> unit go" where
  "do_sys f args = do_unit (Sys f args)"

definition spawn :: "closure \<Rightarrow> unit go" where
  "spawn c = modify (\<lambda>w. w\<lparr>w_spawned := w_spawned w @ [c]\<rparr>)"

definition cfg :: "'a cfg \<Rightarrow> 'a go" where
  "cfg m = zoom w_db (\<lambda>d w. w\<lparr>w_db := d\<rparr>) m"

definition json_body :: "body \<Rightarrow> (json \<Rightarrow> 'a option) \<Rightarrow> 'a go" where
  "json_body b f = (case Option.bind (body_json b) f of
     None \<Rightarrow> throw (Error ''cannot unmarshal'') | Some a \<Rightarrow> ret a)"

text \<open>\<^verbatim>\<open>fmt.Errorf("prefix: %w", err)\<close> around the error of a call.\<close>

definition wrap_err :: "string \<Rightarrow> 'a go \<Rightarrow> 'a go" where
  "wrap_err p m = andThen (attempt m) (\<lambda>r. case r of Inl e \<Rightarrow> throw (Error (p @ err_text e)) | Inr a \<Rightarrow> ret a)"

section \<open>Symbolic execution\<close>

lemma wrap_err_cases:
  assumes "m w = (r, w')"
  shows "wrap_err p m w = (case r of Err e \<Rightarrow> (Err (Error (p @ err_text e)), w') | _ \<Rightarrow> (r, w'))"
  using assms by (cases r) (simp_all add: wrap_err_def andThen_def attempt_def)

lemma wrap_err_Ok: "wrap_err p m w = (Ok a, w') \<longleftrightarrow> m w = (Ok a, w')"
  by (auto simp: wrap_err_def andThen_Ok_iff attempt_def split: prod.splits res.splits sum.splits)

lemma cfg_apply: "m (w_db w) = (r, d) \<Longrightarrow> cfg m w = (r, w\<lparr>w_db := d\<rparr>)"
  by (simp add: cfg_def zoom_def)

lemma w_db_same [simp]: "w\<lparr>w_db := w_db w\<rparr> = w"
  by simp

lemma record_call_sel [simp]:
  "w_db (record_call c w) = w_db w" "w_hist (record_call c w) = w_hist w @ [c]"
  "w_env (record_call c w) = w_env w" "w_jobs (record_call c w) = w_jobs w"
  "timesync_lastRun (record_call c w) = timesync_lastRun w"
  "snapd_lastRun (record_call c w) = snapd_lastRun w"
  "disks_lastError (record_call c w) = disks_lastError w"
  "cookies_key (record_call c w) = cookies_key w" "w_spawned (record_call c w) = w_spawned w"
  by (simp_all add: record_call_def)

lemma of_sum_simps [simp]: "of_sum (Inl e) = Err e" "of_sum (Inr a) = Ok a"
  by (simp_all add: of_sum_def)

lemma do_unit_cases:
  obtains "e_unit (w_env w) (w_hist w) c = None" "do_unit c w = (Ok (), record_call c w)"
  | e where "e_unit (w_env w) (w_hist w) c = Some e" "do_unit c w = (Err e, record_call c w)"
  by (cases "e_unit (w_env w) (w_hist w) c") (auto simp: do_unit_def)

lemma Now_apply [simp]: "Now w = (Ok (e_now (w_env w) (w_hist w)), w)"
  by (simp add: Now_def)

text \<open>The history only grows and the environment is never changed by the program.\<close>

definition grows :: "world \<Rightarrow> world \<Rightarrow> bool" where
  "grows w w' \<longleftrightarrow> w_env w' = w_env w \<and> (\<exists>cs. w_hist w' = w_hist w @ cs)"

lemma reflp_grows [simp, keeps_intros]: "reflp grows"
  by (simp add: reflp_def grows_def)

lemma transp_grows [simp, keeps_intros]: "transp grows"
  by (auto simp: transp_def grows_def)

text \<open>
  \<open>within P\<close>: nothing but calls that satisfy \<open>P\<close>, database and memory untouched;
  \<open>only_calls\<close> is the case of all calls.
\<close>

definition within :: "(call \<Rightarrow> bool) \<Rightarrow> world \<Rightarrow> world \<Rightarrow> bool" where
  "within P w w' \<longleftrightarrow> (\<exists>cs. w' = w\<lparr>w_hist := w_hist w @ cs\<rparr> \<and> list_all P cs)"

abbreviation only_calls :: "world \<Rightarrow> world \<Rightarrow> bool" where
  "only_calls \<equiv> within (\<lambda>_. True)"

lemma only_calls_def: "only_calls w w' \<longleftrightarrow> (\<exists>cs. w' = w\<lparr>w_hist := w_hist w @ cs\<rparr>)"
  by (simp add: within_def list_all_iff)

lemma reflp_within [simp, keeps_intros]: "reflp (within P)"
  by (auto simp: reflp_def within_def intro: exI [of _ "[]"])

lemma transp_within [simp, keeps_intros]: "transp (within P)"
  by (auto simp: transp_def within_def)

lemma within_record [simp]: "P c \<Longrightarrow> within P w (record_call c w)"
  by (auto simp: within_def record_call_def)

lemma within_mono: "within P w w' \<Longrightarrow> (\<And>c. P c \<Longrightarrow> Q c) \<Longrightarrow> within Q w w'"
  by (auto simp: within_def intro: list.pred_mono_strong)

lemma only_calls_db: "within P w w' \<Longrightarrow> w_db w' = w_db w \<and> w_env w' = w_env w"
  by (auto simp: within_def)

lemma within_grows: "within P w w' \<Longrightarrow> grows w w'"
  by (auto simp: within_def grows_def)

lemma keeps_within_mono: "keeps (within P) m \<Longrightarrow> (\<And>c. P c \<Longrightarrow> Q c) \<Longrightarrow> keeps (within Q) m"
  unfolding keeps_def using within_mono [of P _ _ Q] by blast

lemma keeps_do [keeps_intros]:
  "P c \<Longrightarrow> keeps (within P) (do_unit c)" "P c \<Longrightarrow> keeps (within P) (do_str c)"
  "P c \<Longrightarrow> keeps (within P) (do_strs c)" "P c \<Longrightarrow> keeps (within P) (do_u64 c)"
  "P c \<Longrightarrow> keeps (within P) (do_pairs c)" "P c \<Longrightarrow> keeps (within P) (do_ldap c)" "P c \<Longrightarrow> keeps (within P) (do_int c)" "P c \<Longrightarrow> keeps (within P) (do_void c)"
  "P c \<Longrightarrow> keeps (within P) (do_http c)" "keeps (within P) Now"
  "P (Exec cmd as) \<Longrightarrow> keeps (within P) (CombinedOutput cmd as)"
  "P (Sys f as) \<Longrightarrow> keeps (within P) (do_sys f as)"
  using reflpD [OF reflp_within]
  by (auto simp: keeps_def do_unit_def do_str_def do_strs_def do_pairs_def do_ldap_def do_u64_def do_int_def do_void_def
      do_http_def CombinedOutput_def do_sys_def)

lemma keeps_run_cmd [keeps_intros]: "P (Exec cmd as) \<Longrightarrow> keeps (within P) (run_cmd cmd as)"
  unfolding run_cmd_def
  by (intro keeps_andThen keeps_do transp_within)
    (auto split: prod.splits option.splits intro!: keeps_intros)

lemma keeps_wrap_err [keeps_intros]: "transp R \<Longrightarrow> reflp R \<Longrightarrow> keeps R m \<Longrightarrow> keeps R (wrap_err p m)"
  unfolding wrap_err_def by (intro keeps_andThen keeps_attempt) (auto split: sum.splits intro: keeps_intros)

lemma safe_wrap_err [safe_intros]: "safe m \<Longrightarrow> safe (wrap_err p m)"
  unfolding wrap_err_def by (intro safe_intros) (auto split: sum.splits intro: safe_intros)

lemma keeps_json_body [keeps_intros]: "keeps (within P) (json_body b f)"
  by (auto simp: json_body_def split: option.splits intro!: keeps_intros)

lemma safe_do [safe_intros]:
  "safe (do_unit c)" "safe (do_str c)" "safe (do_strs c)" "safe (do_pairs c)" "safe (do_ldap c)" "safe (do_u64 c)" "safe (do_int c)"
  "safe (do_void c)" "safe (do_http c)" "safe Now" "safe (CombinedOutput cmd as)" "safe (do_sys f as)"
  by (auto simp: safe_def do_unit_def do_str_def do_strs_def do_pairs_def do_ldap_def do_u64_def do_int_def do_void_def
      do_http_def of_sum_def CombinedOutput_def do_sys_def split: option.splits sum.splits)

lemma safe_run_cmd [safe_intros]: "safe (run_cmd cmd as)"
  unfolding run_cmd_def
  by (intro safe_intros) (auto split: prod.splits option.splits intro!: safe_intros)

lemma safe_json_body [safe_intros]: "safe (json_body b f)"
  by (auto simp: json_body_def split: option.splits intro!: safe_intros)

section \<open>Plans of calls\<close>

text \<open>
  \<open>follows m plan\<close>: the computation only makes calls, they are a prefix of the plan, and they
  are the whole plan when it succeeds. This is the contract of a sequence of steps of which
  each stops the rest when it fails.
\<close>

named_theorems follows_intros \<open>introduction rules for plans\<close>

definition follows :: "'a go \<Rightarrow> call list \<Rightarrow> bool" where
  "follows m plan \<longleftrightarrow> (\<forall>w r w'. m w = (r, w') \<longrightarrow>
     (\<exists>cs. w' = w\<lparr>w_hist := w_hist w @ cs\<rparr> \<and> prefix cs plan \<and> (is_Ok r \<longrightarrow> cs = plan)))"

lemma followsD:
  "follows m plan \<Longrightarrow> m w = (r, w') \<Longrightarrow>
     \<exists>cs. w' = w\<lparr>w_hist := w_hist w @ cs\<rparr> \<and> prefix cs plan \<and> (is_Ok r \<longrightarrow> cs = plan)"
  by (simp add: follows_def)

lemma follows_ret [follows_intros]: "follows (ret a) []"
  by (auto simp: follows_def)

lemma follows_throw [follows_intros]: "follows (throw e) plan"
  by (auto simp: follows_def intro!: exI [of _ "[]"])

lemma follows_crash [follows_intros]: "follows (crash p) plan"
  by (auto simp: follows_def intro!: exI [of _ "[]"])

lemma follows_do_unit [follows_intros]: "follows (do_unit c) [c]"
  by (auto simp: follows_def do_unit_def record_call_def)

lemma follows_do_sys [follows_intros]: "follows (do_sys f as) [Sys f as]"
  unfolding do_sys_def by (rule follows_do_unit)

lemma follows_do_void [follows_intros]: "follows (do_void c) [c]"
  by (auto simp: follows_def do_void_def record_call_def)

lemma follows_do_http [follows_intros]: "follows (do_http c) [c]"
  by (auto simp: follows_def do_http_def record_call_def)

lemma follows_CombinedOutput [follows_intros]: "follows (CombinedOutput cmd as) [Exec cmd as]"
  by (auto simp: follows_def CombinedOutput_def record_call_def)

lemma follows_andThen [follows_intros]:
  assumes "follows m p" "\<And>a. follows (k a) q"
  shows "follows (andThen m k) (p @ q)"
  unfolding follows_def
proof (intro allI impI)
  fix w r w' assume *: "andThen m k w = (r, w')"
  obtain r1 w1 where m: "m w = (r1, w1)" by (cases "m w")
  obtain cs where cs: "w1 = w\<lparr>w_hist := w_hist w @ cs\<rparr>" "prefix cs p" "is_Ok r1 \<longrightarrow> cs = p"
    using followsD [OF assms(1) m] by blast
  show "\<exists>cs. w' = w\<lparr>w_hist := w_hist w @ cs\<rparr> \<and> prefix cs (p @ q) \<and> (is_Ok r \<longrightarrow> cs = p @ q)"
  proof (cases r1)
    case (Ok a)
    then have "k a w1 = (r, w')" using * m by simp
    then obtain ds where ds: "w' = w1\<lparr>w_hist := w_hist w1 @ ds\<rparr>" "prefix ds q" "is_Ok r \<longrightarrow> ds = q"
      using followsD [OF assms(2)] by blast
    with cs Ok show ?thesis by (intro exI [of _ "p @ ds"]) auto
  qed (use * m cs in auto)
qed

lemma follows_run_cmd [follows_intros]: "follows (run_cmd cmd as) [Exec cmd as]"
proof -
  have "follows (case x of (out, err) \<Rightarrow> (case err of None \<Rightarrow> ret out | Some e \<Rightarrow> throw e)) []" for x
    by (cases x) (auto split: option.splits intro!: follows_intros)
  from follows_andThen [OF follows_CombinedOutput this] show ?thesis
    by (simp add: run_cmd_def)
qed

lemma follows_forEach:
  assumes "\<And>x. follows (f x) (plan x)"
  shows "follows (forEach xs f) (concat (map plan xs))"
proof (induction xs)
  case Nil
  show ?case using follows_ret [of "()"] by (simp only: forEach.simps list.map concat.simps)
next
  case (Cons x xs)
  then show ?case using follows_andThen [OF assms Cons] by simp
qed

section \<open>Events\<close>

text \<open>
  \<open>emits ev m plan\<close>: as \<open>follows\<close>, for the calls that \<open>ev\<close> names as events; other calls may
  be made at any time and with any arguments.
\<close>

named_theorems emits_intros \<open>introduction rules for events\<close>

definition emits :: "(call \<Rightarrow> 'e option) \<Rightarrow> 'a go \<Rightarrow> 'e list \<Rightarrow> bool" where
  "emits ev m plan \<longleftrightarrow> (\<forall>w r w'. m w = (r, w') \<longrightarrow>
     (\<exists>cs. w' = w\<lparr>w_hist := w_hist w @ cs\<rparr> \<and> prefix (List.map_filter ev cs) plan
         \<and> (is_Ok r \<longrightarrow> List.map_filter ev cs = plan)))"

lemma emitsD:
  "emits ev m plan \<Longrightarrow> m w = (r, w') \<Longrightarrow>
     \<exists>cs. w' = w\<lparr>w_hist := w_hist w @ cs\<rparr> \<and> prefix (List.map_filter ev cs) plan
       \<and> (is_Ok r \<longrightarrow> List.map_filter ev cs = plan)"
  by (simp add: emits_def)

lemma map_filter_append: "List.map_filter ev (xs @ ys) = List.map_filter ev xs @ List.map_filter ev ys"
  by (simp add: List.map_filter_def)

lemma map_filter_none: "list_all (\<lambda>c. ev c = None) cs \<Longrightarrow> List.map_filter ev cs = []"
  by (induction cs) (auto simp: List.map_filter_simps)

lemma emits_quiet: "keeps (within (\<lambda>c. ev c = None)) m \<Longrightarrow> emits ev m []"
  unfolding emits_def keeps_def within_def using map_filter_none [of ev] by fastforce

lemma emits_throw [emits_intros]: "emits ev (throw e) plan"
  by (auto simp: emits_def List.map_filter_simps intro!: exI [of _ "[]"])

lemma emits_event:
  assumes "follows m [c]" "ev c = Some x"
  shows "emits ev m [x]"
  unfolding emits_def
proof (intro allI impI)
  fix w r w' assume "m w = (r, w')"
  from followsD [OF assms(1) this] obtain cs where
    "w' = w\<lparr>w_hist := w_hist w @ cs\<rparr>" "prefix cs [c]" "is_Ok r \<longrightarrow> cs = [c]" by blast
  then show "\<exists>cs. w' = w\<lparr>w_hist := w_hist w @ cs\<rparr> \<and> prefix (List.map_filter ev cs) [x]
         \<and> (is_Ok r \<longrightarrow> List.map_filter ev cs = [x])"
    using assms(2) by (intro exI [of _ cs]) (auto simp: prefix_Cons List.map_filter_simps)
qed

lemma emits_andThen:
  assumes "emits ev m p" "\<And>a. emits ev (k a) q"
  shows "emits ev (andThen m k) (p @ q)"
  unfolding emits_def
proof (intro allI impI)
  fix w r w' assume *: "andThen m k w = (r, w')"
  obtain r1 w1 where m: "m w = (r1, w1)" by (cases "m w")
  obtain cs where cs: "w1 = w\<lparr>w_hist := w_hist w @ cs\<rparr>" "prefix (List.map_filter ev cs) p"
    "is_Ok r1 \<longrightarrow> List.map_filter ev cs = p"
    using emitsD [OF assms(1) m] by blast
  show "\<exists>cs. w' = w\<lparr>w_hist := w_hist w @ cs\<rparr> \<and> prefix (List.map_filter ev cs) (p @ q)
      \<and> (is_Ok r \<longrightarrow> List.map_filter ev cs = p @ q)"
  proof (cases r1)
    case (Ok a)
    then have "k a w1 = (r, w')" using * m by simp
    then obtain ds where ds: "w' = w1\<lparr>w_hist := w_hist w1 @ ds\<rparr>" "prefix (List.map_filter ev ds) q"
      "is_Ok r \<longrightarrow> List.map_filter ev ds = q"
      using emitsD [OF assms(2)] by blast
    with cs Ok show ?thesis by (intro exI [of _ "cs @ ds"]) (auto simp: map_filter_append)
  qed (use * m cs in auto)
qed

lemma emits_then:
  assumes "emits ev m [x]" "\<And>a. emits ev (k a) q"
  shows "emits ev (andThen m k) (x # q)"
  using emits_andThen [OF assms] by simp

lemma emits_skip:
  assumes "emits ev m []" "\<And>a. emits ev (k a) q"
  shows "emits ev (andThen m k) q"
  using emits_andThen [OF assms] by simp

lemma emits_if_throw: "(\<not> b \<Longrightarrow> emits ev m p) \<Longrightarrow> emits ev (if b then throw e else m) p"
  by (auto intro: emits_throw)

lemma emits_case_option_throw:
  "(\<And>a. emits ev (k a) p) \<Longrightarrow> emits ev (case x of None \<Rightarrow> throw e | Some a \<Rightarrow> k a) p"
  by (cases x) (auto intro: emits_throw)

section \<open>A concrete environment\<close>

text \<open>Every call succeeds with an empty reply; concrete runs override single fields.\<close>

definition calm :: environment where
  "calm = \<lparr>e_unit = (\<lambda>_ _. None), e_exec = (\<lambda>_ _. ('''', None)), e_str = (\<lambda>_ _. Inr ''''),
     e_strs = (\<lambda>_ _. Inr []), e_pairs = (\<lambda>_ _. Inr []), e_ldap = (\<lambda>_ _. Inr []), e_u64 = (\<lambda>_ _. Inr 0), e_int = (\<lambda>_ _. Inr 0),
     e_http = (\<lambda>_ _. Inr \<lparr>StatusCode = 200, resp_Status = [], Body = Inr \<lparr>body_text = '''', body_json = None\<rparr>\<rparr>), e_now = (\<lambda>_. 0),
     e_tz = (\<lambda>_. 0), e_sha1 = id, e_sha256 = id, e_letter = (\<lambda>_. False), e_digit = (\<lambda>_. False), e_cert = (\<lambda>_. None), e_json = (\<lambda>_. None), e_location = (\<lambda>_. True), e_rfc3339 = (\<lambda>_ _. []),
     e_unseal = (\<lambda>_ _ _. None), e_seal = (\<lambda>_ _ _. Inr [])\<rparr>"

definition start_world :: "environment \<Rightarrow> world" where
  "start_world e = \<lparr>w_db = fresh_db, w_hist = [], w_env = e, w_jobs = NewMaster,
     timesync_lastRun = zero_time, snapd_lastRun = zero_time, disks_lastError = None, cookies_key = None, w_spawned = []\<rparr>"

lemma start_world_sel [simp]:
  "w_db (start_world e) = fresh_db" "w_hist (start_world e) = []" "w_env (start_world e) = e"
  "w_jobs (start_world e) = NewMaster"
  by (simp_all add: start_world_def)

end
