(* ===== verification/Snap.thy ===== *)
theory Snap
  imports World
begin

text \<open>
  The snap layer: the data model and decoders (\<^verbatim>\<open>backend/snap/model\<close>), the client of the
  snapd socket (\<^verbatim>\<open>client.go\<close>, \<^verbatim>\<open>server.go\<close>, \<^verbatim>\<open>snapshots.go\<close>,
  \<^verbatim>\<open>changes_client.go\<close>), the \<^verbatim>\<open>snap\<close> command (\<^verbatim>\<open>cli.go\<close>) and the events that
  are run on all apps (\<^verbatim>\<open>backend/event/trigger.go\<close>).
\<close>

section \<open>Data model\<close>

record app_cmd =
  app_Name :: string
  app_Snap :: string

definition FullName :: "app_cmd \<Rightarrow> string" where
  "FullName app = app_Snap app @ ''.'' @ app_Name app"

record snap_media =
  media_Type :: string
  media_Url :: string

record snap =
  snap_Name :: string
  snap_Summary :: string
  snap_Description :: string
  snap_Channel :: string
  snap_Version :: string
  snap_Type :: string
  snap_Apps :: "app_cmd list"
  snap_Media :: "snap_media list"

record syncloud_app =
  sa_Id :: string
  sa_Name :: string
  sa_Required :: string
  sa_Ui :: string
  sa_Url :: string
  sa_Icon :: string
  sa_Description :: string

record app_versions =
  av_App :: syncloud_app
  av_CurrentVersion :: "string option"
  av_InstalledVersion :: "string option"
  av_LocalInstall :: bool

fun first_icon :: "snap_media list \<Rightarrow> string" where
  "first_icon [] = ''''"
| "first_icon (m # ms) = (if media_Type m = ''icon'' then media_Url m else first_icon ms)"

definition IconUrl :: "snap \<Rightarrow> string" where
  "IconUrl s = first_icon (snap_Media s)"

definition toSyncloudApp :: "snap \<Rightarrow> string \<Rightarrow> app_versions" where
  "toSyncloudApp s url =
     (let icon = TrimPrefix (snap_Channel s) ''latest/''
      in \<lparr>av_App = \<lparr>sa_Id = snap_Name s, sa_Name = snap_Summary s, sa_Required = '''', sa_Ui = '''',
            sa_Url = url,
            sa_Icon = ''/rest/proxy/image?channel='' @ icon @ ''&app='' @ snap_Name s,
            sa_Description = snap_Description s\<rparr>,
          av_CurrentVersion = None, av_InstalledVersion = None, av_LocalInstall = False\<rparr>)"

definition ToStoreApp :: "snap \<Rightarrow> string \<Rightarrow> app_versions" where
  "ToStoreApp s url = (toSyncloudApp s url)\<lparr>av_CurrentVersion := Some (snap_Version s)\<rparr>"

definition ToInstalledApp :: "snap \<Rightarrow> string \<Rightarrow> app_versions" where
  "ToInstalledApp s url = (toSyncloudApp s url)\<lparr>av_InstalledVersion := Some (snap_Version s)\<rparr>"

definition IsApp :: "snap \<Rightarrow> bool" where
  "IsApp s \<longleftrightarrow> snap_Type s = ''app''"

definition FindCommand :: "snap \<Rightarrow> string \<Rightarrow> app_cmd option" where
  "FindCommand s name = List.find (\<lambda>a. app_Name a = name) (snap_Apps s)"

subsection \<open>Decoding\<close>

definition dec_app :: "json \<Rightarrow> app_cmd option" where
  "dec_app = dec_obj (\<lambda>k. case (dec_str (k ''name''), dec_str (k ''snap'')) of
     (Some n, Some s) \<Rightarrow> Some \<lparr>app_Name = n, app_Snap = s\<rparr> | _ \<Rightarrow> None)"

definition dec_media :: "json \<Rightarrow> snap_media option" where
  "dec_media = dec_obj (\<lambda>k. case (dec_str (k ''type''), dec_str (k ''url'')) of
     (Some t, Some u) \<Rightarrow> Some \<lparr>media_Type = t, media_Url = u\<rparr> | _ \<Rightarrow> None)"

definition dec_snap :: "json \<Rightarrow> snap option" where
  "dec_snap = dec_obj (\<lambda>k.
     case (those (map (\<lambda>f. dec_str (k f)) [''name'', ''summary'', ''description'', ''channel'', ''version'', ''type'']),
           dec_list dec_app (k ''apps''), dec_list dec_media (k ''media'')) of
       (Some [n, s, d, c, v, t], Some as, Some ms) \<Rightarrow>
         Some \<lparr>snap_Name = n, snap_Summary = s, snap_Description = d, snap_Channel = c,
               snap_Version = v, snap_Type = t, snap_Apps = as, snap_Media = ms\<rparr>
     | _ \<Rightarrow> None)"

text \<open>\<^verbatim>\<open>ServerResponse\<close>: the result stays raw JSON until the status is known.\<close>

record server_response =
  sr_Result :: "json option"
  sr_Status :: string

text \<open>\<open>Result\<close> is a \<^verbatim>\<open>json.RawMessage\<close>, kept undecoded: a missing key leaves it empty, and
  decoding an empty message is an error, while null decodes to the zero value.\<close>

fun raw_key :: "string \<Rightarrow> json \<Rightarrow> json option" where
  "raw_key k (JObj kvs) = map_of (rev kvs) k"
| "raw_key k _ = None"

definition dec_server_response :: "json \<Rightarrow> server_response option" where
  "dec_server_response j = map_option (\<lambda>s. \<lparr>sr_Result = raw_key ''result'' j, sr_Status = s\<rparr>)
     (dec_obj (\<lambda>k. dec_str (k ''status'')) j)"

definition dec_server_error :: "json \<Rightarrow> string option" where
  "dec_server_error = dec_obj (\<lambda>k. dec_str (k ''message''))"

definition dec_snap_response :: "json \<Rightarrow> snap option" where
  "dec_snap_response = dec_obj (\<lambda>k. case dec_str (k ''status'') of
     None \<Rightarrow> None | Some _ \<Rightarrow> dec_snap (k ''result''))"

definition dec_snaps_response :: "json \<Rightarrow> snap list option" where
  "dec_snaps_response = dec_obj (\<lambda>k. case dec_str (k ''status'') of
     None \<Rightarrow> None | Some _ \<Rightarrow> dec_list dec_snap (k ''result''))"

definition dec_system_info :: "json \<Rightarrow> string option" where
  "dec_system_info = dec_obj (\<lambda>k. dec_obj (\<lambda>r. dec_str (r ''version'')) (k ''result''))"

definition decode :: "(json \<Rightarrow> 'a option) \<Rightarrow> json option \<Rightarrow> 'a go" where
  "decode f j = (case Option.bind j f of None \<Rightarrow> throw (Error ''cannot unmarshal'') | Some a \<Rightarrow> ret a)"

section \<open>The snapd socket\<close>

definition read_body :: "response \<Rightarrow> body go" where
  "read_body resp = (case Body resp of Inl e \<Rightarrow> throw e | Inr b \<Rightarrow> ret b)"

definition Snapd_Get :: "string \<Rightarrow> body go" where
  "Snapd_Get url = andThen (do_http (SnapdGet url)) (\<lambda>resp.
     if StatusCode resp = 404 then throw NotFound else read_body resp)"

definition unix_url :: "string \<Rightarrow> string" where
  "unix_url p = ''http://unix/v2/'' @ p"

section \<open>The snap server\<close>

definition Snaps :: "snap list go" where
  "Snaps = andThen (Snapd_Get (unix_url ''snaps'')) (\<lambda>b. json_body b dec_snaps_response)"

fun apps_of :: "(snap \<Rightarrow> string \<Rightarrow> app_versions) \<Rightarrow> snap list \<Rightarrow> syncloud_app list go" where
  "apps_of conv [] = ret []"
| "apps_of conv (s # ss) =
     (if IsApp s
      then andThen (cfg (Url (snap_Name s))) (\<lambda>url.
             andThen (apps_of conv ss) (\<lambda>as. ret (av_App (conv s url) # as)))
      else apps_of conv ss)"

definition InstalledUserApps :: "syncloud_app list go" where
  "InstalledUserApps = andThen Snaps (\<lambda>snaps. andThen (apps_of ToInstalledApp snaps)
     (\<lambda>apps. ret (sort_key sa_Id apps)))"

definition FindInstalled :: "string \<Rightarrow> snap option go" where
  "FindInstalled name = andThen (attempt (Snapd_Get (unix_url (''snaps/'' @ name)))) (\<lambda>r.
     case r of
       Inl e \<Rightarrow> if e = NotFound
                then andThen Snaps (\<lambda>snaps. ret (List.find (\<lambda>s. snap_Name s = name) snaps))
                else throw e
     | Inr b \<Rightarrow> andThen (json_body b dec_snap_response) (\<lambda>s. ret (Some s)))"

text \<open>\<open>purge\<close> has \<^verbatim>\<open>omitempty\<close>.\<close>

definition install_request :: "string \<Rightarrow> bool \<Rightarrow> json" where
  "install_request action purge =
     JObj ((''action'', JStr action) # (if purge then [(''purge'', JBool True)] else []))"

definition snapsAction :: "json \<Rightarrow> string \<Rightarrow> server_response go" where
  "snapsAction request name =
     andThen (do_http (SnapdPost (unix_url (''snaps/'' @ name)) request)) (\<lambda>resp.
       if StatusCode resp = 404 then throw NotFound
       else andThen (read_body resp) (\<lambda>b. json_body b dec_server_response))"

definition Snap_Upgrade :: "string \<Rightarrow> unit go" where
  "Snap_Upgrade name = andThen (snapsAction (install_request ''refresh'' False) name) (\<lambda>response.
     if sr_Status response \<noteq> ''Accepted''
     then andThen (decode dec_server_error (sr_Result response)) (\<lambda>m. throw (Error m))
     else ret ())"

definition Snap_Install :: "string \<Rightarrow> unit go" where
  "Snap_Install name = andThen (snapsAction (install_request ''install'' False) name) (\<lambda>_. ret ())"

definition Snap_Remove :: "string \<Rightarrow> unit go" where
  "Snap_Remove name = andThen (snapsAction (install_request ''remove'' True) name) (\<lambda>_. ret ())"

definition find_snaps :: "string \<Rightarrow> snap list go" where
  "find_snaps query = andThen (attempt (Snapd_Get (unix_url (''find?name='' @ query)))) (\<lambda>r.
     case r of
       Inl e \<Rightarrow> if e = NotFound then ret [] else throw e
     | Inr b \<Rightarrow> andThen (json_body b dec_server_response) (\<lambda>response.
         if query \<noteq> ''*'' \<and> sr_Status response \<noteq> ''OK'' then ret []
         else decode (dec_list dec_snap) (sr_Result response)))"

definition StoreSnaps :: "snap list go" where
  "StoreSnaps = find_snaps ''*''"

definition StoreUserApps :: "syncloud_app list go" where
  "StoreUserApps = andThen StoreSnaps (apps_of ToStoreApp)"

definition InstalledVersion :: "string go" where
  "InstalledVersion = andThen (Snapd_Get (unix_url ''system-info'')) (\<lambda>b. json_body b dec_system_info)"

record installer_info =
  StoreVersion :: string
  inst_InstalledVersion :: string

definition Installer :: "string \<Rightarrow> installer_info go" where
  "Installer channel = andThen InstalledVersion (\<lambda>installed.
     andThen (do_http (HttpGet (''http://apps.syncloud.org/releases/'' @ channel @ ''/snapd2.version'')))
       (\<lambda>resp. andThen (read_body resp) (\<lambda>b.
         ret \<lparr>StoreVersion = body_text b, inst_InstalledVersion = installed\<rparr>)))"

fun first_icon_url :: "snap list \<Rightarrow> string option" where
  "first_icon_url [] = None"
| "first_icon_url (s # ss) = (if IconUrl s \<noteq> '''' then Some (IconUrl s) else first_icon_url ss)"

definition AppImageUrl :: "string \<Rightarrow> string go" where
  "AppImageUrl app = andThen (find_snaps app) (\<lambda>snaps.
     case first_icon_url snaps of
       Some url \<Rightarrow> ret url | None \<Rightarrow> throw (Error (''no icon url for app: '' @ app)))"

definition FindInStore :: "string \<Rightarrow> app_versions option go" where
  "FindInStore name = andThen (find_snaps name) (\<lambda>found.
     case found of
       [] \<Rightarrow> ret None
     | s # _ \<Rightarrow> andThen (cfg (Url (snap_Name s))) (\<lambda>url. ret (Some (ToStoreApp s url))))"

definition Find :: "string \<Rightarrow> app_versions go" where
  "Find name = andThen (FindInstalled name) (\<lambda>foundInstalledApp.
     andThen (FindInStore name) (\<lambda>storeApp.
       case (foundInstalledApp, storeApp) of
         (None, None) \<Rightarrow> throw (Error ''not found'')
       | (None, Some app) \<Rightarrow> ret app
       | (Some s, _) \<Rightarrow> andThen (cfg (Url (snap_Name s))) (\<lambda>url.
           let installedApp = ToInstalledApp s url
           in case storeApp of
                None \<Rightarrow> ret (installedApp\<lparr>av_LocalInstall := True\<rparr>)
              | Some st \<Rightarrow> ret (installedApp\<lparr>av_CurrentVersion := av_CurrentVersion st\<rparr>))))"

section \<open>The snap command\<close>

definition Cli_run :: "string \<Rightarrow> string \<Rightarrow> unit go" where
  "Cli_run command name = andThen (run_cmd ''snap'' [command, name]) (\<lambda>_. ret ())"

definition Cli_Start :: "string \<Rightarrow> unit go" where
  "Cli_Start name = Cli_run ''start'' name"

definition Cli_Stop :: "string \<Rightarrow> unit go" where
  "Cli_Stop name = Cli_run ''stop'' name"

definition Cli_Run :: "string \<Rightarrow> unit go" where
  "Cli_Run name = Cli_run ''run'' name"

definition RunCmdIfExists :: "snap \<Rightarrow> string \<Rightarrow> unit go" where
  "RunCmdIfExists s name = (case FindCommand s name of
     Some cmd \<Rightarrow> Cli_Run (FullName cmd) | None \<Rightarrow> ret ())"

section \<open>Events on all apps\<close>

definition RunEventOnAllApps :: "string \<Rightarrow> unit go" where
  "RunEventOnAllApps command = andThen Snaps (\<lambda>snaps.
     forEach snaps (\<lambda>app. case FindCommand app command of
       Some cmd \<Rightarrow> Cli_Run (FullName cmd) | None \<Rightarrow> ret ()))"

definition RunAccessChangeEvent :: "unit go" where
  "RunAccessChangeEvent = RunEventOnAllApps ''access-change''"

definition RunMailRelayChangeEvent :: "unit go" where
  "RunMailRelayChangeEvent = RunEventOnAllApps ''mail-relay-change''"

definition RunCertificateChangeEvent :: "unit go" where
  "RunCertificateChangeEvent = RunEventOnAllApps ''certificate-change''"

definition RunDiskChangeEvent :: "unit go" where
  "RunDiskChangeEvent = RunEventOnAllApps ''storage-change''"

section \<open>Snapshots\<close>

record snapshot =
  ss_Set :: int
  ss_Snap :: string
  ss_Auto :: bool

record snapshot_set =
  set_Id :: int
  set_Snapshots :: "snapshot list"

definition IsAuto :: "snapshot_set \<Rightarrow> bool" where
  "IsAuto s \<longleftrightarrow> set_Snapshots s \<noteq> [] \<and> list_all ss_Auto (set_Snapshots s)"

definition dec_snapshot :: "json \<Rightarrow> snapshot option" where
  "dec_snapshot = dec_obj (\<lambda>k.
     case (dec_int (k ''set''), dec_str (k ''snap''), dec_int (k ''size''), dec_bool (k ''auto'')) of
       (Some st, Some sn, Some _, Some au) \<Rightarrow> Some \<lparr>ss_Set = st, ss_Snap = sn, ss_Auto = au\<rparr>
     | _ \<Rightarrow> None)"

definition dec_snapshot_set :: "json \<Rightarrow> snapshot_set option" where
  "dec_snapshot_set = dec_obj (\<lambda>k. case (dec_int (k ''id''), dec_list dec_snapshot (k ''snapshots'')) of
     (Some i, Some ss) \<Rightarrow> Some \<lparr>set_Id = i, set_Snapshots = ss\<rparr> | _ \<Rightarrow> None)"

definition dec_snapshot_sets :: "json \<Rightarrow> snapshot_set list option" where
  "dec_snapshot_sets = dec_obj (\<lambda>k. dec_list dec_snapshot_set (k ''result''))"

definition RetentionKey :: string where
  "RetentionKey = ''snapshots.automatic.retention''"

definition RetentionDisabled :: string where
  "RetentionDisabled = ''no''"

text \<open>\<open>ConfResponse.Value\<close>: anything but a sync response with a map of strings is the empty
  string.\<close>

fun dec_str_map :: "json \<Rightarrow> (string \<rightharpoonup> string) option" where
  "dec_str_map JNull = Some Map.empty"
| "dec_str_map (JObj kvs) =
     map_option (\<lambda>vs. map_of (rev (zip (map fst kvs) vs))) (those (map (\<lambda>kv. dec_str (snd kv)) kvs))"
| "dec_str_map _ = None"

definition conf_value :: "string \<Rightarrow> json \<Rightarrow> string \<Rightarrow> string" where
  "conf_value type result key =
     (if type \<noteq> ''sync'' then ''''
      else (case dec_str_map result of
          None \<Rightarrow> '''' | Some m \<Rightarrow> (case m key of None \<Rightarrow> '''' | Some v \<Rightarrow> v)))"

definition retention :: "string go" where
  "retention = andThen (Snapd_Get (unix_url (''snaps/system/conf?keys='' @ RetentionKey))) (\<lambda>b.
     andThen (json_body b (dec_obj (\<lambda>k. map_option (\<lambda>t. (t, k ''result'')) (dec_str (k ''type'')))))
       (\<lambda>(t, result). ret (conf_value t result RetentionKey)))"

definition snapshots_conf :: "string \<Rightarrow> json" where
  "snapshots_conf r = JObj [(''snapshots'', JObj [(''automatic'', JObj [(''retention'', JStr r)])])]"

definition DisableAutomatic :: "unit go" where
  "DisableAutomatic = andThen retention (\<lambda>r.
     if r = RetentionDisabled then ret ()
     else andThen (do_http (SnapdPut (unix_url ''snaps/system/conf'') (snapshots_conf RetentionDisabled)))
       (\<lambda>resp. andThen (read_body resp) (\<lambda>b.
          if StatusCode resp \<noteq> 202
          then throw (Error (''cannot disable automatic snapshots: '' @ body_text b)) else ret ())))"

definition forget_request :: "int \<Rightarrow> json" where
  "forget_request i = JObj [(''action'', JStr ''forget''), (''set'', JNum i)]"

definition Forget :: "int \<Rightarrow> unit go" where
  "Forget i = andThen (do_http (SnapdPost (unix_url ''snapshots'') (forget_request i)))
     (\<lambda>resp. andThen (read_body resp) (\<lambda>b.
        if StatusCode resp \<noteq> 202
        then throw (Error (''cannot forget snapshot '' @ Itoa i @ '': '' @ body_text b)) else ret ()))"

definition Snapshots_List :: "snapshot_set list go" where
  "Snapshots_List = andThen (Snapd_Get (unix_url ''snapshots'')) (\<lambda>b. json_body b dec_snapshot_sets)"

definition ForgetAuto :: "unit go" where
  "ForgetAuto = andThen Snapshots_List (\<lambda>sets.
     forEach sets (\<lambda>s. if \<not> IsAuto s then ret () else Forget (set_Id s)))"

section \<open>Changes in progress\<close>

record task =
  task_Kind :: string
  task_Status :: string
  task_Done :: int
  task_Total :: int

record change =
  change_Id :: string
  change_Summary :: string
  change_Tasks :: "task list"

record installer_progress =
  ip_App :: string
  ip_Summary :: string
  ip_Indeterminate :: bool
  ip_Percentage :: int

definition CalcPercentage :: "int \<Rightarrow> int \<Rightarrow> int" where
  "CalcPercentage dn tot = (if tot \<le> 1 then 0 else go_div (int64 (dn * 100)) tot)"

text \<open>
  The pattern \<^verbatim>\<open>^.*? "(.*?)" .*\<close> on the first line of the summary (a dot does not match a
  newline): the text between the first blank followed by a quote and the next quote followed
  by a blank.
\<close>

definition first_line :: "string \<Rightarrow> string" where
  "first_line s = takeWhile (\<lambda>c. c \<noteq> CHR ''\<newline>'') s"

definition ParseApp :: "string \<Rightarrow> string" where
  "ParseApp summary =
     (case CutAt [CHR '' '', CHR 0x22] (first_line summary) of
        None \<Rightarrow> ''unknown''
      | Some (_, rest) \<Rightarrow> (case CutAt [CHR 0x22, CHR '' ''] rest of
            None \<Rightarrow> ''unknown'' | Some (app, _) \<Rightarrow> app))"

definition ParseAction :: "string \<Rightarrow> string" where
  "ParseAction summary =
     (case CutAt '' '' (first_line summary) of
        None \<Rightarrow> ''Unknown''
      | Some (act, _) \<Rightarrow>
          if act = ''Refresh'' then ''Upgrading''
          else if act = ''Install'' then ''Installing''
          else if act = ''Remove'' then ''Removing'' else ''Unknown'')"

definition InstallerProgress :: "change \<Rightarrow> installer_progress" where
  "InstallerProgress c =
     (case List.find (\<lambda>t. task_Status t = ''Doing'' \<and> task_Kind t = ''download-snap'') (change_Tasks c) of
        Some t \<Rightarrow> \<lparr>ip_App = ParseApp (change_Summary c), ip_Summary = ''Downloading'',
                   ip_Indeterminate = False, ip_Percentage = CalcPercentage (task_Done t) (task_Total t)\<rparr>
      | None \<Rightarrow> \<lparr>ip_App = ParseApp (change_Summary c), ip_Summary = ParseAction (change_Summary c),
                 ip_Indeterminate = True, ip_Percentage = 0\<rparr>)"

definition dec_task :: "json \<Rightarrow> task option" where
  "dec_task = dec_obj (\<lambda>k.
     case (dec_str (k ''kind''), dec_str (k ''status''), dec_str (k ''summary''),
           dec_obj (\<lambda>p. case (dec_int (p ''done''), dec_int (p ''total'')) of
               (Some d, Some t) \<Rightarrow> Some (d, t) | _ \<Rightarrow> None) (k ''progress'')) of
       (Some kd, Some st, Some _, Some (d, t)) \<Rightarrow>
         Some \<lparr>task_Kind = kd, task_Status = st, task_Done = d, task_Total = t\<rparr>
     | _ \<Rightarrow> None)"

definition dec_change :: "json \<Rightarrow> change option" where
  "dec_change = dec_obj (\<lambda>k.
     case (dec_str (k ''id''), dec_str (k ''summary''), dec_list dec_task (k ''tasks'')) of
       (Some i, Some s, Some ts) \<Rightarrow> Some \<lparr>change_Id = i, change_Summary = s, change_Tasks = ts\<rparr>
     | _ \<Rightarrow> None)"

definition is_seed_change :: "change \<Rightarrow> bool" where
  "is_seed_change c \<longleftrightarrow> change_Summary c = ''Initialize device''
                     \<or> change_Summary c = ''Initialize system state''"

text \<open>The status: whether something runs, and the progress per app (a later change of the same
  app overwrites an earlier one).\<close>

definition collect_changes :: "change list \<Rightarrow> bool \<times> (string \<rightharpoonup> installer_progress)" where
  "collect_changes cs = fold (\<lambda>c (running, m).
     if is_seed_change c then (running, m)
     else (True, m(ip_App (InstallerProgress c) \<mapsto> InstallerProgress c))) cs (False, Map.empty)"

definition Changes :: "(bool \<times> (string \<rightharpoonup> installer_progress)) go" where
  "Changes = andThen (Snapd_Get (unix_url ''changes?select=in-progress'')) (\<lambda>b.
     andThen (json_body b dec_server_response) (\<lambda>response.
       if sr_Status response \<noteq> ''OK''
       then andThen (decode dec_server_error (sr_Result response)) (\<lambda>m. throw (Error m))
       else andThen (decode (dec_list dec_change) (sr_Result response))
              (\<lambda>cs. ret (collect_changes cs))))"

section \<open>What the snap layer does to the world\<close>

lemma keeps_read_body [keeps_intros]: "keeps (within P) (read_body resp)"
  by (auto simp: read_body_def split: sum.splits intro!: keeps_intros)

lemma keeps_decode [keeps_intros]: "keeps (within P) (decode f j)"
  by (auto simp: decode_def split: option.splits intro!: keeps_intros)

lemma keeps_Snapd_Get [keeps_intros]: "P (SnapdGet url) \<Longrightarrow> keeps (within P) (Snapd_Get url)"
  unfolding Snapd_Get_def by (intro keeps_intros)

lemma keeps_Snaps [keeps_intros]: "P (SnapdGet (unix_url ''snaps'')) \<Longrightarrow> keeps (within P) Snaps"
  unfolding Snaps_def by (intro keeps_intros)

lemma keeps_InstalledVersion [keeps_intros]:
  "P (SnapdGet (unix_url ''system-info'')) \<Longrightarrow> keeps (within P) InstalledVersion"
  unfolding InstalledVersion_def by (intro keeps_intros)

lemma safe_read_body [safe_intros]: "safe (read_body resp)"
  by (auto simp: read_body_def split: sum.splits intro!: safe_intros)

lemma safe_Snapd_Get [safe_intros]: "safe (Snapd_Get url)"
  unfolding Snapd_Get_def by (intro safe_intros)

lemma safe_InstalledVersion [safe_intros]: "safe InstalledVersion"
  unfolding InstalledVersion_def by (intro safe_intros)

lemma follows_Cli_run [follows_intros]: "follows (Cli_run command name) [Exec ''snap'' [command, name]]"
  unfolding Cli_run_def using follows_andThen [OF follows_run_cmd follows_ret] by fastforce

lemmas cli_defs = Cli_Start_def Cli_Stop_def Cli_Run_def

definition event_calls :: "string \<Rightarrow> snap \<Rightarrow> call list" where
  "event_calls command s = (case FindCommand s command of
     Some cmd \<Rightarrow> [Exec ''snap'' [''run'', FullName cmd]] | None \<Rightarrow> [])"

lemma follows_event:
  "follows (case FindCommand s command of Some cmd \<Rightarrow> Cli_Run (FullName cmd) | None \<Rightarrow> ret ())
     (event_calls command s)"
  by (cases "FindCommand s command")
    (auto simp: event_calls_def Cli_Run_def intro!: follows_intros)

lemma follows_read_body [follows_intros]: "follows (read_body resp) []"
  by (auto simp: read_body_def split: sum.splits intro!: follows_intros)

lemma follows_guard [follows_intros]: "follows (if b then throw e else ret a) []"
  by (auto intro!: follows_intros)

lemma follows_Forget: "follows (Forget i) [SnapdPost (unix_url ''snapshots'') (forget_request i)]"
proof -
  have "follows (andThen (read_body resp) (\<lambda>b. if StatusCode resp \<noteq> 202 then throw (E b) else ret ())) []"
    for resp E
    using follows_andThen [OF follows_read_body follows_guard] by simp
  then show ?thesis
    unfolding Forget_def using follows_andThen [OF follows_do_http] by fastforce
qed

definition forget_calls :: "snapshot_set \<Rightarrow> call list" where
  "forget_calls s = (if IsAuto s then [SnapdPost (unix_url ''snapshots'') (forget_request (set_Id s))] else [])"

lemma concat_forget_calls:
  "concat (map forget_calls sets) =
     map (\<lambda>s. SnapdPost (unix_url ''snapshots'') (forget_request (set_Id s))) (filter IsAuto sets)"
  by (induction sets) (auto simp: forget_calls_def)

section \<open>Properties\<close>


definition one_snap_env :: environment where
  "one_snap_env = calm\<lparr>e_http := (\<lambda>_ _. Inr \<lparr>StatusCode = 200, resp_Status = [], Body = Inr \<lparr>body_text = [],
     body_json = Some (JObj [(''status'', JStr ''OK''), (''result'', JArr [JObj [(''name'', JStr ''files''),
       (''apps'', JArr [JObj [(''name'', JStr ''storage-change''), (''snap'', JStr ''files'')]])]])])\<rparr>\<rparr>)\<rparr>"


text \<open>
  \<open>ForgetAuto\<close> deletes exactly the automatic snapshot sets: every request it makes is for
  a set all of whose snapshots are automatic, in the listed order up to the first failure,
  and when it succeeds all such sets were requested. A set with a manual snapshot, or an
  empty one, is never deleted.
\<close>

lemma forget_auto_only_automatic:
  assumes "Snapshots_List w = (Ok sets, w1)" "ForgetAuto w = (r, w')"
  shows "\<exists>cs. w' = w1\<lparr>w_hist := w_hist w1 @ cs\<rparr>
     \<and> prefix cs (map (\<lambda>s. SnapdPost (unix_url ''snapshots'') (forget_request (set_Id s))) (filter IsAuto sets))
     \<and> (is_Ok r \<longrightarrow> length cs = length (filter IsAuto sets))"
proof -
  have f: "follows (if \<not> IsAuto s then ret () else Forget (set_Id s)) (forget_calls s)" for s
    by (auto simp: forget_calls_def follows_Forget intro!: follows_intros)
  have "forEach sets (\<lambda>s. if \<not> IsAuto s then ret () else Forget (set_Id s)) w1 = (r, w')"
    using assms by (simp add: ForgetAuto_def)
  from followsD [OF follows_forEach [OF f] this] show ?thesis
    by (auto simp: concat_forget_calls)
qed

definition two_sets_env :: environment where
  "two_sets_env = calm\<lparr>e_http := (\<lambda>_ _. Inr \<lparr>StatusCode = 202, resp_Status = [], Body = Inr \<lparr>body_text = [],
     body_json = Some (JObj [(''result'', JArr [
        JObj [(''id'', JNum 1), (''snapshots'', JArr [JObj [(''auto'', JBool True)]])],
        JObj [(''id'', JNum 2), (''snapshots'', JArr [JObj [(''auto'', JBool True)], JObj [(''auto'', JBool False)]])]])])\<rparr>\<rparr>)\<rparr>"

lemma forget_auto_only_automatic_example:
  "\<exists>cs. w_hist (snd (ForgetAuto (start_world two_sets_env))) = SnapdGet ''http://unix/v2/snapshots'' # cs
     \<and> prefix cs [SnapdPost ''http://unix/v2/snapshots'' (forget_request 1)]"
proof -
  let ?w = "start_world two_sets_env"
  let ?sets = "[\<lparr>set_Id = 1, set_Snapshots = [\<lparr>ss_Set = 0, ss_Snap = [], ss_Auto = True\<rparr>]\<rparr>,
     \<lparr>set_Id = 2, set_Snapshots = [\<lparr>ss_Set = 0, ss_Snap = [], ss_Auto = True\<rparr>,
        \<lparr>ss_Set = 0, ss_Snap = [], ss_Auto = False\<rparr>]\<rparr>]"
  have l: "Snapshots_List ?w = (Ok ?sets, record_call (SnapdGet ''http://unix/v2/snapshots'') ?w)"
    by (simp add: Snapshots_List_def Snapd_Get_def do_http_def start_world_def two_sets_env_def calm_def
        unix_url_def andThen_def read_body_def json_body_def dec_snapshot_sets_def jkey_def
        dec_snapshot_set_def dec_snapshot_def record_call_def in_bits_def)
  obtain r w' where rw: "ForgetAuto ?w = (r, w')" by (cases "ForgetAuto ?w")
  have "filter IsAuto ?sets = [hd ?sets]" by (simp add: IsAuto_def)
  with forget_auto_only_automatic [OF l rw] rw show ?thesis
    by (auto simp: unix_url_def start_world_def)
qed

text \<open>
  \<open>Find\<close> combines the installed snap with the store: an app that is only in the store
  has no installed version, one that is only installed is marked as a local install with no
  store version, one that is in both has both versions, and one that is in neither is the
  error "not found".
\<close>

lemma find_combines_store_and_installed:
  assumes "FindInstalled name w = (Ok inst, w1)" "FindInStore name w1 = (Ok store, w2)"
    and "db_ready (w_db w2)"
  shows "case fst (Find name w) of
      Err e \<Rightarrow> inst = None \<and> store = None \<and> e = Error ''not found''
    | Crash p \<Rightarrow> False
    | Ok app \<Rightarrow> (case inst of
          None \<Rightarrow> store = Some app
        | Some s \<Rightarrow> sa_Id (av_App app) = snap_Name s \<and> av_InstalledVersion app = Some (snap_Version s)
            \<and> av_LocalInstall app = (store = None)
            \<and> av_CurrentVersion app = (case store of None \<Rightarrow> None | Some st \<Rightarrow> av_CurrentVersion st))"
proof -
  have url: "\<exists>u. cfg (Url n) w2 = (Ok u, w2)" for n
    using assms(3) by (auto simp: cfg_def zoom_def Url_def io_simps)
  show ?thesis
  proof (cases inst)
    case None
    then show ?thesis using assms(1,2) by (cases store) (auto simp: Find_def)
  next
    case (Some s)
    obtain u where "cfg (Url (snap_Name s)) w2 = (Ok u, w2)" using url by blast
    then show ?thesis
      using assms(1,2) Some
      by (cases store) (auto simp: Find_def Let_def ToInstalledApp_def toSyncloudApp_def)
  qed
qed

definition no_snap_env :: environment where
  "no_snap_env = calm\<lparr>e_http := (\<lambda>_ c. Inr (if c = SnapdGet (unix_url ''snaps'')
     then \<lparr>StatusCode = 200, resp_Status = [], Body = Inr \<lparr>body_text = [], body_json = Some JNull\<rparr>\<rparr>
     else \<lparr>StatusCode = 404, resp_Status = [], Body = Inr \<lparr>body_text = [], body_json = None\<rparr>\<rparr>))\<rparr>"

lemma find_combines_store_and_installed_example:
  "\<not> is_Ok (fst (Find ''files'' (start_world no_snap_env)))"
proof -
  let ?w = "start_world no_snap_env"
  obtain w1 where w1: "FindInstalled ''files'' ?w = (Ok None, w1)" "only_calls ?w w1"
    by (auto simp: FindInstalled_def Snaps_def Snapd_Get_def do_http_def start_world_def
        no_snap_env_def calm_def unix_url_def andThen_def attempt_def read_body_def json_body_def
        dec_snaps_response_def record_call_def only_calls_def)
  then have e: "w_env w1 = no_snap_env" "w_db w1 = fresh_db"
    by (auto simp: only_calls_def start_world_def)
  obtain w2 where w2: "FindInStore ''files'' w1 = (Ok None, w2)" "only_calls w1 w2"
    using e by (auto simp: FindInStore_def find_snaps_def Snapd_Get_def do_http_def
        no_snap_env_def calm_def unix_url_def andThen_def attempt_def record_call_def only_calls_def)
  then have "db_ready (w_db w2)" using e by (auto simp: only_calls_def)
  from find_combines_store_and_installed [OF w1(1) w2(1) this] show ?thesis
    by (cases "fst (Find ''files'' ?w)") auto
qed

text \<open>
  The reported progress of a download is a percentage: for a task that has done between
  nothing and all of its work it lies between 0 and 100 and does not overflow, for every
  total up to \<open>2^63 / 100\<close>.
\<close>

lemma percentage_bounds:
  assumes "0 \<le> dn" "dn \<le> tot" "tot \<le> 92233720368547758"
  shows "0 \<le> CalcPercentage dn tot \<and> CalcPercentage dn tot \<le> 100
     \<and> (1 < tot \<longrightarrow> CalcPercentage dn tot = dn * 100 div tot)"
proof (cases "tot \<le> 1")
  case True
  then show ?thesis by (simp add: CalcPercentage_def)
next
  case False
  have "in_bits 64 (dn * 100)" using assms by (simp add: in_bits_def)
  then have eq: "CalcPercentage dn tot = dn * 100 div tot"
    using False assms by (simp add: CalcPercentage_def int64_id go_div_nonneg)
  have "dn * 100 div tot \<le> tot * 100 div tot"
    using assms False by (intro zdiv_mono1) auto
  then show ?thesis using eq assms False by (simp add: pos_imp_zdiv_nonneg_iff)
qed

lemma percentage_bounds_example: "CalcPercentage 3 4 = 75"
  using percentage_bounds [of 3 4] by simp

end
