(* ===== verification/Systemd.thy ===== *)
theory Systemd
  imports Snap
begin

text \<open>
  Control of systemd units (\<^verbatim>\<open>backend/systemd/control.go\<close>, \<^verbatim>\<open>journal.go\<close>): services, and the
  mount unit of the external disk. The directories of the platform
  (\<^verbatim>\<open>backend/config/system_config.go\<close>, an ini file) are a record of parameters.
\<close>

record sysconf =
  DiskLink :: string
  InternalDiskDir :: string
  ExternalDiskDir :: string
  ConfigDir :: string
  DataDir :: string
  DiskRoot :: string
  CommonDir :: string
  AppDir :: string
  Channel :: string
  SslCertificateFile :: string
  SslKeyFile :: string
  SslCaCertificateFile :: string
  SslCaKeyFile :: string

text \<open>
  The file is read by a library: \<open>parser section key\<close> is its interpolated value. A missing key
  ends the process, so the getters return only when all keys that are used are there.
\<close>

definition SystemConfig_get :: "(string \<Rightarrow> string \<Rightarrow> error + string) \<Rightarrow> string \<Rightarrow> string option" where
  "SystemConfig_get parser key = (case parser ''platform'' key of Inl _ \<Rightarrow> None | Inr v \<Rightarrow> Some v)"

definition sysconf_of :: "(string \<Rightarrow> string \<Rightarrow> error + string) \<Rightarrow> sysconf option" where
  "sysconf_of parser = (let k = SystemConfig_get parser in
     Option.bind (k ''data_dir'') (\<lambda>data. Option.bind (k ''disk_root'') (\<lambda>root.
     Option.bind (k ''common_dir'') (\<lambda>common. Option.bind (k ''app_dir'') (\<lambda>app.
     Option.bind (k ''config_dir'') (\<lambda>conf. Option.bind (k ''ssl_certificate_file'') (\<lambda>crt.
     Option.bind (k ''ssl_key_file'') (\<lambda>key. Option.bind (k ''ssl_ca_certificate_file'') (\<lambda>cacrt.
     Option.bind (k ''ssl_ca_key_file'') (\<lambda>cakey. Option.bind (k ''channel'') (\<lambda>channel.
     Option.bind (k ''disk_link'') (\<lambda>link. Option.bind (k ''external_disk_dir'') (\<lambda>ext.
     Option.bind (k ''internal_disk_dir'') (\<lambda>int.
       Some \<lparr>DiskLink = link, InternalDiskDir = int, ExternalDiskDir = ext, ConfigDir = conf, DataDir = data,
         DiskRoot = root, CommonDir = common, AppDir = app, Channel = channel, SslCertificateFile = crt,
         SslKeyFile = key, SslCaCertificateFile = cacrt, SslCaKeyFile = cakey\<rparr>))))))))))))))"

definition sample_conf :: sysconf where
  "sample_conf = \<lparr>DiskLink = ''/data'', InternalDiskDir = ''/i'', ExternalDiskDir = ''/e'', ConfigDir = ''/c'',
     DataDir = ''/d'', DiskRoot = ''/dr'', CommonDir = ''/cd'', AppDir = ''/a'', Channel = ''stable'', SslCertificateFile = ''/crt'', SslKeyFile = ''/key'', SslCaCertificateFile = ''/ca.crt'',
     SslCaKeyFile = ''/ca.key''\<rparr>"

section \<open>Units\<close>

definition systemd_Dir :: string where
  "systemd_Dir = ''/lib/systemd/system''"

definition serviceName :: "string \<Rightarrow> string" where
  "serviceName service = ''snap.'' @ service"

definition RestartService :: "string \<Rightarrow> unit go" where
  "RestartService service = andThen (run_cmd ''systemctl'' [''restart'', serviceName service]) (\<lambda>_. ret ())"

definition ReloadService :: "string \<Rightarrow> unit go" where
  "ReloadService service = andThen (run_cmd ''systemctl'' [''reload'', serviceName service]) (\<lambda>_. ret ())"

definition StopService :: "string \<Rightarrow> unit go" where
  "StopService service = andThen (run_cmd ''systemctl'' [''stop'', service]) (\<lambda>_. ret ())"

definition DisableService :: "string \<Rightarrow> unit go" where
  "DisableService service = andThen (run_cmd ''systemctl'' [''disable'', service]) (\<lambda>_. ret ())"

definition DaemonReload :: "unit go" where
  "DaemonReload = andThen (run_cmd ''systemctl'' [''daemon-reload'']) (\<lambda>_. ret ())"

definition DirToSystemdMountFilename :: "string \<Rightarrow> string" where
  "DirToSystemdMountFilename directory =
     Join (Split (TrimPrefix directory ''/'') CHR ''/'') ''-'' @ ''.mount''"

definition systemdFile :: "string \<Rightarrow> string" where
  "systemdFile filename = path_join [systemd_Dir, filename]"

text \<open>\<open>stop\<close> returns the state that decides whether the unit is removed.\<close>

definition unit_stop :: "string \<Rightarrow> string go" where
  "unit_stop service = andThen (CombinedOutput ''systemctl'' [''is-active'', service]) (\<lambda>(alive, err).
     case err of
       Some _ \<Rightarrow> ret (TrimSpace alive)
     | None \<Rightarrow> andThen (CombinedOutput ''systemctl'' [''stop'', service]) (\<lambda>(out, err2).
         case err2 of Some _ \<Rightarrow> ret (TrimSpace out) | None \<Rightarrow> ret (TrimSpace alive)))"

definition unit_remove :: "string \<Rightarrow> unit go" where
  "unit_remove filename = andThen (unit_stop filename) (\<lambda>status.
     if status \<in> {''unknown'', ''inactive'', ''failed''} then ret ()
     else andThen (run_cmd ''systemctl'' [''disable'', filename]) (\<lambda>_.
       andThen (attempt (do_sys ''stat'' [systemdFile filename])) (\<lambda>r.
         case r of Inl _ \<Rightarrow> ret () | Inr _ \<Rightarrow> do_sys ''remove'' [systemdFile filename])))"

definition RemoveMount :: "sysconf \<Rightarrow> unit go" where
  "RemoveMount c = unit_remove (DirToSystemdMountFilename (ExternalDiskDir c))"

definition unit_start :: "string \<Rightarrow> unit go" where
  "unit_start service = andThen (CombinedOutput ''systemctl'' [''start'', service]) (\<lambda>(out, err).
     case err of
       None \<Rightarrow> ret ()
     | Some e \<Rightarrow> andThen (CombinedOutput ''journalctl'' [''-u'', service]) (\<lambda>_. throw e))"

text \<open>The template is parsed, the unit file written and closed, the unit enabled and started.\<close>

definition AddMount :: "sysconf \<Rightarrow> string \<Rightarrow> unit go" where
  "AddMount c device =
     (let mountFilename = DirToSystemdMountFilename (ExternalDiskDir c);
          systemdFilename = systemdFile mountFilename in
      andThen (do_sys ''template'' [path_join [ConfigDir c, ''mount'', ''mount.template'']]) (\<lambda>_.
      andThen (do_sys ''create'' [systemdFilename]) (\<lambda>_.
      andThen (do_sys ''write'' [systemdFilename, device, ExternalDiskDir c]) (\<lambda>_.
      andThen (do_sys ''close'' [systemdFilename]) (\<lambda>_.
      andThen (run_cmd ''systemctl'' [''enable'', mountFilename]) (\<lambda>_.
        unit_start mountFilename))))))"

section \<open>The journal\<close>

text \<open>The newest line first: the loop swaps the list in place.\<close>

definition swap_at :: "nat \<Rightarrow> nat \<Rightarrow> 'a list \<Rightarrow> 'a list" where
  "swap_at i j xs = xs[i := xs ! j, j := xs ! i]"

definition reverse_in_place :: "'a list \<Rightarrow> 'a list" where
  "reverse_in_place logs = fold (\<lambda>i xs. swap_at i (length logs - 1 - i) xs) [0..<length logs div 2] logs"

definition Journal_read :: "(string \<Rightarrow> bool) \<Rightarrow> string list \<Rightarrow> string list go" where
  "Journal_read predicate args =
     andThen (CombinedOutput ''journalctl'' (args @ [''-n'', ''1000'', ''--no-pager''])) (\<lambda>(out, err).
       case err of
         Some e \<Rightarrow> ret [err_text e]
       | None \<Rightarrow> ret (reverse_in_place (filter predicate (Split out CHR ''\<newline>''))))"

definition ReadAll :: "(string \<Rightarrow> bool) \<Rightarrow> string list go" where
  "ReadAll predicate = Journal_read predicate []"

definition ReadBackend :: "(string \<Rightarrow> bool) \<Rightarrow> string list go" where
  "ReadBackend predicate = Journal_read predicate [''-u'', ''snap.platform.backend'']"

lemma swap_prefix_nth:
  assumes "n \<le> length xs div 2" "k < length xs"
  shows "fold (\<lambda>i ys. swap_at i (length xs - 1 - i) ys) [0..<n] xs ! k =
     (if k < n \<or> length xs - 1 - k < n then xs ! (length xs - 1 - k) else xs ! k)
   \<and> length (fold (\<lambda>i ys. swap_at i (length xs - 1 - i) ys) [0..<n] xs) = length xs"
  using assms
proof (induction n arbitrary: k)
  case (Suc n)
  let ?f = "fold (\<lambda>i ys. swap_at i (length xs - 1 - i) ys) [0..<n] xs"
  have len: "length ?f = length xs" using Suc.IH [of k] Suc.prems by simp
  have n: "?f ! n = xs ! n" "?f ! (length xs - 1 - n) = xs ! (length xs - 1 - n)"
    using Suc.IH [of n] Suc.IH [of "length xs - 1 - n"] Suc.prems by auto
  have "fold (\<lambda>i ys. swap_at i (length xs - 1 - i) ys) [0..<Suc n] xs = swap_at n (length xs - 1 - n) ?f"
    by simp
  then show ?case
    using Suc.IH [of k] Suc.prems n len
    by (auto simp: swap_at_def nth_list_update)
qed simp

lemma reverse_in_place_rev: "reverse_in_place xs = rev xs"
proof (rule nth_equalityI)
  let ?r = "reverse_in_place xs"
  show len: "length ?r = length (rev xs)"
    using swap_prefix_nth [of "length xs div 2" xs 0] by (cases xs) (auto simp: reverse_in_place_def)
  fix k assume "k < length ?r"
  then have k: "k < length xs" using len by simp
  have "k < length xs div 2 \<or> length xs - 1 - k < length xs div 2 \<or> k = length xs - 1 - k" using k by arith
  then show "?r ! k = rev xs ! k"
    using swap_prefix_nth [of "length xs div 2" xs k] k
    by (auto simp: reverse_in_place_def rev_nth)
qed

section \<open>Frames\<close>

definition systemd_call :: "call \<Rightarrow> bool" where
  "systemd_call c = (case c of
     Exec cmd as \<Rightarrow> cmd = ''systemctl'' \<or> cmd = ''journalctl''
   | Sys f as \<Rightarrow> f \<in> {''template'', ''create'', ''write'', ''close'', ''stat'', ''remove''}
   | _ \<Rightarrow> False)"

lemma keeps_AddMount: "keeps (within systemd_call) (AddMount c device)"
  unfolding AddMount_def Let_def unit_start_def
  by (intro keeps_intros) (auto simp: systemd_call_def split: prod.splits option.splits intro!: keeps_intros)

lemma keeps_RemoveMount: "keeps (within systemd_call) (RemoveMount c)"
  unfolding RemoveMount_def unit_remove_def unit_stop_def
  by (intro keeps_intros) (auto simp: systemd_call_def split: prod.splits option.splits sum.splits intro!: keeps_intros)

lemma safe_AddMount [safe_intros]: "safe (AddMount c device)"
  unfolding AddMount_def Let_def unit_start_def
  by (intro safe_intros) (auto split: prod.splits option.splits intro!: safe_intros)

lemma safe_RemoveMount [safe_intros]: "safe (RemoveMount c)"
  unfolding RemoveMount_def unit_remove_def unit_stop_def
  by (intro safe_intros) (auto split: prod.splits option.splits sum.splits intro!: safe_intros)

end
