(* ===== verification/Settings_Readers.thy ===== *)
theory Settings_Readers
  imports World
begin

text \<open>
  The settings operations that only read: the database is the same after them, whatever their
  outcome, so they keep every reflexive relation on the world.
\<close>

text \<open>Readers leave the database alone whatever happens.\<close>

definition same_db :: "world \<Rightarrow> world \<Rightarrow> bool" where
  "same_db w w' \<longleftrightarrow> w_db w' = w_db w"

lemma reflp_same_db [simp, keeps_intros]: "reflp same_db"
  by (simp add: reflp_def same_db_def)

lemma transp_same_db [simp, keeps_intros]: "transp same_db"
  by (simp add: transp_def same_db_def)

lemma within_same_db: "keeps (within P) m \<Longrightarrow> keeps same_db m"
  by (auto simp: keeps_def within_def same_db_def) (metis world.select_convs(1) world.surjective world.update_convs(2))

named_theorems reads \<open>settings operations that only read\<close>

definition only_reads :: "'a cfg \<Rightarrow> bool" where
  "only_reads m \<longleftrightarrow> (\<forall>d. snd (m d) = d)"

lemma only_reads_get: "only_reads (Db_GetOrNilString k)"
  by (auto simp: only_reads_def Db_GetOrNilString_def or_fatal_def andThen_def attempt_def on_table_def
      split: option.splits)

lemma only_reads_ret: "only_reads (ret a)" "only_reads (throw e)"
  by (simp_all add: only_reads_def)

lemma only_reads_andThen: "only_reads m \<Longrightarrow> (\<And>a. only_reads (k a)) \<Longrightarrow> only_reads (andThen m k)"
  unfolding only_reads_def andThen_def by (auto split: prod.splits res.splits) (metis snd_conv)+

lemma only_reads_case_option:
  "only_reads n \<Longrightarrow> (\<And>a. only_reads (s a)) \<Longrightarrow> only_reads (case x of None \<Rightarrow> n | Some a \<Rightarrow> s a)"
  by (cases x) auto

lemmas only_reads_intros = only_reads_get only_reads_ret only_reads_andThen only_reads_case_option

lemma only_reads_db [reads]:
  "only_reads (Db_Get k d)" "only_reads (Db_GetBool k b)" "only_reads (Db_GetOrDefaultString k d)"
  "only_reads (Db_GetOrNilInt k)" "only_reads (Db_GetStringOrError k)"
  unfolding Db_Get_def Db_GetBool_def Db_GetOrDefaultString_def Db_GetOrNilInt_def Db_GetStringOrError_def
  by (intro only_reads_intros)+

lemma only_reads_settings [reads]:
  "only_reads IsRedirectEnabled" "only_reads IsMailRelayEnabled" "only_reads IsRelayEnabled"
  "only_reads IsIpv4Enabled" "only_reads IsIpv4Public" "only_reads IsIpv6Enabled" "only_reads IsActivated"
  "only_reads GetDomainUpdateToken" "only_reads GetDkimKey" "only_reads GetMailInboundSocket"
  "only_reads GetPublicIp" "only_reads GetPublicPort" "only_reads IsCertbotStaging"
  unfolding IsRedirectEnabled_def IsMailRelayEnabled_def IsRelayEnabled_def IsIpv4Enabled_def IsIpv4Public_def
    IsIpv6Enabled_def IsActivated_def GetDomainUpdateToken_def GetDkimKey_def GetMailInboundSocket_def
    GetPublicIp_def GetPublicPort_def IsCertbotStaging_def
  by (intro reads only_reads_intros)+

lemma only_reads_domains [reads]:
  "only_reads GetDeviceDomain" "only_reads Redirect_Domain" "only_reads Redirect_ApiUrl"
  "only_reads Redirect_UserEmail" "only_reads Redirect_UserUpdateToken"
  unfolding GetDeviceDomain_def getDomain_def GetCustomDomain_def IsRedirectEnabled_def Redirect_Domain_def
    Redirect_ApiUrl_def Redirect_UserEmail_def Redirect_UserUpdateToken_def
  by (auto intro!: reads only_reads_intros split: if_splits option.splits)

lemma cfg_read: "only_reads m \<Longrightarrow> \<exists>r. cfg m w = (r, w)"
  by (cases "m (w_db w)") (auto simp: only_reads_def cfg_def zoom_def, metis snd_conv w_db_same)

lemma keeps_cfg_read: "only_reads m \<Longrightarrow> reflp R \<Longrightarrow> keeps R (cfg m)"
  unfolding keeps_def using cfg_read [of m] by (metis reflpD snd_conv)

end
