(* ===== verification/Base64.thy ===== *)
theory Base64
  imports Go_Prelude
begin

text \<open>
  \<^verbatim>\<open>encoding/base64\<close> as the sources use it: the standard encoding with padding for password
  hashes, and the unpadded URL encoding for random strings, code challenges and the payload
  of tokens. The decoder skips line breaks and ignores the unused low bits of the last
  character, as Go's does outside strict mode.
\<close>

definition std_alphabet :: string where
  "std_alphabet = ''ABCDEFGHIJKLMNOPQRSTUVWXYZabcdefghijklmnopqrstuvwxyz0123456789+/''"

definition url_alphabet :: string where
  "url_alphabet = ''ABCDEFGHIJKLMNOPQRSTUVWXYZabcdefghijklmnopqrstuvwxyz0123456789-_''"

fun sextets :: "nat list \<Rightarrow> nat list" where
  "sextets [] = []"
| "sextets [x] = [x div 4, (x mod 4) * 16]"
| "sextets [x, y] = [x div 4, (x mod 4) * 16 + y div 16, (y mod 16) * 4]"
| "sextets (x # y # z # r) =
     [x div 4, (x mod 4) * 16 + y div 16, (y mod 16) * 4 + z div 64, z mod 64] @ sextets r"

fun octets :: "nat list \<Rightarrow> nat list option" where
  "octets [] = Some []"
| "octets [a] = None"
| "octets [a, b] = Some [a * 4 + b div 16]"
| "octets [a, b, c] = Some [a * 4 + b div 16, (b mod 16) * 16 + c div 4]"
| "octets (a # b # c # d # r) =
     map_option (\<lambda>bs. [a * 4 + b div 16, (b mod 16) * 16 + c div 4, (c mod 4) * 64 + d] @ bs) (octets r)"

definition bytes :: "string \<Rightarrow> nat list" where
  "bytes s = map of_char s"

definition RawEncode :: "string \<Rightarrow> string \<Rightarrow> string" where
  "RawEncode alphabet s = map (\<lambda>n. alphabet ! n) (sextets (bytes s))"

definition StdEncode :: "string \<Rightarrow> string" where
  "StdEncode s = (let e = RawEncode std_alphabet s in e @ replicate ((4 - length e mod 4) mod 4) CHR ''='')"

definition RawURLEncode :: "string \<Rightarrow> string" where
  "RawURLEncode s = RawEncode url_alphabet s"

definition sextet_of :: "char \<Rightarrow> nat option" where
  "sextet_of c = (let i = length (takeWhile (\<lambda>a. a \<noteq> c) url_alphabet) in if i < 64 then Some i else None)"

definition RawURLDecode :: "string \<Rightarrow> string option" where
  "RawURLDecode s = (case those (map sextet_of (filter (\<lambda>c. c \<noteq> CHR 0x0D \<and> c \<noteq> CHR 0x0A) s)) of
     None \<Rightarrow> None | Some ds \<Rightarrow> map_option (map char_of) (octets ds))"

section \<open>Decoding inverts encoding\<close>

lemma sextets_less: "list_all (\<lambda>b. b < 256) bs \<Longrightarrow> list_all (\<lambda>n. n < 64) (sextets bs)"
  by (induction bs rule: sextets.induct) auto

lemma octets_sextets: "list_all (\<lambda>b. b < 256) bs \<Longrightarrow> octets (sextets bs) = Some bs"
proof (induction bs rule: sextets.induct)
  case (3 x y)
  then have "y div 16 < 16" by auto
  then show ?case by simp
next
  case (4 x y z r)
  have "z div 64 < 4" "y div 16 < 16" using 4(2) by auto
  then have "(y mod 16 * 4 + z div 64) div 4 = y mod 16" "(y mod 16 * 4 + z div 64) mod 4 = z div 64"
    by simp_all
  moreover from \<open>y div 16 < 16\<close> have "((x mod 4) * 16 + y div 16) div 16 = x mod 4" "((x mod 4) * 16 + y div 16) mod 16 = y div 16"
    by simp_all
  ultimately show ?case using 4 by simp
qed simp_all

lemma url_alphabet_length [simp]: "length url_alphabet = 64"
  by (simp add: url_alphabet_def)

lemma sextet_of_nth: "n < 64 \<Longrightarrow> sextet_of (url_alphabet ! n) = Some n"
proof -
  have "list_all (\<lambda>n. sextet_of (url_alphabet ! n) = Some n) [0..<64]" by code_simp
  then show "n < 64 \<Longrightarrow> sextet_of (url_alphabet ! n) = Some n" by (simp add: list_all_iff)
qed

lemma url_alphabet_no_break: "n < 64 \<Longrightarrow> url_alphabet ! n \<noteq> CHR 0x0D \<and> url_alphabet ! n \<noteq> CHR 0x0A"
proof -
  have "list_all (\<lambda>n. url_alphabet ! n \<noteq> CHR 0x0D \<and> url_alphabet ! n \<noteq> CHR 0x0A) [0..<64]" by code_simp
  then show "n < 64 \<Longrightarrow> url_alphabet ! n \<noteq> CHR 0x0D \<and> url_alphabet ! n \<noteq> CHR 0x0A" by (simp add: list_all_iff)
qed

lemma those_map_Some: "list_all (\<lambda>x. f (g x) = Some x) xs \<Longrightarrow> those (map f (map g xs)) = Some xs"
  by (induction xs) auto

lemma RawURLDecode_Encode: "RawURLDecode (RawURLEncode s) = Some s"
proof -
  have bs: "list_all (\<lambda>b. b < 256) (bytes s)" by (simp add: bytes_def list_all_iff)
  have less: "list_all (\<lambda>n. n < 64) (sextets (bytes s))" using sextets_less [OF bs] .
  have e: "RawURLEncode s = map (\<lambda>n. url_alphabet ! n) (sextets (bytes s))"
    by (simp add: RawURLEncode_def RawEncode_def)
  have "filter (\<lambda>c. c \<noteq> CHR 0x0D \<and> c \<noteq> CHR 0x0A) (RawURLEncode s) = RawURLEncode s"
    using less unfolding e by (intro filter_True) (auto simp: list_all_iff url_alphabet_no_break)
  moreover have "those (map sextet_of (RawURLEncode s)) = Some (sextets (bytes s))"
    unfolding e using less by (intro those_map_Some) (auto simp: list_all_iff sextet_of_nth)
  ultimately show ?thesis
    using octets_sextets [OF bs] by (simp add: RawURLDecode_def bytes_def comp_def)
qed

lemma length_sextets: "length (sextets bs) = (4 * length bs + 2) div 3"
  by (induction bs rule: sextets.induct) auto

lemma RawURLEncode_alphabet: "set (RawURLEncode s) \<subseteq> set url_alphabet"
proof -
  have "list_all (\<lambda>b. b < 256) (bytes s)" by (simp add: bytes_def list_all_iff)
  then have "\<forall>n \<in> set (sextets (bytes s)). url_alphabet ! n \<in> set url_alphabet"
    using sextets_less by (metis list_all_iff nth_mem url_alphabet_length)
  then show ?thesis by (auto simp: RawURLEncode_def RawEncode_def)
qed

lemma RawURLEncode_no_dot: "CHR ''.'' \<notin> set (RawURLEncode s)"
  using RawURLEncode_alphabet [of s] by (auto simp: url_alphabet_def)

end
