(* ===== verification/Accounts.thy ===== *)
theory Accounts
  imports Systemd Settings_Readers Base64
begin

text \<open>
  Users and groups in the LDAP directory (\<^verbatim>\<open>backend/auth\<close>): validators, password hashes, the
  user and group managers and the check of a login. The server is reached by calls: a search
  returns entries with the values of their attributes, changes return an error or nothing.
  Closing a connection has no effect here.
\<close>

section \<open>Names\<close>

definition Domain_dn :: string where "Domain_dn = ''dc=syncloud,dc=org''"

definition UsersDn :: string where "UsersDn = ''ou=users,dc=syncloud,dc=org''"

definition GroupsDn :: string where "GroupsDn = ''ou=groups,dc=syncloud,dc=org''"

definition AdminGroup :: string where "AdminGroup = ''syncloud''"

definition AdminGroupDn :: string where "AdminGroupDn = ''cn=syncloud,ou=groups,dc=syncloud,dc=org''"

definition posixIdStart :: int where "posixIdStart = 2000"

definition group_dn :: "string \<Rightarrow> string" where
  "group_dn g = ''cn='' @ g @ '','' @ GroupsDn"

definition user_dn :: "string \<Rightarrow> string" where
  "user_dn u = ''cn='' @ u @ '',ou=users,'' @ Domain_dn"

section \<open>Validation\<close>

definition username_char :: "char \<Rightarrow> bool" where
  "username_char c \<longleftrightarrow> is_lower c \<or> is_digit c \<or> c \<in> {CHR ''.'', CHR ''_'', CHR ''-''}"

text \<open>\<^verbatim>\<open>^[a-z][a-z0-9._-]{1,31}$\<close>\<close>

definition usernameRegexp :: "string \<Rightarrow> bool" where
  "usernameRegexp s \<longleftrightarrow> s \<noteq> [] \<and> is_lower (hd s) \<and> list_all username_char (tl s)
     \<and> 1 \<le> length (tl s) \<and> length (tl s) \<le> 31"

definition Username_Validate :: "string \<Rightarrow> unit go" where
  "Username_Validate username =
     (if username = [] then throw (Error ''username is required'')
      else if \<not> usernameRegexp username
      then throw (Error ''username must be 2-32 characters, start with a lowercase letter and contain only lowercase letters, numbers, dots, dashes and underscores'')
      else ret ())"

definition passwordMinLength :: nat where "passwordMinLength = 8"

text \<open>\<^verbatim>\<open>unicode.IsLetter\<close> and \<^verbatim>\<open>unicode.IsDigit\<close>; the tables beyond ASCII are parameters.\<close>

definition IsLetter :: "environment \<Rightarrow> nat \<Rightarrow> bool" where
  "IsLetter e r = (if r < 128 then is_lower (char_of r) \<or> is_upper (char_of r) else e_letter e r)"

definition IsDigit :: "environment \<Rightarrow> nat \<Rightarrow> bool" where
  "IsDigit e r = (if r < 128 then is_digit (char_of r) else e_digit e r)"

definition Password_Validate :: "string \<Rightarrow> unit go" where
  "Password_Validate password = andThen (gets w_env) (\<lambda>e.
     if length password < passwordMinLength
     then throw (Error (''password must be at least '' @ nat_dec passwordMinLength @ '' characters''))
     else if \<not> list_ex (IsLetter e) (runes_of password) then throw (Error ''password must contain a letter'')
     else if \<not> list_ex (\<lambda>r. \<not> IsLetter e r \<and> IsDigit e r) (runes_of password) then throw (Error ''password must contain a number'')
     else ret ())"

text \<open>\<^verbatim>\<open>^[^@\s]+@[^@\s]+\.[^@\s]+$\<close>: one at sign, and a dot inside what follows it.\<close>

definition regexp_space :: "char \<Rightarrow> bool" where
  "regexp_space c \<longleftrightarrow> (of_char c :: nat) \<in> {9, 10, 12, 13, 32}"

definition emailRegexp :: "string \<Rightarrow> bool" where
  "emailRegexp s = (case Split s CHR ''@'' of
     [local, domain] \<Rightarrow> local \<noteq> [] \<and> CHR ''.'' \<in> set (butlast (tl domain)) \<and> \<not> list_ex regexp_space s
   | _ \<Rightarrow> False)"

definition Email_Resolve :: "string \<Rightarrow> string \<Rightarrow> string go" where
  "Email_Resolve username email =
     (let email' = TrimSpace email in
      if email' = [] then andThen (cfg GetDeviceDomain) (\<lambda>domain. ret (username @ ''@'' @ domain))
      else if \<not> emailRegexp email' then throw (Error (''invalid email address: '' @ email'))
      else ret email')"

text \<open>The salted SHA-1 scheme of OpenLDAP; without random bytes the salt is fixed.\<close>

definition Hash :: "string \<Rightarrow> string go" where
  "Hash password =
     andThen (attempt (do_str (Sys ''rand'' [''4'']))) (\<lambda>r.
     let salt = (case r of Inl _ \<Rightarrow> ''salt'' | Inr s \<Rightarrow> s) in
     andThen (gets (\<lambda>w. e_sha1 (w_env w))) (\<lambda>sha1.
       ret (''{SSHA}'' @ StdEncode (sha1 (password @ salt) @ salt))))"

section \<open>The LDAP connection\<close>

definition Connect :: "unit go" where
  "Connect = andThen (wrap_err ''ldap connect: '' (do_sys ''ldap-dial'' [''ldap://localhost:389''])) (\<lambda>_.
     wrap_err ''ldap root bind: '' (do_sys ''ldap-bind'' [Domain_dn, ''syncloud'']))"

type_synonym ldap_entry = "(string \<times> string list) list"

definition GetAttributeValues :: "ldap_entry \<Rightarrow> string \<Rightarrow> string list" where
  "GetAttributeValues e a = (case map_of e a of None \<Rightarrow> [] | Some vs \<Rightarrow> vs)"

definition GetAttributeValue :: "ldap_entry \<Rightarrow> string \<Rightarrow> string" where
  "GetAttributeValue e a = (case GetAttributeValues e a of [] \<Rightarrow> '''' | v # _ \<Rightarrow> v)"

text \<open>The next free id of the entries of a scan: one more than the largest, at least the start.\<close>

definition next_id :: "string \<Rightarrow> ldap_entry list \<Rightarrow> int" where
  "next_id attr entries = foldl (\<lambda>next e. case Atoi (GetAttributeValue e attr) of
       Some i \<Rightarrow> if next \<le> i then int64 (i + 1) else next
     | None \<Rightarrow> next) posixIdStart entries"

definition ldap_add :: "string \<Rightarrow> (string \<times> string list) list \<Rightarrow> call" where
  "ldap_add dn attrs = Sys ''ldap-add'' (dn # concat (map (\<lambda>(a, vs). map (\<lambda>v. a @ '': '' @ v) vs) attrs))"

section \<open>Groups\<close>

record user_group =
  g_Name :: string
  g_Members :: "string list"

definition listGroups :: "user_group list go" where
  "listGroups =
     andThen (wrap_err ''ldap list groups: '' (do_ldap (Sys ''ldap-search''
        [GroupsDn, ''sub'', ''(objectClass=posixGroup)'', ''cn'', ''memberUid'', ''gidNumber'']))) (\<lambda>entries.
       ret (map (\<lambda>e. \<lparr>g_Name = GetAttributeValue e ''cn'', g_Members = GetAttributeValues e ''memberUid''\<rparr>) entries))"

definition ListGroups :: "user_group list go" where
  "ListGroups = andThen Connect (\<lambda>_. listGroups)"

text \<open>\<^verbatim>\<open>^[a-zA-Z0-9._-]+$\<close>\<close>

definition groupNameRegexp :: "string \<Rightarrow> bool" where
  "groupNameRegexp s \<longleftrightarrow> s \<noteq> [] \<and> list_all (\<lambda>c. username_char c \<or> is_upper c) s"

definition nextGid :: "int go" where
  "nextGid = andThen (wrap_err ''ldap gid scan: '' (do_ldap (Sys ''ldap-search''
      [GroupsDn, ''sub'', ''(objectClass=posixGroup)'', ''gidNumber'']))) (\<lambda>entries.
     ret (next_id ''gidNumber'' entries))"

definition AddGroup :: "string \<Rightarrow> unit go" where
  "AddGroup name =
     (if \<not> groupNameRegexp name then throw (Error (''invalid group name: '' @ name))
      else andThen Connect (\<lambda>_.
        andThen nextGid (\<lambda>gid.
          wrap_err ''ldap add group: '' (do_unit (ldap_add (group_dn name)
            [(''objectClass'', [''posixGroup'', ''top'']), (''cn'', [name]), (''gidNumber'', [Itoa gid])])))))"

definition RemoveGroup :: "string \<Rightarrow> unit go" where
  "RemoveGroup name =
     (if name = AdminGroup then throw (Error ''cannot remove admin group'')
      else andThen Connect (\<lambda>_.
        wrap_err ''ldap remove group: '' (do_sys ''ldap-del'' [group_dn name])))"

definition search_members :: "string \<Rightarrow> call" where
  "search_members g = Sys ''ldap-search'' [group_dn g, ''base'', ''(objectClass=posixGroup)'', ''memberUid'']"

definition groupMembers :: "string \<Rightarrow> string list go" where
  "groupMembers grp =
     andThen (wrap_err ''ldap group members: '' (do_ldap (search_members grp))) (\<lambda>entries.
       case entries of
         [] \<Rightarrow> throw (Error (''group not found: '' @ grp))
       | e # _ \<Rightarrow> ret (GetAttributeValues e ''memberUid''))"

definition modify_member :: "string \<Rightarrow> string \<Rightarrow> string \<Rightarrow> call" where
  "modify_member op grp username = Sys ''ldap-modify'' [group_dn grp, op, ''memberUid'', username]"

definition addMember :: "string \<Rightarrow> string \<Rightarrow> unit go" where
  "addMember grp username = andThen (groupMembers grp) (\<lambda>members.
     if username \<in> set members then ret ()
     else wrap_err ''ldap add group member: '' (do_unit (modify_member ''add'' grp username)))"

definition removeMember :: "string \<Rightarrow> string \<Rightarrow> unit go" where
  "removeMember grp username = andThen (groupMembers grp) (\<lambda>members.
     if username \<notin> set members then ret ()
     else wrap_err ''ldap remove group member: '' (do_unit (modify_member ''delete'' grp username)))"

definition AddGroupMember :: "string \<Rightarrow> string \<Rightarrow> unit go" where
  "AddGroupMember grp username = andThen Connect (\<lambda>_. addMember grp username)"

definition RemoveGroupMember :: "string \<Rightarrow> string \<Rightarrow> unit go" where
  "RemoveGroupMember grp username = andThen Connect (\<lambda>_. removeMember grp username)"

definition Members :: "string \<Rightarrow> string list go" where
  "Members grp = andThen Connect (\<lambda>_. groupMembers grp)"

section \<open>Users\<close>

record user =
  u_Username :: string
  u_Email :: string
  u_Admin :: bool
  u_Groups :: "string list"

definition user_Build :: "string \<Rightarrow> string \<Rightarrow> int \<Rightarrow> string \<Rightarrow> call go" where
  "user_Build username email i password = andThen (Hash password) (\<lambda>hash.
     ret (ldap_add (''cn='' @ username @ '','' @ UsersDn)
       [(''objectClass'', [''person'', ''inetOrgPerson'', ''posixAccount'', ''simpleSecurityObject'']),
        (''cn'', [username]), (''sn'', [username]), (''givenName'', [username]), (''displayName'', [username]),
        (''uid'', [username]), (''uidNumber'', [Itoa i]), (''gidNumber'', [Itoa i]),
        (''homeDirectory'', [''/home/'' @ username]), (''loginShell'', [''/bin/bash'']), (''mail'', [email]),
        (''userPassword'', [hash])]))"

definition nextUid :: "int go" where
  "nextUid = andThen (wrap_err ''ldap uid scan: '' (do_ldap (Sys ''ldap-search''
      [UsersDn, ''sub'', ''(objectClass=posixAccount)'', ''uidNumber'']))) (\<lambda>entries.
     ret (next_id ''uidNumber'' entries))"

definition AddUser :: "string \<Rightarrow> string \<Rightarrow> string \<Rightarrow> bool \<Rightarrow> unit go" where
  "AddUser username password email admin =
     andThen (Username_Validate username) (\<lambda>_.
     andThen (Password_Validate password) (\<lambda>_.
     andThen (Email_Resolve username email) (\<lambda>resolvedEmail.
     andThen Connect (\<lambda>_.
     andThen nextUid (\<lambda>i.
     andThen (user_Build username resolvedEmail i password) (\<lambda>req.
     andThen (wrap_err ''ldap add user: '' (do_unit req)) (\<lambda>_.
       if admin then AddGroupMember AdminGroup username else ret ())))))))"

definition replace_attribute :: "string \<Rightarrow> string \<Rightarrow> string \<Rightarrow> call" where
  "replace_attribute username attr v = Sys ''ldap-modify'' [user_dn username, ''replace'', attr, v]"

definition SetUserEmail :: "string \<Rightarrow> string \<Rightarrow> unit go" where
  "SetUserEmail username email =
     andThen (Email_Resolve username email) (\<lambda>resolvedEmail.
     andThen Connect (\<lambda>_.
       wrap_err ''ldap set email: '' (do_unit (replace_attribute username ''mail'' resolvedEmail))))"

definition SetPassword :: "string \<Rightarrow> string \<Rightarrow> unit go" where
  "SetPassword username password =
     andThen (Password_Validate password) (\<lambda>_.
     andThen Connect (\<lambda>_.
     andThen (Hash password) (\<lambda>hash.
       wrap_err ''ldap set password: '' (do_unit (replace_attribute username ''userPassword'' hash)))))"

definition memberships :: "user_group list \<Rightarrow> string \<Rightarrow> string list" where
  "memberships groups username =
     concat (map (\<lambda>g. map (\<lambda>_. g_Name g) (filter (\<lambda>m. m = username) (g_Members g))) groups)"

definition user_of_entry :: "user_group list \<Rightarrow> ldap_entry \<Rightarrow> user" where
  "user_of_entry groups e =
     (let username = GetAttributeValue e ''cn''; userGroups = memberships groups username in
      \<lparr>u_Username = username, u_Email = GetAttributeValue e ''mail'', u_Admin = (AdminGroup \<in> set userGroups),
       u_Groups = filter (\<lambda>g. g \<noteq> AdminGroup) userGroups\<rparr>)"

definition ListUsers :: "user list go" where
  "ListUsers =
     andThen ListGroups (\<lambda>groups.
     andThen Connect (\<lambda>_.
     andThen (wrap_err ''ldap list users: '' (do_ldap (Sys ''ldap-search''
        [UsersDn, ''sub'', ''(objectClass=inetOrgPerson)'', ''cn'', ''mail'']))) (\<lambda>entries.
       ret (map (user_of_entry groups) entries))))"

definition RemoveUser :: "string \<Rightarrow> unit go" where
  "RemoveUser username = andThen Connect (\<lambda>_.
     wrap_err ''ldap delete user: '' (do_sys ''ldap-del'' [user_dn username]))"

definition SetAdmin :: "string \<Rightarrow> bool \<Rightarrow> unit go" where
  "SetAdmin username admin =
     (if admin then AddGroupMember AdminGroup username
      else andThen (Members AdminGroup) (\<lambda>members.
        if length members \<le> 1 \<and> username \<in> set members then throw (Error ''cannot remove the last admin'')
        else RemoveGroupMember AdminGroup username))"

definition IsAdmin :: "string \<Rightarrow> bool go" where
  "IsAdmin username = andThen (Members AdminGroup) (\<lambda>members. ret (username \<in> set members))"

section \<open>Login\<close>

definition Authenticate :: "string \<Rightarrow> string \<Rightarrow> bool go" where
  "Authenticate username password =
     andThen (do_sys ''ldap-dial'' [''ldap://localhost:389'']) (\<lambda>_.
     andThen (do_sys ''ldap-bind'' [''cn='' @ username @ '',ou=users,dc=syncloud,dc=org'', password]) (\<lambda>_.
     andThen (do_ldap (Sys ''ldap-search'' [AdminGroupDn, ''sub'', ''(memberUid='' @ username @ '')'', ''memberUid''])) (\<lambda>entries.
       if entries = [] then throw (Error ''not admin (must be part of syncloud group)'') else ret True)))"

end
