(* ===== verification/Directory.thy ===== *)
theory Directory
  imports Accounts
begin

text \<open>
  What the account operations do to the directory. The LDAP server is a parameter of the
  model: \<open>serves e dir\<close> states the documented behaviour of a server whose groups have the
  members \<open>dir h\<close> after the calls \<open>h\<close>. Every request may fail; a search of a group returns
  its members; a successful change has the effect of its request; the values of an attribute
  are a set; names of entries are compared without regard to case.
\<close>

section \<open>The directory\<close>

type_synonym directory = "string \<Rightarrow> string list option"

definition modify_effect :: "string list \<Rightarrow> string list \<Rightarrow> string list" where
  "modify_effect rest ms = (case rest of
     [op, attr, v] \<Rightarrow> if attr \<noteq> ''memberUid'' then ms
       else if op = ''add'' then ms @ [v] else if op = ''delete'' then removeAll v ms else ms
   | _ \<Rightarrow> ms)"

fun ldap_effect :: "call \<Rightarrow> directory \<Rightarrow> directory" where
  "ldap_effect (Sys f (dn # rest)) d = (\<lambda>g.
     if ToLower dn \<noteq> ToLower (group_dn g) then d g
     else if f = ''ldap-add'' then (case d g of None \<Rightarrow> Some [] | Some ms \<Rightarrow> Some ms)
     else if f = ''ldap-del'' then None
     else if f = ''ldap-modify'' then map_option (modify_effect rest) (d g)
     else d g)"
| "ldap_effect c d = d"

definition serves :: "environment \<Rightarrow> (call list \<Rightarrow> directory) \<Rightarrow> bool" where
  "serves e dir \<longleftrightarrow>
     (\<forall>h g es. e_ldap e h (search_members g) = Inr es \<longrightarrow>
        (\<exists>en ms. es = [en] \<and> GetAttributeValues en ''memberUid'' = ms \<and> dir h g = Some ms))
     \<and> (\<forall>h c. dir (h @ [c]) = (if e_unit e h c = None then ldap_effect c (dir h) else dir h))
     \<and> (\<forall>h g ms. dir h g = Some ms \<longrightarrow> distinct ms)"

definition admins :: "(call list \<Rightarrow> directory) \<Rightarrow> world \<Rightarrow> string set" where
  "admins dir w = (case dir (w_hist w) AdminGroup of None \<Rightarrow> {} | Some ms \<Rightarrow> set ms)"

lemma serves_search:
  "serves e dir \<Longrightarrow> e_ldap e h (search_members g) = Inr es \<Longrightarrow>
     \<exists>en. es = [en] \<and> dir h g = Some (GetAttributeValues en ''memberUid'')"
  by (auto simp: serves_def)

lemma serves_step:
  "serves e dir \<Longrightarrow> dir (h @ [c]) = (if e_unit e h c = None then ldap_effect c (dir h) else dir h)"
  by (simp add: serves_def)

lemma serves_distinct: "serves e dir \<Longrightarrow> dir h g = Some ms \<Longrightarrow> distinct ms"
  by (simp add: serves_def)

section \<open>Calls that leave a group alone\<close>

definition harmless :: "string \<Rightarrow> call \<Rightarrow> bool" where
  "harmless g c \<longleftrightarrow> (\<forall>d. ldap_effect c d g = d g)"

lemma dir_within:
  assumes "serves (w_env w) dir" "within (harmless g) w w'"
  shows "dir (w_hist w') g = dir (w_hist w) g"
proof -
  obtain cs where cs: "w' = w\<lparr>w_hist := w_hist w @ cs\<rparr>" "list_all (harmless g) cs"
    using assms(2) by (auto simp: within_def)
  have "dir (w_hist w @ cs) g = dir (w_hist w) g" using cs(2)
  proof (induction cs rule: rev_induct)
    case (snoc c cs)
    then show ?case using serves_step [OF assms(1), of "w_hist w @ cs" c]
      by (auto simp: harmless_def)
  qed simp
  then show ?thesis using cs(1) by simp
qed

lemma admins_harmless:
  assumes "serves (w_env w) dir" "keeps (within (harmless AdminGroup)) m" "m w = (r, w')"
  shows "admins dir w' = admins dir w"
  using dir_within [OF assms(1) keepsD [OF assms(2,3)]] by (simp add: admins_def)

lemma within_env: "within P w w' \<Longrightarrow> w_env w' = w_env w"
  by (auto simp: within_def)

lemma harmless_other:
  "f \<notin> {''ldap-add'', ''ldap-del'', ''ldap-modify''} \<Longrightarrow> harmless g (Sys f args)"
  by (cases args) (auto simp: harmless_def)

lemma ToLower_append: "ToLower (a @ b) = ToLower a @ ToLower b"
  by (simp add: ToLower_def)

lemma users_not_groups: "ToLower (a @ '',ou=users,dc=syncloud,dc=org'') \<noteq> ToLower (group_dn g)"
proof
  have u: "ToLower '',ou=users,dc=syncloud,dc=org'' = '',ou=users,dc=syncloud,dc=org''" by code_simp
  have g: "ToLower '',ou=groups,dc=syncloud,dc=org'' = '',ou=groups,dc=syncloud,dc=org''" by code_simp
  have s: "ToLower (group_dn g) = ToLower (''cn='' @ g) @ ToLower '',ou=groups,dc=syncloud,dc=org''"
    unfolding ToLower_append [symmetric] by (simp add: group_dn_def GroupsDn_def)
  assume "ToLower (a @ '',ou=users,dc=syncloud,dc=org'') = ToLower (group_dn g)"
  then have "ToLower a @ '',ou=users,dc=syncloud,dc=org'' = ToLower (''cn='' @ g) @ '',ou=groups,dc=syncloud,dc=org''"
    unfolding s ToLower_append u g .
  then have "rev (ToLower a @ '',ou=users,dc=syncloud,dc=org'') = rev (ToLower (''cn='' @ g) @ '',ou=groups,dc=syncloud,dc=org'')"
    by (rule arg_cong)
  then show False by simp
qed

lemma harmless_user_dn:
  "harmless g (Sys f ((''cn='' @ u @ '','' @ UsersDn) # rest))" "harmless g (Sys f (user_dn u # rest))"
proof -
  have 1: "''cn='' @ u @ '','' @ UsersDn = (''cn='' @ u) @ '',ou=users,dc=syncloud,dc=org''"
    by (simp add: UsersDn_def)
  have 2: "user_dn u = (''cn='' @ u) @ '',ou=users,dc=syncloud,dc=org''"
    by (simp add: user_dn_def Domain_dn_def)
  show "harmless g (Sys f ((''cn='' @ u @ '','' @ UsersDn) # rest))" "harmless g (Sys f (user_dn u # rest))"
    unfolding 1 2 harmless_def using users_not_groups [of "''cn='' @ u" g] by simp_all
qed

lemma harmless_group_dn:
  "ToLower (group_dn g') \<noteq> ToLower (group_dn g) \<Longrightarrow> harmless g (Sys f (group_dn g' # rest))"
  by (simp add: harmless_def)

lemma group_dn_lower: "ToLower (group_dn g) = ToLower (group_dn g') \<longleftrightarrow> ToLower g = ToLower g'"
  by (simp add: group_dn_def ToLower_def)

lemmas harmless_calls = harmless_other harmless_user_dn

lemma keeps_Connect [keeps_intros]: "keeps (within (harmless g)) Connect"
  unfolding Connect_def by (intro keeps_intros harmless_other) auto

lemma keeps_wrapped_search:
  "keeps (within (harmless g)) (wrap_err p (do_ldap (Sys ''ldap-search'' args)))"
  by (intro keeps_intros harmless_other) auto

lemma keeps_groupMembers [keeps_intros]: "keeps (within (harmless g)) (groupMembers g')"
  unfolding groupMembers_def search_members_def
  by (intro keeps_andThen keeps_wrapped_search transp_within) (auto split: list.splits intro: keeps_intros)

lemma keeps_Members [keeps_intros]: "keeps (within (harmless g)) (Members g')"
  unfolding Members_def by (intro keeps_intros)

section \<open>Members of a group\<close>

lemma groupMembers_run:
  assumes "serves (w_env w) dir" "groupMembers g w = (Ok ms, w')"
  shows "dir (w_hist w) g = Some ms" "dir (w_hist w') g = Some ms" "w_env w' = w_env w"
proof -
  have "within (harmless g) w w'" using keeps_groupMembers assms(2) by (rule keepsD)
  then have same: "dir (w_hist w') g = dir (w_hist w) g" "w_env w' = w_env w"
    using dir_within [OF assms(1)] within_env by auto
  obtain es w1 where es: "wrap_err ''ldap group members: '' (do_ldap (search_members g)) w = (Ok es, w1)"
      and ms: "(case es of [] \<Rightarrow> throw (Error (''group not found: '' @ g)) | e # _ \<Rightarrow> ret (GetAttributeValues e ''memberUid'')) w1 = (Ok ms, w')"
    using assms(2) by (auto simp: groupMembers_def andThen_Ok_iff)
  have "e_ldap (w_env w) (w_hist w) (search_members g) = Inr es"
    using es by (auto simp: wrap_err_def andThen_Ok_iff attempt_def do_ldap_def of_sum_def split: sum.splits prod.splits res.splits)
  from serves_search [OF assms(1) this] ms show "dir (w_hist w) g = Some ms" by auto
  then show "dir (w_hist w') g = Some ms" "w_env w' = w_env w" using same by auto
qed

text \<open>The effect of the change of one member: everything or, on an error, nothing.\<close>

lemma modify_run:
  assumes "serves (w_env w) dir" "wrap_err p (do_unit (modify_member op g u)) w = (r, w')"
  shows "w_env w' = w_env w"
    and "dir (w_hist w') g = (if r = Ok () then map_option (modify_effect [op, ''memberUid'', u]) (dir (w_hist w) g)
           else dir (w_hist w) g)"
proof -
  let ?c = "modify_member op g u"
  have w': "w' = record_call ?c w" and r: "r = Ok () \<longleftrightarrow> e_unit (w_env w) (w_hist w) ?c = None"
    using assms(2) by (cases "e_unit (w_env w) (w_hist w) ?c"; auto simp: do_unit_def wrap_err_def andThen_def attempt_def)+
  show "w_env w' = w_env w" using w' by simp
  show "dir (w_hist w') g = (if r = Ok () then map_option (modify_effect [op, ''memberUid'', u]) (dir (w_hist w) g)
           else dir (w_hist w) g)"
    using serves_step [OF assms(1), of "w_hist w" ?c] r by (simp add: w' modify_member_def)
qed

lemma addMember_run:
  assumes "serves (w_env w) dir" "addMember g u w = (r, w')"
  shows "if r = Ok () then \<exists>ms ms'. dir (w_hist w) g = Some ms \<and> dir (w_hist w') g = Some ms' \<and> set ms' = insert u (set ms)
         else dir (w_hist w') g = dir (w_hist w) g"
proof (cases "groupMembers g w")
  case (Pair q w1)
  show ?thesis
  proof (cases q)
    case (Ok ms)
    note gm = groupMembers_run [OF assms(1) Pair [unfolded Ok]]
    have "serves (w_env w1) dir" using assms(1) gm(3) by simp
    note m = modify_run [OF this, of "''ldap add group member: ''" "''add''" g u r w']
    show ?thesis
    proof (cases "u \<in> set ms")
      case True
      then have "r = Ok ()" "w' = w1" using assms(2) Pair Ok by (auto simp: addMember_def)
      then show ?thesis using gm True by auto
    next
      case False
      then have "wrap_err ''ldap add group member: '' (do_unit (modify_member ''add'' g u)) w1 = (r, w')"
        using assms(2) Pair Ok by (auto simp: addMember_def)
      then show ?thesis using m gm by (auto simp: modify_effect_def)
    qed
  qed (use assms(2) Pair dir_within [OF assms(1) keepsD [OF keeps_groupMembers Pair]] in \<open>auto simp: addMember_def\<close>)
qed

lemma removeMember_run:
  assumes "serves (w_env w) dir" "removeMember g u w = (r, w')"
  shows "if r = Ok () then \<exists>ms ms'. dir (w_hist w) g = Some ms \<and> dir (w_hist w') g = Some ms' \<and> set ms' = set ms - {u}
         else dir (w_hist w') g = dir (w_hist w) g"
proof (cases "groupMembers g w")
  case (Pair q w1)
  show ?thesis
  proof (cases q)
    case (Ok ms)
    note gm = groupMembers_run [OF assms(1) Pair [unfolded Ok]]
    have "serves (w_env w1) dir" using assms(1) gm(3) by simp
    note m = modify_run [OF this, of "''ldap remove group member: ''" "''delete''" g u r w']
    show ?thesis
    proof (cases "u \<in> set ms")
      case False
      then have "r = Ok ()" "w' = w1" using assms(2) Pair Ok by (auto simp: removeMember_def)
      then show ?thesis using gm False by auto
    next
      case True
      then have "wrap_err ''ldap remove group member: '' (do_unit (modify_member ''delete'' g u)) w1 = (r, w')"
        using assms(2) Pair Ok by (auto simp: removeMember_def)
      then show ?thesis using m gm by (auto simp: modify_effect_def)
    qed
  qed (use assms(2) Pair dir_within [OF assms(1) keepsD [OF keeps_groupMembers Pair]] in \<open>auto simp: removeMember_def\<close>)
qed

section \<open>Administrators\<close>

text \<open>\<open>changes\<close>: on success the members of the group become \<open>f\<close> of the old ones, otherwise they stay.\<close>

definition changes :: "(call list \<Rightarrow> directory) \<Rightarrow> string \<Rightarrow> (string set \<Rightarrow> string set) \<Rightarrow> unit go \<Rightarrow> bool" where
  "changes dir g f m \<longleftrightarrow> (\<forall>w r w'. serves (w_env w) dir \<longrightarrow> m w = (r, w') \<longrightarrow>
     (if r = Ok () then \<exists>ms ms'. dir (w_hist w) g = Some ms \<and> dir (w_hist w') g = Some ms' \<and> set ms' = f (set ms)
      else dir (w_hist w') g = dir (w_hist w) g))"

lemma changes_andThen:
  assumes "keeps (within (harmless g)) m" "\<And>a. changes dir g f (k a)"
  shows "changes dir g f (andThen m k)"
  unfolding changes_def
proof (intro allI impI)
  fix w r w' assume s: "serves (w_env w) dir" and run: "andThen m k w = (r, w')"
  obtain q w1 where m: "m w = (q, w1)" by (cases "m w")
  have w1: "dir (w_hist w1) g = dir (w_hist w) g" "w_env w1 = w_env w"
    using dir_within [OF s keepsD [OF assms(1) m]] within_env [OF keepsD [OF assms(1) m]] by auto
  show "if r = Ok () then \<exists>ms ms'. dir (w_hist w) g = Some ms \<and> dir (w_hist w') g = Some ms' \<and> set ms' = f (set ms)
      else dir (w_hist w') g = dir (w_hist w) g"
  proof (cases q)
    case (Ok a)
    then have "k a w1 = (r, w')" using m run by simp
    moreover have "serves (w_env w1) dir" using s w1(2) by simp
    ultimately show ?thesis using assms(2) w1(1) unfolding changes_def by metis
  qed (use m run w1 in auto)
qed

lemma changes_AddGroupMember: "changes dir g (insert u) (AddGroupMember g u)"
  unfolding AddGroupMember_def
  by (intro changes_andThen keeps_Connect) (use addMember_run in \<open>unfold changes_def, blast\<close>)

lemma changes_RemoveGroupMember: "changes dir g (\<lambda>A. A - {u}) (RemoveGroupMember g u)"
  unfolding RemoveGroupMember_def
  by (intro changes_andThen keeps_Connect) (use removeMember_run in \<open>unfold changes_def, blast\<close>)

lemma changes_admins:
  assumes "changes dir AdminGroup f m" "serves (w_env w) dir" "m w = (r, w')"
  shows "admins dir w' = (if r = Ok () then f (admins dir w) else admins dir w)"
proof -
  have "if r = Ok () then \<exists>ms ms'. dir (w_hist w) AdminGroup = Some ms \<and> dir (w_hist w') AdminGroup = Some ms'
        \<and> set ms' = f (set ms) else dir (w_hist w') AdminGroup = dir (w_hist w) AdminGroup"
    using assms unfolding changes_def by blast
  then show ?thesis by (auto simp: admins_def split: if_splits)
qed

lemma Members_run:
  assumes "serves (w_env w) dir" "Members g w = (Ok ms, w')"
  shows "dir (w_hist w) g = Some ms" "dir (w_hist w') g = dir (w_hist w) g" "w_env w' = w_env w"
proof -
  obtain w1 where w1: "Connect w = (Ok (), w1)" "groupMembers g w1 = (Ok ms, w')"
    using assms(2) by (auto simp: Members_def andThen_Ok_iff)
  have same: "dir (w_hist w1) g = dir (w_hist w) g" "w_env w1 = w_env w"
    using dir_within [OF assms(1) keepsD [OF keeps_Connect w1(1)]] within_env [OF keepsD [OF keeps_Connect w1(1)]]
    by auto
  then have "serves (w_env w1) dir" using assms(1) by simp
  from groupMembers_run [OF this w1(2)] same
  show "dir (w_hist w) g = Some ms" "dir (w_hist w') g = dir (w_hist w) g" "w_env w' = w_env w" by auto
qed

text \<open>The abstract operation on the set of administrators: the last one cannot be removed.\<close>

definition set_admin_spec :: "string \<Rightarrow> bool \<Rightarrow> string set \<Rightarrow> string set option" where
  "set_admin_spec u admin A =
     (if admin then Some (insert u A) else if A = {u} then None else Some (A - {u}))"

lemma SetAdmin_refines:
  assumes s: "serves (w_env w) dir" and run: "SetAdmin u b w = (r, w')"
  shows "if r = Ok () then set_admin_spec u b (admins dir w) = Some (admins dir w')
         else admins dir w' = admins dir w"
proof (cases b)
  case True
  then show ?thesis
    using changes_admins [OF changes_AddGroupMember s] run by (auto simp: SetAdmin_def set_admin_spec_def)
next
  case False
  obtain q w1 where m: "Members AdminGroup w = (q, w1)" by (cases "Members AdminGroup w")
  have w1: "admins dir w1 = admins dir w" using admins_harmless [OF s keeps_Members m] .
  have env: "w_env w1 = w_env w" using within_env [OF keepsD [OF keeps_Members m]] .
  show ?thesis
  proof (cases q)
    case (Ok ms)
    note mm = Members_run [OF s m [unfolded Ok]]
    have ms: "set ms = admins dir w" "distinct ms" using mm(1) serves_distinct [OF s] by (auto simp: admins_def)
    have last: "length ms \<le> 1 \<and> u \<in> set ms \<longleftrightarrow> set ms = {u}"
      using ms(2) by (cases ms; cases "tl ms") auto
    show ?thesis
    proof (cases "set ms = {u}")
      case True
      then have "r \<noteq> Ok ()" "w' = w1" using run m Ok False last by (auto simp: SetAdmin_def)
      then show ?thesis using w1 by simp
    next
      case other: False
      then have "RemoveGroupMember AdminGroup u w1 = (r, w')"
        using run m Ok False last by (auto simp: SetAdmin_def)
      from changes_admins [OF changes_RemoveGroupMember _ this] s env
      show ?thesis using other ms(1) w1 False by (auto simp: set_admin_spec_def)
    qed
  qed (use run m w1 False in \<open>auto simp: SetAdmin_def\<close>)
qed

text \<open>
  C6. Granting and revoking administrator rights refines the operation on the set of
  administrators: with a server that behaves as LDAP does, success means that the new set is
  the specified one, any error leaves the set as it was, and revoking the rights of the only
  administrator never succeeds.
\<close>

theorem set_admin_refines:
  assumes "serves (w_env w) dir" "SetAdmin u admin w = (r, w')"
  shows "if r = Ok () then set_admin_spec u admin (admins dir w) = Some (admins dir w')
         else admins dir w' = admins dir w"
  using SetAdmin_refines [OF assms] .

text \<open>The operations on accounts that the device offers.\<close>

datatype account_op =
    Op_AddUser string string string bool
  | Op_SetEmail string string
  | Op_SetPassword string string
  | Op_RemoveUser string
  | Op_SetAdmin string bool
  | Op_AddGroup string
  | Op_RemoveGroup string
  | Op_AddMember string string
  | Op_RemoveMember string string

fun account_run :: "account_op \<Rightarrow> unit go" where
  "account_run (Op_AddUser u p e a) = AddUser u p e a"
| "account_run (Op_SetEmail u e) = SetUserEmail u e"
| "account_run (Op_SetPassword u p) = SetPassword u p"
| "account_run (Op_RemoveUser u) = RemoveUser u"
| "account_run (Op_SetAdmin u a) = SetAdmin u a"
| "account_run (Op_AddGroup g) = AddGroup g"
| "account_run (Op_RemoveGroup g) = RemoveGroup g"
| "account_run (Op_AddMember g u) = AddGroupMember g u"
| "account_run (Op_RemoveMember g u) = RemoveGroupMember g u"

text \<open>
  The two operations that go around the check of the last administrator when they are used on
  the administrators' group under any spelling of its name.
\<close>

fun guarded :: "account_op \<Rightarrow> bool" where
  "guarded (Op_RemoveGroup g) \<longleftrightarrow> ToLower g \<noteq> AdminGroup"
| "guarded (Op_RemoveMember g u) \<longleftrightarrow> ToLower g \<noteq> AdminGroup"
| "guarded _ \<longleftrightarrow> True"

lemma AdminGroup_lower [simp]: "ToLower AdminGroup = AdminGroup"
  by code_simp

lemma keeps_cfg_domain [keeps_intros]: "keeps (within P) (cfg GetDeviceDomain)"
  by (intro keeps_cfg_read reads keeps_intros)

lemma keeps_Hash [keeps_intros]: "keeps (within (harmless g)) (Hash p)"
  unfolding Hash_def Let_def by (intro keeps_intros harmless_other) auto

lemma keeps_Email_Resolve [keeps_intros]: "keeps (within P) (Email_Resolve u e)"
  unfolding Email_Resolve_def Let_def by (intro keeps_intros)

lemma keeps_replace: "keeps (within (harmless g)) (wrap_err p (do_unit (replace_attribute u a v)))"
  unfolding replace_attribute_def by (intro keeps_intros harmless_user_dn)

lemma keeps_SetUserEmail: "keeps (within (harmless g)) (SetUserEmail u e)"
  unfolding SetUserEmail_def by (intro keeps_intros keeps_replace)

lemma keeps_SetPassword: "keeps (within (harmless g)) (SetPassword u p)"
  unfolding SetPassword_def Password_Validate_def by (intro keeps_intros keeps_replace)

lemma keeps_RemoveUser: "keeps (within (harmless g)) (RemoveUser u)"
  unfolding RemoveUser_def by (intro keeps_intros harmless_user_dn)

lemma keeps_RemoveGroup:
  "ToLower name \<noteq> ToLower g \<Longrightarrow> keeps (within (harmless g)) (RemoveGroup name)"
  unfolding RemoveGroup_def by (intro keeps_intros harmless_group_dn) (simp add: group_dn_lower)

section \<open>The last administrator\<close>

text \<open>A call that never empties the group.\<close>

definition growing :: "string \<Rightarrow> call \<Rightarrow> bool" where
  "growing g c \<longleftrightarrow> (\<forall>d ms. d g = Some ms \<and> ms \<noteq> [] \<longrightarrow> (\<exists>ms'. ldap_effect c d g = Some ms' \<and> ms' \<noteq> []))"

lemma harmless_growing: "harmless g c \<Longrightarrow> growing g c"
  by (simp add: harmless_def growing_def)

lemma keeps_growing: "keeps (within (harmless g)) m \<Longrightarrow> keeps (within (growing g)) m"
  using harmless_growing by (rule keeps_within_mono [rotated])

lemma growing_ldap_add: "growing g (ldap_add dn attrs)"
  by (auto simp: growing_def ldap_add_def)

lemma growing_modify_add: "growing g (modify_member ''add'' g' u)"
  by (auto simp: growing_def modify_member_def modify_effect_def)

lemma admins_growing:
  assumes "serves (w_env w) dir" "within (growing AdminGroup) w w'" "admins dir w \<noteq> {}"
  shows "admins dir w' \<noteq> {}"
proof -
  obtain cs where cs: "w' = w\<lparr>w_hist := w_hist w @ cs\<rparr>" "list_all (growing AdminGroup) cs"
    using assms(2) by (auto simp: within_def)
  obtain ms where ms: "dir (w_hist w) AdminGroup = Some ms" "ms \<noteq> []"
    using assms(3) by (auto simp: admins_def split: option.splits)
  have "\<exists>ms'. dir (w_hist w @ cs) AdminGroup = Some ms' \<and> ms' \<noteq> []" using cs(2)
  proof (induction cs rule: rev_induct)
    case (snoc c cs)
    then obtain ms' where ms': "dir (w_hist w @ cs) AdminGroup = Some ms'" "ms' \<noteq> []" by auto
    have "growing AdminGroup c" using snoc.prems by simp
    then show ?case
      using ms' serves_step [OF assms(1), of "w_hist w @ cs" c] unfolding growing_def by (auto split: if_splits)
  qed (use ms in simp)
  then show ?thesis using cs(1) by (auto simp: admins_def)
qed

lemma keeps_AddGroupMember: "keeps (within (growing g)) (AddGroupMember g' u)"
  unfolding AddGroupMember_def addMember_def
  by (intro keeps_intros keeps_growing [OF keeps_Connect] keeps_growing [OF keeps_groupMembers] growing_modify_add)

lemma keeps_AddUser: "keeps (within (growing g)) (AddUser u p e a)"
proof -
  have add: "keeps (within (growing g)) (andThen (user_Build u m i p) (\<lambda>req.
      andThen (wrap_err x (do_unit req)) (\<lambda>_. if a then AddGroupMember AdminGroup u else ret ())))" for m i x
    unfolding user_Build_def andThen_assoc andThen_ret_left
    by (intro keeps_intros keeps_growing [OF keeps_Hash] growing_ldap_add keeps_AddGroupMember)
  have uid: "keeps (within (growing g)) nextUid"
    unfolding nextUid_def by (intro keeps_andThen keeps_growing [OF keeps_wrapped_search] keeps_ret reflp_within transp_within)
  note rule = keeps_andThen [OF transp_within]
  show ?thesis
    unfolding AddUser_def
    by (rule rule, simp add: Username_Validate_def keeps_intros, rule rule, simp add: Password_Validate_def keeps_intros,
        rule rule, rule keeps_Email_Resolve, rule rule, rule keeps_growing, rule keeps_Connect, rule rule, rule uid, rule add)
qed

lemma keeps_AddGroup: "keeps (within (growing g)) (AddGroup name)"
  unfolding AddGroup_def nextGid_def
  by (intro keeps_intros keeps_growing [OF keeps_Connect] growing_ldap_add harmless_growing [OF harmless_other]) simp

lemma keeps_RemoveGroupMember:
  "ToLower g' \<noteq> ToLower g \<Longrightarrow> keeps (within (harmless g)) (RemoveGroupMember g' u)"
  unfolding RemoveGroupMember_def removeMember_def modify_member_def
  by (intro keeps_intros harmless_group_dn) (simp add: group_dn_lower)

lemma guarded_growing:
  assumes "guarded op" "\<And>u. op \<noteq> Op_SetAdmin u False"
  shows "keeps (within (growing AdminGroup)) (account_run op)"
proof (cases op)
  case (Op_SetAdmin u b)
  then show ?thesis using assms(2) keeps_AddGroupMember by (cases b) (auto simp: SetAdmin_def)
next
  case (Op_RemoveGroup n)
  then show ?thesis using assms(1) by (simp add: keeps_growing [OF keeps_RemoveGroup])
next
  case (Op_RemoveMember n u)
  then show ?thesis using assms(1) by (simp add: keeps_growing [OF keeps_RemoveGroupMember])
qed (auto intro: keeps_AddUser keeps_AddGroup keeps_AddGroupMember keeps_growing keeps_SetUserEmail
    keeps_SetPassword keeps_RemoveUser)

lemma account_op_admins:
  assumes "serves (w_env w) dir" "guarded op" "admins dir w \<noteq> {}" "account_run op w = (r, w')"
  shows "admins dir w' \<noteq> {}"
proof (cases "\<exists>u. op = Op_SetAdmin u False")
  case True
  then obtain u where "SetAdmin u False w = (r, w')" using assms(4) by auto
  from SetAdmin_refines [OF assms(1) this] assms(3) show ?thesis
    by (auto simp: set_admin_spec_def split: if_splits)
next
  case False
  then have "keeps (within (growing AdminGroup)) (account_run op)" using guarded_growing [OF assms(2)] by auto
  then show ?thesis using admins_growing [OF assms(1) _ assms(3)] assms(4) by (auto dest: keepsD)
qed

text \<open>A sequence of requests, of which each may fail.\<close>

fun account_session :: "account_op list \<Rightarrow> unit go" where
  "account_session [] = ret ()"
| "account_session (op # ops) = andThen (attempt (account_run op)) (\<lambda>_. account_session ops)"

lemma keeps_env_run: "keeps (within (\<lambda>_. True)) (account_run op)"
proof -
  have 1: "keeps (within (\<lambda>_. True)) m" if "keeps (within (harmless g)) m" for m :: "'a go" and g
    using that by (rule keeps_within_mono) simp
  have 2: "keeps (within (\<lambda>_. True)) m" if "keeps (within (growing g)) m" for m :: "'a go" and g
    using that by (rule keeps_within_mono) simp
  have rm: "keeps (within (\<lambda>_. True)) (RemoveGroupMember g u)" for g u
    unfolding RemoveGroupMember_def removeMember_def
    by (intro keeps_intros 1 [OF keeps_Connect] 1 [OF keeps_groupMembers]) simp
  have rg: "keeps (within (\<lambda>_. True)) (RemoveGroup g)" for g
    unfolding RemoveGroup_def by (intro keeps_intros 1 [OF keeps_Connect]) simp
  have sa: "keeps (within (\<lambda>_. True)) (SetAdmin u b)" for u b
    unfolding SetAdmin_def by (intro keeps_intros 1 [OF keeps_Members] 2 [OF keeps_AddGroupMember] rm)
  show ?thesis
    by (cases op) (auto intro: sa rm rg 2 [OF keeps_AddUser] 2 [OF keeps_AddGroup] 2 [OF keeps_AddGroupMember]
        1 [OF keeps_SetUserEmail] 1 [OF keeps_SetPassword] 1 [OF keeps_RemoveUser])
qed


section \<open>A directory with one group\<close>

text \<open>
  A server that holds the administrators' group only and refuses to add entries; it rejects a
  member that is already there.
\<close>

definition mem_refuses :: "string list option \<Rightarrow> call \<Rightarrow> bool" where
  "mem_refuses m c = (case c of
     Sys f (dn # rest) \<Rightarrow> f = ''ldap-add'' \<or> (f = ''ldap-modify'' \<and> (case rest of
        [op, attr, v] \<Rightarrow> op = ''add'' \<and> (case m of None \<Rightarrow> False | Some ms \<Rightarrow> v \<in> set ms) | _ \<Rightarrow> False))
   | _ \<Rightarrow> False)"

definition mem_dir :: "string list option \<Rightarrow> directory" where
  "mem_dir m g = (if ToLower g = AdminGroup then m else None)"

definition mem_step :: "string list option \<Rightarrow> call \<Rightarrow> string list option" where
  "mem_step m c = (if mem_refuses m c then m else ldap_effect c (mem_dir m) AdminGroup)"

definition mem_members :: "call list \<Rightarrow> string list option" where
  "mem_members h = foldl mem_step (Some [''root'']) h"

definition mem_env :: environment where
  "mem_env = calm\<lparr>
     e_unit := (\<lambda>h c. if mem_refuses (mem_members h) c then Some (Error ''refused'') else None),
     e_ldap := (\<lambda>h c. case c of
        Sys f (dn # _) \<Rightarrow> (if ToLower dn = ToLower (group_dn AdminGroup)
           then (case mem_members h of None \<Rightarrow> Inl (Error ''no such object'') | Some ms \<Rightarrow> Inr [[(''memberUid'', ms)]])
           else Inl (Error ''no such object''))
      | _ \<Rightarrow> Inl (Error ''unwilling''))\<rparr>"

lemma mem_step_distinct: "mem_step m c = Some ms \<Longrightarrow> (\<And>x. m = Some x \<Longrightarrow> distinct x) \<Longrightarrow> distinct ms"
proof (cases c)
  case (Sys f args)
  assume step: "mem_step m c = Some ms" and d: "\<And>x. m = Some x \<Longrightarrow> distinct x"
  show ?thesis
  proof (cases args)
    case (Cons dn rest)
    show ?thesis
      using step d unfolding Sys Cons
      by (auto simp: mem_step_def mem_refuses_def mem_dir_def modify_effect_def distinct_removeAll
          split: if_splits option.splits list.splits)
  qed (use step d Sys in \<open>auto simp: mem_step_def mem_dir_def mem_refuses_def\<close>)
qed (auto simp: mem_step_def mem_dir_def mem_refuses_def)

lemma mem_members_distinct: "mem_members h = Some ms \<Longrightarrow> distinct ms"
proof (induction h arbitrary: ms rule: rev_induct)
  case (snoc c h)
  then show ?case using mem_step_distinct [of "mem_members h" c ms] by (auto simp: mem_members_def)
qed (auto simp: mem_members_def)

lemma mem_effect: "\<not> mem_refuses m c \<Longrightarrow> ldap_effect c (mem_dir m) = mem_dir (ldap_effect c (mem_dir m) AdminGroup)"
proof (rule ext, goal_cases)
  case (1 g)
  have eq: "ToLower (group_dn g) = ToLower (group_dn AdminGroup) \<longleftrightarrow> ToLower g = AdminGroup"
    using group_dn_lower [of g AdminGroup] by simp
  show ?case
  proof (cases c)
    case (Sys f args)
    with 1 eq show ?thesis by (cases args) (auto simp: mem_dir_def mem_refuses_def)
  qed (auto simp: mem_dir_def)
qed

lemma mem_serves: "serves mem_env (\<lambda>h. mem_dir (mem_members h))"
  unfolding serves_def
proof (intro conjI allI impI)
  fix h g es assume "e_ldap mem_env h (search_members g) = Inr es"
  then show "\<exists>en ms. es = [en] \<and> GetAttributeValues en ''memberUid'' = ms \<and> mem_dir (mem_members h) g = Some ms"
    using group_dn_lower [of g AdminGroup]
    by (auto simp: mem_env_def search_members_def GetAttributeValues_def mem_dir_def split: if_splits option.splits)
next
  fix h c
  show "mem_dir (mem_members (h @ [c])) =
      (if e_unit mem_env h c = None then ldap_effect c (mem_dir (mem_members h)) else mem_dir (mem_members h))"
    using mem_effect [of "mem_members h" c] by (simp add: mem_env_def mem_members_def mem_step_def)
next
  fix h g ms assume "mem_dir (mem_members h) g = Some ms"
  then show "distinct ms" using mem_members_distinct by (auto simp: mem_dir_def split: if_splits)
qed

theorem set_admin_refines_witness:
  "let w = start_world mem_env; dir = (\<lambda>h. mem_dir (mem_members h)) in
     \<exists>w'. SetAdmin ''bob'' True w = (Ok (), w') \<and> admins dir w' = {''root'', ''bob''}"
proof -
  let ?w = "start_world mem_env" and ?dir = "\<lambda>h. mem_dir (mem_members h)"
  have a: "admins ?dir ?w = {''root''}" by (simp add: admins_def mem_dir_def mem_members_def)
  have "fst (SetAdmin ''bob'' True ?w) = Ok ()" by code_simp
  then obtain w' where w': "SetAdmin ''bob'' True ?w = (Ok (), w')" by (metis prod.collapse)
  then show ?thesis
    using set_admin_refines [of ?w ?dir, OF _ w'] mem_serves a by (auto simp: set_admin_spec_def)
qed


text \<open>
  The two ways around the check: the guard of \<open>RemoveGroup\<close> compares the spelling of the name
  while the directory does not, and \<open>RemoveGroupMember\<close> has no guard.
\<close>

lemma remove_group_other_case: "\<exists>w'. RemoveGroup ''Syncloud'' (start_world mem_env) = (Ok (), w')
    \<and> mem_members (w_hist w') = None"
proof -
  have "(case RemoveGroup ''Syncloud'' (start_world mem_env) of (r, w') \<Rightarrow>
      r = Ok () \<and> mem_members (w_hist w') = None)" by code_simp
  then show ?thesis by (auto split: prod.splits)
qed

lemma remove_last_member: "\<exists>w'. RemoveGroupMember AdminGroup ''root'' (start_world mem_env) = (Ok (), w')
    \<and> mem_members (w_hist w') = Some []"
proof -
  have "(case RemoveGroupMember AdminGroup ''root'' (start_world mem_env) of (r, w') \<Rightarrow>
      r = Ok () \<and> mem_members (w_hist w') = Some [])" by code_simp
  then show ?thesis by (auto split: prod.splits)
qed

section \<open>New ids and names\<close>

text \<open>
  C34. A new user or group gets a fresh id: it is at least the start of the range, larger than
  every id that the scan found, and does not overflow, unless the largest 64 bit number is
  already used as an id.
\<close>

theorem next_id_fresh:
  assumes "\<And>e i. e \<in> set entries \<Longrightarrow> Atoi (GetAttributeValue e attr) = Some i \<Longrightarrow> i < 2 ^ 63 - 1"
  shows "posixIdStart \<le> next_id attr entries \<and> next_id attr entries < 2 ^ 63
     \<and> (\<forall>e i. e \<in> set entries \<longrightarrow> Atoi (GetAttributeValue e attr) = Some i \<longrightarrow> i < next_id attr entries)"
  using assms
proof (induction entries rule: rev_induct)
  case Nil
  then show ?case by (simp add: next_id_def posixIdStart_def)
next
  case (snoc e entries)
  have ih: "posixIdStart \<le> next_id attr entries" "next_id attr entries < 2 ^ 63"
    "\<And>e i. e \<in> set entries \<Longrightarrow> Atoi (GetAttributeValue e attr) = Some i \<Longrightarrow> i < next_id attr entries"
    using snoc.IH snoc.prems by auto
  have step: "next_id attr (entries @ [e]) = (case Atoi (GetAttributeValue e attr) of
       Some i \<Rightarrow> if next_id attr entries \<le> i then int64 (i + 1) else next_id attr entries | None \<Rightarrow> next_id attr entries)"
    unfolding next_id_def by simp
  show ?case
  proof (cases "Atoi (GetAttributeValue e attr)")
    case (Some i)
    then have "i < 2 ^ 63 - 1" using snoc.prems by auto
    then have "next_id attr entries \<le> i \<Longrightarrow> int64 (i + 1) = i + 1"
      using ih(1) by (intro int64_id) (auto simp: in_bits_def posixIdStart_def)
    then show ?thesis using ih Some \<open>i < 2 ^ 63 - 1\<close> by (fastforce simp: step)
  qed (use ih in \<open>auto simp: step\<close>)
qed

theorem next_id_fresh_witness:
  "next_id ''uidNumber'' [[(''uidNumber'', [''2005''])]] > 2005"
proof -
  let ?e = "[(''uidNumber'', [''2005''])]"
  have a: "Atoi (GetAttributeValue ?e ''uidNumber'') = Some 2005" by code_simp
  have "i < 2 ^ 63 - 1" if "e \<in> set [?e]" "Atoi (GetAttributeValue e ''uidNumber'') = Some i" for e i
    using that a by simp
  from next_id_fresh [of "[?e]" "''uidNumber''", OF this] a show ?thesis by auto
qed

text \<open>A valid user name has no character with a meaning in a name of the directory.\<close>

lemma valid_username_plain:
  assumes "usernameRegexp u" "c \<in> set u"
  shows "c \<notin> set '',=+<>#;'' \<and> c \<noteq> CHR 0x5C \<and> c \<noteq> CHR 0x22 \<and> c \<notin> set ''()*''"
proof -
  have "username_char c"
    using assms by (cases u) (auto simp: usernameRegexp_def list_all_iff username_char_def)
  then show ?thesis by (auto simp: username_char_def is_lower_def is_digit_def)
qed

end
