(* ===== verification/Config_Tables.thy ===== *)
theory Config_Tables
  imports Config_Db
begin

text \<open>
  The other tables of the settings database: OpenID clients (\<^verbatim>\<open>backend/config/oidc.go\<close>),
  custom proxies (\<^verbatim>\<open>custom_proxy.go\<close>) and the migrations that bring a database of any
  earlier version to the current schema (\<^verbatim>\<open>migrator.go\<close>). The migration runner goose is not
  modelled; the list of migrations and what each of them does is. A row that is inserted or
  replaced comes last, as SQLite reads tables in the order of row ids.
\<close>

section \<open>OpenID clients\<close>

record oidc_client =
  cl_ID :: string
  cl_Secret :: string
  cl_RedirectURIs :: "string list"
  cl_RequirePkce :: bool
  cl_AuthMethod :: string

definition uris_of :: "string \<Rightarrow> (string \<times> string) list \<Rightarrow> string list" where
  "uris_of cid uris = map snd (filter (\<lambda>u. fst u = cid) uris)"

definition client_of_row :: "(string \<times> string) list \<Rightarrow> oidc_row \<Rightarrow> oidc_client" where
  "client_of_row uris row = \<lparr>cl_ID = oc_id row, cl_Secret = oc_secret row,
     cl_RedirectURIs = uris_of (oc_id row) uris, cl_RequirePkce = (oc_require_pkce row \<noteq> 0),
     cl_AuthMethod = oc_auth_method row\<rparr>"

definition OIDC_Clients :: "(database, oidc_client list) io" where
  "OIDC_Clients = on_table oidc_uri_t (\<lambda>uris. on_table oidc_client_t (\<lambda>t.
     ret (map (client_of_row uris) (oidc_rows t))))"

text \<open>One transaction: an error in any statement rolls all of it back.\<close>

definition OIDC_AddClient :: "oidc_client \<Rightarrow> (database, unit) io" where
  "OIDC_AddClient client = on_table oidc_client_t (\<lambda>t. on_table oidc_uri_t (\<lambda>uris.
     modify (\<lambda>d. d\<lparr>
       oidc_client_t := Some (t\<lparr>oidc_rows := filter (\<lambda>r. oc_id r \<noteq> cl_ID client) (oidc_rows t) @
         [\<lparr>oc_id = cl_ID client, oc_secret = cl_Secret client, oc_redirect_uri = [],
           oc_require_pkce = (if cl_RequirePkce client then 1 else 0), oc_auth_method = cl_AuthMethod client\<rparr>]\<rparr>),
       oidc_uri_t := Some (filter (\<lambda>u. fst u \<noteq> cl_ID client) uris @
         map (\<lambda>uri. (cl_ID client, uri)) (cl_RedirectURIs client))\<rparr>)))"

section \<open>Custom proxies\<close>

record proxy_entry =
  pe_Name :: string
  pe_Host :: string
  pe_Port :: int
  pe_Https :: bool
  pe_Authelia :: bool

text \<open>The statements name five values and columns, so they fail on an older table.\<close>

definition on_proxies :: "(proxy_row list \<Rightarrow> (database, 'a) io) \<Rightarrow> (database, 'a) io" where
  "on_proxies f = on_table custom_proxy_t (\<lambda>t.
     if has_https t \<and> has_authelia t then f (proxy_rows t) else throw sql_error)"

definition set_proxies :: "proxy_row list \<Rightarrow> database \<Rightarrow> database" where
  "set_proxies rows d = d\<lparr>custom_proxy_t := map_option (\<lambda>t. t\<lparr>proxy_rows := rows\<rparr>) (custom_proxy_t d)\<rparr>"

definition Proxy_Add :: "string \<Rightarrow> string \<Rightarrow> int \<Rightarrow> bool \<Rightarrow> bool \<Rightarrow> (database, unit) io" where
  "Proxy_Add name host port https authelia = on_proxies (\<lambda>rows.
     modify (set_proxies (filter (\<lambda>r. px_name r \<noteq> name) rows @
       [\<lparr>px_name = name, px_host = host, px_port = port, px_https = (if https then 1 else 0),
         px_authelia = (if authelia then 1 else 0)\<rparr>])))"

definition Proxy_Remove :: "string \<Rightarrow> (database, unit) io" where
  "Proxy_Remove name = on_table custom_proxy_t (\<lambda>t.
     modify (set_proxies (filter (\<lambda>r. px_name r \<noteq> name) (proxy_rows t))))"

definition entry_of_row :: "proxy_row \<Rightarrow> proxy_entry" where
  "entry_of_row r = \<lparr>pe_Name = px_name r, pe_Host = px_host r, pe_Port = px_port r,
     pe_Https = (px_https r \<noteq> 0), pe_Authelia = (px_authelia r \<noteq> 0)\<rparr>"

definition Proxy_List :: "(database, proxy_entry list) io" where
  "Proxy_List = on_proxies (\<lambda>rows. ret (map entry_of_row rows))"

section \<open>Migrations\<close>

definition when_up :: "(database \<Rightarrow> database) \<Rightarrow> (database, unit) io" where
  "when_up f = (\<lambda>d. if db_up d then (Ok (), f d) else (Err sql_error, d))"

definition createConfigTable :: "(database, unit) io" where
  "createConfigTable = when_up (\<lambda>d. d\<lparr>config_t := (case config_t d of None \<Rightarrow> Some [] | t \<Rightarrow> t)\<rparr>)"

definition createOidcClientTable :: "(database, unit) io" where
  "createOidcClientTable = when_up (\<lambda>d. d\<lparr>oidc_client_t := (case oidc_client_t d of
     None \<Rightarrow> Some \<lparr>has_redirect_uri = True, oidc_rows = []\<rparr> | t \<Rightarrow> t)\<rparr>)"

definition createCustomProxyTable :: "(database, unit) io" where
  "createCustomProxyTable = when_up (\<lambda>d. d\<lparr>custom_proxy_t := (case custom_proxy_t d of
     None \<Rightarrow> Some \<lparr>has_https = False, has_authelia = False, proxy_rows = []\<rparr> | t \<Rightarrow> t)\<rparr>)"

text \<open>
  \<open>PRAGMA table_info\<close> of a missing table has no rows, so the column is added and this fails.
\<close>

definition addCustomProxyHttps :: "(database, unit) io" where
  "addCustomProxyHttps = on_table custom_proxy_t (\<lambda>t.
     if has_https t then ret ()
     else modify (\<lambda>d. d\<lparr>custom_proxy_t := Some (t\<lparr>has_https := True,
            proxy_rows := map (\<lambda>r. r\<lparr>px_https := 0\<rparr>) (proxy_rows t)\<rparr>)\<rparr>))"

definition addCustomProxyAuthelia :: "(database, unit) io" where
  "addCustomProxyAuthelia = on_table custom_proxy_t (\<lambda>t.
     if has_authelia t then ret ()
     else modify (\<lambda>d. d\<lparr>custom_proxy_t := Some (t\<lparr>has_authelia := True,
            proxy_rows := map (\<lambda>r. r\<lparr>px_authelia := 0\<rparr>) (proxy_rows t)\<rparr>)\<rparr>))"

definition legacy_uris :: "oidc_row list \<Rightarrow> (string \<times> string) list \<Rightarrow> (string \<times> string) list" where
  "legacy_uris rows uris = map (\<lambda>r. (oc_id r, oc_redirect_uri r))
     (filter (\<lambda>r. oc_redirect_uri r \<noteq> [] \<and> oc_id r \<notin> fst ` set uris) rows)"

definition normalizeOidcRedirectUris :: "(database, unit) io" where
  "normalizeOidcRedirectUris = andThen
     (when_up (\<lambda>d. d\<lparr>oidc_uri_t := (case oidc_uri_t d of None \<Rightarrow> Some [] | t \<Rightarrow> t)\<rparr>)) (\<lambda>_.
     andThen (gets oidc_client_t) (\<lambda>ct.
       case ct of
         None \<Rightarrow> ret ()
       | Some t \<Rightarrow> if \<not> has_redirect_uri t then ret ()
                 else on_table oidc_uri_t (\<lambda>uris. modify (\<lambda>d. d\<lparr>
                   oidc_uri_t := Some (uris @ legacy_uris (oidc_rows t) uris),
                   oidc_client_t := Some (t\<lparr>has_redirect_uri := False\<rparr>)\<rparr>))))"

definition migrations :: "(nat \<times> (database, unit) io) list" where
  "migrations = [(1, createConfigTable), (2, createOidcClientTable), (3, createCustomProxyTable),
     (4, addCustomProxyHttps), (5, addCustomProxyAuthelia), (6, normalizeOidcRedirectUris)]"

text \<open>The migrations in sequence, up to the first that fails.\<close>

definition run_migrations :: "(database, unit) io" where
  "run_migrations = forEach migrations snd"

section \<open>Properties\<close>

definition current_schema :: "database \<Rightarrow> bool" where
  "current_schema d \<longleftrightarrow> db_up d \<and> config_t d \<noteq> None \<and> oidc_uri_t d \<noteq> None
     \<and> (\<exists>t. oidc_client_t d = Some t \<and> \<not> has_redirect_uri t)
     \<and> (\<exists>t. custom_proxy_t d = Some t \<and> has_https t \<and> has_authelia t)"

lemmas migration_defs = run_migrations_def migrations_def createConfigTable_def createOidcClientTable_def
  createCustomProxyTable_def addCustomProxyHttps_def addCustomProxyAuthelia_def
  normalizeOidcRedirectUris_def when_up_def on_table_def

lemma run_migrations_current: "current_schema d \<Longrightarrow> run_migrations d = (Ok (), d)"
  by (auto simp: current_schema_def migration_defs andThen_def)

lemma run_migrations_schema:
  assumes "db_up d"
  shows "\<exists>d'. run_migrations d = (Ok (), d') \<and> current_schema d'
     \<and> config_t d' = Some (case config_t d of None \<Rightarrow> [] | Some rows \<Rightarrow> rows)
     \<and> map_option oidc_rows (oidc_client_t d') = Some (case oidc_client_t d of None \<Rightarrow> [] | Some t \<Rightarrow> oidc_rows t)"
  using assms
  by (cases "config_t d"; cases "oidc_client_t d"; cases "custom_proxy_t d"; cases "oidc_uri_t d")
    (auto simp: migration_defs andThen_def current_schema_def)



text \<open>
  A registered OpenID client is listed with exactly the values it was registered with,
  its redirect addresses in their order; registering it again replaces it, and the other
  clients are listed as before.
\<close>

lemma oidc_client_roundtrip:
  assumes "db_up d" "oidc_client_t d = Some t" "oidc_uri_t d = Some uris"
    and "OIDC_Clients d = (Ok before, d)"
  shows "\<exists>d'. OIDC_AddClient c d = (Ok (), d')
     \<and> OIDC_Clients d' = (Ok (filter (\<lambda>b. cl_ID b \<noteq> cl_ID c) before @ [c]), d')"
proof -
  have before: "before = map (client_of_row uris) (oidc_rows t)"
    using assms by (simp add: OIDC_Clients_def on_table_def)
  have other: "uris_of i (filter (\<lambda>u. fst u \<noteq> cl_ID c) uris @ map (\<lambda>uri. (cl_ID c, uri)) us) = uris_of i uris"
    if "i \<noteq> cl_ID c" for i us
    using that by (auto simp: uris_of_def filter_map comp_def intro: arg_cong [of _ _ "map snd"] filter_cong)
  have self: "uris_of (cl_ID c) (filter (\<lambda>u. fst u \<noteq> cl_ID c) uris @ map (\<lambda>uri. (cl_ID c, uri)) us) = us" for us
    by (simp add: uris_of_def filter_map comp_def)
  have "map (client_of_row (filter (\<lambda>u. fst u \<noteq> cl_ID c) uris @ map (\<lambda>uri. (cl_ID c, uri)) (cl_RedirectURIs c)))
      (filter (\<lambda>r. oc_id r \<noteq> cl_ID c) rows) = filter (\<lambda>b. cl_ID b \<noteq> cl_ID c) (map (client_of_row uris) rows)" for rows
    by (induction rows) (auto simp: client_of_row_def other)
  then show ?thesis
    using assms(1-3) by (simp add: before OIDC_AddClient_def OIDC_Clients_def on_table_def client_of_row_def self)
qed

definition sample_client :: oidc_client where
  "sample_client = \<lparr>cl_ID = ''files'', cl_Secret = ''s'', cl_RedirectURIs = [''https://a'', ''https://b''],
     cl_RequirePkce = True, cl_AuthMethod = ''basic''\<rparr>"

lemma oidc_client_roundtrip_example:
  "\<exists>d'. OIDC_AddClient sample_client (snd (run_migrations empty_database)) = (Ok (), d')
     \<and> OIDC_Clients d' = (Ok [sample_client], d')"
proof -
  obtain d where d: "snd (run_migrations empty_database) = d" "current_schema d"
    "map_option oidc_rows (oidc_client_t d) = Some []"
    using run_migrations_schema [of empty_database] by (auto simp: empty_database_def)
  obtain t uris where t: "db_up d" "oidc_client_t d = Some t" "oidc_uri_t d = Some uris" "oidc_rows t = []"
    using d(2,3) by (auto simp: current_schema_def)
  have "OIDC_Clients d = (Ok [], d)" using t by (simp add: OIDC_Clients_def on_table_def)
  from oidc_client_roundtrip [OF t(1-3) this, of sample_client] d(1) show ?thesis by simp
qed

text \<open>
  A custom proxy that was added is listed with its host, port and flags and replaces one
  of the same name; a removed one is no longer listed; the others are listed as before. On a
  table without the newer columns adding and listing fail and nothing changes.
\<close>

lemma custom_proxy_roundtrip:
  assumes "db_up d" "custom_proxy_t d = Some t"
  shows "if has_https t \<and> has_authelia t
     then (\<exists>before d1 d2. Proxy_List d = (Ok before, d)
        \<and> Proxy_Add name host port https authelia d = (Ok (), d1)
        \<and> Proxy_List d1 = (Ok (filter (\<lambda>e. pe_Name e \<noteq> name) before @
             [\<lparr>pe_Name = name, pe_Host = host, pe_Port = port, pe_Https = https, pe_Authelia = authelia\<rparr>]), d1)
        \<and> Proxy_Remove name d1 = (Ok (), d2)
        \<and> Proxy_List d2 = (Ok (filter (\<lambda>e. pe_Name e \<noteq> name) before), d2))
     else Proxy_List d = (Err sql_error, d) \<and> Proxy_Add name host port https authelia d = (Err sql_error, d)"
proof -
  have "map entry_of_row (filter (\<lambda>r. px_name r \<noteq> name) rows)
      = filter (\<lambda>e. pe_Name e \<noteq> name) (map entry_of_row rows)" for rows
    by (induction rows) (auto simp: entry_of_row_def)
  then show ?thesis
    using assms
    by (auto simp: Proxy_List_def Proxy_Add_def Proxy_Remove_def on_proxies_def on_table_def set_proxies_def
        entry_of_row_def)
qed

lemma custom_proxy_roundtrip_example:
  "\<exists>d1. Proxy_Add ''cam'' ''10.0.0.2'' 80 False True
       (empty_database\<lparr>custom_proxy_t := Some \<lparr>has_https = True, has_authelia = True, proxy_rows = []\<rparr>\<rparr>) = (Ok (), d1)
     \<and> fst (Proxy_List d1) = Ok [\<lparr>pe_Name = ''cam'', pe_Host = ''10.0.0.2'', pe_Port = 80, pe_Https = False, pe_Authelia = True\<rparr>]"
proof -
  let ?t = "\<lparr>has_https = True, has_authelia = True, proxy_rows = []\<rparr>"
  let ?d = "empty_database\<lparr>custom_proxy_t := Some ?t\<rparr>"
  have up: "db_up ?d" "custom_proxy_t ?d = Some ?t" by (simp_all add: empty_database_def)
  have "Proxy_List ?d = (Ok [], ?d)" using up by (simp add: Proxy_List_def on_proxies_def on_table_def)
  with custom_proxy_roundtrip [OF up, of "''cam''" "''10.0.0.2''" 80 False True] show ?thesis
    by auto
qed

end
