(* ===== verification/Web_Auth.thy ===== *)
theory Web_Auth
  imports Accounts Config_Tables
begin

text \<open>
  Single sign-on with Authelia (\<^verbatim>\<open>backend/auth\<close>: \<^verbatim>\<open>authelia.go\<close>, \<^verbatim>\<open>authelia_health.go\<close>,
  \<^verbatim>\<open>secret_generator.go\<close>, \<^verbatim>\<open>totp.go\<close>, \<^verbatim>\<open>oidc.go\<close>, and \<^verbatim>\<open>backend/parser/template.go\<close>): its configuration is
  rendered from templates beside the live one, checked by its own tool, and only then
  installed. The text of the templates and the database of Authelia are behind calls.
\<close>

section \<open>Templates\<close>

definition template_write :: "string \<Rightarrow> string list \<Rightarrow> string \<Rightarrow> unit go" where
  "template_write output args name =
     andThen (do_sys ''create'' [output @ ''/'' @ name]) (\<lambda>_.
       do_sys ''execute'' ((output @ ''/'' @ name) # args))"

text \<open>The files of a directory, without its subdirectories.\<close>

fun template_files :: "string list \<Rightarrow> string list go" where
  "template_files [] = ret []"
| "template_files (entry # rest) =
     andThen (do_str (Sys ''stat'' [entry])) (\<lambda>kind.
     andThen (template_files rest) (\<lambda>files.
       ret (if kind = ''dir'' then files else entry # files)))"

text \<open>\<^verbatim>\<open>template.Must\<close> panics when a file is not a template; the reply holds the names.\<close>

definition parse_files :: "string list \<Rightarrow> string list go" where
  "parse_files files = andThen (attempt (do_strs (Sys ''template.ParseFiles'' files))) (\<lambda>r. case r of
     Inl e \<Rightarrow> crash (err_text e) | Inr names \<Rightarrow> ret names)"

definition Generate :: "string \<Rightarrow> string \<Rightarrow> string list \<Rightarrow> unit go" where
  "Generate input output args =
     andThen (attempt (do_sys ''stat'' [output])) (\<lambda>r.
     andThen (if r = Inl NotExist then do_sys ''mkdirall'' [output, ''0755''] else ret ()) (\<lambda>_.
     andThen (do_strs (Sys ''glob'' [input @ ''/*''])) (\<lambda>entries.
     andThen (template_files entries) (\<lambda>files.
       if files = [] then throw (Error (''no template files found in '' @ input))
       else andThen (parse_files files) (\<lambda>names. forEach names (template_write output args))))))"

section \<open>Secrets\<close>

record secret =
  s_Password :: string
  s_Hash :: string

definition secret_of :: "string \<Rightarrow> secret go" where
  "secret_of output = (case Split output CHR ''\<newline>'' of
     p # h # _ \<Rightarrow> (case CutPrefix p ''Random Password: '' of
        None \<Rightarrow> throw (Error (''not valid authelia crypto password: '' @ p))
      | Some password \<Rightarrow> (case CutPrefix h ''Digest: '' of
          None \<Rightarrow> throw (Error (''not valid authelia crypto hash: '' @ h))
        | Some hash \<Rightarrow> ret \<lparr>s_Password = password, s_Hash = hash\<rparr>))
   | _ \<Rightarrow> throw (Error (''not valid authelia crypto response: '' @ output)))"

definition authelia_cli :: "string list \<Rightarrow> string list" where
  "authelia_cli args = [''run'', ''platform.authelia-cli''] @ args"

definition Secret_Generate :: "secret go" where
  "Secret_Generate = andThen (run_cmd ''snap'' (authelia_cli [''crypto'', ''hash'', ''generate'', ''--random''])) secret_of"

text \<open>\<^verbatim>\<open>uuid.New\<close> panics without random bytes.\<close>

definition uuid_New :: "string go" where
  "uuid_New = andThen (attempt (do_str (Sys ''uuid'' []))) (\<lambda>r. case r of Inl e \<Rightarrow> crash (err_text e) | Inr u \<Rightarrow> ret u)"

definition getOrCreateUuid :: "string \<Rightarrow> string go" where
  "getOrCreateUuid file =
     andThen (attempt (do_sys ''stat'' [file])) (\<lambda>r.
       if r = Inl NotExist
       then andThen uuid_New (\<lambda>u. andThen (do_sys ''writefile'' [file, u, ''0644'']) (\<lambda>_. ret u))
       else do_str (Sys ''readfile'' [file]))"

definition createRsaKeyFileIfMissing :: "string \<Rightarrow> unit go" where
  "createRsaKeyFileIfMissing file =
     andThen (attempt (do_sys ''stat'' [file])) (\<lambda>r. case r of
       Inr _ \<Rightarrow> ret ()
     | Inl e \<Rightarrow> if e \<noteq> NotExist then throw e
         else andThen (do_str (Sys ''rsa.GenerateKey'' [''4096''])) (\<lambda>key.
           do_sys ''writefile'' [file, key, ''0700'']))"

section \<open>The configuration of Authelia\<close>

definition hook_AppDir :: string where "hook_AppDir = ''/snap/platform/current''"

definition hook_DataDir :: string where "hook_DataDir = ''/var/snap/platform/current''"

definition authelia_inputDir :: string where "authelia_inputDir = path_join [hook_AppDir, ''config/authelia'']"

definition authelia_outDir :: string where "authelia_outDir = path_join [hook_DataDir, ''config/authelia'']"

definition authelia_tmpDir :: string where "authelia_tmpDir = authelia_outDir @ ''.tmp''"

definition authelia_socket :: string where "authelia_socket = path_join [hook_DataDir, ''authelia.socket'']"

definition KeyFile :: string where "KeyFile = ''authelia.storage.encryption.key''"

definition SecretFile :: string where "SecretFile = ''authelia.jwt.secret''"

definition JwksKey :: string where "JwksKey = ''authelia.jwks.key''"

definition HmacSecret :: string where "HmacSecret = ''authelia.hmac_secret.key''"

record variables =
  v_Domain :: string
  v_EncryptionKey :: string
  v_JwtSecret :: string
  v_HmacSecret :: string
  v_DeviceUrl :: string
  v_AuthUrl :: string
  v_IsActivated :: bool
  v_TwoFactorEnabled :: bool
  v_OIDCClients :: "oidc_client list"

definition bool_arg :: "bool \<Rightarrow> string" where
  "bool_arg b = (if b then ''true'' else ''false'')"

definition client_args :: "oidc_client \<Rightarrow> string list" where
  "client_args c = [cl_ID c, cl_Secret c] @ cl_RedirectURIs c @ [bool_arg (cl_RequirePkce c), cl_AuthMethod c]"

definition variables_args :: "variables \<Rightarrow> string list" where
  "variables_args v = [v_Domain v, v_EncryptionKey v, v_JwtSecret v, v_HmacSecret v, v_DeviceUrl v, v_AuthUrl v,
     bool_arg (v_IsActivated v), bool_arg (v_TwoFactorEnabled v)] @ concat (map client_args (v_OIDCClients v))"

text \<open>The redirect paths of a client become URLs of its app.\<close>

fun with_urls :: "oidc_client list \<Rightarrow> oidc_client list go" where
  "with_urls [] = ret []"
| "with_urls (c # cs) =
     andThen (cfg (Url (cl_ID c))) (\<lambda>appUrl.
     andThen (with_urls cs) (\<lambda>rest.
       ret (c\<lparr>cl_RedirectURIs := map (\<lambda>uri. appUrl @ uri) (cl_RedirectURIs c)\<rparr> # rest)))"

definition copy_file :: "string \<Rightarrow> string \<Rightarrow> unit go" where
  "copy_file src dst =
     andThen (do_sys ''open'' [src]) (\<lambda>_.
     andThen (do_sys ''create'' [dst]) (\<lambda>_.
       do_sys ''copy'' [dst, src]))"

text \<open>
  \<^verbatim>\<open>copyDir\<close> descends into the directories it finds; the first argument bounds the depth. Every
  level makes the paths longer, and the system refuses paths of more than 4096 bytes, so a
  bound of 4096 levels is never reached before a call fails with this error.
\<close>

fun copyDir :: "nat \<Rightarrow> string \<Rightarrow> string \<Rightarrow> unit go" where
  "copyDir 0 srcDir dstDir = throw (Error ''file name too long'')"
| "copyDir (Suc n) srcDir dstDir =
     andThen (do_sys ''mkdirall'' [dstDir, ''0755'']) (\<lambda>_.
     andThen (do_pairs (Sys ''readdir'' [srcDir])) (\<lambda>entries.
       forEach entries (\<lambda>(name, kind).
         let src = path_join [srcDir, name]; dst = path_join [dstDir, name] in
         if kind = ''dir'' then copyDir n src dst else copy_file src dst)))"

definition path_max :: nat where "path_max = 4096"

definition copyAssetsDir :: "string \<Rightarrow> string \<Rightarrow> unit go" where
  "copyAssetsDir srcDir dstDir =
     andThen (attempt (do_sys ''stat'' [srcDir])) (\<lambda>r.
       if r = Inl NotExist then ret ()
       else andThen (do_sys ''mkdirall'' [dstDir, ''0755'']) (\<lambda>_.
         andThen (do_pairs (Sys ''readdir'' [srcDir])) (\<lambda>entries.
           forEach entries (\<lambda>(name, kind).
             if kind = ''dir'' then ret () else copy_file (path_join [srcDir, name]) (path_join [dstDir, name])))))"

definition validate_config :: call where
  "validate_config = Exec ''snap'' (authelia_cli [''validate-config'', ''--config'', path_join [authelia_tmpDir, ''config.yml''],
     ''--config.experimental.filters'', ''template''])"

definition authelia_variables :: "variables go" where
  "authelia_variables =
     andThen (cfg IsActivated) (\<lambda>activated.
     andThen (getOrCreateUuid (path_join [hook_DataDir, KeyFile])) (\<lambda>encryptionKey.
     andThen (getOrCreateUuid (path_join [hook_DataDir, SecretFile])) (\<lambda>jwtSecret.
     andThen (getOrCreateUuid (path_join [hook_DataDir, HmacSecret])) (\<lambda>hmacSecret.
     andThen (createRsaKeyFileIfMissing (path_join [hook_DataDir, JwksKey])) (\<lambda>_.
     andThen (cfg OIDC_Clients) (\<lambda>clients.
     andThen (with_urls clients) (\<lambda>clients'.
     andThen (cfg GetDeviceDomain) (\<lambda>domain.
     andThen (cfg DeviceUrl) (\<lambda>deviceUrl.
     andThen (cfg (Url ''auth'')) (\<lambda>authUrl.
     andThen (cfg IsTwoFactorEnabled) (\<lambda>twoFactor.
       ret \<lparr>v_Domain = domain, v_EncryptionKey = encryptionKey, v_JwtSecret = jwtSecret, v_HmacSecret = hmacSecret,
         v_DeviceUrl = deviceUrl, v_AuthUrl = authUrl, v_IsActivated = activated, v_TwoFactorEnabled = twoFactor,
         v_OIDCClients = clients'\<rparr>)))))))))))"

text \<open>What is rendered in the temporary directory, up to the check by the tool.\<close>

definition render_config :: "variables \<Rightarrow> unit go" where
  "render_config v =
     andThen (attempt (copyAssetsDir (path_join [authelia_inputDir, ''assets'']) (path_join [authelia_tmpDir, ''assets'']))) (\<lambda>_.
     andThen (attempt (do_sys ''mkdirall'' [path_join [authelia_outDir, ''assets''], ''0755''])) (\<lambda>_.
       Generate authelia_inputDir authelia_tmpDir (variables_args v)))"

definition check_config :: "unit go" where
  "check_config = (case validate_config of Exec cmd args \<Rightarrow>
       andThen (CombinedOutput cmd args) (\<lambda>(output, err). case err of
         Some _ \<Rightarrow> throw (Error (''authelia config validation failed, contact support: '' @ output))
       | None \<Rightarrow> ret ())
   | _ \<Rightarrow> ret ())"

definition install_config :: "unit go" where
  "install_config = andThen (copyDir path_max authelia_tmpDir authelia_outDir) (\<lambda>_. RestartService ''platform.authelia'')"

definition finally_do :: "unit go \<Rightarrow> 'a go \<Rightarrow> 'a go" where
  "finally_do d m = (\<lambda>w. case m w of (r, w') \<Rightarrow> (case d w' of (_, w'') \<Rightarrow> (r, w'')))"

definition Authelia_InitConfig :: "unit go" where
  "Authelia_InitConfig =
     andThen authelia_variables (\<lambda>v.
     andThen (do_sys ''removeall'' [authelia_tmpDir]) (\<lambda>_.
     andThen (do_sys ''mkdirall'' [authelia_tmpDir, ''0755'']) (\<lambda>_.
       finally_do (do_sys ''removeall'' [authelia_tmpDir])
         (andThen (render_config v) (\<lambda>_. andThen check_config (\<lambda>_. install_config))))))"

section \<open>Health\<close>

fun ready_loop :: "nat \<Rightarrow> unit go" where
  "ready_loop 0 = throw (Error ''authelia not ready after 30s'')"
| "ready_loop (Suc n) =
     andThen (attempt (do_http (Sys ''http-get'' [authelia_socket, ''http://authelia/api/health'']))) (\<lambda>r.
       if (case r of Inl _ \<Rightarrow> False | Inr resp \<Rightarrow> StatusCode resp = 200) then ret ()
       else andThen (do_void (Sys ''sleep'' [''1s''])) (\<lambda>_. ready_loop n))"

definition WaitForReady :: "unit go" where
  "WaitForReady = ready_loop 30"

definition RegisterOIDCClient :: "string \<Rightarrow> string list \<Rightarrow> bool \<Rightarrow> string \<Rightarrow> string go" where
  "RegisterOIDCClient cid redirectURIs requirePkce tokenEndpointAuthMethod =
     andThen Secret_Generate (\<lambda>secret.
     andThen (cfg (OIDC_AddClient \<lparr>cl_ID = cid, cl_Secret = s_Hash secret, cl_RedirectURIs = redirectURIs,
        cl_RequirePkce = requirePkce, cl_AuthMethod = tokenEndpointAuthMethod\<rparr>)) (\<lambda>_.
     andThen Authelia_InitConfig (\<lambda>_.
     andThen WaitForReady (\<lambda>_. ret (s_Password secret)))))"

section \<open>One-time passwords\<close>

definition sqlitePath :: string where "sqlitePath = path_join [hook_DataDir, ''authelia.sqlite3'']"

definition autheliaDSN :: "string \<Rightarrow> string" where
  "autheliaDSN path = ''file:'' @ path @ ''?_pragma=busy_timeout(5000)&_pragma=journal_mode(WAL)''"

definition totp_uri :: "string \<Rightarrow> string option" where
  "totp_uri output = (case CutAt ''otpauth://'' output of
     None \<Rightarrow> None
   | Some (_, rest) \<Rightarrow> (let uri = ''otpauth://'' @ rest in
       Some (TrimSpace (case CutAt [CHR 0x27] uri of None \<Rightarrow> uri | Some (before, _) \<Rightarrow> before))))"

definition totp_cli :: "string \<Rightarrow> string list \<Rightarrow> string list" where
  "totp_cli encryptionKey options = authelia_cli ([''storage'', ''user'', ''totp''] @ options)
     @ [''--sqlite.path'', sqlitePath, ''--encryption-key'', encryptionKey]"

definition totp_key :: "string go" where
  "totp_key = wrap_err ''failed to read encryption key: '' (do_str (Sys ''readfile'' [path_join [hook_DataDir, KeyFile]]))"

definition TOTP_Generate :: "string \<Rightarrow> string go" where
  "TOTP_Generate username =
     andThen totp_key (\<lambda>encryptionKey.
     andThen (CombinedOutput ''snap'' (totp_cli encryptionKey
        [''generate'', username, ''--force'', ''--issuer'', ''Syncloud''])) (\<lambda>(output, err). case err of
       Some _ \<Rightarrow> throw (Error (''failed to generate TOTP: '' @ output))
     | None \<Rightarrow> (case totp_uri output of
         None \<Rightarrow> throw (Error (''TOTP URI not found in output: '' @ output))
       | Some uri \<Rightarrow> ret uri)))"

definition totp_open :: "unit go" where
  "totp_open = wrap_err ''failed to open authelia db: '' (do_sys ''sql.Open'' [''sqlite'', autheliaDSN sqlitePath])"

definition TOTP_Has :: "string \<Rightarrow> bool go" where
  "TOTP_Has username = andThen totp_open (\<lambda>_.
     andThen (attempt (do_int (Sys ''sql.QueryRow''
        [''SELECT COUNT(*) FROM totp_configurations WHERE username = ?'', username]))) (\<lambda>r.
       ret (case r of Inl _ \<Rightarrow> False | Inr count \<Rightarrow> 0 < count)))"

definition TOTP_ResetAll :: "unit go" where
  "TOTP_ResetAll = andThen totp_open (\<lambda>_. do_sys ''sql.Exec'' [''DELETE FROM totp_configurations''])"

definition TOTP_Reset :: "string \<Rightarrow> unit go" where
  "TOTP_Reset username =
     andThen totp_key (\<lambda>encryptionKey.
     andThen (CombinedOutput ''snap'' (totp_cli encryptionKey [''delete'', username])) (\<lambda>(output, err). case err of
       Some _ \<Rightarrow> throw (Error (''failed to delete TOTP: '' @ output))
     | None \<Rightarrow> ret ()))"

section \<open>OpenID Connect\<close>

text \<open>\<^verbatim>\<open>url.QueryEscape\<close>, and \<^verbatim>\<open>url.Values.Encode\<close> for keys in alphabetical order.\<close>

definition hex_upper :: "nat \<Rightarrow> char" where
  "hex_upper n = ''0123456789ABCDEF'' ! n"

definition escape_char :: "char \<Rightarrow> string" where
  "escape_char c = (let n = (of_char c :: nat) in
     if is_lower c \<or> is_upper c \<or> is_digit c \<or> c \<in> {CHR ''-'', CHR ''_'', CHR ''.'', CHR ''~''} then [c]
     else if c = CHR '' '' then ''+''
     else [CHR ''%'', hex_upper (n div 16), hex_upper (n mod 16)])"

definition QueryEscape :: "string \<Rightarrow> string" where
  "QueryEscape s = concat (map escape_char s)"

definition values_Encode :: "(string \<times> string) list \<Rightarrow> string" where
  "values_Encode kvs = Join (map (\<lambda>(k, v). QueryEscape k @ ''='' @ QueryEscape v) kvs) ''&''"

text \<open>The buffer has the given length; a short read of the source leaves zeros.\<close>

definition randomString :: "nat \<Rightarrow> string go" where
  "randomString n = andThen (do_str (Sys ''rand'' [nat_dec n])) (\<lambda>s.
     ret (take n (RawURLEncode (take n (s @ replicate n (CHR 0x00))))))"

definition generateCodeChallenge :: "(string \<Rightarrow> string) \<Rightarrow> string \<Rightarrow> string" where
  "generateCodeChallenge sha256 codeVerifier = RawURLEncode (sha256 codeVerifier)"

definition GetAuthorizationURL :: "(string \<times> string \<times> string) go" where
  "GetAuthorizationURL =
     andThen (wrap_err ''generate state: '' (randomString 32)) (\<lambda>state.
     andThen (wrap_err ''generate code verifier: '' (randomString 64)) (\<lambda>codeVerifier.
     andThen (gets (\<lambda>w. e_sha256 (w_env w))) (\<lambda>sha256.
     andThen (cfg DeviceUrl) (\<lambda>deviceUrl.
     andThen (cfg (Url ''auth'')) (\<lambda>authUrl.
       ret (authUrl @ ''/api/oidc/authorization?'' @ values_Encode
          [(''client_id'', ''syncloud''), (''code_challenge'', generateCodeChallenge sha256 codeVerifier),
           (''code_challenge_method'', ''S256''), (''redirect_uri'', deviceUrl @ ''/rest/oidc/callback''),
           (''response_type'', ''code''), (''scope'', ''openid profile email groups''), (''state'', state)],
         state, codeVerifier))))))"

definition dec_claims :: "json \<Rightarrow> (string \<times> string) option" where
  "dec_claims = dec_obj (\<lambda>k. case (dec_str (k ''preferred_username''), dec_str (k ''sub'')) of
     (Some p, Some s) \<Rightarrow> Some (p, s) | _ \<Rightarrow> None)"

definition extractUsernameFromIDToken :: "string \<Rightarrow> string go" where
  "extractUsernameFromIDToken idToken = (case Split idToken CHR ''.'' of
     [_, part, _] \<Rightarrow> (case RawURLDecode part of
        None \<Rightarrow> throw (Error ''decode id_token payload: illegal base64 data'')
      | Some payload \<Rightarrow> andThen (gets (\<lambda>w. e_json (w_env w) payload)) (\<lambda>j.
          case Option.bind j dec_claims of
            None \<Rightarrow> throw (Error ''parse id_token claims: cannot unmarshal'')
          | Some (preferred, subject) \<Rightarrow>
              (let username = (if preferred = [] then subject else preferred) in
               if username = [] then throw (Error ''no username in id_token'') else ret username)))
   | _ \<Rightarrow> throw (Error ''invalid id_token format''))"

definition userinfo_call :: "string \<Rightarrow> call" where
  "userinfo_call accessToken = Sys ''http-get'' [authelia_socket, ''http://authelia/api/oidc/userinfo'',
     ''Authorization: Bearer '' @ accessToken]"

definition fetchUsernameFromUserInfo :: "string \<Rightarrow> string go" where
  "fetchUsernameFromUserInfo accessToken =
     andThen (wrap_err ''userinfo request: '' (do_http (userinfo_call accessToken))) (\<lambda>resp.
     andThen (wrap_err ''read userinfo response: '' (read_body resp)) (\<lambda>b.
       if StatusCode resp \<noteq> 200
       then throw (Error (''userinfo endpoint returned '' @ Itoa (StatusCode resp) @ '': '' @ body_text b))
       else wrap_err ''parse userinfo response: ''
         (json_body b (dec_obj (\<lambda>k. dec_str (k ''preferred_username''))))))"

definition token_call :: "string \<Rightarrow> string \<Rightarrow> string \<Rightarrow> call" where
  "token_call deviceUrl code codeVerifier = Sys ''http-post-form'' [authelia_socket, ''http://authelia/api/oidc/token'',
     values_Encode [(''client_id'', ''syncloud''), (''code'', code), (''code_verifier'', codeVerifier),
       (''grant_type'', ''authorization_code''), (''redirect_uri'', deviceUrl @ ''/rest/oidc/callback'')]]"

definition dec_token :: "json \<Rightarrow> (string \<times> string) option" where
  "dec_token = dec_obj (\<lambda>k. case (dec_str (k ''id_token''), dec_str (k ''access_token'')) of
     (Some i, Some a) \<Rightarrow> Some (i, a) | _ \<Rightarrow> None)"

definition ExchangeCode :: "string \<Rightarrow> string \<Rightarrow> string go" where
  "ExchangeCode code codeVerifier =
     andThen (cfg DeviceUrl) (\<lambda>deviceUrl.
     andThen (wrap_err ''token request: '' (do_http (token_call deviceUrl code codeVerifier))) (\<lambda>resp.
     andThen (wrap_err ''read token response: '' (read_body resp)) (\<lambda>b.
       if StatusCode resp \<noteq> 200
       then throw (Error (''token endpoint returned '' @ Itoa (StatusCode resp) @ '': '' @ body_text b))
       else andThen (wrap_err ''parse token response: '' (json_body b dec_token)) (\<lambda>(idToken, accessToken).
         if idToken = [] then throw (Error ''no id_token in response'')
         else andThen (if accessToken = [] then ret []
              else andThen (attempt (fetchUsernameFromUserInfo accessToken)) (\<lambda>r.
                ret (case r of Inl _ \<Rightarrow> [] | Inr username \<Rightarrow> username))) (\<lambda>username.
           if username \<noteq> [] then ret username else extractUsernameFromIDToken idToken)))))"

section \<open>The live configuration\<close>

text \<open>Calls that change the installed configuration or make Authelia load it.\<close>

definition live :: "call \<Rightarrow> bool" where
  "live c = (case c of
     Exec cmd args \<Rightarrow> cmd = ''systemctl'' \<and> args = [''restart'', serviceName ''platform.authelia'']
   | Sys f (p # _) \<Rightarrow> f \<in> {''create'', ''copy'', ''writefile'', ''execute''} \<and> HasPrefix p (authelia_outDir @ ''/'')
   | _ \<Rightarrow> False)"

text \<open>Names in a directory are single path parts.\<close>

definition plain_names :: "environment \<Rightarrow> bool" where
  "plain_names e \<longleftrightarrow> (\<forall>h d es. e_pairs e h (Sys ''readdir'' [d]) = Inr es \<longrightarrow> list_all (\<lambda>x. plain_part (fst x)) es)"

lemma authelia_paths [simp]:
  "authelia_outDir = ''/var/snap/platform/current/config/authelia''"
  "authelia_tmpDir = ''/var/snap/platform/current/config/authelia.tmp''"
  "path_join [''/var/snap/platform/current/config/authelia.tmp'', ''assets''] = ''/var/snap/platform/current/config/authelia.tmp/assets''"
  "path_join [hook_DataDir, KeyFile] = ''/var/snap/platform/current/authelia.storage.encryption.key''"
  "path_join [hook_DataDir, SecretFile] = ''/var/snap/platform/current/authelia.jwt.secret''"
  "path_join [hook_DataDir, HmacSecret] = ''/var/snap/platform/current/authelia.hmac_secret.key''"
  "path_join [hook_DataDir, JwksKey] = ''/var/snap/platform/current/authelia.jwks.key''"
  by code_simp+

lemma asset_path:
  assumes "plain_part n"
  shows "path_join [''/var/snap/platform/current/config/authelia.tmp/assets'', n]
     = ''/var/snap/platform/current/config/authelia.tmp/assets/'' @ n"
proof -
  let ?ps = "[''var'', ''snap'', ''platform'', ''current'', ''config'', ''authelia.tmp'', ''assets'']"
  have "''/'' @ Join ?ps ''/'' = ''/var/snap/platform/current/config/authelia.tmp/assets''" by simp
  moreover have "list_all plain_part ?ps" by (simp add: plain_part_def)
  ultimately show ?thesis using path_join_child [of ?ps n] assms by simp
qed

lemma only_reads_oidc [reads]:
  "only_reads OIDC_Clients" "only_reads IsTwoFactorEnabled" "only_reads (Url a)" "only_reads DeviceUrl"
proof -
  show "only_reads OIDC_Clients"
    by (auto simp: only_reads_def OIDC_Clients_def on_table_def split: option.splits)
  show "only_reads IsTwoFactorEnabled" unfolding IsTwoFactorEnabled_def by (intro reads)
  show "only_reads (Url a)" "only_reads DeviceUrl"
    unfolding Url_def DeviceUrl_def AppDomain_def by (intro reads only_reads_intros)+
qed

lemma keeps_finally_do [keeps_intros]:
  assumes "transp R" "keeps R d" "keeps R m"
  shows "keeps R (finally_do d m)"
proof (rule keepsI)
  fix w r w' assume *: "finally_do d m w = (r, w')"
  obtain r1 w1 where m: "m w = (r1, w1)" by (cases "m w")
  obtain r2 w2 where d: "d w1 = (r2, w2)" by (cases "d w1")
  from * m d have "w' = w2" by (simp add: finally_do_def)
  with keepsD [OF assms(3) m] keepsD [OF assms(2) d] assms(1) show "R w w'" by (auto dest: transpD)
qed

abbreviation quiet :: "world \<Rightarrow> world \<Rightarrow> bool" where
  "quiet \<equiv> within (\<lambda>c. \<not> live c)"

lemma quiet_calls [simp]:
  "f \<notin> {''create'', ''copy'', ''writefile'', ''execute''} \<Longrightarrow> \<not> live (Sys f args)"
  "\<not> HasPrefix p (authelia_outDir @ ''/'') \<Longrightarrow> \<not> live (Sys f (p # args))"
  "cmd \<noteq> ''systemctl'' \<Longrightarrow> \<not> live (Exec cmd as)"
  by (auto simp: live_def split: list.splits)

lemma keeps_uuid_New [keeps_intros]: "keeps quiet uuid_New"
  unfolding uuid_New_def by (auto intro!: keeps_intros split: sum.splits)

lemma keeps_getOrCreateUuid:
  "\<not> HasPrefix file (authelia_outDir @ ''/'') \<Longrightarrow> keeps quiet (getOrCreateUuid file)"
  unfolding getOrCreateUuid_def by (intro keeps_intros) auto

lemma keeps_createRsa:
  "\<not> HasPrefix file (authelia_outDir @ ''/'') \<Longrightarrow> keeps quiet (createRsaKeyFileIfMissing file)"
  unfolding createRsaKeyFileIfMissing_def by (auto intro!: keeps_intros split: sum.splits)

lemma keeps_with_urls: "keeps quiet (with_urls cs)"
  by (induction cs) (auto intro!: keeps_intros keeps_cfg_read reads simp del: ret_apply)

lemma keeps_variables: "keeps quiet authelia_variables"
  unfolding authelia_variables_def
  by (intro keeps_intros keeps_cfg_read reads keeps_with_urls keeps_getOrCreateUuid keeps_createRsa) (simp_all add: HasPrefix_def)

lemma keeps_template_files: "keeps quiet (template_files es)"
  by (induction es) (auto intro!: keeps_intros simp del: ret_apply)

lemma keeps_Generate: "keeps quiet (Generate input authelia_tmpDir args)"
  unfolding Generate_def parse_files_def template_write_def
  by (intro keeps_intros keeps_template_files) (auto intro!: keeps_intros simp: HasPrefix_def split: sum.splits)

text \<open>\<open>calmly\<close>: quiet as long as directories have plain names.\<close>

definition calmly :: "world \<Rightarrow> world \<Rightarrow> bool" where
  "calmly w w' \<longleftrightarrow> (plain_names (w_env w) \<longrightarrow> quiet w w')"

lemma reflp_calmly [keeps_intros]: "reflp calmly"
  using reflp_within [of "\<lambda>c. \<not> live c"] by (simp add: reflp_def calmly_def)

lemma transp_calmly [keeps_intros]: "transp calmly"
  unfolding transp_def calmly_def using transpD [OF transp_within] only_calls_db by metis

lemma calmly_quiet: "keeps quiet m \<Longrightarrow> keeps calmly m"
  by (simp add: keeps_def calmly_def)

lemma calmly_readdir:
  assumes "\<And>es. list_all (\<lambda>x. plain_part (fst x)) es \<Longrightarrow> keeps quiet (k es)"
  shows "keeps calmly (andThen (do_pairs (Sys ''readdir'' [d])) k)"
proof (rule keepsI, unfold calmly_def, rule impI)
  fix w r w' assume run: "andThen (do_pairs (Sys ''readdir'' [d])) k w = (r, w')" and p: "plain_names (w_env w)"
  let ?c = "Sys ''readdir'' [d]"
  have q: "quiet w (record_call ?c w)" by simp
  show "quiet w w'"
  proof (cases "e_pairs (w_env w) (w_hist w) ?c")
    case (Inl e)
    then show ?thesis using run q by (simp add: do_pairs_def andThen_def)
  next
    case (Inr es)
    then have k: "k es (record_call ?c w) = (r, w')" using run by (simp add: do_pairs_def andThen_def)
    have "list_all (\<lambda>x. plain_part (fst x)) es" using p Inr by (auto simp: plain_names_def)
    then have "keeps quiet (k es)" by (rule assms)
    then have "quiet (record_call ?c w) w'" using k by (rule keepsD)
    with transp_within q show ?thesis by (rule transpD)
  qed
qed

lemma keeps_copy_file: "\<not> HasPrefix dst (authelia_outDir @ ''/'') \<Longrightarrow> keeps quiet (copy_file src dst)"
  unfolding copy_file_def by (intro keeps_intros) simp_all

lemma keeps_assets: "keeps calmly (copyAssetsDir src (path_join [authelia_tmpDir, ''assets'']))"
  unfolding copyAssetsDir_def
proof (intro calmly_readdir keeps_andThen transp_calmly keeps_if)
  fix es :: "(string \<times> string) list" assume plain: "list_all (\<lambda>x. plain_part (fst x)) es"
  have "keeps quiet (copy_file (path_join [src, n]) (path_join [path_join [authelia_tmpDir, ''assets''], n]))"
    if "(n, k) \<in> set es" for n k
  proof -
    have "plain_part n" using plain that by (auto simp: list_all_iff)
    then show ?thesis by (intro keeps_copy_file) (simp add: asset_path HasPrefix_def)
  qed
  then show "keeps quiet (forEach es (\<lambda>(name, kind). if kind = ''dir'' then ret ()
      else copy_file (path_join [src, name]) (path_join [path_join [authelia_tmpDir, ''assets''], name])))"
    by (intro keeps_forEach reflp_within transp_within) (auto intro!: keeps_intros simp del: ret_apply authelia_paths)
qed (intro calmly_quiet keeps_intros, simp)+

lemma keeps_render: "keeps calmly (render_config v)"
  unfolding render_config_def
  by (intro keeps_andThen transp_calmly keeps_attempt keeps_assets calmly_quiet [OF keeps_Generate])
    (intro calmly_quiet keeps_intros, simp)

lemma check_config_run:
  "check_config w = ((case snd (e_exec (w_env w) (w_hist w) validate_config) of
       Some _ \<Rightarrow> Err (Error (''authelia config validation failed, contact support: '' @ fst (e_exec (w_env w) (w_hist w) validate_config)))
     | None \<Rightarrow> Ok ()), record_call validate_config w)"
  by (simp add: check_config_def validate_config_def CombinedOutput_def andThen_def split: prod.splits option.splits)

lemma only_calls_install: "keeps only_calls install_config"
proof -
  have "keeps only_calls (copyDir n s d)" for n s d
    by (induction n arbitrary: s d) (auto simp: copy_file_def Let_def intro!: keeps_intros simp del: throw_apply)
  then show ?thesis unfolding install_config_def RestartService_def by (intro keeps_intros) auto
qed

lemma install_restarts:
  assumes "install_config w = (Ok (), w')"
  shows "last (w_hist w') = Exec ''systemctl'' [''restart'', serviceName ''platform.authelia'']"
proof -
  obtain r1 w1 where c: "copyDir path_max authelia_tmpDir authelia_outDir w = (r1, w1)" by fastforce
  with assms have "RestartService ''platform.authelia'' w1 = (Ok (), w')"
    by (cases r1) (auto simp: install_config_def andThen_def)
  then show ?thesis
    by (auto simp: RestartService_def run_cmd_def CombinedOutput_def andThen_def split: option.splits prod.splits res.splits)
qed

lemma gate_index:
  assumes "list_all (\<lambda>c. \<not> P c) as" "\<not> P v" "i < length (as @ v # bs)" "P ((as @ v # bs) ! i)"
  shows "\<exists>j < i. (as @ v # bs) ! j = v \<and> take j (as @ v # bs) = as"
proof -
  have "length as < i"
    using assms by (auto simp: nth_append list_all_length nth_Cons' not_less split: if_splits)
  then show ?thesis by (intro exI [of _ "length as"]) simp
qed

lemma body_gated:
  assumes "plain_names (w_env w)" "andThen (render_config v) (\<lambda>_. andThen check_config (\<lambda>_. install_config)) w = (r, w')"
  shows "(\<exists>cs. w_hist w' = w_hist w @ cs \<and> list_all (\<lambda>c. \<not> live c) cs \<and> r \<noteq> Ok ())
     \<or> (\<exists>as bs. w_hist w' = w_hist w @ as @ validate_config # bs \<and> list_all (\<lambda>c. \<not> live c) as
          \<and> snd (e_exec (w_env w) (w_hist w @ as) validate_config) = None
          \<and> (r = Ok () \<longrightarrow> (\<exists>ds. bs = ds @ [Exec ''systemctl'' [''restart'', serviceName ''platform.authelia'']])))"
proof -
  have v: "\<not> live validate_config" by (simp add: validate_config_def live_def)
  obtain r1 w1 where render: "render_config v w = (r1, w1)" by fastforce
  then have "quiet w w1" using keepsD [OF keeps_render render] assms(1) by (simp add: calmly_def)
  then obtain as where as: "w1 = w\<lparr>w_hist := w_hist w @ as\<rparr>" "list_all (\<lambda>c. \<not> live c) as" by (auto simp: within_def)
  show ?thesis
  proof (cases "r1 = Ok () \<and> snd (e_exec (w_env w) (w_hist w @ as) validate_config) = None")
    case True
    then have inst: "install_config (record_call validate_config w1) = (r, w')"
      using assms(2) render as(1) by (simp add: andThen_def check_config_run)
    then obtain bs where bs: "w_hist w' = (w_hist w @ as @ [validate_config]) @ bs"
      using keepsD [OF only_calls_install inst] as(1) by (auto simp: within_def)
    have "bs = butlast bs @ [Exec ''systemctl'' [''restart'', serviceName ''platform.authelia'']]" if "r = Ok ()"
    proof -
      have "last (w_hist w') = Exec ''systemctl'' [''restart'', serviceName ''platform.authelia'']"
        using install_restarts inst that by blast
      then show ?thesis using bs by (cases bs rule: rev_cases) (auto simp: validate_config_def)
    qed
    then show ?thesis using True as bs by fastforce
  next
    case False
    then have "r \<noteq> Ok () \<and> (w' = w1 \<or> w' = record_call validate_config w1)"
      using assms(2) render as(1) by (cases r1) (auto simp: andThen_def check_config_run split: option.splits)
    then show ?thesis using as v by (auto simp: record_call_def)
  qed
qed

text \<open>
  C5. Authelia never gets a configuration that its own check has not accepted: in every run of
  \<open>InitConfig\<close>, each call that writes the live configuration or restarts Authelia comes after a
  call of the validation that succeeded in the same run; and when the run succeeds, Authelia
  was restarted last, before the temporary directory is removed. (Names of files in a
  directory are single path parts.)
\<close>

theorem live_config_validated:
  assumes "plain_names (w_env w)" "Authelia_InitConfig w = (r, w')"
  shows "\<exists>cs. w_hist w' = w_hist w @ cs
     \<and> (\<forall>i < length cs. live (cs ! i) \<longrightarrow> (\<exists>j < i. cs ! j = validate_config
          \<and> snd (e_exec (w_env w) (w_hist w @ take j cs) validate_config) = None))
     \<and> (r = Ok () \<longrightarrow> (\<exists>ds. cs = ds @ [Exec ''systemctl'' [''restart'', serviceName ''platform.authelia''],
          Sys ''removeall'' [authelia_tmpDir]]))"
proof -
  let ?rm = "Sys ''removeall'' [authelia_tmpDir]"
  define pre where "pre = andThen authelia_variables (\<lambda>v. andThen (do_sys ''removeall'' [authelia_tmpDir]) (\<lambda>_.
     andThen (do_sys ''mkdirall'' [authelia_tmpDir, ''0755'']) (\<lambda>_. ret v)))"
  define body where "body v = andThen (render_config v) (\<lambda>_. andThen check_config (\<lambda>_. install_config))" for v
  have split: "Authelia_InitConfig = andThen pre (\<lambda>v. finally_do (do_sys ''removeall'' [authelia_tmpDir]) (body v))"
    unfolding Authelia_InitConfig_def pre_def body_def by (simp add: andThen_assoc andThen_ret_left)
  have q: "keeps quiet pre" unfolding pre_def by (intro keeps_intros keeps_variables) simp_all
  obtain r1 w1 where pre: "pre w = (r1, w1)" by fastforce
  from keepsD [OF q pre] obtain cs where cs: "w1 = w\<lparr>w_hist := w_hist w @ cs\<rparr>" "list_all (\<lambda>c. \<not> live c) cs"
    by (auto simp: within_def)
  show ?thesis
  proof (cases r1)
    case (Ok v)
    obtain w2 where w2: "body v w1 = (r, w2)" "w_hist w' = w_hist w2 @ [?rm]"
      using assms(2) pre Ok by (cases "body v w1") (auto simp: split finally_do_def do_sys_def do_unit_def)
    have "plain_names (w_env w1)" using assms(1) cs by simp
    from body_gated [OF this w2(1) [unfolded body_def]] show ?thesis
    proof (elim disjE exE conjE)
      fix ds assume "w_hist w2 = w_hist w1 @ ds" "list_all (\<lambda>c. \<not> live c) ds" "r \<noteq> Ok ()"
      then show ?thesis using cs w2(2) by (intro exI [of _ "cs @ ds @ [?rm]"]) (auto simp: list_all_length nth_append)
    next
      fix as bs
      assume h: "w_hist w2 = w_hist w1 @ as @ validate_config # bs" "list_all (\<lambda>c. \<not> live c) as"
        "snd (e_exec (w_env w1) (w_hist w1 @ as) validate_config) = None"
        "r = Ok () \<longrightarrow> (\<exists>ds. bs = ds @ [Exec ''systemctl'' [''restart'', serviceName ''platform.authelia'']])"
      let ?cs = "(cs @ as) @ validate_config # bs @ [?rm]"
      have "list_all (\<lambda>c. \<not> live c) (cs @ as)" "\<not> live validate_config"
        using cs h(2) by (simp_all add: validate_config_def live_def)
      from gate_index [OF this, of _ "bs @ [?rm]"]
      have "\<exists>j < i. ?cs ! j = validate_config \<and> take j ?cs = cs @ as" if "i < length ?cs" "live (?cs ! i)" for i
        using that by simp
      moreover have "w_hist w' = w_hist w @ ?cs" using cs(1) h(1) w2(2) by simp
      moreover have "snd (e_exec (w_env w) (w_hist w @ cs @ as) validate_config) = None" using cs(1) h(3) by simp
      ultimately show ?thesis using h(4) by (intro exI [of _ ?cs]) fastforce
    qed
  qed (use assms(2) pre cs in \<open>auto simp: split list_all_length\<close>)
qed

text \<open>A device on which every call succeeds and one template is found.\<close>

definition authelia_env :: environment where
  "authelia_env = calm\<lparr>e_strs := (\<lambda>_ _. Inr [''config.yml'']),
     e_http := (\<lambda>_ _. Inr \<lparr>StatusCode = 200, resp_Status = [], Body = Inr \<lparr>body_text = [], body_json = Some JNull\<rparr>\<rparr>)\<rparr>"

definition authelia_db :: database where
  "authelia_db = fresh_db\<lparr>oidc_client_t := Some \<lparr>has_redirect_uri = False, oidc_rows = []\<rparr>, oidc_uri_t := Some []\<rparr>"

lemma authelia_calls:
  assumes "w_env w = authelia_env"
  shows "do_str c w = (Ok [], record_call c w)" "do_sys f as w = (Ok (), record_call (Sys f as) w)"
    "do_strs c w = (Ok [''config.yml''], record_call c w)" "do_pairs c w = (Ok [], record_call c w)"
    "CombinedOutput cmd as w = (Ok ('''', None), record_call (Exec cmd as) w)"
    "do_http c w = (Ok \<lparr>StatusCode = 200, resp_Status = [], Body = Inr \<lparr>body_text = [], body_json = Some JNull\<rparr>\<rparr>, record_call c w)"
  using assms by (simp_all add: do_str_def do_sys_def do_unit_def do_strs_def do_pairs_def do_http_def CombinedOutput_def authelia_env_def calm_def)

definition no_clients :: "database \<Rightarrow> bool" where
  "no_clients d \<longleftrightarrow> db_ready d \<and> OIDC_Clients d = (Ok [], d)"

lemma no_clients_put [simp]: "no_clients d \<Longrightarrow> no_clients (db_put k v d)" "no_clients d \<Longrightarrow> no_clients (db_del k d)"
  by (auto simp: no_clients_def OIDC_Clients_def on_table_def db_put_def db_del_def db_ready_def split: option.splits if_splits)

lemma no_clients_authelia_db [simp]: "no_clients authelia_db"
  by (simp add: no_clients_def OIDC_Clients_def on_table_def authelia_db_def fresh_db_def empty_database_def db_ready_def)

lemma authelia_settings:
  assumes "no_clients (w_db w)"
  shows "cfg OIDC_Clients w = (Ok [], w)" "cfg GetDeviceDomain w = (Ok (device_domain (w_db w)), w)"
    "cfg DeviceUrl w = (Ok (ConstructUrl (Option.bind (db_view (w_db w) ''platform.manual_access_port'') Atoi) (device_domain (w_db w))), w)"
    "cfg (Url a) w = (Ok (ConstructUrl (Option.bind (db_view (w_db w) ''platform.manual_access_port'') Atoi) (a @ ''.'' @ device_domain (w_db w))), w)"
    "cfg IsActivated w = (Ok (view_bool (w_db w) ''platform.activated'' False), w)"
    "cfg IsTwoFactorEnabled w = (Ok (view_bool (w_db w) ''platform.two_factor_enabled'' False), w)"
  using assms by (simp_all add: no_clients_def cfg_def zoom_def DeviceUrl_def Url_def IsActivated_def IsTwoFactorEnabled_def io_simps)

lemma authelia_variables_run:
  assumes "w_env w = authelia_env" "no_clients (w_db w)"
  shows "\<exists>v w'. authelia_variables w = (Ok v, w') \<and> w_env w' = authelia_env"
  using assms
  by (simp add: authelia_variables_def authelia_settings getOrCreateUuid_def createRsaKeyFileIfMissing_def authelia_calls
      attempt_def del: authelia_paths)

lemma authelia_body_run:
  assumes "w_env w = authelia_env"
  shows "\<exists>w'. andThen (render_config v) (\<lambda>_. andThen check_config (\<lambda>_. install_config)) w = (Ok (), w') \<and> w_env w' = authelia_env"
proof -
  have n: "path_max = Suc 4095" by (simp add: path_max_def)
  have copy: "copyDir path_max s d w = (Ok (), record_call (Sys ''readdir'' [s]) (record_call (Sys ''mkdirall'' [d, ''0755'']) w))"
    if "w_env w = authelia_env" for s d w
    unfolding n copyDir.simps using that by (simp add: authelia_calls)
  show ?thesis
    using assms
    by (simp add: render_config_def copyAssetsDir_def Generate_def parse_files_def template_write_def check_config_def
        validate_config_def install_config_def copy RestartService_def run_cmd_def authelia_calls attempt_def del: authelia_paths)
qed

lemma Authelia_InitConfig_ok:
  assumes "w_env w = authelia_env" "no_clients (w_db w)"
  shows "\<exists>w'. Authelia_InitConfig w = (Ok (), w') \<and> w_env w' = authelia_env"
proof -
  obtain v w1 where v: "authelia_variables w = (Ok v, w1)" "w_env w1 = authelia_env"
    using authelia_variables_run [OF assms] by auto
  then show ?thesis
    using authelia_body_run [of "record_call (Sys ''mkdirall'' [authelia_tmpDir, ''0755'']) (record_call (Sys ''removeall'' [authelia_tmpDir]) w1)" v]
    by (auto simp: Authelia_InitConfig_def authelia_calls finally_do_def simp del: authelia_paths)
qed

theorem live_config_validated_witness:
  "let w = (start_world authelia_env)\<lparr>w_db := authelia_db\<rparr> in \<exists>w' ds. Authelia_InitConfig w = (Ok (), w')
     \<and> w_hist w' = ds @ [Exec ''systemctl'' [''restart'', ''snap.platform.authelia''], Sys ''removeall'' [authelia_tmpDir]]
     \<and> (\<exists>i. ds ! i = validate_config \<and> i < length ds)"
proof -
  let ?w = "(start_world authelia_env)\<lparr>w_db := authelia_db\<rparr>"
  have plain: "plain_names (w_env ?w)" by (simp add: plain_names_def authelia_env_def calm_def)
  obtain w' where run: "Authelia_InitConfig ?w = (Ok (), w')"
    using Authelia_InitConfig_ok [of ?w] by auto
  from live_config_validated [OF plain run] obtain cs ds where
    c: "w_hist w' = cs" "\<forall>i < length cs. live (cs ! i) \<longrightarrow> (\<exists>j < i. cs ! j = validate_config)"
    "cs = ds @ [Exec ''systemctl'' [''restart'', serviceName ''platform.authelia''], Sys ''removeall'' [authelia_tmpDir]]"
    by fastforce
  then have h: "w_hist w' = ds @ [Exec ''systemctl'' [''restart'', serviceName ''platform.authelia''], Sys ''removeall'' [authelia_tmpDir]]"
    "\<forall>i < Suc (Suc (length ds)). live (w_hist w' ! i) \<longrightarrow> (\<exists>j < i. w_hist w' ! j = validate_config)"
    by simp_all
  have "live (w_hist w' ! length ds)" using h(1) by (simp add: live_def nth_append)
  with h(2) obtain j where "j < length ds" "w_hist w' ! j = validate_config"
    by (metis lessI less_SucI)
  then have "ds ! j = validate_config" using h(1) by (simp add: nth_append)
  then show ?thesis using run h(1) \<open>j < length ds\<close> by (auto simp: serviceName_def)
qed

text \<open>
  A user name comes back from an identity token: for a token whose payload is the encoding
  of JSON claims, the login uses the preferred name, or the subject when there is none.
\<close>

lemma id_token_username:
  assumes "e_json (w_env w) payload = Some (JObj [(''preferred_username'', JStr preferred), (''sub'', JStr subject)])"
    and "CHR ''.'' \<notin> set header" "CHR ''.'' \<notin> set signature" "preferred \<noteq> [] \<or> subject \<noteq> []"
  shows "extractUsernameFromIDToken (header @ ''.'' @ RawURLEncode payload @ ''.'' @ signature) w
     = (Ok (if preferred = [] then subject else preferred), w)"
proof -
  have "Split (header @ ''.'' @ RawURLEncode payload @ ''.'' @ signature) CHR ''.'' = [header, RawURLEncode payload, signature]"
    using assms(2,3) RawURLEncode_no_dot [of payload] by (simp add: Split_append_sep Split_no_sep)
  then show ?thesis
    using assms(1,4)
    by (simp add: extractUsernameFromIDToken_def RawURLDecode_Encode dec_claims_def jkey_def andThen_def)
qed

lemma id_token_username_example:
  "fst (extractUsernameFromIDToken (''eyJ9'' @ ''.'' @ RawURLEncode ''{}'' @ ''.'' @ ''sig'')
     (start_world (calm\<lparr>e_json := (\<lambda>_. Some (JObj [(''preferred_username'', JStr ''bob''), (''sub'', JStr ''1'')]))\<rparr>))) = Ok ''bob''"
  by (subst id_token_username [of _ "''{}''" "''bob''" "''1''"]) (simp_all add: start_world_def)

end
