(* ===== verification/Session.thy ===== *)
theory Session
  imports Settings_Readers
begin

text \<open>
  An exchange of the web backend, and the sessions kept in cookies
  (\<^verbatim>\<open>backend/session/cookies.go\<close>). A request carries the value of its session cookie; the cookie
  library decodes it once per request, keeps the decoded values with the request, and
  saving a session adds a header to the answer. The values of a session are strings, since
  only strings are ever stored.
\<close>

section \<open>Requests and answers\<close>

record request =
  rq_Method :: string
  rq_Path :: string
  rq_query :: "(string \<times> string) list"
  rq_form :: "error + (string \<times> string) list"
  rq_json :: "json option"
  rq_cookie :: "string option"

text \<open>
  \<open>rq_json\<close> is the first JSON value of the body (\<open>None\<close>: none can be read), \<open>rq_form\<close> the result
  of \<^verbatim>\<open>ParseForm\<close>: the values of the form and of the query, in this order.
\<close>

record 'd exchange =
  x_world :: world
  x_req :: request
  x_session :: "(string \<times> string) list option"
  x_status :: "int option"
  x_cookies :: "string list"
  x_location :: "string option"
  x_body :: "'d list"

type_synonym ('d, 'a) web = "('d exchange, 'a) io"

definition serve :: "'a go \<Rightarrow> ('d, 'a) web" where
  "serve m = zoom x_world (\<lambda>w x. x\<lparr>x_world := w\<rparr>) m"

definition new_exchange :: "world \<Rightarrow> request \<Rightarrow> 'd exchange" where
  "new_exchange w req = \<lparr>x_world = w, x_req = req, x_session = None, x_status = None, x_cookies = [],
     x_location = None, x_body = []\<rparr>"

section \<open>Cookies\<close>

definition UserKey :: string where "UserKey = ''user''"

definition OIDCStateKey :: string where "OIDCStateKey = ''oidc_state''"

definition OIDCCodeVerifierKey :: string where "OIDCCodeVerifierKey = ''oidc_code_verifier''"

definition Cookies_Reset :: "unit go" where
  "Cookies_Reset = andThen (cfg GetWebSecretKey) (\<lambda>key. modify (\<lambda>w. w\<lparr>cookies_key := Some key\<rparr>))"

definition Cookies_Start :: "unit go" where
  "Cookies_Start = Cookies_Reset"

text \<open>A cookie that cannot be decoded gives a new session; without a store the call panics.\<close>

definition decode_session :: "world \<Rightarrow> string \<Rightarrow> string option \<Rightarrow> (string \<times> string) list" where
  "decode_session w key cookie = (case cookie of
     None \<Rightarrow> []
   | Some c \<Rightarrow> (case e_unseal (w_env w) (w_hist w) key c of None \<Rightarrow> [] | Some vs \<Rightarrow> vs))"

definition getSession :: "('d, (string \<times> string) list) web" where
  "getSession = andThen (gets id) (\<lambda>x. case x_session x of
     Some vs \<Rightarrow> ret vs
   | None \<Rightarrow> (case cookies_key (x_world x) of
       None \<Rightarrow> crash ''nil pointer dereference''
     | Some key \<Rightarrow> (let vs = decode_session (x_world x) key (rq_cookie (x_req x)) in
         andThen (modify (\<lambda>x. x\<lparr>x_session := Some vs\<rparr>)) (\<lambda>_. ret vs))))"

definition session_Save :: "(string \<times> string) list \<Rightarrow> ('d, unit) web" where
  "session_Save vs =
     andThen (modify (\<lambda>x. x\<lparr>x_session := Some vs\<rparr>)) (\<lambda>_.
     andThen (gets (\<lambda>x. case cookies_key (x_world x) of
        None \<Rightarrow> Inl (Error ''no codecs'') | Some key \<Rightarrow> e_seal (w_env (x_world x)) (w_hist (x_world x)) key vs)) (\<lambda>r. case r of
       Inl e \<Rightarrow> throw e
     | Inr c \<Rightarrow> modify (\<lambda>x. x\<lparr>x_cookies := x_cookies x @ [c]\<rparr>)))"

definition SetSessionUser :: "string \<Rightarrow> ('d, unit) web" where
  "SetSessionUser user = andThen getSession (\<lambda>vs. session_Save (row_put UserKey user vs))"

text \<open>The header is removed first, which matters when the session is not decoded yet.\<close>

definition ClearSessionUser :: "('d, unit) web" where
  "ClearSessionUser =
     andThen (modify (\<lambda>x. x\<lparr>x_req := (x_req x)\<lparr>rq_cookie := None\<rparr>\<rparr>)) (\<lambda>_.
     andThen getSession (\<lambda>vs. session_Save (row_del UserKey vs)))"

definition GetSessionUser :: "('d, string) web" where
  "GetSessionUser = andThen getSession (\<lambda>vs. case map_of vs UserKey of
     None \<Rightarrow> throw (Error ''no session found'') | Some user \<Rightarrow> ret user)"

definition SetOIDCState :: "string \<Rightarrow> string \<Rightarrow> ('d, unit) web" where
  "SetOIDCState state codeVerifier = andThen getSession (\<lambda>vs.
     session_Save (row_put OIDCCodeVerifierKey codeVerifier (row_put OIDCStateKey state vs)))"

definition GetOIDCState :: "('d, string \<times> string) web" where
  "GetOIDCState = andThen getSession (\<lambda>vs. case map_of vs OIDCStateKey of
     None \<Rightarrow> throw (Error ''no OIDC state found'')
   | Some state \<Rightarrow> (case map_of vs OIDCCodeVerifierKey of
       None \<Rightarrow> throw (Error ''no OIDC code verifier found'')
     | Some codeVerifier \<Rightarrow> ret (state, codeVerifier)))"

definition ClearOIDCState :: "('d, unit) web" where
  "ClearOIDCState = andThen getSession (\<lambda>vs. session_Save (row_del OIDCCodeVerifierKey (row_del OIDCStateKey vs)))"

section \<open>What a request's session is\<close>

text \<open>The values that every operation on the session of an exchange starts from.\<close>

definition session_values :: "'d exchange \<Rightarrow> (string \<times> string) list option" where
  "session_values x = (case x_session x of
     Some vs \<Rightarrow> Some vs
   | None \<Rightarrow> map_option (\<lambda>key. decode_session (x_world x) key (rq_cookie (x_req x))) (cookies_key (x_world x)))"

definition session_user :: "'d exchange \<Rightarrow> string option" where
  "session_user x = Option.bind (session_values x) (\<lambda>vs. map_of vs UserKey)"

lemma getSession_run:
  "getSession x = (case session_values x of
     None \<Rightarrow> (Crash ''nil pointer dereference'', x)
   | Some vs \<Rightarrow> (Ok vs, x\<lparr>x_session := Some vs\<rparr>))"
  by (auto simp: getSession_def session_values_def Let_def split: option.splits)

lemma session_values_loaded [simp]:
  "session_values (x\<lparr>x_session := Some vs\<rparr>) = Some vs"
  by (simp add: session_values_def)

lemma GetSessionUser_run:
  "session_values x = Some vs \<Longrightarrow> GetSessionUser x =
     ((case map_of vs UserKey of None \<Rightarrow> Err (Error ''no session found'') | Some u \<Rightarrow> Ok u), x\<lparr>x_session := Some vs\<rparr>)"
  by (simp add: GetSessionUser_def getSession_run andThen_def split: option.splits)

lemma session_Save_run:
  assumes "cookies_key (x_world x) = Some key"
  shows "session_Save vs x = (case e_seal (w_env (x_world x)) (w_hist (x_world x)) key vs of
     Inl e \<Rightarrow> (Err e, x\<lparr>x_session := Some vs\<rparr>)
   | Inr c \<Rightarrow> (Ok (), x\<lparr>x_session := Some vs, x_cookies := x_cookies x @ [c]\<rparr>))"
  using assms by (simp add: session_Save_def andThen_def split: sum.splits)

text \<open>
  The promises of the cookie library for a key: at a point of the history it decodes what it
  has encoded (as long as no cookie is too old), and it decodes nothing that was not encoded
  with this key.
\<close>

definition fresh_cookies :: "environment \<Rightarrow> call list \<Rightarrow> string \<Rightarrow> bool" where
  "fresh_cookies e h key \<longleftrightarrow> (\<forall>h' c vs. e_seal e h' key vs = Inr c \<longrightarrow> e_unseal e h key c = Some vs)"

definition authentic :: "environment \<Rightarrow> string \<Rightarrow> bool" where
  "authentic e key \<longleftrightarrow> (\<forall>h c vs. e_unseal e h key c = Some vs \<longrightarrow> (\<exists>h'. e_seal e h' key vs = Inr c))"

text \<open>
  C24. Sessions survive from one request to the next: when the user of a session is set, the
  answer carries a new cookie, and a later request with this cookie has exactly this user and
  otherwise the values of the session before.
\<close>

theorem session_user_roundtrip:
  assumes "cookies_key (x_world x) = Some key" "session_values x = Some vs" "SetSessionUser user x = (Ok (), x')"
    and "w_env w = w_env (x_world x)" "cookies_key w = Some key" "fresh_cookies (w_env w) (w_hist w) key"
    and "rq_cookie req = Some (last (x_cookies x'))"
  shows "session_values (new_exchange w req :: 'd exchange) = Some (row_put UserKey user vs)
     \<and> fst (GetSessionUser (new_exchange w req :: 'd exchange)) = Ok user"
proof -
  let ?vs = "row_put UserKey user vs" and ?y = "new_exchange w req :: 'd exchange"
  obtain c where c: "e_seal (w_env (x_world x)) (w_hist (x_world x)) key ?vs = Inr c" "x_cookies x' = x_cookies x @ [c]"
    using assms(1-3) by (auto simp: SetSessionUser_def getSession_run session_Save_run split: sum.splits)
  then have "e_unseal (w_env w) (w_hist w) key c = Some ?vs"
    using assms(4,6) by (auto simp: fresh_cookies_def)
  then have vs: "session_values ?y = Some ?vs"
    using assms(5,7) c(2) by (simp add: session_values_def new_exchange_def decode_session_def)
  then show ?thesis by (simp add: GetSessionUser_run [OF vs])
qed

definition bob_env :: environment where
  "bob_env = calm\<lparr>e_seal := (\<lambda>_ _ vs. if vs = [(UserKey, ''bob'')] then Inr ''c'' else Inl (Error ''no'')),
     e_unseal := (\<lambda>_ _ c. if c = ''c'' then Some [(UserKey, ''bob'')] else None)\<rparr>"

definition bob_world :: world where
  "bob_world = (start_world bob_env)\<lparr>cookies_key := Some ''k''\<rparr>"

definition plain_request :: "string option \<Rightarrow> request" where
  "plain_request cookie = \<lparr>rq_Method = ''GET'', rq_Path = ''/'', rq_query = [], rq_form = Inr [], rq_json = None, rq_cookie = cookie\<rparr>"

lemma bob_world_sel [simp]:
  "w_env bob_world = bob_env" "cookies_key bob_world = Some ''k''" "w_db bob_world = fresh_db" "w_hist bob_world = []"
  by (simp_all add: bob_world_def)

theorem session_user_roundtrip_witness:
  "\<exists>x'. SetSessionUser ''bob'' (new_exchange bob_world (plain_request None) :: unit exchange) = (Ok (), x')
     \<and> fst (GetSessionUser (new_exchange bob_world (plain_request (Some (last (x_cookies x')))) :: unit exchange)) = Ok ''bob''"
proof -
  let ?x = "new_exchange bob_world (plain_request None) :: unit exchange"
  have x: "session_values ?x = Some []" "cookies_key (x_world ?x) = Some ''k''"
    by (simp_all add: session_values_def new_exchange_def decode_session_def plain_request_def)
  obtain x' where run: "SetSessionUser ''bob'' ?x = (Ok (), x')"
    using x by (simp add: SetSessionUser_def getSession_run session_Save_run row_put_def new_exchange_def bob_env_def)
  have w: "w_env bob_world = w_env (x_world ?x)" by (simp add: new_exchange_def)
  have f: "fresh_cookies (w_env bob_world) (w_hist bob_world) ''k''"
    by (simp add: fresh_cookies_def bob_env_def)
  have req: "rq_cookie (plain_request (Some (last (x_cookies x')))) = Some (last (x_cookies x'))" by (simp add: plain_request_def)
  from session_user_roundtrip [OF x(2,1) run w _ f req] run show ?thesis by auto
qed

end
