(* ===== verification/Login_Service.thy ===== *)
theory Login_Service
  imports Web_Auth Session
begin

text \<open>
  The login service (\<^verbatim>\<open>backend/cmd/login/main.go\<close>): a process of its own that lets somebody who knows
  the password of an account see whether a second factor is set up, and set one up. A handler
  writes one answer, which is its value here.
\<close>

section \<open>Handlers\<close>

record credentials =
  cr_Username :: string
  cr_Password :: string

datatype login_data = NoData | Configured bool | Uri string

record login_response =
  lr_Success :: bool
  lr_Data :: login_data
  lr_Message :: string

text \<open>What is written: a plain error of \<^verbatim>\<open>http.Error\<close>, or the JSON answer; with the status.\<close>

datatype login_answer = PlainAnswer string | JsonAnswer login_response

type_synonym login_reply = "int \<times> login_answer"

definition writeSuccess :: "login_data \<Rightarrow> login_reply" where
  "writeSuccess data = (200, JsonAnswer \<lparr>lr_Success = True, lr_Data = data, lr_Message = []\<rparr>)"

definition writeError :: "string \<Rightarrow> int \<Rightarrow> login_reply" where
  "writeError message status = (status, JsonAnswer \<lparr>lr_Success = False, lr_Data = NoData, lr_Message = message\<rparr>)"

definition dec_credentials :: "json \<Rightarrow> credentials option" where
  "dec_credentials = dec_obj (\<lambda>k. Option.bind (dec_str (k ''username'')) (\<lambda>u.
     Option.bind (dec_str (k ''password'')) (\<lambda>p. Some \<lparr>cr_Username = u, cr_Password = p\<rparr>)))"

definition login_dial :: call where
  "login_dial = Sys ''ldap-dial'' [''ldap://localhost:389'']"

definition login_bind :: "string \<Rightarrow> string \<Rightarrow> call" where
  "login_bind username password = Sys ''ldap-bind'' [''cn='' @ username @ '',ou=users,'' @ Domain_dn, password]"

definition authenticateLDAP :: "string \<Rightarrow> string \<Rightarrow> unit go" where
  "authenticateLDAP username password =
     andThen (wrap_err ''ldap connect: '' (do_unit login_dial)) (\<lambda>_.
     andThen (attempt (do_unit (login_bind username password))) (\<lambda>r. case r of
       Inl _ \<Rightarrow> throw (Error ''invalid credentials'') | Inr _ \<Rightarrow> ret ()))"

text \<open>The answer, or the credentials to go on with.\<close>

definition login_authenticate :: "request \<Rightarrow> (login_reply + credentials) go" where
  "login_authenticate rq =
     (if rq_Method rq \<noteq> ''POST'' then ret (Inl (405, PlainAnswer ''method not allowed''))
      else case Option.bind (rq_json rq) dec_credentials of
        None \<Rightarrow> ret (Inl (writeError ''username and password are required'' 400))
      | Some cr \<Rightarrow>
          if cr_Username cr = [] \<or> cr_Password cr = [] then ret (Inl (writeError ''username and password are required'' 400))
          else andThen (attempt (authenticateLDAP (cr_Username cr) (cr_Password cr))) (\<lambda>r. case r of
            Inl _ \<Rightarrow> ret (Inl (writeError ''invalid credentials'' 401))
          | Inr _ \<Rightarrow> ret (Inr cr)))"

definition with_login :: "request \<Rightarrow> (credentials \<Rightarrow> login_reply go) \<Rightarrow> login_reply go" where
  "with_login rq f = andThen (login_authenticate rq) (\<lambda>a. case a of Inl answer \<Rightarrow> ret answer | Inr cr \<Rightarrow> f cr)"

definition handleTOTPStatus :: "request \<Rightarrow> login_reply go" where
  "handleTOTPStatus rq = with_login rq (\<lambda>cr.
     andThen (attempt (TOTP_Has (cr_Username cr))) (\<lambda>r. case r of
       Inl _ \<Rightarrow> ret (writeError ''failed to check TOTP status'' 500)
     | Inr configured \<Rightarrow> ret (writeSuccess (Configured configured))))"

definition handleTOTPSetup :: "request \<Rightarrow> login_reply go" where
  "handleTOTPSetup rq = with_login rq (\<lambda>cr.
     andThen (attempt (TOTP_Generate (cr_Username cr))) (\<lambda>r. case r of
       Inl _ \<Rightarrow> ret (writeError ''failed to generate TOTP'' 500)
     | Inr uri \<Rightarrow> ret (writeSuccess (Uri uri))))"

text \<open>The two paths of the server.\<close>

datatype login_path = TotpStatus | TotpSetup

fun login_handler :: "login_path \<Rightarrow> request \<Rightarrow> login_reply go" where
  "login_handler TotpStatus = handleTOTPStatus"
| "login_handler TotpSetup = handleTOTPSetup"

section \<open>Authentication comes first\<close>

text \<open>Calls that read or change the second factor of one user.\<close>

definition second_factor :: "string \<Rightarrow> call \<Rightarrow> bool" where
  "second_factor username c \<longleftrightarrow>
     c \<in> {Sys ''readfile'' [path_join [hook_DataDir, KeyFile]], Sys ''sql.Open'' [''sqlite'', autheliaDSN sqlitePath],
       Sys ''sql.QueryRow'' [''SELECT COUNT(*) FROM totp_configurations WHERE username = ?'', username]}
     \<or> (\<exists>key. c = Exec ''snap'' (totp_cli key [''generate'', username, ''--force'', ''--issuer'', ''Syncloud'']))"

lemma second_factor_intros:
  "second_factor u (Sys ''readfile'' [path_join [hook_DataDir, KeyFile]])"
  "second_factor u (Sys ''sql.Open'' [''sqlite'', autheliaDSN sqlitePath])"
  "second_factor u (Sys ''sql.QueryRow'' [''SELECT COUNT(*) FROM totp_configurations WHERE username = ?'', u])"
  "second_factor u (Exec ''snap'' (totp_cli key [''generate'', u, ''--force'', ''--issuer'', ''Syncloud'']))"
  by (auto simp: second_factor_def)

lemma keeps_totp:
  "keeps (within (second_factor u)) (TOTP_Has u)" "keeps (within (second_factor u)) (TOTP_Generate u)"
  unfolding TOTP_Has_def TOTP_Generate_def totp_open_def totp_key_def
  by (auto intro!: keeps_intros second_factor_intros split: option.splits simp del: ret_apply throw_apply authelia_paths)

lemma authenticateLDAP_run:
  "authenticateLDAP u p w = (case e_unit (w_env w) (w_hist w) login_dial of
     Some e \<Rightarrow> (Err (Error (''ldap connect: '' @ err_text e)), record_call login_dial w)
   | None \<Rightarrow> ((case e_unit (w_env w) (w_hist w @ [login_dial]) (login_bind u p) of
       Some _ \<Rightarrow> Err (Error ''invalid credentials'') | None \<Rightarrow> Ok ()), record_call (login_bind u p) (record_call login_dial w)))"
  by (simp add: authenticateLDAP_def wrap_err_def do_unit_def andThen_def attempt_def split: option.splits)

definition login_accepted :: "request \<Rightarrow> world \<Rightarrow> credentials \<Rightarrow> bool" where
  "login_accepted rq w cr \<longleftrightarrow> rq_Method rq = ''POST'' \<and> Option.bind (rq_json rq) dec_credentials = Some cr
     \<and> cr_Username cr \<noteq> [] \<and> cr_Password cr \<noteq> []
     \<and> e_unit (w_env w) (w_hist w) login_dial = None
     \<and> e_unit (w_env w) (w_hist w @ [login_dial]) (login_bind (cr_Username cr) (cr_Password cr)) = None"

text \<open>Either the request is accepted, or it is answered after at most the two calls of the check.\<close>

lemma login_authenticate_cases:
  obtains cr where "login_accepted rq w cr"
      "login_authenticate rq w = (Ok (Inr cr), record_call (login_bind (cr_Username cr) (cr_Password cr)) (record_call login_dial w))"
  | answer cs u p where "\<And>cr. \<not> login_accepted rq w cr" "fst answer \<in> {400, 401, 405}"
      "login_authenticate rq w = (Ok (Inl answer), w\<lparr>w_hist := w_hist w @ cs\<rparr>)" "prefix cs [login_dial, login_bind u p]"
proof -
  let ?D = "Option.bind (rq_json rq) dec_credentials"
  consider (no) "\<And>cr. \<not> (rq_Method rq = ''POST'' \<and> ?D = Some cr \<and> cr_Username cr \<noteq> [] \<and> cr_Password cr \<noteq> [])"
    | (yes) cr where "rq_Method rq = ''POST''" "?D = Some cr" "cr_Username cr \<noteq> []" "cr_Password cr \<noteq> []" by blast
  then show thesis
  proof cases
    case no
    let ?answer = "if rq_Method rq \<noteq> ''POST'' then (405, PlainAnswer ''method not allowed'')
      else writeError ''username and password are required'' 400"
    from no show thesis
      by (intro that(2) [of ?answer "[]"])
        (auto simp: login_accepted_def login_authenticate_def writeError_def split: option.splits)
  next
    case (yes cr)
    let ?dial = "e_unit (w_env w) (w_hist w) login_dial" and ?b = "login_bind (cr_Username cr) (cr_Password cr)"
    have run: "login_authenticate rq w = (case authenticateLDAP (cr_Username cr) (cr_Password cr) w of
        (Err _, w') \<Rightarrow> (Ok (Inl (writeError ''invalid credentials'' 401)), w') | (_, w') \<Rightarrow> (Ok (Inr cr), w'))"
      using yes by (auto simp: login_authenticate_def authenticateLDAP_run andThen_def attempt_def split: option.splits)
    show thesis
    proof (cases "?dial = None \<and> e_unit (w_env w) (w_hist w @ [login_dial]) ?b = None")
      case True
      with yes run show thesis by (intro that(1) [of cr]) (auto simp: login_accepted_def authenticateLDAP_run)
    next
      case False
      with yes run show thesis
        by (intro that(2) [of "writeError ''invalid credentials'' 401" "if ?dial = None then [login_dial, ?b] else [login_dial]"
              "cr_Username cr" "cr_Password cr"])
          (auto simp: login_accepted_def authenticateLDAP_run writeError_def record_call_def split: option.splits)
    qed
  qed
qed

lemma keeps_login:
  assumes "\<And>cr. keeps (within (second_factor (cr_Username cr))) (f cr)" "with_login rq f w = (r, w')"
  shows "(\<exists>cr ds. login_accepted rq w cr \<and> list_all (second_factor (cr_Username cr)) ds
        \<and> w' = w\<lparr>w_hist := w_hist w @ login_dial # login_bind (cr_Username cr) (cr_Password cr) # ds\<rparr>)
     \<or> ((\<forall>cr. \<not> login_accepted rq w cr) \<and> (\<exists>answer. r = Ok answer \<and> fst answer \<in> {400, 401, 405})
        \<and> (\<exists>u p cs. w' = w\<lparr>w_hist := w_hist w @ cs\<rparr> \<and> prefix cs [login_dial, login_bind u p]))"
proof (cases rule: login_authenticate_cases [of rq w])
  case (1 cr)
  let ?w = "record_call (login_bind (cr_Username cr) (cr_Password cr)) (record_call login_dial w)"
  from 1(2) assms(2) have "f cr ?w = (r, w')" by (simp add: with_login_def)
  with assms(1) [of cr] have "within (second_factor (cr_Username cr)) ?w w'" by (rule keepsD)
  with 1(1) show ?thesis by (auto simp: within_def record_call_def)
next
  case (2 answer cs u p)
  moreover from this assms(2) have "r = Ok answer \<and> w' = w\<lparr>w_hist := w_hist w @ cs\<rparr>" by (simp add: with_login_def)
  ultimately show ?thesis by blast
qed

text \<open>
  C15. The second factor is behind the first: a handler of the login service reads or sets up
  the one-time passwords only of the user whose non-empty name and password a POST request
  gives, and only after the LDAP server has accepted a bind with them. Every other request is
  refused with status 400, 401 or 405 after at most these two calls.
\<close>

theorem login_before_second_factor:
  assumes "login_handler path rq w = (r, w')"
  shows "(\<exists>cr ds. login_accepted rq w cr \<and> list_all (second_factor (cr_Username cr)) ds
        \<and> w' = w\<lparr>w_hist := w_hist w @ login_dial # login_bind (cr_Username cr) (cr_Password cr) # ds\<rparr>)
     \<or> ((\<forall>cr. \<not> login_accepted rq w cr) \<and> (\<exists>answer. r = Ok answer \<and> fst answer \<in> {400, 401, 405})
        \<and> (\<exists>u p cs. w' = w\<lparr>w_hist := w_hist w @ cs\<rparr> \<and> prefix cs [login_dial, login_bind u p]))"
proof (cases path)
  case TotpStatus
  show ?thesis
    using assms unfolding TotpStatus login_handler.simps handleTOTPStatus_def
    by (rule keeps_login [rotated]) (auto intro!: keeps_intros keeps_totp split: sum.splits simp del: ret_apply)
next
  case TotpSetup
  show ?thesis
    using assms unfolding TotpSetup login_handler.simps handleTOTPSetup_def
    by (rule keeps_login [rotated]) (auto intro!: keeps_intros keeps_totp split: sum.splits simp del: ret_apply)
qed

definition bob_login :: request where
  "bob_login = (plain_request None)\<lparr>rq_Method := ''POST'',
     rq_json := Some (JObj [(''username'', JStr ''bob''), (''password'', JStr ''secret'')])\<rparr>"

theorem login_before_second_factor_witness:
  "\<exists>r w' ds. login_handler TotpSetup bob_login (start_world calm) = (r, w')
     \<and> w_hist w' = login_dial # login_bind ''bob'' ''secret'' # ds \<and> list_all (second_factor ''bob'') ds"
proof -
  obtain r w' where run: "login_handler TotpSetup bob_login (start_world calm) = (r, w')" by fastforce
  have "login_accepted bob_login (start_world calm) cr \<longleftrightarrow> cr = \<lparr>cr_Username = ''bob'', cr_Password = ''secret''\<rparr>" for cr
    by (auto simp: login_accepted_def bob_login_def plain_request_def dec_credentials_def jkey_def calm_def)
  with login_before_second_factor [OF run] obtain ds where
    "list_all (second_factor ''bob'') ds" "w_hist w' = login_dial # login_bind ''bob'' ''secret'' # ds" by auto
  with run show ?thesis by blast
qed

end
