(* ===== verification/Wiring.thy ===== *)
theory Wiring
  imports Config_Tables Systemd
begin

text \<open>
  The set-up of the components (\<^verbatim>\<open>backend/ioc\<close>). Every component is registered with a
  container by a constructor; the container looks up the parameters of the constructor by
  their types, calls it, and keeps what it returns. The container is a library: it is a
  parameter, and \<open>container_works\<close> is what the program relies on. The components keep their
  state in the world, so what a constructor does beside building an object is an effect on it.
\<close>

section \<open>The container\<close>

text \<open>
  A binding has a name (empty for a plain singleton), the types of the parameters and of the
  result of its constructor, and the constructor, which may use the container itself. A call runs a
  function on components of the given types.
\<close>

record 'c container =
  c_New :: 'c
  c_Bind :: "string \<Rightarrow> string list \<Rightarrow> string \<Rightarrow> ('c \<Rightarrow> unit go) \<Rightarrow> 'c \<Rightarrow> 'c go"
  c_NamedResolve :: "string \<Rightarrow> string \<Rightarrow> 'c \<Rightarrow> unit go"
  c_Call :: "string list \<Rightarrow> unit go \<Rightarrow> 'c \<Rightarrow> unit go"

text \<open>
  The documented behaviour, for \<open>bound c\<close> the types and names that the container \<open>c\<close> knows: a
  constructor whose parameters are known runs at once, its error is returned, and afterwards
  its result is known as well.
\<close>

definition container_works :: "'c container \<Rightarrow> ('c \<Rightarrow> (string \<times> string) set) \<Rightarrow> bool" where
  "container_works lib bound \<longleftrightarrow>
     bound (c_New lib) = {}
   \<and> (\<forall>name params out make c w. (\<forall>p\<in>set params. (p, []) \<in> bound c) \<longrightarrow> out \<notin> set params \<longrightarrow>
        (case make c w of
           (Ok _, w') \<Rightarrow> \<exists>c'. c_Bind lib name params out make c w = (Ok c', w') \<and> bound c' = insert (out, name) (bound c)
         | (Err e, w') \<Rightarrow> c_Bind lib name params out make c w = (Err e, w')
         | (Crash p, w') \<Rightarrow> c_Bind lib name params out make c w = (Crash p, w')))
   \<and> (\<forall>t name c w. (t, name) \<in> bound c \<longrightarrow> c_NamedResolve lib t name c w = (Ok (), w))
   \<and> (\<forall>params f c w. (\<forall>p\<in>set params. (p, []) \<in> bound c) \<longrightarrow> c_Call lib params f c w = f w)"

section \<open>Constructors\<close>

text \<open>
  \<open>r_named\<close> are the components that a constructor asks for by name, before it does the effect
  \<open>r_make\<close>. Most constructors only fill a struct.
\<close>

record resolver =
  r_name :: string
  r_params :: "string list"
  r_out :: string
  r_named :: "(string \<times> string) list"
  r_make :: "unit go"

definition CertificateLogger :: string where "CertificateLogger = ''CertificateLogger''"

definition NamedSingleton :: "string \<Rightarrow> string list \<Rightarrow> string \<Rightarrow> resolver" where
  "NamedSingleton name params out = \<lparr>r_name = name, r_params = params, r_out = out, r_named = [], r_make = ret ()\<rparr>"

definition Singleton :: "string list \<Rightarrow> string \<Rightarrow> resolver" where
  "Singleton = NamedSingleton []"

definition with_certificate_logger :: "resolver \<Rightarrow> resolver" where
  "with_certificate_logger r = r\<lparr>r_named := [(''*zap.Logger'', CertificateLogger)]\<rparr>"

text \<open>A file of fixed settings that cannot be read ends the process.\<close>

definition load_call :: "string \<Rightarrow> call" where
  "load_call file = Sys ''configparser.NewConfigParserFromFile'' [file]"

definition SystemConfig_Load :: "string \<Rightarrow> unit go" where
  "SystemConfig_Load file = andThen (attempt (do_unit (load_call file))) (\<lambda>r. case r of
     Inl _ \<Rightarrow> crash ''log.Fatal'' | Inr _ \<Rightarrow> ret ())"

section \<open>The table\<close>

text \<open>The order is the one of the source, for \<^verbatim>\<open>common.go\<close> in eight parts.\<close>

definition config_resolvers :: "string \<Rightarrow> resolver list" where
  "config_resolvers systemConfig = [
     Singleton [] ''*config.Db'',
     (Singleton [''*config.Db''] ''*config.Migrator'')\<lparr>r_make := cfg run_migrations\<rparr>,
     Singleton [''*config.Db'', ''*config.Migrator''] ''*config.Redirect'',
     Singleton [''*config.Db'', ''*config.Migrator''] ''*config.UserConfig'',
     Singleton [''*config.Db'', ''*config.Migrator''] ''*config.OIDC'',
     Singleton [''*config.Db'', ''*config.Migrator''] ''*config.CustomProxy'',
     (Singleton [] ''*config.SystemConfig'')\<lparr>r_make := SystemConfig_Load systemConfig\<rparr>]"

definition system_resolvers :: "resolver list" where
  "system_resolvers = [
     Singleton [] ''*zap.Logger'',
     NamedSingleton CertificateLogger [] ''*zap.Logger'',
     Singleton [] ''*network.TcpInterfaces'',
     Singleton [] ''*retryablehttp.Client'',
     Singleton [] ''*version.PlatformVersion'',
     Singleton [] ''*identification.Parser'',
     Singleton [''*zap.Logger''] ''*cli.ShellExecutor'',
     Singleton [''*zap.Logger''] ''*auth.SystemPasswordChanger'',
     Singleton [''*cli.ShellExecutor'', ''*zap.Logger''] ''*snap.Cli'',
     Singleton [''*cli.ShellExecutor'', ''*config.SystemConfig''] ''*systemd.Control'',
     Singleton [''*config.SystemConfig'', ''*config.UserConfig'', ''*config.CustomProxy'', ''*systemd.Control'']
       ''*nginx.Nginx'',
     with_certificate_logger (Singleton [''*config.UserConfig'', ''*config.Redirect'', ''*identification.Parser'',
       ''*network.TcpInterfaces'', ''*retryablehttp.Client'', ''*version.PlatformVersion''] ''*redirect.Service'')]"

definition cert_resolvers :: "resolver list" where
  "cert_resolvers = [
     Singleton [] ''*date.RealProvider'',
     with_certificate_logger (Singleton [''*redirect.Service'', ''*config.UserConfig'', ''*config.Redirect'',
       ''*config.SystemConfig''] ''*cert.Certbot''),
     with_certificate_logger (Singleton [''*config.SystemConfig'', ''*config.UserConfig'', ''*date.RealProvider'']
       ''*cert.Fake''),
     Singleton [] ''*snap.SnapdHttpClient'',
     Singleton [''*snap.SnapdHttpClient''] ''*snap.ChangesClient'',
     Singleton [''*snap.SnapdHttpClient'', ''*config.SystemConfig'', ''*retryablehttp.Client'',
       ''*config.UserConfig''] ''*snap.Server'',
     Singleton [''*snap.Server'', ''*snap.Cli'', ''*zap.Logger''] ''*event.Trigger'',
     Singleton [''*event.Trigger'', ''*zap.Logger''] ''*event.AccessChangeRunner'',
     with_certificate_logger (Singleton [''*config.SystemConfig'', ''*config.UserConfig'', ''*date.RealProvider'',
       ''*cert.Certbot'', ''*cert.Fake'', ''*nginx.Nginx'', ''*event.Trigger''] ''*cert.CertificateGenerator''),
     Singleton [''*cert.CertificateGenerator''] ''*cron.CertificateJob'']"

definition job_resolvers :: "resolver list" where
  "job_resolvers = [
     Singleton [''*config.UserConfig'', ''*config.Redirect'', ''*redirect.Service'', ''*event.Trigger'',
       ''*retryablehttp.Client'', ''*network.TcpInterfaces'', ''*zap.Logger''] ''*access.PortProbe'',
     Singleton [''*systemd.Control'', ''*config.SystemConfig'', ''*config.UserConfig'', ''*config.Redirect'']
       ''*access.RelayClient'',
     Singleton [''*access.PortProbe'', ''*config.UserConfig'', ''*redirect.Service'', ''*access.RelayClient'',
       ''*event.AccessChangeRunner'', ''*network.TcpInterfaces'', ''*zap.Logger''] ''*access.ExternalAddress'',
     (Singleton [] ''*job.SingleJobMaster'')\<lparr>r_make := modify (w_jobs_update (\<lambda>_. NewMaster))\<rparr>,
     Singleton [''*job.SingleJobMaster'', ''*zap.Logger''] ''*job.Worker'',
     Singleton [''*cli.ShellExecutor''] ''*du.ShellDiskUsage'',
     Singleton [''*cli.ShellExecutor'', ''*du.ShellDiskUsage'', ''*snap.Cli'', ''*snap.Server'', ''*zap.Logger'',
       ''*config.UserConfig'', ''*date.RealProvider''] ''*backup.Backup'',
     Singleton [''*access.ExternalAddress''] ''*cron.ExternalAddressJob'',
     Singleton [] ''*cron.SimpleScheduler'',
     Singleton [''*snap.Server'', ''*config.UserConfig'', ''*date.RealProvider'', ''*backup.Backup'',
       ''*cron.SimpleScheduler'', ''*zap.Logger''] ''*cron.BackupJob'',
     (Singleton [''*cli.ShellExecutor'', ''*date.RealProvider''] ''*cron.TimeSyncJob'')\<lparr>r_make := modify
       (timesync_lastRun_update (\<lambda>_. zero_time))\<rparr>,
     Singleton [''*snap.Server'', ''*retryablehttp.Client''] ''*snap.Snapd'',
     (Singleton [''*snap.Server'', ''*snap.Snapd'', ''*job.SingleJobMaster'', ''*cron.SimpleScheduler'',
       ''*date.RealProvider''] ''*cron.SnapdUpgradeJob'')\<lparr>r_make := modify (snapd_lastRun_update (\<lambda>_.
       zero_time))\<rparr>,
     Singleton [''*snap.SnapdHttpClient''] ''*snap.Snapshots'',
     Singleton [''*snap.Snapshots''] ''*cron.SnapshotsJob'',
     Singleton [''*cron.CertificateJob'', ''*cron.ExternalAddressJob'', ''*cron.BackupJob'', ''*cron.TimeSyncJob'',
       ''*cron.SnapdUpgradeJob'', ''*cron.SnapshotsJob'', ''*config.UserConfig''] ''*cron.Cron'']"

definition auth_resolvers :: "resolver list" where
  "auth_resolvers = [
     Singleton [''*config.SystemConfig'', ''*cli.ShellExecutor'', ''*zap.Logger''] ''*storage.Storage'',
     Singleton [] ''*auth.LdapClient'',
     Singleton [] ''*auth.UsernameValidator'',
     Singleton [] ''*auth.PasswordValidator'',
     Singleton [] ''*auth.PasswordHasher'',
     Singleton [''*config.UserConfig''] ''*auth.EmailResolver'',
     Singleton [''*auth.PasswordHasher''] ''*auth.UserBuilder'',
     Singleton [''*auth.LdapClient''] ''*auth.GroupManager'',
     Singleton [''*auth.LdapClient'', ''*auth.GroupManager'', ''*auth.UsernameValidator'',
       ''*auth.PasswordValidator'', ''*auth.PasswordHasher'', ''*auth.EmailResolver'', ''*auth.UserBuilder'']
       ''*auth.UserManager'',
     Singleton [''*snap.Cli'', ''*config.SystemConfig'', ''*cli.ShellExecutor'', ''*auth.LdapClient'',
       ''*auth.SystemPasswordChanger'', ''*auth.PasswordHasher''] ''*auth.Initializer'',
     Singleton [''*auth.LdapClient''] ''*auth.Authenticator'',
     (Singleton [''*config.UserConfig''] ''*session.Cookies'')\<lparr>r_make := modify (cookies_key_update
       (\<lambda>_. None))\<rparr>,
     Singleton [''*cli.ShellExecutor''] ''*auth.SecretGenerator'',
     Singleton [''*config.UserConfig'', ''*config.SystemConfig''] ''*auth.OIDCService'',
     Singleton [''*config.SystemConfig''] ''*auth.AutheliaHealth'',
     Singleton [''*cli.ShellExecutor''] ''*auth.TOTP'',
     Singleton [''*config.UserConfig'', ''*config.OIDC'', ''*systemd.Control'', ''*auth.SecretGenerator'',
       ''*cli.ShellExecutor'', ''*auth.AutheliaHealth''] ''*auth.Authelia'']"

definition activation_resolvers :: "resolver list" where
  "activation_resolvers = [
     Singleton [''*auth.Initializer'', ''*nginx.Nginx'', ''*config.UserConfig'', ''*event.Trigger'',
       ''*session.Cookies'', ''*storage.Storage'', ''*auth.Authelia''] ''*activation.Device'',
     Singleton [] ''connection.InternetChecker'',
     Singleton [''connection.InternetChecker'', ''*config.UserConfig'', ''*config.Redirect'', ''*redirect.Service'',
       ''*activation.Device'', ''*cert.CertificateGenerator'', ''*zap.Logger''] ''*activation.Managed'',
     Singleton [''connection.InternetChecker'', ''*config.UserConfig'', ''*config.Redirect'', ''*activation.Device'',
       ''*cert.CertificateGenerator'', ''*zap.Logger''] ''*activation.Custom'',
     Singleton [''*cli.ShellExecutor'', ''*config.UserConfig''] ''*timezone.Applier'',
     Singleton [''*activation.Managed'', ''*activation.Custom'', ''*timezone.Applier''] ''*rest.Activate'',
     Singleton [''*cli.ShellExecutor''] ''*systemd.Journal'',
     Singleton [''*cert.CertificateGenerator'', ''*systemd.Journal''] ''*rest.Certificate'']"

definition storage_resolvers :: "resolver list" where
  "storage_resolvers = [
     Singleton [''*config.SystemConfig''] ''*storage.PathChecker'',
     Singleton [''*config.SystemConfig'', ''*cli.ShellExecutor'', ''*storage.PathChecker''] ''*storage.Lsblk'',
     Singleton [''*cli.ShellExecutor''] ''*storage.FreeSpaceChecker'',
     Singleton [] ''*storage.FileSystemStat'',
     Singleton [''*storage.FileSystemStat'', ''*config.SystemConfig''] ''*storage.DiskSpace'',
     Singleton [] ''*storage.Linker'',
     Singleton [''*config.SystemConfig'', ''*cli.ShellExecutor''] ''*btrfs.Stats'',
     Singleton [''*config.SystemConfig'', ''*cli.ShellExecutor'', ''*btrfs.Stats'', ''*systemd.Control'']
       ''*btrfs.Disks'',
     (Singleton [''*config.SystemConfig'', ''*storage.FreeSpaceChecker'', ''*systemd.Control'', ''*event.Trigger'',
       ''*storage.Lsblk'', ''*cli.ShellExecutor'', ''*storage.Linker'', ''*btrfs.Disks'', ''*btrfs.Stats'']
       ''*storage.Disks'')\<lparr>r_make := modify (disks_lastError_update (\<lambda>_. None))\<rparr>]"

definition web_resolvers :: "resolver list" where
  "web_resolvers = [
     Singleton [] ''*support.LogAggregator'',
     Singleton [''*support.LogAggregator'', ''*redirect.Service''] ''*support.Sender'',
     Singleton [''*config.Redirect'', ''*snap.Server''] ''*rest.Proxy'',
     Singleton [''*config.CustomProxy'', ''*nginx.Nginx''] ''*rest.CustomProxy'',
     Singleton [''*session.Cookies'', ''*auth.UserManager'', ''*config.UserConfig''] ''*rest.Middleware'',
     Singleton [''*storage.PathChecker'', ''*storage.Linker'', ''*config.SystemConfig'', ''*config.UserConfig'',
       ''*cert.CertificateGenerator'', ''*auth.Initializer'', ''*nginx.Nginx'', ''*auth.Authelia'',
       ''*systemd.Control''] ''*hook.Install'',
     Singleton [] ''*lcd.Display'',
     Singleton [''*config.SystemConfig''] ''*stability.EventLog'',
     Singleton [] ''*health.Collector'',
     Singleton [''*stability.EventLog'', ''*health.Collector''] ''*health.Health'']"

definition public_resolvers :: "resolver list" where
  "public_resolvers = [
     Singleton [''*cli.ShellExecutor''] ''*system.Power'',
     Singleton [] ''*system.Uptime'',
     Singleton [''*job.SingleJobMaster'', ''*backup.Backup'', ''*event.Trigger'', ''*job.Worker'',
       ''*redirect.Service'', ''*snap.Snapd'', ''*storage.Storage'', ''*identification.Parser'', ''*rest.Activate'',
       ''*config.UserConfig'', ''*config.Redirect'', ''*rest.Certificate'', ''*access.ExternalAddress'',
       ''*snap.Server'', ''*storage.Disks'', ''*storage.DiskSpace'', ''*systemd.Journal'', ''*system.Power'',
       ''*system.Uptime'', ''*network.TcpInterfaces'', ''*support.Sender'', ''*rest.Proxy'', ''*rest.CustomProxy'',
       ''*rest.Middleware'', ''*auth.UserManager'', ''*auth.GroupManager'', ''*session.Cookies'',
       ''*snap.ChangesClient'', ''*auth.OIDCService'', ''*auth.Authelia'', ''*auth.TOTP'', ''*timezone.Applier'',
       ''*health.Health''] ''*rest.Backend'',
     Singleton [''*cron.Cron'', ''*backup.Backup'', ''*session.Cookies'', ''*rest.Backend'', ''*lcd.Display'']
       ''[]Service'']"

definition internal_resolvers :: "resolver list" where
  "internal_resolvers = [
     Singleton [''*config.UserConfig'', ''*config.Redirect'', ''*storage.Storage'', ''*systemd.Control'',
       ''*rest.Middleware'', ''*auth.Authelia'', ''*access.RelayClient''] ''*rest.Api'',
     Singleton [''*rest.Api''] ''[]Service'']"

definition common_resolvers :: "string \<Rightarrow> resolver list" where
  "common_resolvers systemConfig = config_resolvers systemConfig @ system_resolvers @ cert_resolvers @ job_resolvers
     @ auth_resolvers @ activation_resolvers @ storage_resolvers @ web_resolvers"

section \<open>Set-up\<close>

definition bind_one :: "'c container \<Rightarrow> resolver \<Rightarrow> 'c \<Rightarrow> 'c go" where
  "bind_one lib r = c_Bind lib (r_name r) (r_params r) (r_out r) (\<lambda>c.
     andThen (forEach (r_named r) (\<lambda>(t, name). c_NamedResolve lib t name c)) (\<lambda>_. r_make r))"

text \<open>One registration after the other, up to the first error.\<close>

fun bind_all :: "'c container \<Rightarrow> resolver list \<Rightarrow> 'c \<Rightarrow> 'c go" where
  "bind_all lib [] c = ret c"
| "bind_all lib (r # rs) c = andThen (bind_one lib r c) (bind_all lib rs)"

definition Init :: "'c container \<Rightarrow> string \<Rightarrow> 'c go" where
  "Init lib systemConfig = bind_all lib (common_resolvers systemConfig) (c_New lib)"

definition InitPublicApi :: "'c container \<Rightarrow> string \<Rightarrow> 'c go" where
  "InitPublicApi lib systemConfig = andThen (Init lib systemConfig) (bind_all lib public_resolvers)"

definition InitInternalApi :: "'c container \<Rightarrow> string \<Rightarrow> 'c go" where
  "InitInternalApi lib systemConfig = andThen (Init lib systemConfig) (bind_all lib internal_resolvers)"

section \<open>Every constructor finds its parameters\<close>

definition r_key :: "resolver \<Rightarrow> string \<times> string" where
  "r_key r = (r_out r, r_name r)"

text \<open>What every constructor needs is registered before it, starting from what is known.\<close>

fun wired :: "(string \<times> string) set \<Rightarrow> resolver list \<Rightarrow> bool" where
  "wired K [] \<longleftrightarrow> True"
| "wired K (r # rs) \<longleftrightarrow> (\<forall>p\<in>set (r_params r). (p, []) \<in> K) \<and> r_out r \<notin> set (r_params r) \<and> set (r_named r) \<subseteq> K
     \<and> wired (insert (r_key r) K) rs"

lemma wired_append: "wired K (rs @ ss) \<longleftrightarrow> wired K rs \<and> wired (r_key ` set rs \<union> K) ss"
  by (induction rs arbitrary: K) auto

lemma container_binds:
  assumes "container_works lib bound" "\<forall>p\<in>set params. (p, []) \<in> bound c" "out \<notin> set params"
  shows "case build c w of
      (Ok _, w') \<Rightarrow> \<exists>c'. c_Bind lib name params out build c w = (Ok c', w') \<and> bound c' = insert (out, name) (bound c)
    | (Err e, w') \<Rightarrow> c_Bind lib name params out build c w = (Err e, w')
    | (Crash p, w') \<Rightarrow> c_Bind lib name params out build c w = (Crash p, w')"
  using assms(1) [unfolded container_works_def, THEN conjunct2, THEN conjunct1, rule_format, OF assms(2) [rule_format] assms(3)]
  by simp

lemma named_resolve_known:
  "container_works lib bound \<Longrightarrow> set ks \<subseteq> bound c \<Longrightarrow> forEach ks (\<lambda>(t, name). c_NamedResolve lib t name c) w = (Ok (), w)"
  by (induction ks) (auto simp: container_works_def)

lemma bind_one_wired:
  assumes "container_works lib bound" "\<forall>p\<in>set (r_params r). (p, []) \<in> bound c" "r_out r \<notin> set (r_params r)"
    and "set (r_named r) \<subseteq> bound c"
  shows "case r_make r w of
      (Ok _, w') \<Rightarrow> \<exists>c'. bind_one lib r c w = (Ok c', w') \<and> bound c' = insert (r_key r) (bound c)
    | (Err e, w') \<Rightarrow> bind_one lib r c w = (Err e, w')
    | (Crash p, w') \<Rightarrow> bind_one lib r c w = (Crash p, w')"
proof -
  let ?make = "\<lambda>c. andThen (forEach (r_named r) (\<lambda>(t, name). c_NamedResolve lib t name c)) (\<lambda>_. r_make r)"
  have "?make c w = r_make r w"
    by (simp add: andThen_def named_resolve_known [OF assms(1,4)])
  moreover have "case ?make c w of
      (Ok _, w') \<Rightarrow> \<exists>c'. bind_one lib r c w = (Ok c', w') \<and> bound c' = insert (r_key r) (bound c)
    | (Err e, w') \<Rightarrow> bind_one lib r c w = (Err e, w')
    | (Crash p, w') \<Rightarrow> bind_one lib r c w = (Crash p, w')"
    unfolding bind_one_def r_key_def by (rule container_binds [OF assms(1-3)])
  ultimately show ?thesis by simp
qed

text \<open>
  When the registrations are wired, the container adds nothing to the constructors: setting up is
  running them in the order of the table.
\<close>

lemma bind_all_wired:
  assumes "container_works lib bound"
  shows "wired K rs \<Longrightarrow> K \<subseteq> bound c \<Longrightarrow> (case forEach rs r_make w of
      (Ok _, w') \<Rightarrow> \<exists>c'. bind_all lib rs c w = (Ok c', w') \<and> bound c' = r_key ` set rs \<union> bound c
    | (Err e, w') \<Rightarrow> bind_all lib rs c w = (Err e, w')
    | (Crash p, w') \<Rightarrow> bind_all lib rs c w = (Crash p, w'))"
proof (induction rs arbitrary: K c w)
  case (Cons r rs)
  have here: "\<forall>p\<in>set (r_params r). (p, []) \<in> bound c" "r_out r \<notin> set (r_params r)" "set (r_named r) \<subseteq> bound c"
    "wired (insert (r_key r) K) rs"
    using Cons.prems by auto
  obtain x w1 where m: "r_make r w = (x, w1)" by fastforce
  show ?case
  proof (cases x)
    case (Ok u)
    then obtain c1 where c1: "bind_one lib r c w = (Ok c1, w1)" "bound c1 = insert (r_key r) (bound c)"
      using bind_one_wired [OF assms here(1-3), of w] m by auto
    have "insert (r_key r) K \<subseteq> bound c1" using c1(2) Cons.prems(2) by auto
    from Cons.IH [OF here(4) this, of w1] show ?thesis
      using c1 m Ok by (auto simp: andThen_def split: res.splits prod.splits)
  qed (use bind_one_wired [OF assms here(1-3), of w] m in \<open>auto simp: andThen_def\<close>)
qed simp

lemma bind_all_append: "bind_all lib (rs @ ss) c = andThen (bind_all lib rs c) (bind_all lib ss)"
proof (induction rs arbitrary: c)
  case (Cons r rs)
  have "bind_all lib (rs @ ss) = (\<lambda>c. andThen (bind_all lib rs c) (bind_all lib ss))" by (rule ext) (rule Cons)
  then show ?case by (simp add: andThen_assoc)
qed (simp add: andThen_ret_left del: ret_apply)

lemmas resolver_defs = r_key_def Singleton_def NamedSingleton_def with_certificate_logger_def

text \<open>What a part of the table provides for later parts, and that each part finds what it needs.\<close>

lemma config_provides:
  "(''*config.Redirect'', []) \<in> r_key ` set (config_resolvers systemConfig)"
  "(''*config.UserConfig'', []) \<in> r_key ` set (config_resolvers systemConfig)"
  "(''*config.OIDC'', []) \<in> r_key ` set (config_resolvers systemConfig)"
  "(''*config.CustomProxy'', []) \<in> r_key ` set (config_resolvers systemConfig)"
  "(''*config.SystemConfig'', []) \<in> r_key ` set (config_resolvers systemConfig)"
  by (simp_all add: config_resolvers_def resolver_defs)

lemma system_provides:
  "(''*zap.Logger'', []) \<in> r_key ` set system_resolvers"
  "(''*zap.Logger'', CertificateLogger) \<in> r_key ` set system_resolvers"
  "(''*network.TcpInterfaces'', []) \<in> r_key ` set system_resolvers"
  "(''*retryablehttp.Client'', []) \<in> r_key ` set system_resolvers"
  "(''*identification.Parser'', []) \<in> r_key ` set system_resolvers"
  "(''*cli.ShellExecutor'', []) \<in> r_key ` set system_resolvers"
  "(''*auth.SystemPasswordChanger'', []) \<in> r_key ` set system_resolvers"
  "(''*snap.Cli'', []) \<in> r_key ` set system_resolvers"
  "(''*systemd.Control'', []) \<in> r_key ` set system_resolvers"
  "(''*nginx.Nginx'', []) \<in> r_key ` set system_resolvers"
  "(''*redirect.Service'', []) \<in> r_key ` set system_resolvers"
  by (simp_all add: system_resolvers_def resolver_defs)

lemma cert_provides:
  "(''*date.RealProvider'', []) \<in> r_key ` set cert_resolvers"
  "(''*snap.SnapdHttpClient'', []) \<in> r_key ` set cert_resolvers"
  "(''*snap.ChangesClient'', []) \<in> r_key ` set cert_resolvers"
  "(''*snap.Server'', []) \<in> r_key ` set cert_resolvers"
  "(''*event.Trigger'', []) \<in> r_key ` set cert_resolvers"
  "(''*event.AccessChangeRunner'', []) \<in> r_key ` set cert_resolvers"
  "(''*cert.CertificateGenerator'', []) \<in> r_key ` set cert_resolvers"
  "(''*cron.CertificateJob'', []) \<in> r_key ` set cert_resolvers"
  by (simp_all add: cert_resolvers_def resolver_defs)

lemma job_provides:
  "(''*access.RelayClient'', []) \<in> r_key ` set job_resolvers"
  "(''*access.ExternalAddress'', []) \<in> r_key ` set job_resolvers"
  "(''*job.SingleJobMaster'', []) \<in> r_key ` set job_resolvers"
  "(''*job.Worker'', []) \<in> r_key ` set job_resolvers"
  "(''*backup.Backup'', []) \<in> r_key ` set job_resolvers"
  "(''*snap.Snapd'', []) \<in> r_key ` set job_resolvers"
  "(''*cron.Cron'', []) \<in> r_key ` set job_resolvers"
  by (simp_all add: job_resolvers_def resolver_defs)

lemma auth_provides:
  "(''*storage.Storage'', []) \<in> r_key ` set auth_resolvers"
  "(''*auth.GroupManager'', []) \<in> r_key ` set auth_resolvers"
  "(''*auth.UserManager'', []) \<in> r_key ` set auth_resolvers"
  "(''*auth.Initializer'', []) \<in> r_key ` set auth_resolvers"
  "(''*session.Cookies'', []) \<in> r_key ` set auth_resolvers"
  "(''*auth.OIDCService'', []) \<in> r_key ` set auth_resolvers"
  "(''*auth.TOTP'', []) \<in> r_key ` set auth_resolvers"
  "(''*auth.Authelia'', []) \<in> r_key ` set auth_resolvers"
  by (simp_all add: auth_resolvers_def resolver_defs)

lemma activation_provides:
  "(''*timezone.Applier'', []) \<in> r_key ` set activation_resolvers"
  "(''*rest.Activate'', []) \<in> r_key ` set activation_resolvers"
  "(''*systemd.Journal'', []) \<in> r_key ` set activation_resolvers"
  "(''*rest.Certificate'', []) \<in> r_key ` set activation_resolvers"
  by (simp_all add: activation_resolvers_def resolver_defs)

lemma storage_provides:
  "(''*storage.PathChecker'', []) \<in> r_key ` set storage_resolvers"
  "(''*storage.DiskSpace'', []) \<in> r_key ` set storage_resolvers"
  "(''*storage.Linker'', []) \<in> r_key ` set storage_resolvers"
  "(''*storage.Disks'', []) \<in> r_key ` set storage_resolvers"
  by (simp_all add: storage_resolvers_def resolver_defs)

lemma web_provides:
  "(''*support.Sender'', []) \<in> r_key ` set web_resolvers"
  "(''*rest.Proxy'', []) \<in> r_key ` set web_resolvers"
  "(''*rest.CustomProxy'', []) \<in> r_key ` set web_resolvers"
  "(''*rest.Middleware'', []) \<in> r_key ` set web_resolvers"
  "(''*lcd.Display'', []) \<in> r_key ` set web_resolvers"
  "(''*health.Health'', []) \<in> r_key ` set web_resolvers"
  by (simp_all add: web_resolvers_def resolver_defs)

lemma config_wired: "wired K (config_resolvers systemConfig)"
  by (simp add: config_resolvers_def resolver_defs)

lemma system_wired:
  assumes "r_key ` set (config_resolvers systemConfig) \<subseteq> K"
  shows "wired K system_resolvers"
  by (simp add: system_resolvers_def resolver_defs
    config_provides [THEN subsetD [OF assms(1)]])

lemma cert_wired:
  assumes "r_key ` set (config_resolvers systemConfig) \<subseteq> K" "r_key ` set system_resolvers \<subseteq> K"
  shows "wired K cert_resolvers"
  by (simp add: cert_resolvers_def resolver_defs
    config_provides [THEN subsetD [OF assms(1)]] system_provides [THEN subsetD [OF assms(2)]])

lemma job_wired:
  assumes "r_key ` set (config_resolvers systemConfig) \<subseteq> K" "r_key ` set system_resolvers \<subseteq> K" "r_key ` set cert_resolvers \<subseteq> K"
  shows "wired K job_resolvers"
  by (simp add: job_resolvers_def resolver_defs
    config_provides [THEN subsetD [OF assms(1)]] system_provides [THEN subsetD [OF assms(2)]] cert_provides [THEN subsetD [OF assms(3)]])

lemma auth_wired:
  assumes "r_key ` set (config_resolvers systemConfig) \<subseteq> K" "r_key ` set system_resolvers \<subseteq> K"
  shows "wired K auth_resolvers"
  by (simp add: auth_resolvers_def resolver_defs
    config_provides [THEN subsetD [OF assms(1)]] system_provides [THEN subsetD [OF assms(2)]])

lemma activation_wired:
  assumes "r_key ` set (config_resolvers systemConfig) \<subseteq> K" "r_key ` set system_resolvers \<subseteq> K" "r_key ` set cert_resolvers \<subseteq> K" "r_key ` set auth_resolvers \<subseteq> K"
  shows "wired K activation_resolvers"
  by (simp add: activation_resolvers_def resolver_defs
    config_provides [THEN subsetD [OF assms(1)]] system_provides [THEN subsetD [OF assms(2)]] cert_provides [THEN subsetD [OF assms(3)]] auth_provides [THEN subsetD [OF assms(4)]])

lemma storage_wired:
  assumes "r_key ` set (config_resolvers systemConfig) \<subseteq> K" "r_key ` set system_resolvers \<subseteq> K" "r_key ` set cert_resolvers \<subseteq> K"
  shows "wired K storage_resolvers"
  by (simp add: storage_resolvers_def resolver_defs
    config_provides [THEN subsetD [OF assms(1)]] system_provides [THEN subsetD [OF assms(2)]] cert_provides [THEN subsetD [OF assms(3)]])

lemma web_wired:
  assumes "r_key ` set (config_resolvers systemConfig) \<subseteq> K" "r_key ` set system_resolvers \<subseteq> K" "r_key ` set cert_resolvers \<subseteq> K" "r_key ` set auth_resolvers \<subseteq> K" "r_key ` set storage_resolvers \<subseteq> K"
  shows "wired K web_resolvers"
  by (simp add: web_resolvers_def resolver_defs
    config_provides [THEN subsetD [OF assms(1)]] system_provides [THEN subsetD [OF assms(2)]] cert_provides [THEN subsetD [OF assms(3)]] auth_provides [THEN subsetD [OF assms(4)]] storage_provides [THEN subsetD [OF assms(5)]])

lemma public_wired:
  assumes "r_key ` set (config_resolvers systemConfig) \<subseteq> K" "r_key ` set system_resolvers \<subseteq> K" "r_key ` set cert_resolvers \<subseteq> K" "r_key ` set job_resolvers \<subseteq> K" "r_key ` set auth_resolvers \<subseteq> K" "r_key ` set activation_resolvers \<subseteq> K" "r_key ` set storage_resolvers \<subseteq> K" "r_key ` set web_resolvers \<subseteq> K"
  shows "wired K public_resolvers"
  by (simp add: public_resolvers_def resolver_defs
    config_provides [THEN subsetD [OF assms(1)]] system_provides [THEN subsetD [OF assms(2)]] cert_provides [THEN subsetD [OF assms(3)]] job_provides [THEN subsetD [OF assms(4)]] auth_provides [THEN subsetD [OF assms(5)]] activation_provides [THEN subsetD [OF assms(6)]] storage_provides [THEN subsetD [OF assms(7)]] web_provides [THEN subsetD [OF assms(8)]])

lemma internal_wired:
  assumes "r_key ` set (config_resolvers systemConfig) \<subseteq> K" "r_key ` set system_resolvers \<subseteq> K" "r_key ` set job_resolvers \<subseteq> K" "r_key ` set auth_resolvers \<subseteq> K" "r_key ` set web_resolvers \<subseteq> K"
  shows "wired K internal_resolvers"
  by (simp add: internal_resolvers_def resolver_defs
    config_provides [THEN subsetD [OF assms(1)]] system_provides [THEN subsetD [OF assms(2)]] job_provides [THEN subsetD [OF assms(3)]] auth_provides [THEN subsetD [OF assms(4)]] web_provides [THEN subsetD [OF assms(5)]])

lemma api_wired:
  "wired {} (common_resolvers systemConfig @ [])" "wired {} (common_resolvers systemConfig @ public_resolvers)"
  "wired {} (common_resolvers systemConfig @ internal_resolvers)"
  unfolding common_resolvers_def wired_append append_assoc Un_empty_right wired.simps(1)
  by (intro conjI TrueI config_wired system_wired cert_wired job_wired auth_wired activation_wired storage_wired web_wired
      public_wired internal_wired; blast)+

section \<open>What the constructors do\<close>

text \<open>The memory of the long-lived objects when they are new.\<close>

definition fresh_memory :: "world \<Rightarrow> world" where
  "fresh_memory w = w\<lparr>w_jobs := NewMaster, timesync_lastRun := zero_time, snapd_lastRun := zero_time,
     disks_lastError := None, cookies_key := None\<rparr>"

lemma plain_makes:
  "forEach system_resolvers r_make = ret ()" "forEach cert_resolvers r_make = ret ()"
  "forEach activation_resolvers r_make = ret ()" "forEach web_resolvers r_make = ret ()"
  "forEach public_resolvers r_make = ret ()" "forEach internal_resolvers r_make = ret ()"
  by (simp_all add: system_resolvers_def cert_resolvers_def activation_resolvers_def web_resolvers_def public_resolvers_def
      internal_resolvers_def resolver_defs andThen_ret_left del: ret_apply)

lemma stateful_makes:
  "forEach (config_resolvers systemConfig) r_make = andThen (cfg run_migrations) (\<lambda>_. SystemConfig_Load systemConfig)"
  "forEach job_resolvers r_make w = (Ok (), w\<lparr>w_jobs := NewMaster, timesync_lastRun := zero_time, snapd_lastRun := zero_time\<rparr>)"
  "forEach auth_resolvers r_make w = (Ok (), w\<lparr>cookies_key := None\<rparr>)"
  "forEach storage_resolvers r_make w = (Ok (), w\<lparr>disks_lastError := None\<rparr>)"
  by (simp_all add: config_resolvers_def job_resolvers_def auth_resolvers_def storage_resolvers_def resolver_defs
      andThen_ret_left andThen_ret_right [of "_ :: unit go", simplified] id_def)

text \<open>All constructors of an interface in a row: migrate, load the settings, start with a new memory.\<close>

lemma api_makes:
  assumes "rs \<in> {[], public_resolvers, internal_resolvers}"
  shows "forEach (common_resolvers systemConfig @ rs) r_make =
     andThen (cfg run_migrations) (\<lambda>_. andThen (SystemConfig_Load systemConfig) (\<lambda>_. modify fresh_memory))"
proof -
  have "forEach job_resolvers r_make = modify (\<lambda>w. w\<lparr>w_jobs := NewMaster, timesync_lastRun := zero_time, snapd_lastRun := zero_time\<rparr>)"
    "forEach auth_resolvers r_make = modify (\<lambda>w. w\<lparr>cookies_key := None\<rparr>)"
    "forEach storage_resolvers r_make = modify (\<lambda>w. w\<lparr>disks_lastError := None\<rparr>)"
    by (simp_all add: fun_eq_iff stateful_makes)
  moreover have "forEach rs r_make = ret ()" using assms plain_makes by (auto simp del: ret_apply)
  ultimately show ?thesis
    by (simp add: common_resolvers_def forEach_append plain_makes stateful_makes(1) andThen_assoc andThen_ret_left del: ret_apply)
      (simp add: fun_eq_iff andThen_def fresh_memory_def split: prod.splits res.splits)
qed

lemma run_migrations_down: "\<not> db_up d \<Longrightarrow> run_migrations d = (Err sql_error, d)"
  by (simp add: run_migrations_def migrations_def createConfigTable_def when_up_def andThen_def)

lemma SystemConfig_Load_run:
  "SystemConfig_Load file w = (case e_unit (w_env w) (w_hist w) (load_call file) of
     None \<Rightarrow> (Ok (), record_call (load_call file) w) | Some _ \<Rightarrow> (Crash ''log.Fatal'', record_call (load_call file) w))"
  by (simp add: SystemConfig_Load_def andThen_def attempt_def do_unit_def split: option.splits)

text \<open>What an interface has in its container when it is set up.\<close>

definition api_keys :: "resolver list \<Rightarrow> (string \<times> string) set" where
  "api_keys rs = r_key ` set (common_resolvers [] @ rs)"

lemma r_key_config: "r_key ` set (common_resolvers f) = r_key ` set (common_resolvers g)"
  by (simp add: common_resolvers_def config_resolvers_def image_Un resolver_defs)

lemma api_inits:
  "Init lib conf = bind_all lib (common_resolvers conf @ []) (c_New lib)"
  "InitPublicApi lib conf = bind_all lib (common_resolvers conf @ public_resolvers) (c_New lib)"
  "InitInternalApi lib conf = bind_all lib (common_resolvers conf @ internal_resolvers) (c_New lib)"
  by (simp add: Init_def) (simp_all add: InitPublicApi_def InitInternalApi_def Init_def bind_all_append)

text \<open>The whole set-up, for the parts of an interface.\<close>

lemma setup_outcome:
  assumes "container_works lib bound" and rs: "rs \<in> {[], public_resolvers, internal_resolvers}"
    and init: "init = bind_all lib (common_resolvers conf @ rs) (c_New lib)"
  shows "if \<not> db_up (w_db w) then init w = (Err sql_error, w)
     else \<exists>d. current_schema d \<and> db_view d = db_view (w_db w) \<and>
       (let w1 = w\<lparr>w_db := d, w_hist := w_hist w @ [load_call conf]\<rparr> in
        if e_unit (w_env w) (w_hist w) (load_call conf) \<noteq> None then init w = (Crash ''log.Fatal'', w1)
        else \<exists>c. init w = (Ok c, fresh_memory w1) \<and> bound c = api_keys rs)"
proof -
  have "wired {} (common_resolvers conf @ rs)" using rs api_wired by auto
  note run = bind_all_wired [OF assms(1) this, of "c_New lib" w, folded init, unfolded api_makes [OF rs]]
  have none: "bound (c_New lib) = {}" using assms(1) by (simp add: container_works_def)
  have keys: "r_key ` set (common_resolvers conf @ rs) = api_keys rs"
    using r_key_config [of conf "[]"] by (simp add: api_keys_def image_Un)
  show ?thesis
  proof (cases "db_up (w_db w)")
    case True
    then obtain d where d: "run_migrations (w_db w) = (Ok (), d)" "current_schema d"
      "config_t d = Some (case config_t (w_db w) of None \<Rightarrow> [] | Some t \<Rightarrow> t)"
      using run_migrations_schema by blast
    have "db_view d = db_view (w_db w)" using d(3) by (auto simp: db_view_def fun_eq_iff split: option.splits)
    moreover have "cfg run_migrations w = (Ok (), w\<lparr>w_db := d\<rparr>)" using d(1) by (rule cfg_apply)
    then have "let w1 = w\<lparr>w_db := d, w_hist := w_hist w @ [load_call conf]\<rparr> in
        if e_unit (w_env w) (w_hist w) (load_call conf) \<noteq> None then init w = (Crash ''log.Fatal'', w1)
        else \<exists>c. init w = (Ok c, fresh_memory w1) \<and> bound c = api_keys rs"
      using run none keys
      by (auto simp: andThen_def SystemConfig_Load_run record_call_def split: option.splits)
    ultimately show ?thesis using d(2) by (simp only: True not_True_eq_False if_False) blast
  next
    case False
    then have "cfg run_migrations w = (Err sql_error, w)" using cfg_apply [of run_migrations w] run_migrations_down by simp
    with run False show ?thesis by (simp add: andThen_def)
  qed
qed


section \<open>A container\<close>

text \<open>A registry of names that behaves as documented.\<close>

definition registry :: "(string \<times> string) list container" where
  "registry = \<lparr>c_New = [],
     c_Bind = (\<lambda>name params out make c.
       if \<forall>p\<in>set params. (p, []) \<in> set c then andThen (make c) (\<lambda>_. ret ((out, name) # c))
       else throw (Error ''container: no concrete found'')),
     c_NamedResolve = (\<lambda>t name c. if (t, name) \<in> set c then ret () else throw (Error ''container: no concrete found'')),
     c_Call = (\<lambda>params f c. if \<forall>p\<in>set params. (p, []) \<in> set c then f else throw (Error ''container: no concrete found''))\<rparr>"

lemma registry_works: "container_works registry set"
  by (auto simp: container_works_def registry_def andThen_def split: prod.splits res.splits)


end
