(* ===== verification/Middleware.thy ===== *)
theory Middleware
  imports Session Accounts
begin

text \<open>
  The guards of the web backend (\<^verbatim>\<open>backend/rest/middleware.go\<close>, \<^verbatim>\<open>handler.go\<close>) and how the result of
  a handler becomes an answer. The data of an answer (\<^verbatim>\<open>interface{}\<close>) is the type parameter \<open>'d\<close>.
\<close>

section \<open>Answers\<close>

record 'd api_response =
  ar_Success :: bool
  ar_Message :: string
  ar_Data :: "'d option"
  ar_Parameters :: "(string \<times> string list) list option"

datatype 'd payload =
    Text string
  | Api "'d api_response"
  | Raw body

type_synonym ('d, 'a) page = "('d payload, 'a) web"

text \<open>The first status that is written counts.\<close>

definition write_status :: "int \<Rightarrow> ('d, unit) page" where
  "write_status code = modify (\<lambda>x. x\<lparr>x_status := (case x_status x of None \<Rightarrow> Some code | Some s \<Rightarrow> Some s)\<rparr>)"

definition write_body :: "'d payload \<Rightarrow> ('d, unit) page" where
  "write_body p = modify (\<lambda>x. x\<lparr>x_body := x_body x @ [p]\<rparr>)"

definition http_Error :: "string \<Rightarrow> int \<Rightarrow> ('d, unit) page" where
  "http_Error msg code = andThen (write_status code) (\<lambda>_. write_body (Text msg))"

definition http_Redirect :: "string \<Rightarrow> int \<Rightarrow> ('d, unit) page" where
  "http_Redirect url code =
     andThen (modify (\<lambda>x. x\<lparr>x_location := Some url\<rparr>)) (\<lambda>_. andThen (write_status code) (\<lambda>_. write_body (Text url)))"

definition error_status :: "error \<Rightarrow> int" where
  "error_status e = (case e of ParameterError _ \<Rightarrow> 400 | ServiceError _ code \<Rightarrow> code | _ \<Rightarrow> 500)"

definition Fail :: "error \<Rightarrow> ('d, unit) page" where
  "Fail e = andThen (write_status (error_status e)) (\<lambda>_.
     write_body (Api \<lparr>ar_Success = False, ar_Message = err_text e, ar_Data = None,
       ar_Parameters = (case e of ParameterError pms \<Rightarrow> Some pms | _ \<Rightarrow> None)\<rparr>))"

definition success :: "'d \<Rightarrow> ('d, unit) page" where
  "success d = andThen (write_status 200) (\<lambda>_.
     write_body (Api \<lparr>ar_Success = True, ar_Message = [], ar_Data = Some d, ar_Parameters = None\<rparr>))"

definition Handle :: "('d, 'd) page \<Rightarrow> ('d, unit) page" where
  "Handle f = andThen (attempt f) (\<lambda>r. case r of Inl e \<Rightarrow> Fail e | Inr d \<Rightarrow> success d)"

definition BadRequest :: "error \<Rightarrow> error" where
  "BadRequest e = ServiceError (err_text e) 400"

section \<open>Guards\<close>

definition FailIfNotActivated :: "('d, unit) page \<Rightarrow> ('d, unit) page" where
  "FailIfNotActivated f = andThen (serve (cfg IsActivated)) (\<lambda>activated.
     if \<not> activated then http_Error ''Device is not activated'' 501 else f)"

definition FailIfActivated :: "('d, unit) page \<Rightarrow> ('d, unit) page" where
  "FailIfActivated f = andThen (serve (cfg IsActivated)) (\<lambda>activated.
     if activated then http_Error ''Device is activated'' 502 else f)"

definition Secured :: "('d, unit) page \<Rightarrow> ('d, unit) page" where
  "Secured f = andThen (attempt GetSessionUser) (\<lambda>r. case r of
     Inl _ \<Rightarrow> http_Error ''Unauthorized'' 401 | Inr _ \<Rightarrow> f)"

definition AdminSecured :: "('d, unit) page \<Rightarrow> ('d, unit) page" where
  "AdminSecured f = Secured (andThen (attempt GetSessionUser) (\<lambda>r. case r of
     Inl _ \<Rightarrow> http_Error ''Unauthorized'' 401
   | Inr username \<Rightarrow> andThen (attempt (serve (IsAdmin username))) (\<lambda>a. case a of
       Inl _ \<Rightarrow> http_Error ''Forbidden'' 403
     | Inr isAdmin \<Rightarrow> if \<not> isAdmin then http_Error ''Forbidden'' 403 else f)))"

definition SecuredHandle :: "('d, 'd) page \<Rightarrow> ('d, unit) page" where
  "SecuredHandle f = Secured (Handle f)"

definition AdminSecuredHandle :: "('d, 'd) page \<Rightarrow> ('d, unit) page" where
  "AdminSecuredHandle f = AdminSecured (Handle f)"

text \<open>The type of the answers is JSON unless the handler says otherwise; an unknown path is a 404.\<close>

definition NotFoundHandler :: "('d, unit) page" where
  "NotFoundHandler = http_Error ''404 page not found'' 404"

section \<open>The contract of a guard\<close>

text \<open>
  A guard decides from the exchange alone whether the handler runs: \<open>passes\<close> gives the
  exchange that the handler starts with, and when there is none the answer does not depend
  on the handler at all. Guards compose.
\<close>

locale guard =
  fixes G :: "('d, unit) page \<Rightarrow> ('d, unit) page"
    and passes :: "'d payload exchange \<Rightarrow> 'd payload exchange option"
  assumes opened: "passes x = Some y \<Longrightarrow> G f x = f y"
    and closed: "passes x = None \<Longrightarrow> G f x = G g x"
begin

lemma runs_or_not: "G f x = (case passes x of Some y \<Rightarrow> f y | None \<Rightarrow> G (ret ()) x)"
  using opened closed by (cases "passes x") auto

text \<open>A handler that keeps a relation keeps it behind the guard as well, if the guard does.\<close>

lemma keeps_through:
  assumes "transp R" "\<And>x y. passes x = Some y \<Longrightarrow> R x y" "\<And>x. passes x = None \<Longrightarrow> R x (snd (G (ret ()) x))" "keeps R f"
  shows "keeps R (G f)"
proof (rule keepsI)
  fix x r x' assume run: "G f x = (r, x')"
  show "R x x'"
  proof (cases "passes x")
    case None
    then show ?thesis using assms(3) [OF None] closed [OF None, of f "ret ()"] run by (metis snd_conv)
  next
    case (Some y)
    then have "f y = (r, x')" using opened run by simp
    then show ?thesis using assms(1,2,4) Some by (metis keepsD transpD)
  qed
qed

end

locale guard_pair = outer: guard G p + inner: guard H q
  for G :: "('d, unit) page \<Rightarrow> ('d, unit) page" and p :: "'d payload exchange \<Rightarrow> 'd payload exchange option"
    and H :: "('d, unit) page \<Rightarrow> ('d, unit) page" and q :: "'d payload exchange \<Rightarrow> 'd payload exchange option"
begin

lemma composed: "guard (\<lambda>f. G (H f)) (\<lambda>x. Option.bind (p x) q)"
proof
  fix x y f assume "Option.bind (p x) q = Some y"
  then show "G (H f) x = f y" using outer.opened inner.opened by (auto simp: Option.bind_eq_Some_conv)
next
  fix x f g assume none: "Option.bind (p x) q = None"
  show "G (H f) x = G (H g) x"
  proof (cases "p x")
    case None
    then show ?thesis by (rule outer.closed)
  next
    case (Some y)
    then have "q y = None" using none by simp
    then have "H f y = H g y" by (rule inner.closed)
    then show ?thesis using outer.opened [OF Some] by simp
  qed
qed

end

sublocale guard_pair \<subseteq> pair: guard "\<lambda>f. G (H f)" "\<lambda>x. Option.bind (p x) q"
  by (rule composed)

text \<open>When the guards of the backend let a request through.\<close>

definition activated :: "'d payload exchange \<Rightarrow> 'd payload exchange option" where
  "activated x = (if cfg IsActivated (x_world x) = (Ok True, x_world x) then Some x else None)"

definition not_activated :: "'d payload exchange \<Rightarrow> 'd payload exchange option" where
  "not_activated x = (if cfg IsActivated (x_world x) = (Ok False, x_world x) then Some x else None)"

definition logged_in :: "'d payload exchange \<Rightarrow> 'd payload exchange option" where
  "logged_in x = (if session_user x = None then None else Some (x\<lparr>x_session := session_values x\<rparr>))"

definition admin :: "'d payload exchange \<Rightarrow> 'd payload exchange option" where
  "admin x = Option.bind (session_user x) (\<lambda>u. case IsAdmin u (x_world x) of
     (Ok True, w) \<Rightarrow> Some (x\<lparr>x_session := session_values x, x_world := w\<rparr>) | _ \<Rightarrow> None)"

lemma serve_run: "m (x_world x) = (r, w) \<Longrightarrow> serve m x = (r, x\<lparr>x_world := w\<rparr>)"
  by (simp add: serve_def zoom_def)

lemma serve_activated:
  "\<exists>r. serve (cfg IsActivated) x = (r, x) \<and> cfg IsActivated (x_world x) = (r, x_world x)"
  using cfg_read [of IsActivated "x_world x"] reads by (auto simp: serve_def zoom_def)

interpretation active: guard FailIfNotActivated activated
proof
  fix x y :: "'d payload exchange" and f :: "('d, unit) page"
  assume "activated x = Some y"
  then show "FailIfNotActivated f x = f y"
    using serve_activated [of x] by (auto simp: activated_def FailIfNotActivated_def split: if_splits)
next
  fix x :: "'d payload exchange" and f g :: "('d, unit) page"
  assume "activated x = None"
  then show "FailIfNotActivated f x = FailIfNotActivated g x"
    using serve_activated [of x] by (auto simp: activated_def FailIfNotActivated_def andThen_def split: if_splits res.splits)
qed

interpretation inactive: guard FailIfActivated not_activated
proof
  fix x y :: "'d payload exchange" and f :: "('d, unit) page"
  assume "not_activated x = Some y"
  then show "FailIfActivated f x = f y"
    using serve_activated [of x] by (auto simp: not_activated_def FailIfActivated_def split: if_splits)
next
  fix x :: "'d payload exchange" and f g :: "('d, unit) page"
  assume "not_activated x = None"
  then show "FailIfActivated f x = FailIfActivated g x"
    using serve_activated [of x] by (auto simp: not_activated_def FailIfActivated_def andThen_def split: if_splits res.splits)
qed

lemma GetSessionUser_cases:
  "GetSessionUser x = (case session_values x of
     None \<Rightarrow> (Crash ''nil pointer dereference'', x)
   | Some vs \<Rightarrow> ((case map_of vs UserKey of None \<Rightarrow> Err (Error ''no session found'') | Some u \<Rightarrow> Ok u), x\<lparr>x_session := Some vs\<rparr>))"
  using GetSessionUser_run [of x] by (auto simp: GetSessionUser_def getSession_run andThen_def split: option.splits)

lemma Secured_run:
  "Secured f x = (case session_values x of
     None \<Rightarrow> (Crash ''nil pointer dereference'', x)
   | Some vs \<Rightarrow> (case map_of vs UserKey of
       None \<Rightarrow> http_Error ''Unauthorized'' 401 (x\<lparr>x_session := Some vs\<rparr>)
     | Some _ \<Rightarrow> f (x\<lparr>x_session := Some vs\<rparr>)))"
  by (simp add: Secured_def attempt_def andThen_def GetSessionUser_cases split: option.splits)

interpretation secured: guard Secured logged_in
  by unfold_locales (auto simp: logged_in_def session_user_def Secured_run split: if_splits option.splits)

text \<open>\<open>IsAdmin\<close> never panics, so the check always ends with an answer or the handler.\<close>

lemma IsAdmin_safe: "safe (IsAdmin u)"
  unfolding IsAdmin_def Members_def groupMembers_def Connect_def
  by (intro safe_intros) (auto split: list.splits intro!: safe_intros simp del: ret_apply throw_apply)

lemma AdminSecured_run:
  assumes "session_values x = Some vs" "map_of vs UserKey = Some u" "IsAdmin u (x_world x) = (r, w)"
  shows "AdminSecured f x = (if r = Ok True then f (x\<lparr>x_session := Some vs, x_world := w\<rparr>)
     else http_Error ''Forbidden'' 403 (x\<lparr>x_session := Some vs, x_world := w\<rparr>))"
proof -
  have "r \<noteq> Crash p" for p using safeD [OF IsAdmin_safe, of u "x_world x" p w] assms(3) by auto
  then show ?thesis
    using assms by (cases r) (auto simp: AdminSecured_def Secured_run GetSessionUser_cases attempt_def andThen_def serve_run)
qed

lemma AdminSecured_closed:
  assumes "session_user x = None"
  shows "AdminSecured f x = (case session_values x of
     None \<Rightarrow> (Crash ''nil pointer dereference'', x)
   | Some vs \<Rightarrow> http_Error ''Unauthorized'' 401 (x\<lparr>x_session := Some vs\<rparr>))"
  using assms by (auto simp: AdminSecured_def Secured_run session_user_def split: option.splits)

interpretation admins_only: guard AdminSecured admin
proof
  fix x y :: "'d payload exchange" and f :: "('d, unit) page"
  assume some: "admin x = Some y"
  then obtain u vs where vs: "session_user x = Some u" "session_values x = Some vs" "map_of vs UserKey = Some u"
    by (auto simp: admin_def session_user_def Option.bind_eq_Some_conv)
  obtain r w where run: "IsAdmin u (x_world x) = (r, w)" by fastforce
  with some vs have "r = Ok True" "y = x\<lparr>x_session := Some vs, x_world := w\<rparr>"
    by (auto simp: admin_def split: res.splits bool.splits)
  then show "AdminSecured f x = f y" using AdminSecured_run [OF vs(2,3) run] by simp
next
  fix x :: "'d payload exchange" and f g :: "('d, unit) page"
  assume none: "admin x = None"
  show "AdminSecured f x = AdminSecured g x"
  proof (cases "session_user x")
    case None
    then show ?thesis by (simp add: AdminSecured_closed)
  next
    case (Some u)
    then obtain vs where vs: "session_values x = Some vs" "map_of vs UserKey = Some u"
      by (auto simp: session_user_def Option.bind_eq_Some_conv)
    obtain r w where run: "IsAdmin u (x_world x) = (r, w)" by fastforce
    then have "r \<noteq> Ok True" using none Some by (auto simp: admin_def)
    then show ?thesis using AdminSecured_run [OF vs run] by simp
  qed
qed

text \<open>The two guards that the routes of users and of administrators have.\<close>

interpretation user_route: guard_pair FailIfNotActivated activated Secured logged_in ..

interpretation admin_route: guard_pair FailIfNotActivated activated AdminSecured admin ..

end
