(* ===== verification/Nginx.thy ===== *)
theory Nginx
  imports Config_Tables Systemd Settings_Readers
begin

text \<open>
  The web server (\<^verbatim>\<open>backend/nginx\<close>): its public configuration is a template with the domain put
  in, the configuration of the custom proxies is generated from their table.
\<close>

definition ReloadPublic :: "unit go" where
  "ReloadPublic = ReloadService ''platform.nginx-public''"

definition nginx_public :: "string \<Rightarrow> string \<Rightarrow> string" where
  "nginx_public tmpl domain =
     ReplaceAll (ReplaceAll tmpl ''{{ domain_regex }}'' (ReplaceAll domain ''.'' [CHR 0x5C, CHR ''.'']))
       ''{{ domain }}'' domain"

definition Nginx_InitConfig :: "sysconf \<Rightarrow> unit go" where
  "Nginx_InitConfig c =
     andThen (cfg GetDeviceDomain) (\<lambda>domain.
     andThen (do_str (Sys ''readfile'' [path_join [ConfigDir c, ''nginx'', ''public.conf'']])) (\<lambda>tmpl.
       do_sys ''writefile'' [path_join [DataDir c, ''nginx.conf''], nginx_public tmpl domain, ''0644'']))"

text \<open>An entry of the template of custom proxies.\<close>

record proxy_server =
  ps_ServerName :: string
  ps_Host :: string
  ps_Port :: int
  ps_Scheme :: string
  ps_Authelia :: bool

definition server_of :: "string \<Rightarrow> proxy_entry \<Rightarrow> proxy_server" where
  "server_of domain e = \<lparr>ps_ServerName = pe_Name e @ ''.'' @ domain, ps_Host = pe_Host e, ps_Port = pe_Port e,
     ps_Scheme = (if pe_Https e then ''https'' else ''http''), ps_Authelia = pe_Authelia e\<rparr>"

definition server_args :: "proxy_server \<Rightarrow> string list" where
  "server_args s = [ps_ServerName s, ps_Host s, Itoa (ps_Port s), ps_Scheme s, if ps_Authelia s then ''true'' else ''false'']"

definition writeCustomProxyConfig :: "sysconf \<Rightarrow> unit go" where
  "writeCustomProxyConfig c =
     andThen (cfg GetDeviceDomain) (\<lambda>domain.
     let templateFile = path_join [ConfigDir c, ''nginx'', ''custom-proxy.conf''] in
     andThen (do_sys ''template'' [templateFile]) (\<lambda>_.
     andThen (cfg Proxy_List) (\<lambda>entries.
     andThen (do_str (Sys ''execute'' (templateFile # concat (map (\<lambda>e. server_args (server_of domain e)) entries)))) (\<lambda>content.
       do_sys ''writefile'' [path_join [DataDir c, ''custom-proxy.conf''], content, ''0644'']))))"

definition InitCustomProxyConfig :: "sysconf \<Rightarrow> unit go" where
  "InitCustomProxyConfig c = writeCustomProxyConfig c"

definition ReloadCustomProxy :: "sysconf \<Rightarrow> unit go" where
  "ReloadCustomProxy c = andThen (writeCustomProxyConfig c) (\<lambda>_. ReloadService ''platform.nginx-custom-proxy'')"

end
