(* ===== verification/Redirect_Service.thy ===== *)
theory Redirect_Service
  imports Systemd Settings_Readers
begin

text \<open>
  The client of the redirect service that owns the device's domain
  (\<^verbatim>\<open>backend/redirect\<close>), with the version of the platform (\<^verbatim>\<open>backend/version\<close>) and the
  addresses of the device (\<^verbatim>\<open>backend/network\<close>), which are calls to the environment.
\<close>

section \<open>Addresses and version\<close>

definition Version_Get :: "string go" where
  "Version_Get = andThen (do_str (Sys ''readfile'' [''/snap/platform/current/meta/version''])) (\<lambda>content.
     ret (TrimSpace content))"

text \<open>The local address of a UDP socket dialled to a public resolver.\<close>

definition LocalIPv4 :: "string go" where
  "LocalIPv4 = do_str (Sys ''net.Dial'' [''udp'', ''8.8.8.8:80''])"

definition IPv6 :: "string go" where
  "IPv6 = do_str (Sys ''net.Dial'' [''udp'', ''[2001:4860:4860::8888]:80''])"

definition PublicIPv4 :: "string go" where
  "PublicIPv4 = andThen (do_http (HttpGet ''https://myexternalip.com/raw'')) (\<lambda>resp.
     andThen (read_body resp) (\<lambda>b. ret (body_text b)))"

section \<open>Requests\<close>

text \<open>Fields with \<^verbatim>\<open>omitempty\<close> are left out when they hold the zero value.\<close>

definition opt_str :: "string \<Rightarrow> string \<Rightarrow> (string \<times> json) list" where
  "opt_str k v = (if v = [] then [] else [(k, JStr v)])"

definition opt_bool :: "string \<Rightarrow> bool \<Rightarrow> (string \<times> json) list" where
  "opt_bool k b = (if b then [(k, JBool True)] else [])"

definition opt_ptr :: "string \<Rightarrow> ('a \<Rightarrow> json) \<Rightarrow> 'a option \<Rightarrow> (string \<times> json) list" where
  "opt_ptr k f v = (case v of None \<Rightarrow> [] | Some a \<Rightarrow> [(k, f a)])"

record update_request =
  ur_Ip :: "string option"
  ur_LocalIp :: "string option"
  ur_MapLocalAddress :: bool
  ur_Relay :: bool
  ur_MailRelay :: bool
  ur_Token :: string
  ur_Ipv6 :: "string option"
  ur_DkimKey :: "string option"
  ur_PlatformVersion :: string
  ur_WebPort :: "int option"
  ur_Ipv4Enabled :: bool
  ur_Ipv6Enabled :: bool

definition update_json :: "update_request \<Rightarrow> json" where
  "update_json r = JObj (
     opt_ptr ''ip'' JStr (ur_Ip r) @ opt_ptr ''local_ip'' JStr (ur_LocalIp r)
     @ opt_bool ''map_local_address'' (ur_MapLocalAddress r) @ opt_bool ''relay'' (ur_Relay r)
     @ opt_bool ''mail_relay'' (ur_MailRelay r) @ [(''token'', JStr (ur_Token r))]
     @ opt_ptr ''ipv6'' JStr (ur_Ipv6 r) @ opt_ptr ''dkim_key'' JStr (ur_DkimKey r)
     @ [(''platform_version'', JStr (ur_PlatformVersion r)), (''web_protocol'', JStr ''https''),
        (''web_local_port'', JNum 443)]
     @ opt_ptr ''web_port'' JNum (ur_WebPort r)
     @ [(''ipv4_enabled'', JBool (ur_Ipv4Enabled r)), (''ipv6_enabled'', JBool (ur_Ipv6Enabled r))])"

definition CheckHttpError :: "int \<Rightarrow> body \<Rightarrow> error option" where
  "CheckHttpError status b =
     (if status = 200 then None
      else (case Option.bind (body_json b) (dec_obj (\<lambda>k. dec_str (k ''message''))) of
          None \<Rightarrow> Some (PassThroughJsonError ''Unable to parse Redirect response'' (body_text b))
        | Some m \<Rightarrow> Some (PassThroughJsonError m (body_text b))))"

definition postAndCheck :: "string \<Rightarrow> json \<Rightarrow> body go" where
  "postAndCheck url request = andThen (do_http (HttpPost url request)) (\<lambda>resp.
     andThen (read_body resp) (\<lambda>b.
       case CheckHttpError (StatusCode resp) b of None \<Rightarrow> ret b | Some e \<Rightarrow> throw e))"

definition api_post :: "string \<Rightarrow> json \<Rightarrow> body go" where
  "api_post path request = andThen (cfg Redirect_ApiUrl) (\<lambda>api. postAndCheck (api @ ''/'' @ path) request)"

definition Redirect_Authenticate :: "string \<Rightarrow> string \<Rightarrow> string go" where
  "Redirect_Authenticate email password =
     andThen (api_post ''user'' (JObj (opt_str ''password'' password @ opt_str ''email'' email))) (\<lambda>b.
       json_body b (dec_obj (\<lambda>k. dec_obj (\<lambda>d. dec_str (d ''update_token'')) (k ''data''))))"

definition CertbotPresent :: "string \<Rightarrow> string \<Rightarrow> string list \<Rightarrow> unit go" where
  "CertbotPresent token fqdn values =
     andThen (api_post ''certbot/present'' (JObj (opt_str ''fqdn'' fqdn @ opt_str ''token'' token
        @ (if values = [] then [] else [(''values'', JArr (map JStr values))])))) (\<lambda>_. ret ())"

definition CertbotCleanUp :: "string \<Rightarrow> string \<Rightarrow> unit go" where
  "CertbotCleanUp token fqdn =
     andThen (api_post ''certbot/cleanup'' (JObj (opt_str ''fqdn'' fqdn @ opt_str ''token'' token))) (\<lambda>_. ret ())"

definition SendLogs :: "string \<Rightarrow> bool \<Rightarrow> unit go" where
  "SendLogs logs includeSupport =
     andThen (cfg Redirect_ApiUrl) (\<lambda>api.
     andThen (cfg Redirect_UserUpdateToken) (\<lambda>token.
     andThen (postAndCheck (api @ ''/user/log_v2'') (JObj [(''token'', JStr token), (''data'', JStr logs),
         (''include_support'', JBool includeSupport)])) (\<lambda>_. ret ())))"

record device_id =
  id_Name :: string
  id_Title :: string
  id_MacAddress :: string

text \<open>The text of a hardware address, as bytes in lower case hexadecimal.\<close>

definition hex_digit :: "nat \<Rightarrow> char" where
  "hex_digit d = ''0123456789abcdef'' ! (d mod 16)"

definition HardwareAddr_String :: "string \<Rightarrow> string" where
  "HardwareAddr_String a = Join (map (\<lambda>c. [hex_digit (of_char c div 16), hex_digit (of_char c)]) a) '':''"

text \<open>The first interface with a name and an address of at least six bytes; no such interface is no error.\<close>

fun first_mac :: "(string \<times> string) list \<Rightarrow> string" where
  "first_mac [] = ''''"
| "first_mac ((name, addr) # ifas) =
     (if 6 \<le> length addr \<and> name \<noteq> '''' then HardwareAddr_String addr else first_mac ifas)"

definition GetMac :: "string go" where
  "GetMac = andThen (do_pairs (Sys ''net.Interfaces'' [])) (\<lambda>ifas. ret (first_mac ifas))"

text \<open>A missing file, section or option, and an error of the ini library, all give the default.\<close>

definition id_get :: "string \<Rightarrow> string \<Rightarrow> string go" where
  "id_get key def = andThen (attempt (do_str (Sys ''configparser'' [''/etc/syncloud/id.cfg'', ''id'', key]))) (\<lambda>r.
     ret (case r of Inl _ \<Rightarrow> def | Inr v \<Rightarrow> v))"

definition GetId :: "device_id go" where
  "GetId = andThen GetMac (\<lambda>mac.
     andThen (id_get ''name'' ''unknown'') (\<lambda>name.
     andThen (id_get ''title'' ''Unknown'') (\<lambda>title.
       ret \<lparr>id_Name = name, id_Title = title, id_MacAddress = mac\<rparr>)))"

text \<open>
  The reply of an acquisition. The fields that nobody reads still have to have their types,
  \<open>last_update\<close> the text of a time in RFC 3339.
\<close>

definition two_digits :: "nat \<Rightarrow> nat \<Rightarrow> string \<Rightarrow> bool" where
  "two_digits lo hi s = (case digits_val 0 s of None \<Rightarrow> False | Some n \<Rightarrow> length s = 2 \<and> lo \<le> n \<and> n \<le> hi)"

definition month_days :: "nat \<Rightarrow> nat \<Rightarrow> nat" where
  "month_days y m = (if m = 2 then (if y mod 4 = 0 \<and> (y mod 100 \<noteq> 0 \<or> y mod 400 = 0) then 29 else 28)
     else if m \<in> {4, 6, 9, 11} then 30 else 31)"

definition rfc3339_zone :: "string \<Rightarrow> bool" where
  "rfc3339_zone s \<longleftrightarrow> s = ''Z'' \<or> (length s = 6 \<and> (hd s = CHR ''+'' \<or> hd s = CHR ''-'')
     \<and> two_digits 0 23 (take 2 (drop 1 s)) \<and> s ! 3 = CHR '':'' \<and> two_digits 0 59 (drop 4 s))"

definition rfc3339_date :: "string \<Rightarrow> bool" where
  "rfc3339_date s \<longleftrightarrow> length s = 10 \<and> s ! 4 = CHR ''-'' \<and> s ! 7 = CHR ''-''
     \<and> (case (digits_val 0 (take 4 s), digits_val 0 (take 2 (drop 5 s))) of
          (Some y, Some m) \<Rightarrow> 1 \<le> m \<and> m \<le> 12 \<and> two_digits 1 (month_days y m) (drop 8 s)
        | _ \<Rightarrow> False)"

definition rfc3339 :: "string \<Rightarrow> bool" where
  "rfc3339 s \<longleftrightarrow> 20 \<le> length s \<and> rfc3339_date (take 10 s) \<and> s ! 10 = CHR ''T''
     \<and> two_digits 0 23 (take 2 (drop 11 s)) \<and> s ! 13 = CHR '':''
     \<and> two_digits 0 59 (take 2 (drop 14 s)) \<and> s ! 16 = CHR '':'' \<and> two_digits 0 59 (take 2 (drop 17 s))
     \<and> (let r = drop 19 s in
        if hd r = CHR ''.'' then (let ds = takeWhile is_digit (tl r) in
             ds \<noteq> [] \<and> rfc3339_zone (drop (length ds) (tl r)))
        else rfc3339_zone r)"

fun dec_time :: "json \<Rightarrow> unit option" where
  "dec_time JNull = Some ()"
| "dec_time (JStr s) = (if rfc3339 s then Some () else None)"
| "dec_time _ = None"

record redirect_domain =
  dom_Name :: string
  dom_UpdateToken :: string

definition dec_domain :: "json \<Rightarrow> redirect_domain option" where
  "dec_domain = dec_obj (\<lambda>k.
     case (dec_str (k ''name''), dec_str (k ''update_token''), dec_bool (k ''map_local_address''),
       dec_time (k ''last_update''),
       those (map (\<lambda>f. dec_opt dec_str (k f)) [''ip'', ''ipv6'', ''dkim_key'', ''local_ip'', ''device_mac_address'',
         ''device_name'', ''device_title'', ''platform_version'', ''web_protocol'']),
       those (map (\<lambda>f. dec_opt dec_int (k f)) [''web_port'', ''web_local_port''])) of
       (Some n, Some t, Some _, Some _, Some _, Some _) \<Rightarrow> Some \<lparr>dom_Name = n, dom_UpdateToken = t\<rparr>
     | _ \<Rightarrow> None)"

definition Redirect_Acquire :: "string \<Rightarrow> string \<Rightarrow> string \<Rightarrow> redirect_domain option go" where
  "Redirect_Acquire email password domain =
     andThen GetId (\<lambda>i.
     andThen (api_post ''domain/acquire_v2'' (JObj (opt_str ''domain'' domain @ opt_str ''password'' password
         @ opt_str ''email'' email @ opt_str ''device_mac_address'' (id_MacAddress i)
         @ opt_str ''device_name'' (id_Name i) @ opt_str ''device_title'' (id_Title i)))) (\<lambda>b.
     andThen (json_body b (dec_obj (\<lambda>k.
         case (dec_bool (k ''success''), dec_opt dec_domain (k ''data'')) of
           (Some ok, Some d) \<Rightarrow> Some (ok, d) | _ \<Rightarrow> None))) (\<lambda>(ok, d).
       if \<not> ok then throw (Error ''failed to acquire domain'') else ret d)))"

text \<open>The addresses that the service is told, or the error of looking one up.\<close>

definition Redirect_Update :: "bool \<Rightarrow> string option \<Rightarrow> int option \<Rightarrow> bool \<Rightarrow> bool \<Rightarrow> bool \<Rightarrow> unit go" where
  "Redirect_Update relay ipv4 port ipv4Enabled ipv4Public ipv6Enabled =
     andThen Version_Get (\<lambda>platformVersion.
     andThen (cfg GetDomainUpdateToken) (\<lambda>updateToken. case updateToken of
       None \<Rightarrow> throw (Error ''domain update token is not evailable'')
     | Some token \<Rightarrow>
     andThen (cfg IsMailRelayEnabled) (\<lambda>mailRelay.
     andThen (if \<not> ipv4Enabled then ret (None, None, False)
        else andThen LocalIPv4 (\<lambda>localIp.
          andThen (if \<not> ipv4Public then ret None
             else (case ipv4 of Some ip \<Rightarrow> ret (Some ip)
                | None \<Rightarrow> andThen PublicIPv4 (\<lambda>ip. ret (Some ip)))) (\<lambda>ip.
            ret (ip, Some localIp, \<not> ipv4Public)))) (\<lambda>(ip, localIp, mapLocal).
     andThen (if \<not> ipv6Enabled then ret None
        else andThen (attempt IPv6) (\<lambda>r. ret (case r of Inl _ \<Rightarrow> None | Inr a \<Rightarrow> Some a))) (\<lambda>ipv6.
     andThen (cfg GetDkimKey) (\<lambda>dkimKey.
     andThen (api_post ''domain/update'' (update_json \<lparr>ur_Ip = ip, ur_LocalIp = localIp,
        ur_MapLocalAddress = mapLocal, ur_Relay = relay, ur_MailRelay = mailRelay, ur_Token = token,
        ur_Ipv6 = ipv6, ur_DkimKey = dkimKey, ur_PlatformVersion = platformVersion, ur_WebPort = port,
        ur_Ipv4Enabled = ipv4Enabled, ur_Ipv6Enabled = ipv6Enabled\<rparr>)) (\<lambda>_. ret ())))))))"

definition Redirect_Reset :: "unit go" where
  "Redirect_Reset = Redirect_Update False None None True False True"

section \<open>The service changes no setting\<close>

lemmas keeps_same_db_do = keeps_do [where P = "\<lambda>_. True", THEN within_same_db]

lemma keeps_http [keeps_intros]:
  "keeps same_db (do_http c)" "keeps same_db (do_str c)" "keeps same_db (do_sys g as)" "keeps same_db (do_pairs c)" "keeps same_db (do_unit c)"
  "keeps same_db (do_void c)" "keeps same_db (read_body resp)" "keeps same_db (run_cmd cmd as)"
  "keeps same_db (json_body b f)"
  using keeps_same_db_do within_same_db [OF keeps_read_body] within_same_db [OF keeps_run_cmd [where P = "\<lambda>_. True"]]
    within_same_db [OF keeps_json_body] by auto

lemma keeps_postAndCheck [keeps_intros]: "keeps same_db (postAndCheck url request)"
  unfolding postAndCheck_def by (intro keeps_intros) (auto split: option.splits intro!: keeps_intros)

lemma keeps_api_post [keeps_intros]: "keeps same_db (api_post path request)"
  unfolding api_post_def by (intro keeps_intros keeps_cfg_read reads)

lemma keeps_Redirect_Update [keeps_intros]:
  "keeps same_db (Redirect_Update relay ipv4 port ipv4Enabled ipv4Public ipv6Enabled)"
  unfolding Redirect_Update_def Version_Get_def LocalIPv4_def PublicIPv4_def IPv6_def
  by (auto split: option.splits prod.splits intro!: keeps_intros keeps_cfg_read reads simp del: ret_apply throw_apply)

end
