(* ===== verification/Cert.thy ===== *)
theory Cert
  imports Nginx Redirect_Service
begin

text \<open>
  TLS certificates (\<^verbatim>\<open>backend/cert\<close>): the decision between keeping a certificate, asking Let's
  Encrypt for one and falling back to a self-signed one. The ACME library (lego) and the
  cryptography are calls, decoding a certificate file is a function of the environment, and
  the clock counts whole seconds.
\<close>

section \<open>Reading the certificate\<close>

definition Month_secs :: int where "Month_secs = 30 * 24 * 60 * 60"

definition SubjectOrganization :: string where "SubjectOrganization = ''Syncloud''"

record cert_info =
  ci_Subject :: string
  ci_IsValid :: bool
  ci_IsReal :: bool
  ci_ValidForDays :: int

definition no_cert_info :: cert_info where
  "no_cert_info = \<lparr>ci_Subject = '''', ci_IsValid = False, ci_IsReal = False, ci_ValidForDays = 0\<rparr>"

text \<open>\<^verbatim>\<open>Time.Sub\<close> is limited to the durations of 64 bit nanoseconds.\<close>

definition time_sub :: "int \<Rightarrow> int \<Rightarrow> int" where
  "time_sub a b = max (- 9223372036) (min 9223372036 (a - b))"

definition info_of :: "certificate \<Rightarrow> int \<Rightarrow> cert_info" where
  "info_of crt now = (let validFor = time_sub (NotAfter crt) now in
     \<lparr>ci_Subject = CommonName crt, ci_IsValid = (Month_secs < validFor),
      ci_IsReal = (SubjectOrganization \<notin> set (Organization crt)), ci_ValidForDays = go_div validFor 86400\<rparr>)"

text \<open>A file without a PEM block makes \<^verbatim>\<open>block.Bytes\<close> dereference nil.\<close>

definition ReadCertificateInfo :: "sysconf \<Rightarrow> cert_info go" where
  "ReadCertificateInfo c =
     andThen (attempt (do_str (Sys ''readfile'' [SslCertificateFile c]))) (\<lambda>r. case r of
       Inl _ \<Rightarrow> ret no_cert_info
     | Inr certBytes \<Rightarrow> andThen (gets (\<lambda>w. e_cert (w_env w) certBytes)) (\<lambda>block. case block of
         None \<Rightarrow> crash ''nil pointer dereference''
       | Some None \<Rightarrow> ret no_cert_info
       | Some (Some crt) \<Rightarrow> andThen Now (\<lambda>now. ret (info_of crt now))))"

section \<open>Certificates of Let's Encrypt\<close>

definition Certbot_Generate :: "sysconf \<Rightarrow> unit go" where
  "Certbot_Generate c =
     andThen (do_str (Sys ''ecdsa.GenerateKey'' [''P256''])) (\<lambda>privateKey.
     andThen (cfg Redirect_UserEmail) (\<lambda>email. case email of
       None \<Rightarrow> throw (Error ''email is not set'')
     | Some address \<Rightarrow>
       andThen (cfg IsCertbotStaging) (\<lambda>staging.
       andThen (do_sys ''lego.NewClient'' [address, privateKey, if staging then ''staging'' else ''production'']) (\<lambda>_.
       andThen (cfg IsRedirectEnabled) (\<lambda>redirect.
       andThen (if \<not> redirect then do_sys ''lego.SetHTTP01Provider'' []
          else andThen (cfg GetDomainUpdateToken) (\<lambda>token. case token of
              None \<Rightarrow> throw (Error ''token is not set'')
            | Some t \<Rightarrow> do_sys ''lego.SetDNS01Provider'' [t, ''8.8.8.8:53''])) (\<lambda>_.
       andThen (do_sys ''lego.Register'' []) (\<lambda>_.
       andThen (cfg GetDeviceDomain) (\<lambda>domain.
       andThen (do_pairs (Sys ''lego.Obtain'' [domain, ''*.'' @ domain])) (\<lambda>certificates. case certificates of
         [] \<Rightarrow> crash ''nil pointer dereference''
       | (crt, key) # _ \<Rightarrow>
         andThen (do_sys ''writefile'' [SslCertificateFile c, crt, ''0644'']) (\<lambda>_.
           do_sys ''writefile'' [SslKeyFile c, key, ''0644'']))))))))))"

text \<open>
  The challenges. The DNS provider collects the values of all challenges of an order, because
  the domain and its wildcard share one name; \<open>GetChallengeInfo\<close> of the library gives name
  and value.
\<close>

definition Dns_Present :: "(string \<Rightarrow> string \<Rightarrow> string \<times> string) \<Rightarrow> string \<Rightarrow> string list \<Rightarrow> string \<Rightarrow> string
    \<Rightarrow> (string list \<times> (error + unit)) go" where
  "Dns_Present GetChallengeInfo token values domain keyAuth =
     (let (fqdn, v) = GetChallengeInfo domain keyAuth; values' = values @ [v] in
      andThen (attempt (CertbotPresent token fqdn values')) (\<lambda>r. ret (values', r)))"

definition Dns_CleanUp :: "(string \<Rightarrow> string \<Rightarrow> string \<times> string) \<Rightarrow> string \<Rightarrow> string list \<Rightarrow> string \<Rightarrow> string
    \<Rightarrow> (string list \<times> (error + unit)) go" where
  "Dns_CleanUp GetChallengeInfo token values domain keyAuth =
     (let (fqdn, v) = GetChallengeInfo domain keyAuth in
      andThen (attempt (CertbotCleanUp token fqdn)) (\<lambda>r. ret ([], r)))"

definition acme_path :: string where
  "acme_path = ''/var/snap/platform/current/certbot/www/.well-known/acme-challenge/''"

definition Http_Present :: "string \<Rightarrow> string \<Rightarrow> unit go" where
  "Http_Present token keyAuth = do_sys ''writefile'' [acme_path @ token, keyAuth, ''0644'']"

definition Http_CleanUp :: "string \<Rightarrow> unit go" where
  "Http_CleanUp token = do_sys ''remove'' [acme_path @ token]"

section \<open>Self-signed certificates\<close>

text \<open>A key in PEM form and the certificate for it, both made by the standard library.\<close>

definition ec_key :: "(string \<times> string) go" where
  "ec_key =
     andThen (do_str (Sys ''ecdsa.GenerateKey'' [''P384''])) (\<lambda>key.
     andThen (do_str (Sys ''x509.MarshalECPrivateKey'' [key])) (\<lambda>keyBytes.
     andThen (do_str (Sys ''pem.Encode'' [''EC PRIVATE KEY'', keyBytes])) (\<lambda>pem. ret (key, pem))))"

definition create_cert :: "string list \<Rightarrow> string go" where
  "create_cert tmpl =
     andThen (do_str (Sys ''x509.CreateCertificate'' tmpl)) (\<lambda>bytes.
       do_str (Sys ''pem.Encode'' [''CERTIFICATE'', bytes]))"

definition fake_duration :: int where "fake_duration = 2 * Month_secs"

definition Fake_Generate :: "sysconf \<Rightarrow> unit go" where
  "Fake_Generate c =
     andThen Now (\<lambda>now.
     let valid = [Itoa now, Itoa (now + fake_duration)];
         subject = [''UK'', ''Syncloud'', ''Syncloud'', SubjectOrganization] in
     andThen ec_key (\<lambda>(caKey, caPrivateKeyPem).
     andThen (create_cert (subject @ [''syncloud ca''] @ valid @ [''ca'', caKey, caKey])) (\<lambda>caPem.
     andThen (do_sys ''writefile'' [SslCaKeyFile c, caPrivateKeyPem, ''0644'']) (\<lambda>_.
     andThen (do_sys ''writefile'' [SslCaCertificateFile c, caPem, ''0644'']) (\<lambda>_.
     andThen (cfg GetDeviceDomain) (\<lambda>domain.
     andThen ec_key (\<lambda>(key, privateKeyPem).
     andThen (create_cert (subject @ [domain] @ valid @ [''*.'' @ domain, key, caKey])) (\<lambda>certificatePem.
     andThen (do_sys ''writefile'' [SslKeyFile c, privateKeyPem, ''0644'']) (\<lambda>_.
       do_sys ''writefile'' [SslCertificateFile c, certificatePem, ''0644''])))))))))"

section \<open>The generator\<close>

definition generateReal :: "sysconf \<Rightarrow> unit go" where
  "generateReal c =
     andThen (ReadCertificateInfo c) (\<lambda>certInfo.
     andThen (cfg GetDeviceDomain) (\<lambda>domain.
       if ci_IsValid certInfo \<and> ci_IsReal certInfo \<and> ci_Subject certInfo = domain then ret ()
       else andThen (Certbot_Generate c) (\<lambda>_.
         andThen ReloadPublic (\<lambda>_. RunCertificateChangeEvent))))"

definition generateFake :: "sysconf \<Rightarrow> bool go" where
  "generateFake c =
     andThen (ReadCertificateInfo c) (\<lambda>certInfo.
     andThen (cfg GetDeviceDomain) (\<lambda>domain.
       if ci_IsValid certInfo \<and> ci_Subject certInfo = domain then ret False
       else andThen (Fake_Generate c) (\<lambda>_. ret True)))"

definition Cert_Generate :: "sysconf \<Rightarrow> unit go" where
  "Cert_Generate c =
     andThen (cfg IsActivated) (\<lambda>activated.
       if \<not> activated then andThen (generateFake c) (\<lambda>_. ret ())
       else andThen (attempt (generateReal c)) (\<lambda>r. case r of
           Inr _ \<Rightarrow> ret ()
         | Inl _ \<Rightarrow> andThen (generateFake c) (\<lambda>generated.
             if generated then andThen ReloadPublic (\<lambda>_. RunCertificateChangeEvent) else ret ())))"

section \<open>Properties\<close>

lemma cfg_cert_ready:
  assumes "db_ready (w_db w)"
  shows "cfg IsActivated w = (Ok (view_bool (w_db w) ''platform.activated'' False), w)"
    and "cfg GetDeviceDomain w = (Ok (device_domain (w_db w)), w)"
  using assms by (simp_all add: cfg_def zoom_def IsActivated_def io_simps)

text \<open>What the certificate file shows at a point of the history.\<close>

definition file_info :: "sysconf \<Rightarrow> environment \<Rightarrow> call list \<Rightarrow> cert_info option" where
  "file_info c e h = (case e_str e h (Sys ''readfile'' [SslCertificateFile c]) of
     Inl _ \<Rightarrow> Some no_cert_info
   | Inr b \<Rightarrow> (case e_cert e b of None \<Rightarrow> None | Some None \<Rightarrow> Some no_cert_info
       | Some (Some crt) \<Rightarrow> Some (info_of crt (e_now e (h @ [Sys ''readfile'' [SslCertificateFile c]])))))"

lemma ReadCertificateInfo_run:
  "ReadCertificateInfo c w = (case file_info c (w_env w) (w_hist w) of
       None \<Rightarrow> (Crash ''nil pointer dereference'', record_call (Sys ''readfile'' [SslCertificateFile c]) w)
     | Some i \<Rightarrow> (Ok i, record_call (Sys ''readfile'' [SslCertificateFile c]) w))"
  by (auto simp: ReadCertificateInfo_def file_info_def do_str_def attempt_def andThen_def split: sum.splits option.splits)


text \<open>A device with a certificate for its domain, from its days of validity and its organizations.\<close>

definition cert_world :: "int \<Rightarrow> string list \<Rightarrow> world" where
  "cert_world days orgs = (start_world (calm\<lparr>e_cert := (\<lambda>_. Some (Some \<lparr>NotAfter = days * 86400,
     CommonName = ''www.localhost'', Organization = orgs\<rparr>))\<rparr>))\<lparr>w_db := db_put ''platform.activated'' True_str fresh_db\<rparr>"

lemma cert_world_sel [simp]:
  "w_db (cert_world days orgs) = db_put ''platform.activated'' True_str fresh_db" "w_hist (cert_world days orgs) = []"
  by (simp_all add: cert_world_def)


text \<open>
  A certificate of Let's Encrypt that has less than 30 days left is overwritten by a self-signed
  one as soon as a renewal fails, here because no email is set.
\<close>

lemma expiring_certificate_overwritten:
  "\<exists>w'. generateReal sample_conf (cert_world 29 [''Let us encrypt'']) = (Err (Error ''email is not set''), w')
     \<and> (\<exists>w''. generateFake sample_conf w' = (Ok True, w'')
       \<and> last (w_hist w'') = Sys ''writefile'' [''/crt'', [], ''0644''])"
proof -
  let ?e = "w_env (cert_world 29 [''Let us encrypt''])"
  have str: "do_str call w = (Ok [], record_call call w)" if "w_env w = ?e" for call w
    using that by (simp add: do_str_def cert_world_def calm_def)
  have sys: "do_sys f as w = (Ok (), record_call (Sys f as) w)" if "w_env w = ?e" for f as w
    using that by (simp add: do_sys_def do_unit_def cert_world_def calm_def)
  have info: "\<exists>i. file_info sample_conf (w_env w) h = Some i \<and> \<not> ci_IsValid i" if "w_env w = ?e" for w h
    using that by (simp add: file_info_def cert_world_def info_of_def time_sub_def Month_secs_def calm_def)
  have email: "cfg Redirect_UserEmail w = (Ok None, w)" if "w_db w = db_put ''platform.activated'' True_str fresh_db" for w
    using that by (simp add: cfg_def zoom_def Redirect_UserEmail_def io_simps)
  have ready: "db_ready (db_put ''platform.activated'' True_str fresh_db)" by simp
  obtain i where i: "file_info sample_conf ?e [] = Some i" "\<not> ci_IsValid i" using info by blast
  obtain w' where w': "generateReal sample_conf (cert_world 29 [''Let us encrypt'']) = (Err (Error ''email is not set''), w')"
      "w_env w' = ?e" "w_db w' = db_put ''platform.activated'' True_str fresh_db"
    using i by (simp add: generateReal_def ReadCertificateInfo_run cfg_cert_ready Certbot_Generate_def str email andThen_def)
  obtain j where j: "file_info sample_conf (w_env w') (w_hist w') = Some j" "\<not> ci_IsValid j" using info w'(2) by blast
  have "\<exists>w''. generateFake sample_conf w' = (Ok True, w'') \<and> last (w_hist w'') = Sys ''writefile'' [''/crt'', [], ''0644'']"
    using j w'(2,3) ready
    by (simp add: generateFake_def ReadCertificateInfo_run cfg_cert_ready Fake_Generate_def Let_def ec_key_def create_cert_def
        str sys sample_conf_def)
  then show ?thesis using w'(1) by blast
qed

end
