(* ===== verification/Lsblk.thy ===== *)
theory Lsblk
  imports Systemd
begin

text \<open>
  Block devices: the model of disks and partitions (\<^verbatim>\<open>backend/storage/model\<close>), the reader of
  \<^verbatim>\<open>lsblk\<close> output and the list of disks that may be used for storage
  (\<^verbatim>\<open>backend/storage/lsblk.go\<close>, \<^verbatim>\<open>path_checker.go\<close>).
\<close>

section \<open>Disks and partitions\<close>

record partition =
  pt_Size :: string
  pt_Device :: string
  pt_MountPoint :: string
  pt_Active :: bool
  pt_FsType :: string
  pt_Extendable :: bool

definition NoPartitionFsTypes :: "string list" where
  "NoPartitionFsTypes = [''vfat'', ''exfat'']"

definition PermissionsSupport :: "partition \<Rightarrow> bool" where
  "PermissionsSupport p \<longleftrightarrow> pt_FsType p \<notin> set NoPartitionFsTypes"

definition isRootFs :: "partition \<Rightarrow> bool" where
  "isRootFs p \<longleftrightarrow> pt_MountPoint p = ''/''"

record disk =
  dk_Name :: string
  dk_Device :: string
  dk_Size :: string
  dk_Partitions :: "partition list"
  dk_Active :: bool
  dk_Uuid :: string
  dk_MountPoint :: string
  dk_Raid :: string
  dk_HasErrors :: bool
  dk_Boot :: bool

definition NewDisk :: "string \<Rightarrow> string \<Rightarrow> string \<Rightarrow> bool \<Rightarrow> string \<Rightarrow> string \<Rightarrow> bool \<Rightarrow> partition list \<Rightarrow> disk" where
  "NewDisk name device size_s active uuid mountPoint boot partitions =
     \<lparr>dk_Name = (if name = [] then ''Disk '' @ TrimPrefix device ''/dev/'' else name), dk_Device = device,
      dk_Size = size_s, dk_Partitions = partitions, dk_Active = active, dk_Uuid = uuid,
      dk_MountPoint = mountPoint, dk_Raid = [], dk_HasErrors = False, dk_Boot = boot\<rparr>"

definition FindRootPartition :: "disk \<Rightarrow> partition option" where
  "FindRootPartition d = List.find isRootFs (dk_Partitions d)"

definition HasRootPartition :: "disk \<Rightarrow> bool" where
  "HasRootPartition d \<longleftrightarrow> FindRootPartition d \<noteq> None"

definition IsAvailable :: "disk \<Rightarrow> bool" where
  "IsAvailable d = (if HasRootPartition d then False else if dk_Boot d then False else True)"

definition AddPartition :: "partition \<Rightarrow> disk \<Rightarrow> disk" where
  "AddPartition p d = d\<lparr>dk_Partitions := dk_Partitions d @ [p]\<rparr>"

section \<open>Entries of lsblk\<close>

record lsblk_entry =
  en_Name :: string
  en_Size :: string
  en_DeviceType :: string
  en_MountPoint :: string
  en_PartType :: string
  en_FsType :: string
  en_Model :: string
  en_Active :: bool
  en_Uuid :: string
  en_Boot :: bool

definition IsExtendedPartition :: "lsblk_entry \<Rightarrow> bool" where
  "IsExtendedPartition e \<longleftrightarrow> en_PartType e = ''0x5''"

definition SupportedDeviceTypes :: "string list" where
  "SupportedDeviceTypes = [''disk'', ''loop'']"

text \<open>\<^verbatim>\<open>^(/dev/mmcblk\d+)boot\d+$\<close>\<close>

definition DetectMMCBootDevice :: "lsblk_entry \<Rightarrow> string option" where
  "DetectMMCBootDevice e =
     (case CutPrefix (en_Name e) ''/dev/mmcblk'' of
        None \<Rightarrow> None
      | Some rest \<Rightarrow>
          (let num = takeWhile is_digit rest in
           case CutPrefix (dropWhile is_digit rest) ''boot'' of
             None \<Rightarrow> None
           | Some b \<Rightarrow> if num \<noteq> [] \<and> b \<noteq> [] \<and> list_all is_digit b
                      then Some (''/dev/mmcblk'' @ num) else None))"

definition IsMMCBootPartition :: "lsblk_entry \<Rightarrow> bool" where
  "IsMMCBootPartition e \<longleftrightarrow> DetectMMCBootDevice e \<noteq> None"

definition IsRaid :: "lsblk_entry \<Rightarrow> bool" where
  "IsRaid e = (if HasPrefix (en_DeviceType e) ''raid'' then True else False)"

definition IsSupportedType :: "lsblk_entry \<Rightarrow> bool" where
  "IsSupportedType e =
     (if IsMMCBootPartition e then False
      else if en_DeviceType e \<in> set SupportedDeviceTypes then True
      else if IsRaid e then True else False)"

definition IsSupportedFsType :: "lsblk_entry \<Rightarrow> bool" where
  "IsSupportedFsType e =
     (if en_FsType e = ''squashfs'' then False
      else if HasPrefix (en_MountPoint e) ''/snap'' then False
      else if en_FsType e = ''linux_raid_member'' then False else True)"

text \<open>
  \<^verbatim>\<open>(.*?)p?\d*$\<close>: the shortest prefix that is followed by an optional p and digits only, that
  is the name without its trailing digits and without a p just before them.
\<close>

definition ParentDevice :: "lsblk_entry \<Rightarrow> string" where
  "ParentDevice e =
     (let base = rev (dropWhile is_digit (rev (en_Name e)))
      in if base \<noteq> [] \<and> last base = CHR ''p'' then butlast base else base)"

definition GetFsType :: "lsblk_entry \<Rightarrow> string" where
  "GetFsType e = (if IsRaid e then ''raid'' else en_FsType e)"

definition createPartition :: "lsblk_entry \<Rightarrow> partition" where
  "createPartition e = \<lparr>pt_Size = en_Size e, pt_Device = en_Name e, pt_MountPoint = en_MountPoint e,
     pt_Active = en_Active e, pt_FsType = GetFsType e, pt_Extendable = False\<rparr>"

section \<open>Reading the output\<close>

text \<open>
  Matching of a regular expression of the form \<^verbatim>\<open>(.*)sep(.*)sep\<close>: each group takes as much as
  it can, so the last place is tried first. \<open>leftmost\<close> is the first place where the whole
  expression matches.
\<close>

fun greedy :: "string \<Rightarrow> (string \<Rightarrow> 'a option) \<Rightarrow> string \<Rightarrow> (string \<times> 'a) option" where
  "greedy sep k [] = (if sep = [] then map_option (Pair []) (k []) else None)"
| "greedy sep k (c # s) =
     (case greedy sep k s of
        Some (g, a) \<Rightarrow> Some (c # g, a)
      | None \<Rightarrow> (case CutPrefix (c # s) sep of
            None \<Rightarrow> None | Some rest \<Rightarrow> map_option (Pair []) (k rest)))"

fun match_seps :: "string list \<Rightarrow> string \<Rightarrow> string list option" where
  "match_seps [] s = Some []"
| "match_seps (sep # seps) s = map_option (\<lambda>(g, gs). g # gs) (greedy sep (match_seps seps) s)"

fun leftmost :: "string \<Rightarrow> (string \<Rightarrow> 'a option) \<Rightarrow> string \<Rightarrow> 'a option" where
  "leftmost lit k [] = (if lit = [] then k [] else None)"
| "leftmost lit k (c # s) =
     (case (case CutPrefix (c # s) lit of None \<Rightarrow> None | Some rest \<Rightarrow> k rest) of
        Some a \<Rightarrow> Some a | None \<Rightarrow> leftmost lit k s)"

definition quoted :: "string \<Rightarrow> string" where
  "quoted key = [CHR 0x22] @ '' '' @ key @ ''='' @ [CHR 0x22]"

definition lsblk_fields :: "string \<Rightarrow> string list option" where
  "lsblk_fields line = leftmost (''NAME='' @ [CHR 0x22])
     (match_seps (map quoted [''SIZE'', ''TYPE'', ''MOUNTPOINT'', ''PARTTYPE'', ''FSTYPE'', ''MODEL'', ''UUID'']
        @ [[CHR 0x22]])) line"

definition ExternalDiskLinkExists :: "sysconf \<Rightarrow> bool go" where
  "ExternalDiskLinkExists c = andThen (attempt (do_str (Sys ''evalsymlinks'' [DiskLink c]))) (\<lambda>r.
     case r of Inl _ \<Rightarrow> ret False | Inr realLinkPath \<Rightarrow> ret (realLinkPath = ExternalDiskDir c))"

definition isActive :: "sysconf \<Rightarrow> string \<Rightarrow> bool go" where
  "isActive c mountPoint =
     (if mountPoint = ExternalDiskDir c then ExternalDiskLinkExists c else ret False)"

text \<open>A line that does not match makes \<^verbatim>\<open>match[4]\<close> panic.\<close>

fun parse_lines :: "sysconf \<Rightarrow> string list \<Rightarrow> lsblk_entry list go" where
  "parse_lines c [] = ret []"
| "parse_lines c (rawLine # rest) =
     (let line = TrimSpace rawLine in
      if line = [] then parse_lines c rest
      else (case lsblk_fields line of
          Some [name, size_s, ty, mountPoint, partType, fsType, mdl, uuid] \<Rightarrow>
            andThen (isActive c mountPoint) (\<lambda>active.
            andThen (parse_lines c rest) (\<lambda>es.
              ret (\<lparr>en_Name = name, en_Size = size_s, en_DeviceType = ty, en_MountPoint = mountPoint,
                    en_PartType = partType, en_FsType = fsType, en_Model = TrimSpace mdl,
                    en_Active = active, en_Uuid = uuid, en_Boot = False\<rparr> # es)))
        | _ \<Rightarrow> crash ''index out of range''))"

definition parseLsblkOutput :: "sysconf \<Rightarrow> lsblk_entry list go" where
  "parseLsblkOutput c =
     andThen (run_cmd ''lsblk'' [''-Pp'', ''-o'', ''NAME,SIZE,TYPE,MOUNTPOINT,PARTTYPE,FSTYPE,MODEL,UUID'']) (\<lambda>out.
       parse_lines c (Split out CHR ''\<newline>''))"

section \<open>All disks\<close>

definition extractActiveUuid :: "lsblk_entry list \<Rightarrow> string set" where
  "extractActiveUuid es = en_Uuid ` set (filter (\<lambda>e. en_Active e \<and> en_Uuid e \<noteq> []) es)"

definition extractBootDevices :: "lsblk_entry list \<Rightarrow> string set" where
  "extractBootDevices es = set (List.map_filter DetectMMCBootDevice es)"

text \<open>The disks found so far, by device; a device that is listed again replaces its disk.\<close>

definition disk_of_entry :: "string set \<Rightarrow> lsblk_entry \<Rightarrow> disk" where
  "disk_of_entry activeUuids e =
     (let active = (if en_Active e then True else en_Uuid e \<in> activeUuids);
          d = NewDisk (en_Model e) (en_Name e) (en_Size e) active (en_Uuid e) (en_MountPoint e) (en_Boot e) []
      in if IsRaid e then AddPartition (createPartition e) (d\<lparr>dk_Name := en_DeviceType e\<rparr>) else d)"

definition add_entry :: "string set \<Rightarrow> string set \<Rightarrow> lsblk_entry \<Rightarrow> (string \<times> disk) list \<Rightarrow> (string \<times> disk) list" where
  "add_entry activeUuids bootDevices entry disks =
     (let e = (if en_Name entry \<in> bootDevices then entry\<lparr>en_Boot := True\<rparr> else entry) in
      if IsSupportedType e \<and> IsSupportedFsType e
      then row_put (en_Name e) (disk_of_entry activeUuids e) disks
      else if en_DeviceType e = ''part''
      then map (\<lambda>(dev, d). (dev, if dev = ParentDevice e then AddPartition (createPartition e) d else d)) disks
      else disks)"

definition disks_of_entries :: "lsblk_entry list \<Rightarrow> (string \<times> disk) list" where
  "disks_of_entries es = fold (add_entry (extractActiveUuid es) (extractBootDevices es)) es []"

definition AllDisks :: "sysconf \<Rightarrow> disk list go" where
  "AllDisks c = andThen (parseLsblkOutput c) (\<lambda>entries.
     ret (sort_key dk_Device (map snd (disks_of_entries entries))))"

definition Lsblk_AvailableDisks :: "sysconf \<Rightarrow> disk list go" where
  "Lsblk_AvailableDisks c = andThen (AllDisks c) (\<lambda>allDisks. ret (filter IsAvailable allDisks))"

definition FindPartitionByDevice :: "sysconf \<Rightarrow> string \<Rightarrow> partition go" where
  "FindPartitionByDevice c device = andThen (AllDisks c) (\<lambda>disks.
     case List.find (\<lambda>p. pt_Device p = device) (concat (map dk_Partitions disks)) of
       Some p \<Rightarrow> ret p | None \<Rightarrow> throw (Error (''unable to find device: '' @ device)))"

section \<open>Invariant of the table of disks\<close>

definition disks_wf :: "string set \<Rightarrow> (string \<times> disk) list \<Rightarrow> bool" where
  "disks_wf boot ds \<longleftrightarrow> distinct (map fst ds)
     \<and> (\<forall>(dev, d)\<in>set ds. dk_Device d = dev \<and> (dev \<in> boot \<longrightarrow> dk_Boot d))"

lemma disk_of_entry_sel [simp]:
  "dk_Device (disk_of_entry u e) = en_Name e" "dk_Boot (disk_of_entry u e) = en_Boot e"
  by (auto simp: disk_of_entry_def Let_def NewDisk_def AddPartition_def)

lemma AddPartition_sel [simp]:
  "dk_Device (AddPartition p d) = dk_Device d" "dk_Boot (AddPartition p d) = dk_Boot d"
  "dk_Partitions (AddPartition p d) = dk_Partitions d @ [p]"
  by (simp_all add: AddPartition_def)

lemma disks_wf_add: "disks_wf boot ds \<Longrightarrow> disks_wf boot (add_entry u boot e ds)"
  by (auto simp: disks_wf_def add_entry_def Let_def row_put_def comp_def case_prod_beta
      intro: distinct_map_filter)

lemma disks_wf_fold: "disks_wf boot ds \<Longrightarrow> disks_wf boot (fold (add_entry u boot) es ds)"
  by (induction es arbitrary: ds) (auto intro: disks_wf_add)

text \<open>A disk of the table keeps its root partition until its device is listed again.\<close>

definition root_safe :: "string \<Rightarrow> (string \<times> disk) list \<Rightarrow> bool" where
  "root_safe dev ds \<longleftrightarrow> (\<forall>d. (dev, d) \<in> set ds \<longrightarrow> HasRootPartition d)"

lemma HasRootPartition_iff: "HasRootPartition d \<longleftrightarrow> (\<exists>p\<in>set (dk_Partitions d). isRootFs p)"
  by (auto simp: HasRootPartition_def FindRootPartition_def find_None_iff)

lemma part_not_supported: "en_DeviceType e = ''part'' \<Longrightarrow> \<not> IsSupportedType e"
  by (simp add: IsSupportedType_def SupportedDeviceTypes_def IsRaid_def HasPrefix_iff)

lemma root_safe_here:
  assumes "en_DeviceType e = ''part''" "en_MountPoint e = ''/''"
  shows "root_safe (ParentDevice e) (add_entry u boot e ds)"
proof -
  let ?e = "if en_Name e \<in> boot then e\<lparr>en_Boot := True\<rparr> else e"
  have p: "ParentDevice ?e = ParentDevice e" "en_DeviceType ?e = ''part''" "isRootFs (createPartition ?e)"
    using assms by (auto simp: ParentDevice_def isRootFs_def createPartition_def)
  then show ?thesis
    using part_not_supported [of ?e]
    by (auto simp: root_safe_def add_entry_def Let_def HasRootPartition_iff)
qed

lemma root_safe_kept:
  assumes "root_safe dev ds" "en_Name e \<noteq> dev"
  shows "root_safe dev (add_entry u boot e ds)"
  using assms
  by (auto simp: root_safe_def add_entry_def Let_def row_put_def HasRootPartition_iff split: if_splits)

lemma root_safe_fold:
  "root_safe dev ds \<Longrightarrow> \<forall>e\<in>set es. en_Name e \<noteq> dev \<Longrightarrow> root_safe dev (fold (add_entry u boot) es ds)"
  by (induction es arbitrary: ds) (auto intro: root_safe_kept)

section \<open>Properties\<close>

text \<open>
  C37. A disk that holds the system is never offered for storage: neither the disk of a
  partition that is mounted at the root (unless \<^verbatim>\<open>lsblk\<close> lists the disk again after that
  partition), nor the device of an MMC boot partition.
\<close>

theorem available_disks_exclude_system:
  assumes "parseLsblkOutput c w = (Ok entries, w1)"
  shows "\<exists>disks. Lsblk_AvailableDisks c w = (Ok disks, w1)
     \<and> (\<forall>e\<in>set entries. \<forall>dev. DetectMMCBootDevice e = Some dev \<longrightarrow> dev \<notin> dk_Device ` set disks)
     \<and> (\<forall>xs e ys. entries = xs @ e # ys \<and> en_DeviceType e = ''part'' \<and> en_MountPoint e = ''/''
          \<and> (\<forall>y\<in>set ys. en_Name y \<noteq> ParentDevice e) \<longrightarrow> ParentDevice e \<notin> dk_Device ` set disks)"
proof -
  let ?u = "extractActiveUuid entries" and ?b = "extractBootDevices entries"
  let ?t = "disks_of_entries entries"
  let ?ds = "filter IsAvailable (sort_key dk_Device (map snd ?t))"
  have run: "Lsblk_AvailableDisks c w = (Ok ?ds, w1)"
    using assms by (simp add: Lsblk_AvailableDisks_def AllDisks_def)
  have wf: "disks_wf ?b ?t"
    unfolding disks_of_entries_def by (rule disks_wf_fold) (simp add: disks_wf_def)
  have mem: "\<exists>dev. (dev, d) \<in> set ?t \<and> dk_Device d = dev \<and> (dev \<in> ?b \<longrightarrow> dk_Boot d) \<and> \<not> HasRootPartition d \<and> \<not> dk_Boot d"
    if "d \<in> set ?ds" for d
    using that wf by (fastforce simp: disks_wf_def IsAvailable_def split: if_splits)
  have boot: "dev \<in> ?b" if "e \<in> set entries" "DetectMMCBootDevice e = Some dev" for e dev
    using that by (force simp: extractBootDevices_def List.map_filter_def)
  have root: "ParentDevice e \<notin> dk_Device ` set ?ds"
    if split: "entries = xs @ e # ys" "en_DeviceType e = ''part''" "en_MountPoint e = ''/''"
      "\<forall>y\<in>set ys. en_Name y \<noteq> ParentDevice e" for xs e ys
  proof -
    have "?t = fold (add_entry ?u ?b) ys (add_entry ?u ?b e (fold (add_entry ?u ?b) xs []))"
      unfolding disks_of_entries_def by (subst (3) split(1)) simp
    then have "root_safe (ParentDevice e) ?t"
      using root_safe_fold [OF root_safe_here [OF split(2,3)] split(4)] by simp
    then show ?thesis using mem by (force simp: root_safe_def)
  qed
  show ?thesis
    using run mem boot root by (intro exI [of _ ?ds] conjI) blast+
qed

definition lsblk_line :: "string list \<Rightarrow> string" where
  "lsblk_line vs = Join (map (\<lambda>(k, v). k @ ''='' @ [CHR 0x22] @ v @ [CHR 0x22])
     (zip [''NAME'', ''SIZE'', ''TYPE'', ''MOUNTPOINT'', ''PARTTYPE'', ''FSTYPE'', ''MODEL'', ''UUID''] vs)) '' ''"

definition system_disk_output :: string where
  "system_disk_output = Join [lsblk_line [''/dev/sda'', ''8G'', ''disk'', [], [], [], ''SSD'', []],
     lsblk_line [''/dev/sda1'', ''8G'', ''part'', ''/'', ''0x83'', ''ext4'', [], ''u'']] [CHR ''\<newline>'']"

definition lsblk_env :: environment where
  "lsblk_env = calm\<lparr>e_exec := (\<lambda>_ _. (system_disk_output, None))\<rparr>"

theorem available_disks_exclude_system_witness:
  "\<exists>disks w1. Lsblk_AvailableDisks sample_conf
      (start_world lsblk_env) = (Ok disks, w1) \<and> ''/dev/sda'' \<notin> dk_Device ` set disks"
proof -
  let ?c = sample_conf
  let ?e1 = "\<lparr>en_Name = ''/dev/sda'', en_Size = ''8G'', en_DeviceType = ''disk'', en_MountPoint = [], en_PartType = [],
     en_FsType = [], en_Model = ''SSD'', en_Active = False, en_Uuid = [], en_Boot = False\<rparr>"
  let ?e2 = "\<lparr>en_Name = ''/dev/sda1'', en_Size = ''8G'', en_DeviceType = ''part'', en_MountPoint = ''/'', en_PartType = ''0x83'',
     en_FsType = ''ext4'', en_Model = [], en_Active = False, en_Uuid = ''u'', en_Boot = False\<rparr>"
  have lines: "map TrimSpace (Split system_disk_output CHR ''\<newline>'') =
      [lsblk_line [''/dev/sda'', ''8G'', ''disk'', [], [], [], ''SSD'', []],
       lsblk_line [''/dev/sda1'', ''8G'', ''part'', ''/'', ''0x83'', ''ext4'', [], ''u'']]"
    by code_simp
  have fields: "lsblk_fields (lsblk_line [''/dev/sda'', ''8G'', ''disk'', [], [], [], ''SSD'', []])
        = Some [''/dev/sda'', ''8G'', ''disk'', [], [], [], ''SSD'', []]"
      "lsblk_fields (lsblk_line [''/dev/sda1'', ''8G'', ''part'', ''/'', ''0x83'', ''ext4'', [], ''u''])
        = Some [''/dev/sda1'', ''8G'', ''part'', ''/'', ''0x83'', ''ext4'', [], ''u'']"
      "lsblk_line [''/dev/sda'', ''8G'', ''disk'', [], [], [], ''SSD'', []] \<noteq> []"
      "lsblk_line [''/dev/sda1'', ''8G'', ''part'', ''/'', ''0x83'', ''ext4'', [], ''u''] \<noteq> []"
    by code_simp+
  obtain l1 l2 where l: "Split system_disk_output CHR ''\<newline>'' = [l1, l2]"
    "TrimSpace l1 = lsblk_line [''/dev/sda'', ''8G'', ''disk'', [], [], [], ''SSD'', []]"
    "TrimSpace l2 = lsblk_line [''/dev/sda1'', ''8G'', ''part'', ''/'', ''0x83'', ''ext4'', [], ''u'']"
    using lines by (auto simp: map_eq_Cons_conv)
  have trim: "TrimSpace ''SSD'' = ''SSD''" "TrimSpace [] = []" by code_simp+
  obtain w1 where w1: "parseLsblkOutput ?c (start_world lsblk_env) = (Ok [?e1, ?e2], w1)"
    by (simp add: parseLsblkOutput_def run_cmd_def CombinedOutput_def lsblk_env_def andThen_def l fields trim
        isActive_def Let_def sample_conf_def)
  have "ParentDevice ?e2 = ''/dev/sda''" by code_simp
  moreover obtain disks where "Lsblk_AvailableDisks ?c (start_world lsblk_env) = (Ok disks, w1)"
    "\<forall>xs e ys. [?e1, ?e2] = xs @ e # ys \<and> en_DeviceType e = ''part'' \<and> en_MountPoint e = ''/''
          \<and> (\<forall>y\<in>set ys. en_Name y \<noteq> ParentDevice e) \<longrightarrow> ParentDevice e \<notin> dk_Device ` set disks"
    using available_disks_exclude_system [OF w1] by (elim exE conjE) blast
  moreover have "ParentDevice ?e2 \<notin> dk_Device ` set disks"
    using calculation(3) [rule_format, of "[?e1]" ?e2 "[]"] by simp
  ultimately show ?thesis by metis
qed

text \<open>A root file system on a whole disk, without a partition, is not recognised.\<close>

lemma whole_disk_root_is_available:
  "filter IsAvailable (map snd (disks_of_entries
     [\<lparr>en_Name = ''/dev/sda'', en_Size = ''8G'', en_DeviceType = ''disk'', en_MountPoint = ''/'', en_PartType = [],
       en_FsType = ''ext4'', en_Model = ''SSD'', en_Active = False, en_Uuid = ''u'', en_Boot = False\<rparr>])) \<noteq> []"
  by code_simp

end
