(* ===== verification/Disks.thy ===== *)
theory Disks
  imports Lsblk
begin

text \<open>
  Storage: the link to the data directory (\<^verbatim>\<open>backend/storage/linker.go\<close>), the btrfs volume
  (\<^verbatim>\<open>storage/btrfs\<close>), activation and deactivation of disks (\<^verbatim>\<open>disks.go\<close>), free space
  (\<^verbatim>\<open>disk_space.go\<close>, \<^verbatim>\<open>file_system_stat.go\<close>, \<^verbatim>\<open>free_space_checker.go\<close>) and the directories of
  apps (\<^verbatim>\<open>storage.go\<close>).
\<close>

section \<open>The disk link\<close>

definition RelinkDisk :: "string \<Rightarrow> string \<Rightarrow> unit go" where
  "RelinkDisk link target =
     andThen (do_sys ''chmod'' [target, ''0755'']) (\<lambda>_.
     andThen (attempt (do_str (Sys ''lstat'' [link]))) (\<lambda>fi.
     andThen (case fi of
         Inl e \<Rightarrow> if e \<noteq> NotExist then throw e else ret ()
       | Inr filemode \<Rightarrow> if filemode = ''symlink'' then do_sys ''remove'' [link] else ret ()) (\<lambda>_.
       do_sys ''symlink'' [target, link])))"

section \<open>The btrfs volume\<close>

definition MKFS :: string where "MKFS = ''/snap/platform/current/btrfs/bin/mkfs.sh''"

definition BTRFS :: string where "BTRFS = ''/snap/platform/current/btrfs/bin/btrfs.sh''"

definition Diff :: "string list \<Rightarrow> string list \<Rightarrow> string list" where
  "Diff from_list to_list = filter (\<lambda>v. v \<notin> set to_list) from_list"

definition raid_mode :: "nat \<Rightarrow> string" where
  "raid_mode n = (if 4 \<le> n then ''raid10'' else if 2 \<le> n then ''raid1'' else ''single'')"

definition run_ignoring :: "string \<Rightarrow> string list \<Rightarrow> unit go" where
  "run_ignoring cmd as = andThen (run_cmd cmd as) (\<lambda>_. ret ())"

definition whenever :: "bool \<Rightarrow> unit go \<Rightarrow> unit go" where
  "whenever b m = (if b then m else ret ())"

definition btrfs_apply :: "sysconf \<Rightarrow> string list \<Rightarrow> string list \<Rightarrow> string \<Rightarrow> bool \<Rightarrow> unit go" where
  "btrfs_apply c before after newUuid format =
     (let removed = Diff before after; added = Diff after before; md = raid_mode (length after);
          device = ''/dev/disk/by-uuid/'' @ newUuid in
      if format
      then andThen (run_ignoring MKFS ([''-U'', newUuid, ''-f'', ''-m'', md, ''-d'', md] @ after)) (\<lambda>_.
             AddMount c device)
      else
        andThen (whenever (after \<noteq> []) (AddMount c device)) (\<lambda>_.
        andThen (whenever (before \<noteq> [])
          (andThen (whenever (added \<noteq> [])
             (andThen (run_ignoring BTRFS ([''device'', ''add'', ''--enqueue'', ''-f''] @ added @ [ExternalDiskDir c])) (\<lambda>_.
                run_ignoring BTRFS [''balance'', ''start'', ''--enqueue'', ''-dconvert='' @ md, ''-mconvert='' @ md, ExternalDiskDir c])))
             (\<lambda>_. whenever (length after = 1)
               (run_ignoring BTRFS [''balance'', ''start'', ''--enqueue'', ''-f'', ''-dconvert='' @ md, ''-mconvert='' @ md, ExternalDiskDir c]))))
        (\<lambda>_. whenever (after \<noteq> []) (whenever (removed \<noteq> [])
          (run_ignoring BTRFS ([''device'', ''delete'', ''--enqueue''] @ removed @ [ExternalDiskDir c]))))))"

definition Btrfs_Update :: "sysconf \<Rightarrow> string list \<Rightarrow> string list \<Rightarrow> string \<Rightarrow> bool \<Rightarrow> string go" where
  "Btrfs_Update c existingDevices newDevices existingUuid format =
     andThen (if format then do_str (Sys ''uuid'' []) else ret existingUuid) (\<lambda>newUuid.
     andThen (btrfs_apply c existingDevices newDevices newUuid format) (\<lambda>_. ret newUuid))"

text \<open>
  The statistics come from the procfs library: the pairs of a volume's UUID and a layout of its
  data, in the order the loops visit them (the layouts of a volume are a map, so the
  environment chooses). The decoder of JSON text is a parameter.
\<close>

definition RaidMode :: "string \<Rightarrow> string go" where
  "RaidMode uuid = andThen (do_pairs (Sys ''btrfs-stats'' [])) (\<lambda>stats.
     ret (case List.find (\<lambda>s. fst s = uuid) stats of None \<Rightarrow> [] | Some s \<Rightarrow> snd s))"

record device_stats =
  ds_Device :: string
  ds_Errors :: "string list"

definition dec_device_stats :: "json \<Rightarrow> device_stats list option" where
  "dec_device_stats = dec_obj (\<lambda>k.
     case (dec_obj (\<lambda>h. dec_str (h ''version'')) (k ''__header''), dec_list (dec_obj (\<lambda>s.
       case (dec_str (s ''device''), dec_str (s ''devid''), those (map (\<lambda>f. dec_str (s f))
          [''write_io_errs'', ''read_io_errs'', ''flush_io_errs'', ''corruption_errs'', ''generation_errs''])) of
         (Some d, Some _, Some errs) \<Rightarrow> Some \<lparr>ds_Device = d, ds_Errors = errs\<rparr> | _ \<Rightarrow> None)) (k ''device-stats'')) of
       (Some _, Some stats) \<Rightarrow> Some stats | _ \<Rightarrow> None)"

definition stats_HasErrors :: "device_stats list \<Rightarrow> string \<Rightarrow> bool" where
  "stats_HasErrors stats device = (case List.find (\<lambda>s. ds_Device s = device) stats of
     None \<Rightarrow> False | Some s \<Rightarrow> list_ex (\<lambda>e. e \<noteq> ''0'') (ds_Errors s))"

definition HasErrors :: "(string \<Rightarrow> json option) \<Rightarrow> sysconf \<Rightarrow> string \<Rightarrow> bool go" where
  "HasErrors Unmarshal c device =
     andThen (run_cmd BTRFS [''--format'', ''json'', ''device'', ''stats'', ExternalDiskDir c]) (\<lambda>out.
       case Option.bind (Unmarshal out) dec_device_stats of
         None \<Rightarrow> throw (Error ''cannot unmarshal'') | Some st \<Rightarrow> ret (stats_HasErrors st device))"

section \<open>Disks\<close>

definition supportedFilesystems :: "string list" where
  "supportedFilesystems = [''ext2'', ''ext3'', ''ext4'', ''raid'', ''btrfs'']"

definition activeDevices :: "disk list \<Rightarrow> string list" where
  "activeDevices disks = map dk_Device (filter dk_Active disks)"

definition firstActiveUuid :: "string list \<Rightarrow> disk list \<Rightarrow> string option" where
  "firstActiveUuid newDevices disks = map_option dk_Uuid
     (List.find (\<lambda>d. dk_Active d \<and> dk_Device d \<in> set newDevices \<and> dk_Uuid d \<noteq> []) disks)"

definition firstUuid :: "string list \<Rightarrow> disk list \<Rightarrow> string option" where
  "firstUuid newDevices disks = map_option dk_Uuid
     (List.find (\<lambda>d. dk_Device d \<in> set newDevices \<and> dk_Uuid d \<noteq> []) disks)"

definition activateCommon :: "sysconf \<Rightarrow> unit go" where
  "activateCommon c = andThen (RelinkDisk (DiskLink c) (ExternalDiskDir c)) (\<lambda>_. RunDiskChangeEvent)"

definition Deactivate :: "sysconf \<Rightarrow> unit go" where
  "Deactivate c = andThen (RelinkDisk (DiskLink c) (InternalDiskDir c)) (\<lambda>_.
     andThen (attempt RunDiskChangeEvent) (\<lambda>_. RemoveMount c))"

definition activateDisks :: "sysconf \<Rightarrow> string list \<Rightarrow> bool \<Rightarrow> unit go" where
  "activateDisks c newDevices format =
     (if newDevices = [] then throw (Error ''cannot activate 0 disks'')
      else
      andThen (AllDisks c) (\<lambda>disks.
      andThen (Deactivate c) (\<lambda>_.
      let existingDevices = activeDevices disks;
          uuid = (case firstActiveUuid newDevices disks of
                    Some u \<Rightarrow> Some u | None \<Rightarrow> firstUuid newDevices disks) in
      if uuid = None \<and> \<not> format then throw (Error ''cannot find existing uuid to use'')
      else
      let uuidToUse = (case uuid of None \<Rightarrow> [] | Some u \<Rightarrow> u) in
      andThen (Btrfs_Update c existingDevices newDevices uuidToUse format) (\<lambda>_.
        activateCommon c))))"

definition ActivateDisks :: "sysconf \<Rightarrow> string list \<Rightarrow> bool \<Rightarrow> unit go" where
  "ActivateDisks c newDevices format =
     andThen (attempt (activateDisks c newDevices format)) (\<lambda>r.
     andThen (modify (\<lambda>w. w\<lparr>disks_lastError := (case r of Inl e \<Rightarrow> Some e | Inr _ \<Rightarrow> None)\<rparr>)) (\<lambda>_.
       case r of Inl e \<Rightarrow> throw e | Inr _ \<Rightarrow> ret ()))"

definition GetLastError :: "error option go" where
  "GetLastError = gets disks_lastError"

definition ClearLastError :: "unit go" where
  "ClearLastError = modify (\<lambda>w. w\<lparr>disks_lastError := None\<rparr>)"

definition ActivatePartition :: "sysconf \<Rightarrow> string \<Rightarrow> unit go" where
  "ActivatePartition c device =
     andThen (Deactivate c) (\<lambda>_.
     andThen (FindPartitionByDevice c device) (\<lambda>p.
     if pt_FsType p \<notin> set supportedFilesystems
     then throw (Error (''filesystem type is not supported: '' @ pt_FsType p @ '', use one of the following: ''
            @ Join supportedFilesystems '',''))
     else andThen (AddMount c device) (\<lambda>_. activateCommon c)))"

text \<open>An error of the raid mode or of the error counters leaves the disk as it was.\<close>

fun with_stats :: "(string \<Rightarrow> json option) \<Rightarrow> sysconf \<Rightarrow> disk list \<Rightarrow> disk list go" where
  "with_stats Unmarshal c [] = ret []"
| "with_stats Unmarshal c (d # ds) =
     andThen (attempt (RaidMode (dk_Uuid d))) (\<lambda>md.
     andThen (attempt (HasErrors Unmarshal c (dk_Device d))) (\<lambda>errs.
     andThen (with_stats Unmarshal c ds) (\<lambda>rest.
       let d1 = (case md of Inl _ \<Rightarrow> d | Inr m \<Rightarrow> d\<lparr>dk_Raid := m\<rparr>);
           d2 = (case errs of Inl _ \<Rightarrow> d1 | Inr b \<Rightarrow> d1\<lparr>dk_HasErrors := b\<rparr>)
       in ret (d2 # rest))))"

definition Disks_AvailableDisks :: "(string \<Rightarrow> json option) \<Rightarrow> sysconf \<Rightarrow> disk list go" where
  "Disks_AvailableDisks Unmarshal c = andThen (Lsblk_AvailableDisks c) (with_stats Unmarshal c)"

section \<open>Free space\<close>

text \<open>
  The percentage that \<^verbatim>\<open>parted\<close> prints is a decimal number; the parser reads digits with an
  optional fraction.
\<close>

definition exceeds_ten :: "string \<Rightarrow> bool option" where
  "exceeds_ten s =
     (let whole = takeWhile (\<lambda>ch. ch \<noteq> CHR ''.'') s; frac = drop 1 (dropWhile (\<lambda>ch. ch \<noteq> CHR ''.'') s) in
      if whole @ frac = [] \<or> \<not> list_all is_digit whole \<or> \<not> list_all is_digit frac then None
      else (case digits_val 0 whole of
          None \<Rightarrow> None
        | Some n \<Rightarrow> Some (10 < n \<or> n = 10 \<and> list_ex (\<lambda>ch. ch \<noteq> CHR ''0'') frac)))"

definition HasFreeSpace :: "string \<Rightarrow> bool go" where
  "HasFreeSpace device =
     andThen (run_cmd ''parted'' [device, ''unit'', ''%'', ''print'', ''free'', ''--script'', ''--machine'']) (\<lambda>out.
       let lst = last (Split (TrimSpace out) CHR ''\<newline>'') in
       if \<not> Contains lst ''free'' then ret False
       else if length (Split lst CHR '':'') \<le> 3 then crash ''index out of range''
       else (case exceeds_ten (TrimSuffix (Split lst CHR '':'' ! 3) ''%'') of
           None \<Rightarrow> throw (Error ''invalid syntax'') | Some b \<Rightarrow> ret b))"

definition RootPartition :: "sysconf \<Rightarrow> partition go" where
  "RootPartition c = andThen (AllDisks c) (\<lambda>disks.
     case List.find HasRootPartition disks of
       None \<Rightarrow> ret \<lparr>pt_Size = ''0'', pt_Device = ''unknown'', pt_MountPoint = ''/'', pt_Active = True,
                   pt_FsType = ''unknown'', pt_Extendable = False\<rparr>
     | Some d \<Rightarrow> andThen (HasFreeSpace (dk_Device d)) (\<lambda>extendable.
         case FindRootPartition d of
           None \<Rightarrow> crash ''nil'' | Some p \<Rightarrow> ret (p\<lparr>pt_Extendable := extendable\<rparr>)))"

definition LowFreeKB :: "64 word" where "LowFreeKB = 2 * 1024 * 1024"

definition FileSystem_Stat :: "string \<Rightarrow> (64 word \<times> 64 word \<times> 64 word) go" where
  "FileSystem_Stat path =
     andThen (do_u64 (Sys ''stat-dev'' [path])) (\<lambda>dev.
     andThen (do_u64 (Sys ''statfs-bsize'' [path])) (\<lambda>bsize.
     andThen (do_u64 (Sys ''statfs-blocks'' [path])) (\<lambda>blocks.
     andThen (do_u64 (Sys ''statfs-bavail'' [path])) (\<lambda>bavail.
       ret (blocks * bsize div 1024, bavail * bsize div 1024, dev)))))"

record space_mount =
  sm_Kind :: string
  sm_Path :: string
  sm_TotalKB :: "64 word"
  sm_FreeKB :: "64 word"
  sm_Low :: bool

fun space_of :: "(string \<times> string) list \<Rightarrow> 64 word set \<Rightarrow> space_mount list go" where
  "space_of [] devices = ret []"
| "space_of ((kind, path) # rest) devices =
     andThen (attempt (FileSystem_Stat path)) (\<lambda>r.
       case r of
         Inl _ \<Rightarrow> space_of rest devices
       | Inr (total_kb, free_kb, device) \<Rightarrow>
           if device \<in> devices then space_of rest devices
           else andThen (space_of rest (insert device devices)) (\<lambda>ms.
             ret (\<lparr>sm_Kind = kind, sm_Path = path, sm_TotalKB = total_kb, sm_FreeKB = free_kb,
                   sm_Low = (free_kb < LowFreeKB)\<rparr> # ms)))"

definition DiskSpace_Status :: "sysconf \<Rightarrow> (bool \<times> space_mount list) go" where
  "DiskSpace_Status c = andThen (space_of [(''system'', ''/''), (''data'', DiskLink c)] {}) (\<lambda>ms.
     ret (list_ex sm_Low ms, ms))"

section \<open>Directories of apps\<close>

definition Storage_Format :: "string \<Rightarrow> unit go" where
  "Storage_Format device = run_ignoring ''/snap/platform/current/bin/disk_format.sh'' [device]"

definition BootExtend :: "unit go" where
  "BootExtend = andThen (attempt (do_sys ''stat'' [''/.dockerenv''])) (\<lambda>r.
     case r of Inr _ \<Rightarrow> ret () | Inl _ \<Rightarrow> run_ignoring ''/snap/platform/current/bin/boot_extend.sh'' [])"

definition GetAppStorageDir :: "sysconf \<Rightarrow> string \<Rightarrow> string" where
  "GetAppStorageDir c app = path_join [DiskLink c, app]"

definition ChownRecursive :: "string \<Rightarrow> string \<Rightarrow> unit go" where
  "ChownRecursive path user = run_ignoring ''chown'' [''-R'', user @ '':'' @ user, path]"

definition InitAppStorage :: "sysconf \<Rightarrow> string \<Rightarrow> string go" where
  "InitAppStorage c app =
     (let dir = GetAppStorageDir c app in
      andThen (attempt (do_sys ''stat'' [dir])) (\<lambda>r.
      andThen (if r = Inl NotExist then do_sys ''mkdir'' [dir] else ret ()) (\<lambda>_. ret dir)))"

definition InitAppStorageOwner :: "sysconf \<Rightarrow> string \<Rightarrow> string \<Rightarrow> string go" where
  "InitAppStorageOwner c app owner = andThen (InitAppStorage c app) (\<lambda>dir.
     andThen (ChownRecursive dir owner) (\<lambda>_. ret dir))"

section \<open>Events\<close>

lemma Diff_set [simp]: "set (Diff xs ys) = set xs - set ys"
  by (auto simp: Diff_def)

datatype btrfs_event = Mkfs "string list" | Btrfs "string list" | Mounted

definition btrfs_ev :: "call \<Rightarrow> btrfs_event option" where
  "btrfs_ev c = (case c of
     Exec cmd as \<Rightarrow> if cmd = MKFS then Some (Mkfs as) else if cmd = BTRFS then Some (Btrfs as)
        else if cmd = ''systemctl'' \<and> as \<noteq> [] \<and> hd as = ''enable'' then Some Mounted else None
   | _ \<Rightarrow> None)"

text \<open>The commands for a change of the devices of the volume.\<close>

definition btrfs_plan :: "sysconf \<Rightarrow> string list \<Rightarrow> string list \<Rightarrow> string \<Rightarrow> bool \<Rightarrow> btrfs_event list" where
  "btrfs_plan c before after newUuid format =
     (let md = raid_mode (length after); balance = (\<lambda>force. Btrfs ([''balance'', ''start'', ''--enqueue''] @ force
            @ [''-dconvert='' @ md, ''-mconvert='' @ md, ExternalDiskDir c])) in
      if format then [Mkfs ([''-U'', newUuid, ''-f'', ''-m'', md, ''-d'', md] @ after), Mounted]
      else (if after \<noteq> [] then [Mounted] else [])
        @ (if before \<noteq> [] \<and> Diff after before \<noteq> []
           then [Btrfs ([''device'', ''add'', ''--enqueue'', ''-f''] @ Diff after before @ [ExternalDiskDir c]), balance []] else [])
        @ (if before \<noteq> [] \<and> length after = 1 then [balance [''-f'']] else [])
        @ (if after \<noteq> [] \<and> Diff before after \<noteq> []
           then [Btrfs ([''device'', ''delete'', ''--enqueue''] @ Diff before after @ [ExternalDiskDir c])] else []))"

lemma commands_differ: "MKFS \<noteq> BTRFS" "BTRFS \<noteq> MKFS" "MKFS \<noteq> ''systemctl''" "BTRFS \<noteq> ''systemctl''"
  "MKFS \<noteq> ''journalctl''" "BTRFS \<noteq> ''journalctl''" "''systemctl'' \<noteq> MKFS" "''systemctl'' \<noteq> BTRFS"
  "''journalctl'' \<noteq> MKFS" "''journalctl'' \<noteq> BTRFS"
  by (simp_all add: MKFS_def BTRFS_def)

lemma emits_run_ignoring:
  assumes "btrfs_ev (Exec cmd as) = Some x"
  shows "emits btrfs_ev (run_ignoring cmd as) [x]"
proof -
  have "follows (run_ignoring cmd as) [Exec cmd as]"
    unfolding run_ignoring_def using follows_andThen [OF follows_run_cmd follows_ret] by fastforce
  then show ?thesis using assms by (rule emits_event)
qed

lemma emits_ret: "emits ev (ret a) []"
  by (rule emits_quiet) (intro keeps_intros)

lemma emits_AddMount: "emits btrfs_ev (AddMount c device) [Mounted]"
proof -
  have q: "emits btrfs_ev (do_sys f as) []" for f as
    by (rule emits_quiet, intro keeps_intros) (simp add: btrfs_ev_def)
  have s: "emits btrfs_ev (unit_start u) []" for u
    unfolding unit_start_def
    by (rule emits_quiet, intro keeps_intros)
      (auto simp: btrfs_ev_def commands_differ split: prod.splits option.splits intro!: keeps_intros)
  have e: "emits btrfs_ev (run_cmd ''systemctl'' [''enable'', u]) [Mounted]" for u
    by (rule emits_event [OF follows_run_cmd]) (simp add: btrfs_ev_def commands_differ)
  show ?thesis
    unfolding AddMount_def Let_def by (intro emits_skip [OF q] emits_then [OF e] s)
qed

lemma emits_whenever: "emits ev m p \<Longrightarrow> emits ev (whenever b m) (if b then p else [])"
  by (simp add: whenever_def emits_ret)

lemma emits_btrfs_apply:
  "emits btrfs_ev (btrfs_apply c before after newUuid format) (btrfs_plan c before after newUuid format)"
proof -
  note ev = btrfs_ev_def commands_differ
  have mkfs: "emits btrfs_ev (run_ignoring MKFS as) [Mkfs as]" for as
    by (rule emits_run_ignoring) (simp add: ev)
  have bt: "emits btrfs_ev (run_ignoring BTRFS as) [Btrfs as]" for as
    by (rule emits_run_ignoring) (simp add: ev)
  show ?thesis
  proof (cases format)
    case True
    show ?thesis
      unfolding btrfs_apply_def btrfs_plan_def Let_def if_P [OF True]
      by (intro emits_then [OF mkfs] emits_AddMount)
  next
    case False
    let ?p = "(if after \<noteq> [] then [Mounted] else [])
       @ ((if before \<noteq> [] then (if Diff after before \<noteq> [] then
             [Btrfs ([''device'', ''add'', ''--enqueue'', ''-f''] @ Diff after before @ [ExternalDiskDir c])]
             @ [Btrfs [''balance'', ''start'', ''--enqueue'', ''-dconvert='' @ raid_mode (length after),
                  ''-mconvert='' @ raid_mode (length after), ExternalDiskDir c]] else [])
           @ (if length after = 1 then [Btrfs [''balance'', ''start'', ''--enqueue'', ''-f'', ''-dconvert='' @ raid_mode (length after),
                  ''-mconvert='' @ raid_mode (length after), ExternalDiskDir c]] else []) else [])
       @ (if after \<noteq> [] then (if Diff before after \<noteq> [] then
             [Btrfs ([''device'', ''delete'', ''--enqueue''] @ Diff before after @ [ExternalDiskDir c])] else []) else []))"
    have "emits btrfs_ev (btrfs_apply c before after newUuid False) ?p"
      unfolding btrfs_apply_def Let_def if_False
      by (intro emits_andThen emits_whenever emits_AddMount bt)
    moreover have "?p = btrfs_plan c before after newUuid False"
      unfolding btrfs_plan_def Let_def by (cases "before = []"; cases "after = []") simp_all
    ultimately show ?thesis using False by (simp only:)
  qed
qed

section \<open>Properties\<close>



text \<open>Relinking the data directory.\<close>

definition link_ev :: "call \<Rightarrow> string option" where
  "link_ev c = (case c of Sys f as \<Rightarrow> if f = ''symlink'' \<and> as \<noteq> [] then Some (hd as) else None | _ \<Rightarrow> None)"

lemma link_ev_quiet: "link_ev (Exec cmd as) = None" "link_ev (SnapdGet u) = None"
  "f \<noteq> ''symlink'' \<Longrightarrow> link_ev (Sys f as) = None"
  by (simp_all add: link_ev_def)

lemma emits_RelinkDisk: "emits link_ev (RelinkDisk link target) [target]"
proof -
  have q: "emits link_ev (do_sys ''chmod'' as) []" "emits link_ev (attempt (do_str (Sys ''lstat'' as))) []" for as
    by (rule emits_quiet, intro keeps_intros; simp add: link_ev_quiet)+
  have c: "emits link_ev (case fi of
         Inl e \<Rightarrow> if e \<noteq> NotExist then throw e else ret ()
       | Inr filemode \<Rightarrow> if filemode = ''symlink'' then do_sys ''remove'' [link] else ret ()) []" for fi
    by (rule emits_quiet) (auto simp: link_ev_quiet split: sum.splits intro!: keeps_intros)
  have s: "emits link_ev (do_sys ''symlink'' [target, link]) [target]"
    by (rule emits_event [OF follows_do_sys]) (simp add: link_ev_def)
  show ?thesis unfolding RelinkDisk_def by (intro emits_skip [OF q(1)] emits_skip [OF q(2)] emits_skip [OF c] s)
qed

lemma keeps_RunDiskChangeEvent:
  assumes "\<And>u. P (SnapdGet u)" "\<And>n. P (Exec ''snap'' [''run'', n])"
  shows "keeps (within P) RunDiskChangeEvent"
  unfolding RunDiskChangeEvent_def RunEventOnAllApps_def using assms
  by (auto simp: Cli_Run_def Cli_run_def split: option.splits intro!: keeps_intros)

lemma keeps_parse_lines:
  "P (Sys ''evalsymlinks'' [DiskLink c]) \<Longrightarrow> keeps (within P) (parse_lines c ls)"
proof (induction ls)
  case (Cons l ls)
  have a: "keeps (within P) (isActive c m)" for m
    using Cons.prems by (auto simp: isActive_def ExternalDiskLinkExists_def split: sum.splits intro!: keeps_intros)
  show ?case
    unfolding parse_lines.simps Let_def using Cons a
    by (auto split: option.split list.split intro!: keeps_intros simp del: ret_apply crash_apply)
qed (simp del: ret_apply add: keeps_ret)

lemma emits_quiet_disks:
  "emits link_ev RunDiskChangeEvent []" "emits link_ev (attempt RunDiskChangeEvent) []"
  "emits link_ev (AllDisks c) []" "emits link_ev (RemoveMount c) []"
  "emits link_ev (Btrfs_Update c b a u f) []"
proof -
  let ?k = "\<lambda>m. keeps (within (\<lambda>call. link_ev call = None)) m"
  have sd: "link_ev call = None" if "systemd_call call" for call
    using that by (auto simp: systemd_call_def link_ev_def split: call.splits)
  have e: "?k RunDiskChangeEvent"
    by (rule keeps_RunDiskChangeEvent) (simp_all add: link_ev_quiet)
  then show "emits link_ev RunDiskChangeEvent []" "emits link_ev (attempt RunDiskChangeEvent) []"
    by (auto intro: emits_quiet keeps_attempt)
  have "?k (AllDisks c)"
    unfolding AllDisks_def parseLsblkOutput_def
    by (intro keeps_intros keeps_parse_lines) (simp_all add: link_ev_quiet)
  then show "emits link_ev (AllDisks c) []" by (rule emits_quiet)
  show "emits link_ev (RemoveMount c) []"
    by (rule emits_quiet, rule keeps_within_mono [OF keeps_RemoveMount sd])
  have m: "?k (AddMount c d)" for d by (rule keeps_within_mono [OF keeps_AddMount sd])
  have i: "?k (run_ignoring cmd as)" for cmd as
    unfolding run_ignoring_def by (intro keeps_intros) (simp add: link_ev_quiet)
  have wh: "?k (whenever x n)" if "?k n" for x n
    using that by (auto simp: whenever_def intro!: keeps_intros simp del: ret_apply)
  have "?k (btrfs_apply c b a u' f)" for u'
    unfolding btrfs_apply_def Let_def by (intro keeps_intros i m wh)
  then have "?k (Btrfs_Update c b a u f)"
    unfolding Btrfs_Update_def by (intro keeps_intros) (simp_all add: link_ev_quiet)
  then show "emits link_ev (Btrfs_Update c b a u f) []" by (rule emits_quiet)
qed

lemma emits_Deactivate: "emits link_ev (Deactivate c) [InternalDiskDir c]"
  unfolding Deactivate_def by (intro emits_then [OF emits_RelinkDisk] emits_skip [OF emits_quiet_disks(2)] emits_quiet_disks)

lemma emits_activateCommon: "emits link_ev (activateCommon c) [ExternalDiskDir c]"
  unfolding activateCommon_def by (intro emits_then [OF emits_RelinkDisk] emits_quiet_disks)

lemma emits_activateDisks:
  "emits link_ev (activateDisks c newDevices format) [InternalDiskDir c, ExternalDiskDir c]"
  unfolding activateDisks_def Let_def
  by (intro emits_if_throw emits_skip [OF emits_quiet_disks(3)] emits_then [OF emits_Deactivate]
      emits_skip [OF emits_quiet_disks(5)] emits_activateCommon)



end
