(* ===== verification/Activation.thy ===== *)
theory Activation
  imports Web_Auth Cert Disks Session
begin

text \<open>
  Activation of a device (\<^verbatim>\<open>backend/activation\<close>) with the parts it sets up: the LDAP directory
  (\<^verbatim>\<open>auth/initializer.go\<close>), the password of root (\<^verbatim>\<open>auth/system_password.go\<close>), the time zone
  (\<^verbatim>\<open>timezone\<close>) and the check of the internet connection (\<^verbatim>\<open>connection\<close>).
\<close>

section \<open>Connection, time zone, password\<close>

definition internet_url :: string where
  "internet_url = ''http://apps.syncloud.org/releases/stable/index''"

definition Internet_Check :: "unit go" where
  "Internet_Check = andThen (attempt (do_http (HttpGet internet_url))) (\<lambda>r. case r of
     Inl e \<Rightarrow> throw (Error (''internet check url '' @ internet_url @ '' is not reachable, error: '' @ err_text e))
   | Inr resp \<Rightarrow> if StatusCode resp \<noteq> 200
       then throw (Error (''internet check, response status_code: '' @ Itoa (StatusCode resp)))
       else ret ())"

definition IsValid :: "string \<Rightarrow> bool go" where
  "IsValid tz =
     (if tz = [] \<or> Contains tz ''..'' \<or> HasPrefix tz ''/'' then ret False
      else andThen (attempt (do_str (Sys ''stat'' [path_join [''/usr/share/zoneinfo'', tz]]))) (\<lambda>r.
        ret (case r of Inl _ \<Rightarrow> False | Inr kind \<Rightarrow> kind \<noteq> ''dir'')))"

definition Timezone_Apply :: "string \<Rightarrow> unit go" where
  "Timezone_Apply tz = andThen (IsValid tz) (\<lambda>valid.
     if \<not> valid then throw (Error (''invalid timezone: '' @ tz))
     else andThen (CombinedOutput ''timedatectl'' [''set-timezone'', tz]) (\<lambda>(output, err). case err of
         Some e \<Rightarrow> throw (Error (''timedatectl set-timezone failed: '' @ output @ '': '' @ err_text e))
       | None \<Rightarrow> cfg (SetTimezone tz)))"

definition Timezone_Current :: "string go" where
  "Timezone_Current = cfg GetTimezone"

text \<open>The password goes to the standard input of the command, which stands first here.\<close>

definition SystemPassword_Change :: "string \<Rightarrow> unit go" where
  "SystemPassword_Change password =
     andThen (do_sys ''stdin'' [''chpasswd'']) (\<lambda>_.
     andThen (run_cmd ''chpasswd'' [''root:'' @ password @ [CHR 0x0A]]) (\<lambda>_. ret ()))"

section \<open>The LDAP directory\<close>

definition userConfDir :: "sysconf \<Rightarrow> string" where "userConfDir c = path_join [DataDir c, ''slapd.d'']"

definition userDataDir :: "sysconf \<Rightarrow> string" where "userDataDir c = path_join [DataDir c, ''openldap-data'']"

definition ldapRoot :: "sysconf \<Rightarrow> string" where "ldapRoot c = path_join [AppDir c, ''openldap'']"

definition Installed :: "sysconf \<Rightarrow> bool go" where
  "Installed c = andThen (attempt (do_sys ''stat'' [userConfDir c])) (\<lambda>r. ret (case r of Inl _ \<Rightarrow> False | Inr _ \<Rightarrow> True))"

text \<open>The mode is the decimal number 755, which is 01363 in octal.\<close>

definition Ldap_Init :: "sysconf \<Rightarrow> unit go" where
  "Ldap_Init c = andThen (Installed c) (\<lambda>installed.
     if installed then ret ()
     else andThen (do_sys ''mkdirall'' [userConfDir c, ''01363'']) (\<lambda>_.
       andThen (run_cmd (path_join [ldapRoot c, ''sbin'', ''slapadd.sh''])
          [''-F'', userConfDir c, ''-b'', ''cn=config'', ''-l'', path_join [ConfigDir c, ''ldap'', ''slapd.ldif'']]) (\<lambda>_. ret ())))"

text \<open>A step that is tried again after a second, ten times in all; the last error counts.\<close>

fun retry :: "nat \<Rightarrow> unit go \<Rightarrow> error option \<Rightarrow> unit go" where
  "retry 0 m err = (case err of None \<Rightarrow> ret () | Some e \<Rightarrow> throw e)"
| "retry (Suc n) m err = andThen (attempt m) (\<lambda>r. case r of
     Inr _ \<Rightarrow> ret ()
   | Inl e \<Rightarrow> andThen (do_void (Sys ''sleep'' [''1s''])) (\<lambda>_. retry n m (Some e)))"

definition applyConfigOnce :: "string \<Rightarrow> unit go" where
  "applyConfigOnce uri =
     andThen (wrap_err ''ldapi connect: '' (do_sys ''ldap-dial'' [uri])) (\<lambda>_.
     andThen (wrap_err ''ldapi external bind: '' (do_sys ''ldap-external-bind'' [])) (\<lambda>_.
       wrap_err ''ldap modify cn=config: '' (do_sys ''ldap-modify'' [''cn=config'', ''replace'', ''olcLogLevel'', ''none''])))"

definition ApplyConfig :: "sysconf \<Rightarrow> unit go" where
  "ApplyConfig c = andThen (Installed c) (\<lambda>installed.
     if \<not> installed then ret ()
     else (let socket = path_join [DataDir c, ''openldap.socket''] in
       retry 10 (applyConfigOnce (''ldapi://'' @ ReplaceAll socket ''/'' ''%2F'')) None))"

definition ldapAdd :: "sysconf \<Rightarrow> string \<Rightarrow> string \<Rightarrow> unit go" where
  "ldapAdd c filename bindDn =
     andThen (run_cmd (path_join [ldapRoot c, ''bin'', ''ldapadd.sh''])
        [''-x'', ''-w'', ''syncloud'', ''-D'', bindDn, ''-f'', filename]) (\<lambda>_. ret ())"

definition initDb :: "sysconf \<Rightarrow> string \<Rightarrow> unit go" where
  "initDb c filename = retry 10 (ldapAdd c filename Domain_dn) None"

definition fill_ldif :: "string \<Rightarrow> string \<Rightarrow> string \<Rightarrow> string \<Rightarrow> string \<Rightarrow> string" where
  "fill_ldif ldif name user email hash =
     ReplaceAll (ReplaceAll (ReplaceAll (ReplaceAll ldif ''${name}'' name) ''${user}'' user) ''${email}'' email) ''${password}'' hash"

definition Ldap_Reset :: "sysconf \<Rightarrow> string \<Rightarrow> string \<Rightarrow> string \<Rightarrow> string \<Rightarrow> unit go" where
  "Ldap_Reset c name user password email =
     andThen (Cli_Stop ''platform.openldap'') (\<lambda>_.
     andThen (do_sys ''removeall'' [userConfDir c]) (\<lambda>_.
     andThen (do_sys ''removeall'' [userDataDir c]) (\<lambda>_.
     andThen (do_sys ''mkdirall'' [userDataDir c, ''01363'']) (\<lambda>_.
     andThen (Ldap_Init c) (\<lambda>_.
     andThen (Cli_Start ''platform.openldap'') (\<lambda>_.
     andThen (Hash password) (\<lambda>passwordHash.
     andThen (do_str (Sys ''createtemp'' [])) (\<lambda>tmpFile.
       finally_do (do_sys ''remove'' [tmpFile])
         (andThen (do_str (Sys ''readfile'' [path_join [ConfigDir c, ''ldap'', ''init.ldif'']])) (\<lambda>file.
          andThen (do_sys ''writefile'' [tmpFile, fill_ldif file name user email passwordHash, ''01204'']) (\<lambda>_.
          andThen (initDb c tmpFile) (\<lambda>_. SystemPassword_Change password))))))))))))"

section \<open>Activation\<close>

definition ParseUsername :: "string \<Rightarrow> string \<Rightarrow> string \<times> string" where
  "ParseUsername username domain =
     (if Contains username ''@'' then (hd (Split username CHR ''@''), username)
      else (username, username @ ''@'' @ domain))"

definition resetAccess :: "unit go" where
  "resetAccess =
     andThen (cfg (SetIpv4Public False)) (\<lambda>_.
     andThen (cfg (SetPublicIp None)) (\<lambda>_.
     andThen (cfg (SetPublicPort None)) (\<lambda>_. RunAccessChangeEvent)))"

definition ActivateDevice :: "sysconf \<Rightarrow> string \<Rightarrow> string \<Rightarrow> string \<Rightarrow> string \<Rightarrow> unit go" where
  "ActivateDevice c username password name email =
     andThen BootExtend (\<lambda>_.
     andThen resetAccess (\<lambda>_.
     andThen uuid_New (\<lambda>key.
     andThen (cfg (SetWebSecretKey key)) (\<lambda>_.
     andThen Cookies_Reset (\<lambda>_.
     andThen (Ldap_Reset c name username password email) (\<lambda>_.
     andThen (Nginx_InitConfig c) (\<lambda>_.
     andThen ReloadPublic (\<lambda>_.
     andThen (cfg SetActivated) (\<lambda>_.
     andThen Authelia_InitConfig (\<lambda>_. WaitForReady))))))))))"

definition Custom_Activate :: "sysconf \<Rightarrow> string \<Rightarrow> string \<Rightarrow> string \<Rightarrow> unit go" where
  "Custom_Activate c requestDomain deviceUsername devicePassword =
     (let domain = ToLower requestDomain; (name, email) = ParseUsername deviceUsername domain in
      andThen Internet_Check (\<lambda>_.
      andThen (cfg (SetRedirectEnabled False)) (\<lambda>_.
      andThen (cfg (SetCustomDomain domain)) (\<lambda>_.
      andThen (cfg (Redirect_SetUserEmail email)) (\<lambda>_.
      andThen (Cert_Generate c) (\<lambda>_. ActivateDevice c deviceUsername devicePassword name email))))))"

text \<open>The service may report success without a domain, which dereferences nil.\<close>

definition Managed_Activate :: "sysconf \<Rightarrow> string \<Rightarrow> string \<Rightarrow> string \<Rightarrow> string \<Rightarrow> string \<Rightarrow> unit go" where
  "Managed_Activate c redirectEmail redirectPassword requestDomainName deviceUsername devicePassword =
     andThen Internet_Check (\<lambda>_.
     andThen (cfg (Redirect_SetUserEmail redirectEmail)) (\<lambda>_.
     andThen (Redirect_Authenticate redirectEmail redirectPassword) (\<lambda>updateToken.
     andThen (cfg (Redirect_SetUserUpdateToken updateToken)) (\<lambda>_.
     andThen (Redirect_Acquire redirectEmail redirectPassword (ToLower requestDomainName)) (\<lambda>domain. case domain of
       None \<Rightarrow> crash ''nil pointer dereference''
     | Some d \<Rightarrow>
       andThen (cfg (SetDomain (dom_Name d))) (\<lambda>_.
       andThen (cfg (UpdateDomainToken (dom_UpdateToken d))) (\<lambda>_.
       andThen Redirect_Reset (\<lambda>_.
       (let (name, email) = ParseUsername deviceUsername (dom_Name d) in
        andThen (cfg (SetRedirectEnabled True)) (\<lambda>_.
        andThen (Cert_Generate c) (\<lambda>_. ActivateDevice c deviceUsername devicePassword name email)))))))))))"

section \<open>The parts that only make calls\<close>

lemma keeps_only_calls: "keeps (within P) m \<Longrightarrow> keeps only_calls m"
  by (rule keeps_within_mono) simp_all

lemma only_calls_event: "keeps only_calls (RunEventOnAllApps e)"
  unfolding RunEventOnAllApps_def Snaps_def Snapd_Get_def Cli_Run_def Cli_run_def read_body_def
  by (auto intro!: keeps_intros split: option.splits sum.splits simp del: ret_apply throw_apply)

lemma only_calls_retry: "keeps only_calls m \<Longrightarrow> keeps only_calls (retry n m e)"
  by (induction n arbitrary: e) (auto intro!: keeps_intros split: option.splits sum.splits simp del: ret_apply throw_apply)

lemma only_calls_uuid: "keeps only_calls uuid_New"
  unfolding uuid_New_def by (auto intro!: keeps_intros split: sum.splits)

lemma only_calls_Ldap_Reset: "keeps only_calls (Ldap_Reset c n u p e)"
  unfolding Ldap_Reset_def Ldap_Init_def Installed_def initDb_def ldapAdd_def SystemPassword_Change_def Hash_def Let_def
    Cli_Stop_def Cli_Start_def Cli_run_def
  by (intro keeps_intros only_calls_retry) simp_all

lemma only_calls_nginx: "keeps only_calls (Nginx_InitConfig c)"
  unfolding Nginx_InitConfig_def by (intro keeps_intros keeps_cfg_read reads) simp_all

lemma only_calls_authelia: "keeps only_calls Authelia_InitConfig"
proof -
  have check: "keeps only_calls check_config"
    by (simp add: keeps_def check_config_run)
  have render: "keeps only_calls (render_config v)" for v
    unfolding render_config_def copyAssetsDir_def copy_file_def
    by (intro keeps_intros keeps_only_calls [OF keeps_Generate]) (auto intro!: keeps_intros simp del: ret_apply)
  show ?thesis
    unfolding Authelia_InitConfig_def
    by (intro keeps_intros keeps_only_calls [OF keeps_variables] render check only_calls_install) simp_all
qed

lemma only_calls_ready: "keeps only_calls WaitForReady"
proof -
  have "keeps only_calls (ready_loop n)" for n
    by (induction n) (auto intro!: keeps_intros simp del: ret_apply throw_apply)
  then show ?thesis by (simp add: WaitForReady_def)
qed

lemma only_calls_boot: "keeps only_calls BootExtend"
  unfolding BootExtend_def run_ignoring_def
  by (auto intro!: keeps_intros split: sum.splits simp del: ret_apply)

section \<open>What activation changes\<close>

text \<open>The settings after the reset of the addresses.\<close>

definition reset_db :: "database \<Rightarrow> database" where
  "reset_db d = db_set ''platform.manual_access_port'' None (db_set ''platform.public_ip'' None (db_put ''platform.ipv4_public'' False_str d))"

definition secret_db :: "string \<Rightarrow> database \<Rightarrow> database" where
  "secret_db key d = db_put ''platform.web_secret_key'' key (reset_db d)"

definition activated_db :: "string \<Rightarrow> database \<Rightarrow> database" where
  "activated_db key d = db_put ''platform.activated'' True_str (secret_db key d)"

definition nginx_reload :: call where
  "nginx_reload = Exec ''systemctl'' [''reload'', ''snap.platform.nginx-public'']"

lemma db_ready_stages [simp]: "db_ready (reset_db d) = db_ready d" "db_ready (secret_db k d) = db_ready d"
  by (simp_all add: reset_db_def secret_db_def)

lemma resetAccess_run:
  assumes "db_ready (w_db w)" "resetAccess w = (r, w')"
  shows "\<exists>cs. w' = w\<lparr>w_db := reset_db (w_db w), w_hist := w_hist w @ cs\<rparr>"
proof -
  have "RunAccessChangeEvent (w\<lparr>w_db := reset_db (w_db w)\<rparr>) = (r, w')"
    using assms by (simp add: resetAccess_def cfg_def zoom_def SetIpv4Public_def SetPublicIp_def SetPublicPort_def io_simps reset_db_def fromBool_def)
  from keepsD [OF only_calls_event, of "''access-change''", folded RunAccessChangeEvent_def, OF this]
  show ?thesis by (auto simp: within_def)
qed

lemma ReloadPublic_run:
  "ReloadPublic w = ((case snd (e_exec (w_env w) (w_hist w) nginx_reload) of None \<Rightarrow> Ok () | Some e \<Rightarrow> Err e),
     record_call nginx_reload w)"
  by (auto simp: ReloadPublic_def ReloadService_def run_cmd_def CombinedOutput_def nginx_reload_def serviceName_def andThen_def
      split: prod.splits option.splits)

text \<open>From the reset of the directory on: nothing is stored before nginx has reloaded its configuration.\<close>

definition activation_tail :: "sysconf \<Rightarrow> string \<Rightarrow> string \<Rightarrow> string \<Rightarrow> string \<Rightarrow> unit go" where
  "activation_tail c username password name email =
     andThen (andThen (Ldap_Reset c name username password email) (\<lambda>_. Nginx_InitConfig c)) (\<lambda>_.
     andThen ReloadPublic (\<lambda>_.
     andThen (cfg SetActivated) (\<lambda>_.
     andThen Authelia_InitConfig (\<lambda>_. WaitForReady))))"

lemma activation_tail_run:
  assumes "db_ready (w_db w)" "activation_tail c u p n e w = (r, w')"
  shows "(\<exists>cs. w' = w\<lparr>w_hist := w_hist w @ cs\<rparr> \<and> r \<noteq> Ok ())
     \<or> (\<exists>h t. w' = w\<lparr>w_db := db_put ''platform.activated'' True_str (w_db w), w_hist := h @ nginx_reload # t\<rparr>
          \<and> prefix (w_hist w) h \<and> snd (e_exec (w_env w) h nginx_reload) = None)"
proof -
  let ?m = "andThen (Ldap_Reset c n u p e) (\<lambda>_. Nginx_InitConfig c)"
  have m: "keeps only_calls ?m" by (intro keeps_intros only_calls_Ldap_Reset only_calls_nginx)
  obtain r1 w1 where run: "?m w = (r1, w1)" by fastforce
  obtain cs where cs: "w1 = w\<lparr>w_hist := w_hist w @ cs\<rparr>" using keepsD [OF m run] by (auto simp: within_def)
  show ?thesis
  proof (cases "r1 = Ok () \<and> snd (e_exec (w_env w) (w_hist w @ cs) nginx_reload) = None")
    case True
    let ?w = "w\<lparr>w_db := db_put ''platform.activated'' True_str (w_db w), w_hist := (w_hist w @ cs) @ [nginx_reload]\<rparr>"
    have "cfg SetActivated (w\<lparr>w_hist := (w_hist w @ cs) @ [nginx_reload]\<rparr>) = (Ok (), ?w)"
      using assms(1) by (simp add: cfg_def zoom_def SetActivated_def io_simps fromBool_def)
    then have web: "andThen Authelia_InitConfig (\<lambda>_. WaitForReady) ?w = (r, w')"
      using assms(2) True run cs by (simp add: activation_tail_def andThen_def ReloadPublic_run record_call_def)
    have "keeps only_calls (andThen Authelia_InitConfig (\<lambda>_. WaitForReady))"
      by (intro keeps_intros only_calls_authelia only_calls_ready)
    from keepsD [OF this web] obtain t where "w' = ?w\<lparr>w_hist := w_hist ?w @ t\<rparr>" by (auto simp: within_def)
    then have "w' = w\<lparr>w_db := db_put ''platform.activated'' True_str (w_db w), w_hist := (w_hist w @ cs) @ nginx_reload # t\<rparr>" by simp
    then show ?thesis using True by (metis prefixI)
  next
    case False
    then have "r \<noteq> Ok () \<and> (w' = w1 \<or> w' = record_call nginx_reload w1)"
      using assms(2) run cs by (cases r1) (auto simp: activation_tail_def andThen_def ReloadPublic_run split: option.splits)
    then show ?thesis using cs by (auto simp: record_call_def)
  qed
qed

lemma ActivateDevice_split:
  "ActivateDevice c u p n e = andThen BootExtend (\<lambda>_. andThen resetAccess (\<lambda>_. andThen uuid_New (\<lambda>key.
     andThen (andThen (cfg (SetWebSecretKey key)) (\<lambda>_. Cookies_Reset)) (\<lambda>_. activation_tail c u p n e))))"
  unfolding ActivateDevice_def activation_tail_def by (simp add: andThen_assoc)

lemma secret_run:
  assumes "db_ready (w_db w)"
  shows "andThen (cfg (SetWebSecretKey key)) (\<lambda>_. Cookies_Reset) w =
     (Ok (), w\<lparr>w_db := db_put ''platform.web_secret_key'' key (w_db w), cookies_key := Some key\<rparr>)"
  using assms by (simp add: cfg_def zoom_def SetWebSecretKey_def Cookies_Reset_def GetWebSecretKey_def io_simps view_str_def)

lemma activated_only_last:
  assumes "db_ready d"
  shows "db_view (reset_db d) ''platform.activated'' = db_view d ''platform.activated''"
    "db_view (secret_db k d) ''platform.activated'' = db_view d ''platform.activated''"
  using assms by (simp_all add: reset_db_def secret_db_def)

lemma activation_secret_stage:
  assumes "activation_tail c u p n e (w\<lparr>w_db := secret_db k d, cookies_key := Some k\<rparr>) = (r, w')" "db_ready d"
    "db_view d ''platform.activated'' \<noteq> Some True_str"
  shows "w_db w' \<in> {secret_db k d, activated_db k d} \<and> (r = Ok () \<longrightarrow> w_db w' = activated_db k d \<and> cookies_key w' = Some k)
     \<and> (db_view (w_db w') ''platform.activated'' = Some True_str \<longrightarrow>
          (\<exists>h t. w_hist w' = h @ nginx_reload # t \<and> prefix (w_hist w) h \<and> snd (e_exec (w_env w) h nginx_reload) = None))"
proof -
  have "db_ready (w_db (w\<lparr>w_db := secret_db k d, cookies_key := Some k\<rparr>))" using assms(2) by simp
  from activation_tail_run [OF this assms(1)] show ?thesis
  proof (elim disjE exE conjE)
    fix h t assume w': "w' = w\<lparr>w_db := secret_db k d, cookies_key := Some k\<rparr>\<lparr>w_db := db_put ''platform.activated'' True_str
          (w_db (w\<lparr>w_db := secret_db k d, cookies_key := Some k\<rparr>)), w_hist := h @ nginx_reload # t\<rparr>"
      and h: "prefix (w_hist (w\<lparr>w_db := secret_db k d, cookies_key := Some k\<rparr>)) h"
        "snd (e_exec (w_env (w\<lparr>w_db := secret_db k d, cookies_key := Some k\<rparr>)) h nginx_reload) = None"
    from w' have "w_hist w' = h @ nginx_reload # t" "w_db w' = activated_db k d" "cookies_key w' = Some k"
      by (simp_all add: activated_db_def)
    with h show ?thesis by auto
  qed (use assms(2,3) activated_only_last [OF assms(2)] in auto)
qed


text \<open>A device on which every step succeeds; the database can hold any other settings.\<close>

lemma retry_ok: "m w = (Ok (), w') \<Longrightarrow> retry 10 m e w = (Ok (), w')"
  using retry.simps(2) [of 9 m e] by (simp add: attempt_def)

lemma ready_ok: "w_env w = authelia_env \<Longrightarrow> \<exists>w'. WaitForReady w = (Ok (), w')"
  using ready_loop.simps(2) [of 29] by (simp add: WaitForReady_def attempt_def authelia_calls)

lemma Ldap_Reset_ok:
  assumes "w_env w = authelia_env"
  shows "\<exists>w'. Ldap_Reset c n u p e w = (Ok (), w') \<and> w_env w' = authelia_env"
proof -
  have add: "initDb c f w = (Ok (), record_call (Exec (path_join [ldapRoot c, ''bin'', ''ldapadd.sh''])
        [''-x'', ''-w'', ''syncloud'', ''-D'', Domain_dn, ''-f'', f]) w)" if "w_env w = authelia_env" for f w
    using that unfolding initDb_def by (intro retry_ok) (simp add: ldapAdd_def run_cmd_def authelia_calls)
  show ?thesis
    using assms
    by (simp add: Ldap_Reset_def Cli_Stop_def Cli_Start_def Cli_run_def Ldap_Init_def Installed_def Hash_def run_cmd_def
        authelia_calls attempt_def finally_do_def add SystemPassword_Change_def)
qed


end
