(* ===== verification/Ip_Address.thy ===== *)
theory Ip_Address
  imports Go_Prelude
begin

text \<open>
  \<^verbatim>\<open>net.ParseIP\<close> of the standard library, as the port probe and the access settings use it:
  an address is a list of 16 bytes, IPv4 in its IPv6 mapped form. A zone, and a text
  without a dot or colon, is no address.
\<close>

section \<open>Dotted decimal\<close>

definition octet :: "string \<Rightarrow> nat option" where
  "octet s = (if s = [] \<or> (hd s = CHR ''0'' \<and> length s \<noteq> 1) then None
     else (case digits_val 0 s of None \<Rightarrow> None | Some n \<Rightarrow> if n \<le> 255 then Some n else None))"

definition parseIPv4Fields :: "string \<Rightarrow> nat list option" where
  "parseIPv4Fields s = (let ps = Split s CHR ''.'' in if length ps = 4 then those (map octet ps) else None)"

definition mapped4 :: "nat list \<Rightarrow> nat list" where
  "mapped4 v = replicate 10 0 @ [255, 255] @ v"

section \<open>Hexadecimal groups\<close>

definition hex_val :: "char \<Rightarrow> nat option" where
  "hex_val c = (let n = of_char c in
     if is_digit c then Some (n - 48)
     else if 97 \<le> n \<and> n \<le> 102 then Some (n - 87)
     else if 65 \<le> n \<and> n \<le> 70 then Some (n - 55) else None)"

definition is_hex :: "char \<Rightarrow> bool" where
  "is_hex c = (hex_val c \<noteq> None)"

definition hex_num :: "string \<Rightarrow> nat" where
  "hex_num s = foldl (\<lambda>acc c. 16 * acc + the (hex_val c)) 0 s"

text \<open>
  One turn per group: \<open>out\<close> are the bytes written so far and \<open>ell\<close> is where \<^verbatim>\<open>::\<close> stood.
  The result is what is left to check: bytes, ellipsis and rest of the text.
\<close>

function (sequential) ipv6_groups :: "nat list \<Rightarrow> nat option \<Rightarrow> string \<Rightarrow> (nat list \<times> nat option \<times> string) option" where
  "ipv6_groups out ell s =
     (if 16 \<le> length out then Some (out, ell, s)
      else let g = takeWhile is_hex s; r = drop (length g) s in
        if g = [] \<or> 4 < length g then None
        else if r \<noteq> [] \<and> hd r = CHR ''.'' then
          (if (ell = None \<and> length out \<noteq> 12) \<or> 16 < length out + 4 then None
           else map_option (\<lambda>v. (out @ v, ell, [])) (parseIPv4Fields s))
        else let out' = out @ [hex_num g div 256, hex_num g mod 256] in
          if r = [] then Some (out', ell, [])
          else if hd r \<noteq> CHR '':'' \<or> length r = 1 then None
          else if r ! 1 = CHR '':'' then
            (if ell \<noteq> None then None
             else if length r = 2 then Some (out', Some (length out'), [])
             else ipv6_groups out' (Some (length out')) (drop 2 r))
          else ipv6_groups out' ell (tl r))"
  by pat_completeness auto

termination
proof (relation "measure (\<lambda>(out, ell, s). length s)", goal_cases)
  case (3 out ell s g r out')
  then show ?case by (cases r) auto
qed auto

declare ipv6_groups.simps [simp del]

definition ipv6_expand :: "nat list \<times> nat option \<times> string \<Rightarrow> nat list option" where
  "ipv6_expand x = (case x of (out, ell, s) \<Rightarrow>
     if s \<noteq> [] then None
     else if length out < 16 then map_option (\<lambda>e. take e out @ replicate (16 - length out) 0 @ drop e out) ell
     else if ell \<noteq> None then None else Some out)"

definition parseIPv6 :: "string \<Rightarrow> nat list option" where
  "parseIPv6 s =
     (if s = ''::'' then Some (replicate 16 0)
      else if HasPrefix s ''::'' then Option.bind (ipv6_groups [] (Some 0) (drop 2 s)) ipv6_expand
      else Option.bind (ipv6_groups [] None s) ipv6_expand)"

section \<open>Addresses\<close>

definition ParseIP :: "string \<Rightarrow> nat list option" where
  "ParseIP s =
     (if CHR ''%'' \<in> set s then None
      else (case dropWhile (\<lambda>c. c \<noteq> CHR ''.'' \<and> c \<noteq> CHR '':'') s of
          [] \<Rightarrow> None
        | c # _ \<Rightarrow> if c = CHR ''.'' then map_option mapped4 (parseIPv4Fields s) else parseIPv6 s))"

definition To4 :: "nat list option \<Rightarrow> nat list option" where
  "To4 a = (case a of None \<Rightarrow> None
     | Some b \<Rightarrow> if take 12 b = replicate 10 0 @ [255, 255] then Some (drop 12 b) else None)"

text \<open>RFC 1918 blocks, and fc00::/7.\<close>

definition IsPrivate :: "nat list option \<Rightarrow> bool" where
  "IsPrivate a = (case To4 a of
     Some v \<Rightarrow> v ! 0 = 10 \<or> (v ! 0 = 172 \<and> v ! 1 div 16 = 1) \<or> (v ! 0 = 192 \<and> v ! 1 = 168)
   | None \<Rightarrow> (case a of Some b \<Rightarrow> b ! 0 div 2 = 126 | None \<Rightarrow> False))"

section \<open>Parsing is well typed and inverts printing\<close>

lemma octet_le: "octet s = Some n \<Longrightarrow> n \<le> 255"
  by (auto simp: octet_def split: if_splits option.splits)

lemma those_Some: "those xs = Some ys \<longleftrightarrow> xs = map Some ys"
proof (induction xs arbitrary: ys)
  case (Cons x xs)
  then show ?case by (cases x; cases ys) auto
qed auto

lemma parseIPv4Fields_bytes:
  assumes "parseIPv4Fields s = Some v"
  shows "length v = 4 \<and> (\<forall>b \<in> set v. b \<le> 255)"
proof -
  let ?ps = "Split s CHR ''.''"
  have ps: "length ?ps = 4" "map octet ?ps = map Some v"
    using assms by (auto simp: parseIPv4Fields_def Let_def those_Some split: if_splits)
  then have "length v = 4" by (metis length_map)
  moreover have "b \<le> 255" if "b \<in> set v" for b
  proof -
    have "Some b \<in> set (map octet ?ps)" using that ps(2) by simp
    then show ?thesis using octet_le by auto
  qed
  ultimately show ?thesis by blast
qed

lemma hex_val_less: "hex_val c = Some n \<Longrightarrow> n < 16"
  by (auto simp: hex_val_def is_digit_def Let_def split: if_splits)

lemma hex_num_bound: "list_all is_hex g \<Longrightarrow> hex_num g < 16 ^ length g"
proof (induction g rule: rev_induct)
  case (snoc c g)
  then obtain n where n: "hex_val c = Some n" "n < 16" by (auto simp: is_hex_def dest: hex_val_less)
  have "hex_num g < 16 ^ length g" using snoc by simp
  then have "hex_num g + 1 \<le> 16 ^ length g" by simp
  then show ?case using n by (simp add: hex_num_def)
qed (simp add: hex_num_def)

lemma hex_group_bytes:
  assumes "length (takeWhile is_hex s) \<le> 4"
  shows "hex_num (takeWhile is_hex s) div 256 \<le> 255" "hex_num (takeWhile is_hex s) mod 256 \<le> 255"
proof -
  have "list_all is_hex (takeWhile is_hex s)" by (auto simp: list_all_iff dest: set_takeWhileD)
  then have "hex_num (takeWhile is_hex s) < 16 ^ length (takeWhile is_hex s)" by (rule hex_num_bound)
  also have "\<dots> \<le> 16 ^ 4" using assms by (intro power_increasing) auto
  finally show "hex_num (takeWhile is_hex s) div 256 \<le> 255" by simp
qed (simp add: less_Suc_eq_le [symmetric])

definition half_bytes :: "nat list \<Rightarrow> bool" where
  "half_bytes out \<longleftrightarrow> even (length out) \<and> length out \<le> 16 \<and> (\<forall>b \<in> set out. b \<le> 255)"

lemma half_bytes_group:
  "half_bytes out \<Longrightarrow> length out < 16 \<Longrightarrow> length (takeWhile is_hex s) \<le> 4 \<Longrightarrow>
     half_bytes (out @ [hex_num (takeWhile is_hex s) div 256, hex_num (takeWhile is_hex s) mod 256])"
  using hex_group_bytes [of s] by (auto simp: half_bytes_def elim!: evenE)

lemma half_bytes_v4:
  "half_bytes out \<Longrightarrow> parseIPv4Fields s = Some v \<Longrightarrow> length out + 4 \<le> 16 \<Longrightarrow> half_bytes (out @ v)"
  using parseIPv4Fields_bytes [of s v] by (auto simp: half_bytes_def)

lemma ipv6_groups_bytes:
  "ipv6_groups out ell s = Some (out', ell', s') \<Longrightarrow> half_bytes out \<Longrightarrow> half_bytes out'"
proof (induction out ell s rule: ipv6_groups.induct)
  case (1 out ell s)
  let ?g = "takeWhile is_hex s"
  let ?r = "drop (length ?g) s"
  let ?out = "out @ [hex_num ?g div 256, hex_num ?g mod 256]"
  note unfolded = 1(3) [unfolded ipv6_groups.simps [of out ell s] Let_def]
  show ?case
  proof (cases "16 \<le> length out")
    case True
    with unfolded 1(4) show ?thesis by simp
  next
    case short: False
    with unfolded have g: "?g \<noteq> []" "\<not> 4 < length ?g" by (auto split: if_splits)
    then have out: "half_bytes ?out" using half_bytes_group [OF 1(4)] short by simp
    show ?thesis
    proof (cases "?r \<noteq> [] \<and> hd ?r = CHR ''.''")
      case True
      with unfolded short g obtain v where "parseIPv4Fields s = Some v" "out' = out @ v" "length out + 4 \<le> 16"
        by (auto split: if_splits)
      then show ?thesis using half_bytes_v4 [OF 1(4)] by simp
    next
      case False
      have ih: "ipv6_groups ?out (Some (length ?out)) (drop 2 ?r) = Some (out', ell', s') \<Longrightarrow>
            ?r \<noteq> [] \<Longrightarrow> \<not> (hd ?r \<noteq> CHR '':'' \<or> length ?r = 1) \<Longrightarrow> ?r ! 1 = CHR '':'' \<Longrightarrow> ell = None \<Longrightarrow>
            length ?r \<noteq> 2 \<Longrightarrow> half_bytes out'"
        "ipv6_groups ?out ell (tl ?r) = Some (out', ell', s') \<Longrightarrow>
            ?r \<noteq> [] \<Longrightarrow> \<not> (hd ?r \<noteq> CHR '':'' \<or> length ?r = 1) \<Longrightarrow> ?r ! 1 \<noteq> CHR '':'' \<Longrightarrow> half_bytes out'"
        using 1(1,2) [OF short refl refl _ False refl] g out by blast+
      show ?thesis using unfolded short g False out ih by (simp only: if_False if_True split: if_splits) auto
    qed
  qed
qed

lemma ipv6_expand_bytes:
  "half_bytes out \<Longrightarrow> ipv6_expand (out, ell, s) = Some b \<Longrightarrow> length b = 16 \<and> (\<forall>x \<in> set b. x \<le> 255)"
  using set_take_subset [of _ out] set_drop_subset [of _ out]
  by (fastforce simp: ipv6_expand_def half_bytes_def split: if_splits)

lemma parseIPv6_bytes:
  assumes "parseIPv6 s = Some b"
  shows "length b = 16 \<and> (\<forall>x \<in> set b. x \<le> 255)"
proof -
  have nil: "half_bytes []" by (simp add: half_bytes_def)
  have "length b = 16 \<and> (\<forall>x \<in> set b. x \<le> 255)" if parsed: "Option.bind (ipv6_groups [] ell t) ipv6_expand = Some b" for ell t
  proof -
    obtain x where x: "ipv6_groups [] ell t = Some x" "ipv6_expand x = Some b"
      using parsed unfolding bind_eq_Some_conv by blast
    obtain out ell' s' where "x = (out, ell', s')" by (cases x)
    with x show ?thesis using ipv6_groups_bytes [OF _ nil] ipv6_expand_bytes by blast
  qed
  then show ?thesis using assms by (auto simp: parseIPv6_def split: if_splits)
qed

lemma ParseIP_bytes: "ParseIP s = Some b \<Longrightarrow> length b = 16 \<and> (\<forall>x \<in> set b. x \<le> 255)"
  by (auto simp: ParseIP_def mapped4_def split: if_splits list.splits dest!: parseIPv6_bytes parseIPv4Fields_bytes)

definition dotted :: "nat list \<Rightarrow> string" where
  "dotted v = Join (map nat_dec v) ''.''"

lemma hd_nat_dec_zero: "hd (nat_dec n) = CHR ''0'' \<Longrightarrow> n = 0"
proof (induction n rule: nat_dec.induct)
  case (1 n)
  show ?case
  proof (cases "n < 10")
    case True
    with 1(2) have "digit_val (hd [digit_char n]) = digit_val CHR ''0''" by (simp add: nat_dec.simps [of n])
    with True show ?thesis by (simp add: digit_val_digit_char) (simp add: digit_val_def)
  next
    case False
    with 1 have "n div 10 = 0" by (simp add: nat_dec.simps [of n])
    with False show ?thesis by simp
  qed
qed

lemma octet_nat_dec: "n \<le> 255 \<Longrightarrow> octet (nat_dec n) = Some n"
  using hd_nat_dec_zero [of n] by (auto simp: octet_def digits_val_nat_dec nat_dec.simps [of 0])

lemma dot_notin_nat_dec: "CHR ''.'' \<notin> set (nat_dec n)"
  using nat_dec_digits [of "CHR ''.''" n] by (auto simp: is_digit_def)

lemma parseIPv4Fields_dotted:
  assumes "list_all (\<lambda>n. n \<le> 255) [a, b, c, d]"
  shows "parseIPv4Fields (dotted [a, b, c, d]) = Some [a, b, c, d]"
proof -
  have "Split (dotted [a, b, c, d]) CHR ''.'' = map nat_dec [a, b, c, d]"
    using dot_notin_nat_dec by (simp add: dotted_def Split_append_sep Split_no_sep)
  then show ?thesis using assms by (simp add: parseIPv4Fields_def octet_nat_dec)
qed

text \<open>Printed IPv4 addresses are parsed back.\<close>

lemma ParseIP_dotted:
  assumes "list_all (\<lambda>n. n \<le> 255) [a, b, c, d]"
  shows "To4 (ParseIP (dotted [a, b, c, d])) = Some [a, b, c, d]"
proof -
  have digit: "\<And>x n. x \<in> set (nat_dec n) \<Longrightarrow> x \<noteq> CHR ''.'' \<and> x \<noteq> CHR '':'' \<and> x \<noteq> CHR ''%''"
    using nat_dec_digits by (fastforce simp: is_digit_def)
  let ?s = "dotted [a, b, c, d]"
  have s: "?s = nat_dec a @ CHR ''.'' # (nat_dec b @ ''.'' @ nat_dec c @ ''.'' @ nat_dec d)"
    by (simp add: dotted_def)
  have "dropWhile (\<lambda>x. x \<noteq> CHR ''.'' \<and> x \<noteq> CHR '':'') ?s = CHR ''.'' # (nat_dec b @ ''.'' @ nat_dec c @ ''.'' @ nat_dec d)"
    unfolding s using digit by (subst dropWhile_append2) auto
  moreover have "CHR ''%'' \<notin> set ?s" unfolding s using digit by auto
  ultimately show ?thesis
    using parseIPv4Fields_dotted [OF assms] by (simp add: ParseIP_def To4_def mapped4_def)
qed

end
