(* ===== verification/Access.thy ===== *)
theory Access
  imports Redirect_Service Ip_Address
begin

text \<open>
  Access from the internet: the port probe (\<^verbatim>\<open>backend/access/port_probe.go\<close>), the tunnel
  through the relay (\<^verbatim>\<open>relay_client.go\<close>) and the access settings
  (\<^verbatim>\<open>external_address.go\<close>, \<^verbatim>\<open>rest/model/model.go\<close>). The event at the end of an update is handed
  to the runner of \<open>Access_Change\<close> and appears here as a call.
\<close>

section \<open>Access requests\<close>

record access =
  RelayEnabled :: bool
  Ipv4 :: "string option"
  Ipv4Enabled :: bool
  Ipv4Public :: bool
  AccessPort :: "int option"
  Ipv6Enabled :: bool

definition Ipv4Manual :: "access \<Rightarrow> bool" where
  "Ipv4Manual a \<longleftrightarrow> \<not> RelayEnabled a \<and> Ipv4Enabled a"

definition Ipv4Active :: "access \<Rightarrow> bool" where
  "Ipv4Active a \<longleftrightarrow> RelayEnabled a \<or> Ipv4Enabled a"

definition Ipv4PublicDirect :: "access \<Rightarrow> bool" where
  "Ipv4PublicDirect a \<longleftrightarrow> Ipv4Public a \<and> \<not> RelayEnabled a"

section \<open>The port probe\<close>

definition opt_int :: "string \<Rightarrow> int \<Rightarrow> (string \<times> json) list" where
  "opt_int k i = (if i = 0 then [] else [(k, JNum i)])"

definition probe_json :: "string \<Rightarrow> string \<Rightarrow> int \<Rightarrow> json" where
  "probe_json token ip port = JObj (opt_str ''token'' token @ opt_int ''port'' port @ [(''ip'', JStr ip)])"

definition dec_probe :: "json \<Rightarrow> (bool \<times> string option) option" where
  "dec_probe = dec_obj (\<lambda>k. case (dec_bool (k ''success''), dec_opt dec_str (k ''message'')) of
     (Some ok, Some m) \<Rightarrow> Some (ok, m) | _ \<Rightarrow> None)"

definition Probe :: "string \<Rightarrow> int \<Rightarrow> unit go" where
  "Probe ip port =
     andThen (cfg Redirect_ApiUrl) (\<lambda>api.
     andThen (cfg GetDomainUpdateToken) (\<lambda>token. case token of
       None \<Rightarrow> throw (Error ''token is not set'')
     | Some t \<Rightarrow>
       (let addr = ParseIP ip in
        if To4 addr = None \<and> addr = None then throw (Error (''IP: '' @ ip @ '' is not valid''))
        else if IsPrivate addr then throw (Error (''IP: '' @ ip @ '' is not public''))
        else andThen (do_http (HttpPost (api @ ''/probe/port_v3'') (probe_json t ip port))) (\<lambda>resp.
          andThen (read_body resp) (\<lambda>b.
          andThen (json_body b dec_probe) (\<lambda>(ok, message).
            if \<not> ok then throw (Error (''Unable to verify open ports'' @
                (case message of None \<Rightarrow> '''' | Some m \<Rightarrow> '', '' @ m)))
            else ret ()))))))"

section \<open>The relay\<close>

definition RelayService :: string where
  "RelayService = ''platform.frpc''"

definition relayAdminUrl :: string where
  "relayAdminUrl = ''http://unix/api/status''"

definition relayConnectAttempts :: nat where
  "relayConnectAttempts = 30"

definition relay_configPath :: "sysconf \<Rightarrow> string" where
  "relay_configPath c = path_join [DataDir c, ''frpc.toml'']"

definition adminSocketPath :: "sysconf \<Rightarrow> string" where
  "adminSocketPath c = path_join [DataDir c, ''frpc-admin.sock'']"

definition expectedProxies :: "string \<Rightarrow> bool \<Rightarrow> string list" where
  "expectedProxies domain mail = (if mail then [domain, domain @ ''-smtp''] else [domain])"

definition socketPath :: "string option \<Rightarrow> string" where
  "socketPath socket = (case socket of None \<Rightarrow> '''' | Some s \<Rightarrow> s)"

definition currentConfig :: "sysconf \<Rightarrow> string go" where
  "currentConfig c = andThen (attempt (do_str (Sys ''readfile'' [relay_configPath c]))) (\<lambda>r.
     ret (case r of Inl _ \<Rightarrow> '''' | Inr s \<Rightarrow> s))"

text \<open>
  The status is a map from a kind of proxy to a list; of two entries for one kind the later
  one counts, and one entry of a wrong type spoils the whole reply.
\<close>

definition dec_proxy :: "json \<Rightarrow> (string \<times> string) option" where
  "dec_proxy = dec_obj (\<lambda>k. case (dec_str (k ''name''), dec_str (k ''status'')) of
     (Some n, Some s) \<Rightarrow> Some (n, s) | _ \<Rightarrow> None)"

definition dec_groups :: "(string \<times> json) list \<Rightarrow> (string \<times> string) list list option" where
  "dec_groups kvs = (case those (map (\<lambda>kv. dec_list dec_proxy (snd kv)) kvs) of
     None \<Rightarrow> None
   | Some groups \<Rightarrow> (let m = map_of (rev (zip (map fst kvs) groups))
       in Some (map (\<lambda>k. the (m k)) (remdups (map fst kvs)))))"

definition status_groups :: "json \<Rightarrow> (string \<times> string) list list option" where
  "status_groups j = (case j of JNull \<Rightarrow> Some [] | JObj kvs \<Rightarrow> dec_groups kvs | _ \<Rightarrow> None)"

definition running_names :: "error + response \<Rightarrow> string list" where
  "running_names reply = (case reply of
     Inl _ \<Rightarrow> []
   | Inr resp \<Rightarrow> if StatusCode resp \<noteq> 200 then []
       else (case Body resp of
           Inl _ \<Rightarrow> []
         | Inr b \<Rightarrow> (case Option.bind (body_json b) status_groups of
               None \<Rightarrow> []
             | Some groups \<Rightarrow> map fst (filter (\<lambda>p. snd p = ''running'') (concat groups)))))"

definition runningProxies :: "string list go" where
  "runningProxies = andThen (attempt (do_http (HttpGet relayAdminUrl))) (\<lambda>r. ret (running_names r))"

definition proxiesRunning :: "string list \<Rightarrow> bool go" where
  "proxiesRunning proxies = andThen runningProxies (\<lambda>running.
     ret (list_all (\<lambda>name. name \<in> set running) proxies))"

fun wait_loop :: "nat \<Rightarrow> string list \<Rightarrow> unit go" where
  "wait_loop 0 proxies = throw (Error (''relay tunnel did not come up for ['' @ Join proxies '' '' @ '']''))"
| "wait_loop (Suc n) proxies = andThen (proxiesRunning proxies) (\<lambda>up.
     if up then ret () else andThen (do_void (Sys ''sleep'' [''1s''])) (\<lambda>_. wait_loop n proxies))"

definition waitConnected :: "string list \<Rightarrow> unit go" where
  "waitConnected proxies = wait_loop relayConnectAttempts proxies"

definition Relay_Disable :: "sysconf \<Rightarrow> unit go" where
  "Relay_Disable c = andThen (attempt (do_sys ''stat'' [relay_configPath c])) (\<lambda>r.
     if r = Inl NotExist then ret ()
     else andThen (do_sys ''remove'' [relay_configPath c]) (\<lambda>_. RestartService RelayService))"

definition Relay_Apply :: "sysconf \<Rightarrow> bool \<Rightarrow> unit go" where
  "Relay_Apply c relayEnabled =
     (if \<not> relayEnabled then Relay_Disable c
      else andThen (cfg GetMailInboundSocket) (\<lambda>mailSocket.
        andThen (cfg GetDeviceDomain) (\<lambda>domain.
        andThen (cfg GetDomainUpdateToken) (\<lambda>token. case token of
          None \<Rightarrow> throw (Error ''domain update token is not available'')
        | Some t \<Rightarrow>
          andThen (cfg Redirect_Domain) (\<lambda>redirect.
          let tmpl = path_join [ConfigDir c, ''frp'', ''frpc.toml''];
              expected = expectedProxies domain (mailSocket \<noteq> None) in
          andThen (do_sys ''template'' [tmpl]) (\<lambda>_.
          andThen (do_str (Sys ''execute'' [tmpl, ''relay.'' @ redirect, t, adminSocketPath c, domain, ''443'',
              socketPath mailSocket])) (\<lambda>content.
          andThen (currentConfig c) (\<lambda>current.
          andThen (if current = content then proxiesRunning expected else ret False) (\<lambda>connected.
            if connected then ret ()
            else andThen (do_sys ''writefile'' [relay_configPath c, content, ''0644'']) (\<lambda>_.
              andThen (RestartService RelayService) (\<lambda>_.
                waitConnected expected)))))))))))"

section \<open>The access settings\<close>

definition WebAccessPort :: int where
  "WebAccessPort = 443"

text \<open>What is probed before anything is saved: the address to announce and the one to store.\<close>

definition Access_probe :: "access \<Rightarrow> (string option \<times> string option) go" where
  "Access_probe request =
     (if Ipv4Manual request then
        (let port = (case AccessPort request of None \<Rightarrow> WebAccessPort | Some p \<Rightarrow> p);
             ipv4 = (case Ipv4 request of None \<Rightarrow> None
               | Some a \<Rightarrow> if To4 (ParseIP a) = None then None else Some a) in
         if Ipv4Public request then
           andThen (case ipv4 of None \<Rightarrow> PublicIPv4 | Some a \<Rightarrow> ret a) (\<lambda>a.
             andThen (Probe a port) (\<lambda>_. ret (Some a, ipv4)))
         else ret (ipv4, ipv4))
      else ret (None, None))"

definition Access_save :: "access \<Rightarrow> string option \<Rightarrow> unit cfg" where
  "Access_save request ipv4ToSave =
     andThen (SetRelayEnabled (RelayEnabled request)) (\<lambda>_.
     andThen (SetIpv4Enabled (Ipv4Enabled request)) (\<lambda>_.
     andThen (SetIpv4Public (Ipv4Public request)) (\<lambda>_.
     andThen (SetPublicIp ipv4ToSave) (\<lambda>_.
     andThen (SetIpv6Enabled (Ipv6Enabled request)) (\<lambda>_.
       SetPublicPort (AccessPort request))))))"

definition Access_Update :: "sysconf \<Rightarrow> access \<Rightarrow> unit go" where
  "Access_Update c request =
     andThen (Relay_Apply c (RelayEnabled request)) (\<lambda>_.
     andThen (Access_probe request) (\<lambda>(ipv4, ipv4ToSave).
     andThen (if Ipv6Enabled request then andThen IPv6 (\<lambda>ipv6. Probe ipv6 WebAccessPort) else ret ()) (\<lambda>_.
     andThen (cfg IsRedirectEnabled) (\<lambda>redirect.
     andThen (if redirect then Redirect_Update (RelayEnabled request) ipv4 (AccessPort request)
          (Ipv4Active request) (Ipv4PublicDirect request) (Ipv6Enabled request) else ret ()) (\<lambda>_.
     andThen (cfg (Access_save request ipv4ToSave)) (\<lambda>_.
     andThen (Relay_Apply c (RelayEnabled request)) (\<lambda>_.
       do_void (Sys ''AccessChangeRunner.Trigger'' []))))))))"

definition Access_Sync :: "sysconf \<Rightarrow> unit go" where
  "Access_Sync c =
     andThen (cfg IsRedirectEnabled) (\<lambda>redirect.
     andThen (if redirect then
         andThen (cfg IsRelayEnabled) (\<lambda>relay.
         andThen (cfg GetPublicIp) (\<lambda>ip.
         andThen (cfg GetPublicPort) (\<lambda>port.
         andThen (cfg IsIpv4Enabled) (\<lambda>ipv4.
         andThen (cfg IsIpv4Public) (\<lambda>ipv4Public.
         andThen (cfg IsIpv6Enabled) (\<lambda>ipv6.
           Redirect_Update relay ip port ipv4 ipv4Public ipv6))))))
       else ret ()) (\<lambda>_.
     andThen (cfg IsRelayEnabled) (\<lambda>relay. Relay_Apply c relay)))"

section \<open>Frames\<close>

lemma keeps_case_option [keeps_intros]:
  "keeps R n \<Longrightarrow> (\<And>a. keeps R (s a)) \<Longrightarrow> keeps R (case x of None \<Rightarrow> n | Some a \<Rightarrow> s a)"
  by (cases x) auto

lemma keeps_case_prod [keeps_intros]: "(\<And>a b. keeps R (f a b)) \<Longrightarrow> keeps R (case x of (a, b) \<Rightarrow> f a b)"
  by (cases x) auto

lemma keeps_Probe [keeps_intros]: "keeps same_db (Probe ip port)"
  unfolding Probe_def Let_def by (intro keeps_intros keeps_cfg_read reads)

lemma keeps_RestartService [keeps_intros]: "keeps same_db (RestartService s)"
  unfolding RestartService_def by (intro keeps_intros)

lemma keeps_wait_loop [keeps_intros]: "keeps same_db (wait_loop n ps)"
proof (induction n)
  case 0
  show ?case unfolding wait_loop.simps by (intro keeps_intros)
next
  case (Suc n)
  then show ?case unfolding wait_loop.simps proxiesRunning_def runningProxies_def by (intro keeps_intros)
qed

lemma keeps_Relay_Apply [keeps_intros]: "keeps same_db (Relay_Apply c b)"
  unfolding Relay_Apply_def Relay_Disable_def currentConfig_def proxiesRunning_def runningProxies_def
    waitConnected_def Let_def
  by (intro keeps_intros keeps_cfg_read reads)

lemma keeps_Access_probe [keeps_intros]: "keeps same_db (Access_probe request)"
  unfolding Access_probe_def Let_def PublicIPv4_def by (intro keeps_intros)

section \<open>Properties\<close>

lemma cfg_ready:
  assumes "db_ready (w_db w)"
  shows "cfg GetDomainUpdateToken w = (Ok (db_view (w_db w) ''platform.domain_update_token''), w)"
    and "cfg GetMailInboundSocket w = (Ok (db_view (w_db w) ''mail.inbound_socket''), w)"
    and "cfg GetDeviceDomain w = (Ok (device_domain (w_db w)), w)"
    and "cfg IsRedirectEnabled w = (Ok (view_bool (w_db w) ''platform.redirect_enabled'' False), w)"
    and "cfg Redirect_Domain w = (Ok (view_str (w_db w) ''redirect.domain'' DefaultRedirectDomain), w)"
  using assms
  by (simp_all add: cfg_def zoom_def GetDomainUpdateToken_def GetMailInboundSocket_def IsRedirectEnabled_def
      Redirect_Domain_def io_simps)

definition api_url :: "database \<Rightarrow> string" where
  "api_url d = view_str d ''redirect.api_url'' (''https://api.'' @ view_str d ''redirect.domain'' DefaultRedirectDomain)"

lemma cfg_ApiUrl: "db_ready (w_db w) \<Longrightarrow> cfg Redirect_ApiUrl w = (Ok (api_url (w_db w)), w)"
  by (simp add: cfg_def zoom_def Redirect_ApiUrl_def Redirect_Domain_def api_url_def io_simps)

text \<open>A probe of an unusable address makes no call and fails.\<close>

definition probe_address :: "string \<Rightarrow> bool" where
  "probe_address ip \<longleftrightarrow> ParseIP ip \<noteq> None \<and> \<not> IsPrivate (ParseIP ip)"

lemma read_body_simp: "read_body resp w = (of_sum (Body resp), w)"
  by (auto simp: read_body_def of_sum_def split: sum.splits)

lemma Probe_run:
  fixes ip :: string and port :: int
  assumes "db_ready (w_db w)" "db_view (w_db w) ''platform.domain_update_token'' = Some t"
  defines "post \<equiv> HttpPost (api_url (w_db w) @ ''/probe/port_v3'') (probe_json t ip port)"
  shows "\<not> probe_address ip \<Longrightarrow> (\<exists>m. Probe ip port w = (Err (Error m), w))"
    and "probe_address ip \<Longrightarrow> \<exists>r. Probe ip port w = (r, record_call post w)
      \<and> (r = Ok () \<longleftrightarrow> (\<exists>resp b m. e_http (w_env w) (w_hist w) post = Inr resp \<and> Body resp = Inr b
             \<and> Option.bind (body_json b) dec_probe = Some (True, m)))"
proof -
  assume "\<not> probe_address ip"
  then show "\<exists>m. Probe ip port w = (Err (Error m), w)"
    using assms(1,2) by (auto simp: Probe_def cfg_ApiUrl cfg_ready probe_address_def Let_def To4_def)
next
  assume ok: "probe_address ip"
  show "\<exists>r. Probe ip port w = (r, record_call post w)
      \<and> (r = Ok () \<longleftrightarrow> (\<exists>resp b m. e_http (w_env w) (w_hist w) post = Inr resp \<and> Body resp = Inr b
             \<and> Option.bind (body_json b) dec_probe = Some (True, m)))"
  proof (cases "e_http (w_env w) (w_hist w) post")
    case (Inl e)
    then show ?thesis using ok assms
      by (auto simp: Probe_def cfg_ApiUrl cfg_ready probe_address_def Let_def do_http_def andThen_def)
  next
    case (Inr resp)
    show ?thesis
    proof (cases "Body resp")
      case (Inl e)
      with Inr show ?thesis using ok assms
        by (auto simp: Probe_def cfg_ApiUrl cfg_ready probe_address_def Let_def do_http_def read_body_simp andThen_def)
    next
      case (Inr b)
      with \<open>e_http _ _ _ = Inr resp\<close> show ?thesis using ok assms
        by (auto simp: Probe_def cfg_ApiUrl cfg_ready probe_address_def Let_def do_http_def read_body_simp
            json_body_def andThen_def split: option.splits)
    qed
  qed
qed

text \<open>
  A port is probed only at a public address: for a text that is no address or a private
  one the probe fails without a request, otherwise there is exactly one request, and the
  probe succeeds exactly when the service answers that the port is open.
\<close>

lemma probe_public_only:
  assumes "db_ready (w_db w)" "db_view (w_db w) ''platform.domain_update_token'' = Some t"
  shows "(\<not> probe_address ip \<longrightarrow> (\<exists>m. Probe ip port w = (Err (Error m), w)))
    \<and> (probe_address ip \<longrightarrow> (\<exists>r post. Probe ip port w = (r, record_call post w)
        \<and> post = HttpPost (api_url (w_db w) @ ''/probe/port_v3'') (probe_json t ip port)
        \<and> (r = Ok () \<longleftrightarrow> (\<exists>resp b m. e_http (w_env w) (w_hist w) post = Inr resp \<and> Body resp = Inr b
             \<and> Option.bind (body_json b) dec_probe = Some (True, m)))))"
  using Probe_run [OF assms] by blast

lemma proxiesRunning_run:
  "proxiesRunning ps w = (Ok (set ps \<subseteq> set (running_names (e_http (w_env w) (w_hist w) (HttpGet relayAdminUrl)))),
     record_call (HttpGet relayAdminUrl) w)"
  by (cases "e_http (w_env w) (w_hist w) (HttpGet relayAdminUrl)")
    (auto simp: proxiesRunning_def runningProxies_def do_http_def attempt_def andThen_def list_all_iff)

text \<open>The tunnel was seen up by the last call.\<close>

definition seen_up :: "string list \<Rightarrow> world \<Rightarrow> bool" where
  "seen_up ps w \<longleftrightarrow> (\<exists>h. w_hist w = h @ [HttpGet relayAdminUrl]
     \<and> set ps \<subseteq> set (running_names (e_http (w_env w) h (HttpGet relayAdminUrl))))"

lemma seen_up_call:
  "set ps \<subseteq> set (running_names (e_http (w_env w) (w_hist w) (HttpGet relayAdminUrl))) \<Longrightarrow>
     seen_up ps (record_call (HttpGet relayAdminUrl) w)"
  by (auto simp: seen_up_def)

lemma wait_loop_up: "wait_loop n ps w = (Ok (), w') \<Longrightarrow> seen_up ps w'"
proof (induction n arbitrary: w)
  case (Suc n)
  then show ?case
    by (auto simp: andThen_Ok_iff proxiesRunning_run do_void_def intro: seen_up_call split: if_splits)
qed simp

lemma wait_loop_attempts:
  "wait_loop n ps w = (r, w') \<Longrightarrow>
     \<exists>cs. w_hist w' = w_hist w @ cs \<and> length (filter (\<lambda>c. c = HttpGet relayAdminUrl) cs) \<le> n"
proof (induction n arbitrary: w)
  case (Suc n)
  let ?w = "record_call (HttpGet relayAdminUrl) w"
  show ?case
  proof (cases "set ps \<subseteq> set (running_names (e_http (w_env w) (w_hist w) (HttpGet relayAdminUrl)))")
    case True
    with Suc.prems have "w' = ?w" by (simp add: andThen_def proxiesRunning_run)
    then show ?thesis by simp
  next
    case False
    let ?v = "record_call (Sys ''sleep'' [''1s'']) ?w"
    from False Suc.prems have "wait_loop n ps ?v = (r, w')"
      by (simp add: andThen_def proxiesRunning_run do_void_def)
    from Suc.IH [OF this] show ?thesis by auto
  qed
qed auto

lemma seen_up_db: "keeps same_db m \<Longrightarrow> m w = (r, w') \<Longrightarrow> w_db w' = w_db w"
  by (auto simp: keeps_def same_db_def)

text \<open>
  C38. Applying the relay succeeds only when the tunnel is up: the last call was a status
  request whose reply shows the proxy of the device's domain running, and that of its mail
  when an inbound mail socket is set. The settings are not changed.
\<close>

theorem relay_apply_connected:
  assumes "db_ready (w_db w)" "Relay_Apply c True w = (Ok (), w')"
  shows "seen_up (expectedProxies (device_domain (w_db w)) (db_view (w_db w) ''mail.inbound_socket'' \<noteq> None)) w'
     \<and> w_db w' = w_db w"
proof -
  let ?ps = "expectedProxies (device_domain (w_db w)) (db_view (w_db w) ''mail.inbound_socket'' \<noteq> None)"
  have "seen_up ?ps w'"
    using assms
    by (auto simp: Relay_Apply_def cfg_ready andThen_Ok_iff Let_def proxiesRunning_run waitConnected_def
        intro: seen_up_call wait_loop_up split: option.splits if_splits)
  then show ?thesis using seen_up_db [OF keeps_Relay_Apply assms(2)] by simp
qed

section \<open>Saving the settings\<close>

definition ip_to_save :: "access \<Rightarrow> string option" where
  "ip_to_save request = (if Ipv4Manual request
     then Option.bind (Ipv4 request) (\<lambda>a. if To4 (ParseIP a) = None then None else Some a) else None)"

definition access_stored :: "access \<Rightarrow> database \<Rightarrow> bool" where
  "access_stored request d \<longleftrightarrow>
     fst (IsRelayEnabled d) = Ok (RelayEnabled request) \<and> fst (IsIpv4Enabled d) = Ok (Ipv4Enabled request)
     \<and> fst (IsIpv4Public d) = Ok (Ipv4Public request) \<and> fst (GetPublicIp d) = Ok (ip_to_save request)
     \<and> fst (IsIpv6Enabled d) = Ok (Ipv6Enabled request) \<and> fst (GetPublicPort d) = Ok (AccessPort request)"

lemma Access_probe_saves: "Access_probe request w = (Ok (ip, toSave), w') \<Longrightarrow> toSave = ip_to_save request"
  by (auto simp: Access_probe_def ip_to_save_def andThen_Ok_iff Let_def split: if_splits option.splits)

lemma view_bool_set [simp]:
  "db_ready d \<Longrightarrow> view_bool (db_set k v d) k' dflt = (if k = k' then view_bool (db_set k v d) k dflt else view_bool d k' dflt)"
  by (auto simp: view_bool_def view_str_def)

lemma Access_save_stored:
  assumes "db_ready d" "\<And>p. AccessPort request = Some p \<Longrightarrow> in_bits 64 p"
  obtains d' where "Access_save request (ip_to_save request) d = (Ok (), d')" "access_stored request d'"
proof -
  obtain d' where d': "Access_save request (ip_to_save request) d = (Ok (), d')"
    using assms(1) by (simp add: Access_save_def switch_defs SetPublicIp_def SetPublicPort_def io_simps)
  moreover have "access_stored request d'"
    using d' assms
    by (cases "AccessPort request")
      (auto simp: Access_save_def access_stored_def switch_defs SetPublicIp_def SetPublicPort_def GetPublicIp_def
       io_simps view_bool_def view_str_def Atoi_def ParseInt_Itoa)
  ultimately show ?thesis using that by blast
qed

text \<open>The contract of the rest of an update, from a state with the settings still untouched.\<close>

definition saves :: "access \<Rightarrow> world \<Rightarrow> unit go \<Rightarrow> bool" where
  "saves request w m \<longleftrightarrow> (\<forall>r w'. m w = (r, w') \<longrightarrow>
     (if is_Ok r then access_stored request (w_db w') \<and> last (w_hist w') = Sys ''AccessChangeRunner.Trigger'' []
      else w_db w' = w_db w \<or> access_stored request (w_db w')))"

lemma saves_andThen:
  assumes "keeps same_db m" "\<And>a w1. m w = (Ok a, w1) \<Longrightarrow> w_db w1 = w_db w \<Longrightarrow> saves request w1 (k a)"
  shows "saves request w (andThen m k)"
  unfolding saves_def
proof (intro allI impI, goal_cases)
  case (1 r w')
  obtain q w1 where m: "m w = (q, w1)" by (cases "m w")
  have db: "w_db w1 = w_db w" using assms(1) m by (auto simp: keeps_def same_db_def)
  show ?case
  proof (cases q)
    case (Ok a)
    with m have "saves request w1 (k a)" using assms(2) db by blast
    with 1 m Ok db show ?thesis by (auto simp: saves_def split: if_splits)
  qed (use 1 m db in auto)
qed

lemma saves_end:
  assumes "db_ready (w_db w)" "\<And>p. AccessPort request = Some p \<Longrightarrow> in_bits 64 p"
  shows "saves request w (andThen (cfg (Access_save request (ip_to_save request))) (\<lambda>_.
     andThen (Relay_Apply c (RelayEnabled request)) (\<lambda>_. do_void (Sys ''AccessChangeRunner.Trigger'' []))))"
proof -
  obtain d' where d': "Access_save request (ip_to_save request) (w_db w) = (Ok (), d')" "access_stored request d'"
    using Access_save_stored [OF assms] .
  let ?w = "w\<lparr>w_db := d'\<rparr>"
  let ?rest = "andThen (Relay_Apply c (RelayEnabled request)) (\<lambda>_. do_void (Sys ''AccessChangeRunner.Trigger'' []))"
  have save: "cfg (Access_save request (ip_to_save request)) w = (Ok (), ?w)" using d'(1) by (rule cfg_apply)
  obtain q w2 where relay: "Relay_Apply c (RelayEnabled request) ?w = (q, w2)" by fastforce
  then have db: "w_db w2 = d'" using seen_up_db [OF keeps_Relay_Apply] by fastforce
  have rest: "?rest ?w = (case q of Ok _ \<Rightarrow> (Ok (), record_call (Sys ''AccessChangeRunner.Trigger'' []) w2)
      | Err e \<Rightarrow> (Err e, w2) | Crash p \<Rightarrow> (Crash p, w2))"
    using relay by (simp add: andThen_def do_void_def split: res.splits)
  show ?thesis
    unfolding saves_def andThen_Ok [of "cfg (Access_save request (ip_to_save request))", OF save] rest
    using db d'(2) by (auto split: res.splits)
qed

text \<open>
  C20. Changing the access settings saves all six of them or none: on success exactly the
  requested values are read back (the address only when it is used and is IPv4) and the last
  thing done is to trigger the access change event; on an error the settings are the old
  ones or, when only the second connection of the relay failed, the new ones.
\<close>

theorem access_update_all_or_nothing:
  assumes "db_ready (w_db w)" "\<And>p. AccessPort request = Some p \<Longrightarrow> in_bits 64 p"
    and "Access_Update c request w = (r, w')"
  shows "if is_Ok r then access_stored request (w_db w') \<and> last (w_hist w') = Sys ''AccessChangeRunner.Trigger'' []
     else w_db w' = w_db w \<or> access_stored request (w_db w')"
proof -
  have "saves request w (Access_Update c request)"
    unfolding Access_Update_def
  proof (rule saves_andThen [OF keeps_Relay_Apply], rule saves_andThen [OF keeps_Access_probe], goal_cases)
    case (1 a w1 x w2)
    then obtain ip where x: "x = (ip, ip_to_save request)"
      using Access_probe_saves by (metis surj_pair)
    have ready: "db_ready (w_db w2)" using 1 assms(1) by simp
    have ipv6: "keeps same_db (if Ipv6Enabled request then andThen IPv6 (\<lambda>ipv6. Probe ipv6 WebAccessPort) else ret ())"
      unfolding IPv6_def by (intro keeps_intros)
    have redirect: "keeps same_db (if b then Redirect_Update (RelayEnabled request) ip (AccessPort request)
          (Ipv4Active request) (Ipv4PublicDirect request) (Ipv6Enabled request) else ret ())" for b
      by (intro keeps_intros)
    have enabled: "keeps same_db (cfg IsRedirectEnabled)" by (intro keeps_cfg_read reads keeps_intros)
    show ?case unfolding x prod.case
      by (rule saves_andThen [OF ipv6], rule saves_andThen [OF enabled], rule saves_andThen [OF redirect],
          rule saves_end) (use ready assms(2) in simp_all)
  qed
  then show ?thesis using assms(3) by (simp add: saves_def)
qed

text \<open>A device in the redirect domain with a token and no replies from the services.\<close>

definition redirect_world :: "environment \<Rightarrow> world" where
  "redirect_world e = (start_world e)\<lparr>w_db := db_put ''platform.domain_update_token'' ''t'' fresh_db\<rparr>"

lemma redirect_world_sel [simp]:
  "db_ready (w_db (redirect_world e))" "w_hist (redirect_world e) = []" "w_env (redirect_world e) = e"
  "db_view (w_db (redirect_world e)) = [''platform.domain_update_token'' \<mapsto> ''t'']"
  by (simp_all add: redirect_world_def)

lemma probe_public_only_example:
  "\<exists>m. Probe ''192.168.1.5'' 443 (redirect_world calm) = (Err (Error m), redirect_world calm)"
proof -
  have "\<not> probe_address ''192.168.1.5''" by code_simp
  then show ?thesis
    using probe_public_only [of "redirect_world calm" "''t''" "''192.168.1.5''" 443] by simp
qed

text \<open>The relay reports the proxy of the default domain.\<close>

definition relay_env :: environment where
  "relay_env = calm\<lparr>e_http := (\<lambda>_ _. Inr \<lparr>StatusCode = 200, resp_Status = [], Body = Inr \<lparr>body_text = '''',
     body_json = Some (JObj [(''https'', JArr [JObj [(''name'', JStr ''www.localhost''), (''status'', JStr ''running'')]])])\<rparr>\<rparr>)\<rparr>"

lemma relay_env_names: "running_names (e_http relay_env h call) = [''www.localhost'']"
  by (simp add: relay_env_def running_names_def status_groups_def dec_groups_def dec_proxy_def jkey_def)

theorem relay_apply_connected_witness:
  "\<exists>w'. Relay_Apply sample_conf True (redirect_world relay_env) = (Ok (), w') \<and> seen_up [''www.localhost''] w'"
proof -
  let ?w = "redirect_world relay_env"
  have dom: "device_domain (w_db ?w) = ''www.localhost''"
    by (simp add: device_domain_def view_bool_def view_str_def)
  have str: "do_str call w = (Ok '''', record_call call w)" if "w_env w = relay_env" for call w
    using that by (simp add: do_str_def relay_env_def calm_def)
  have sys: "do_sys f as w = (Ok (), record_call (Sys f as) w)" if "w_env w = relay_env" for f as w
    using that by (simp add: do_sys_def do_unit_def relay_env_def calm_def)
  obtain w' where w': "Relay_Apply sample_conf True ?w = (Ok (), w')"
    by (simp add: Relay_Apply_def cfg_ready Let_def sys str currentConfig_def proxiesRunning_run dom
        expectedProxies_def relay_env_names)
  then show ?thesis using relay_apply_connected [OF _ w'] dom by (simp add: expectedProxies_def)
qed

definition local_access :: access where
  "local_access = \<lparr>RelayEnabled = False, Ipv4 = None, Ipv4Enabled = True, Ipv4Public = False, AccessPort = Some 8443,
     Ipv6Enabled = False\<rparr>"

theorem access_update_all_or_nothing_witness:
  "\<exists>w'. Access_Update sample_conf local_access (redirect_world calm) = (Ok (), w')
     \<and> access_stored local_access (w_db w')"
proof -
  let ?w = "redirect_world calm"
  have bits: "\<And>p. AccessPort local_access = Some p \<Longrightarrow> in_bits 64 p" by (simp add: local_access_def in_bits_def)
  have sel: "RelayEnabled local_access = False" "Ipv6Enabled local_access = False"
      "Access_probe local_access = ret (None, None)" "ip_to_save local_access = None"
    by (simp_all add: local_access_def Access_probe_def Ipv4Manual_def Let_def ip_to_save_def)
  have disable: "\<exists>w'. Relay_Apply sample_conf False w = (Ok (), w') \<and> w_env w' = calm \<and> w_db w' = w_db w"
    if "w_env w = calm" for w
    using that by (simp add: Relay_Apply_def Relay_Disable_def RestartService_def do_sys_def do_unit_def run_cmd_def
        CombinedOutput_def andThen_def attempt_def calm_def)
  obtain w1 where w1: "Relay_Apply sample_conf False ?w = (Ok (), w1)" "w_env w1 = calm" "w_db w1 = w_db ?w"
    using disable [of ?w] by auto
  then have ready: "db_ready (w_db w1)" by simp
  have redirect: "cfg IsRedirectEnabled w1 = (Ok False, w1)"
    using cfg_ready(4) [OF ready] w1(3) by (simp add: view_bool_def view_str_def)
  obtain d' where d': "Access_save local_access (ip_to_save local_access) (w_db w1) = (Ok (), d')"
    using Access_save_stored [OF ready bits] .
  obtain w2 where w2: "cfg (Access_save local_access None) w1 = (Ok (), w2)" "w_env w2 = calm"
    using cfg_apply [of "Access_save local_access (ip_to_save local_access)" w1, OF d'] w1(2) by (simp add: sel)
  obtain w3 where w3: "Relay_Apply sample_conf False w2 = (Ok (), w3)" using disable [OF w2(2)] by auto
  have "\<exists>w'. Access_Update sample_conf local_access ?w = (Ok (), w')"
    by (simp add: Access_Update_def sel w1(1) redirect w2(1) w3 do_void_def)
  then obtain w' where w': "Access_Update sample_conf local_access ?w = (Ok (), w')" ..
  then show ?thesis using access_update_all_or_nothing [OF _ bits w'] by simp
qed

text \<open>
  With the relay on, an update announces IPv4 as active and not public; a later
  synchronisation announces the stored switches instead.
\<close>

lemma sync_announces_other_flags:
  "RelayEnabled request \<Longrightarrow> Ipv4Active request \<and> \<not> Ipv4PublicDirect request"
  "Ipv4Enabled request \<and> \<not> RelayEnabled request \<Longrightarrow>
     Ipv4Active request = Ipv4Enabled request \<and> Ipv4PublicDirect request = Ipv4Public request"
  by (auto simp: Ipv4Active_def Ipv4PublicDirect_def)

end
