(* ===== verification/Health.thy ===== *)
theory Health
  imports Systemd
begin

text \<open>
  The health of the device: the log of stability events (\<^verbatim>\<open>backend/stability/events.go\<close>,
  \<^verbatim>\<open>migrate.go\<close>) and the counters of the kernel (\<^verbatim>\<open>backend/health\<close>). The log is a file of JSON
  values of which the reader keeps the newest in a ring.
\<close>

section \<open>The event log\<close>

definition maxLogFileBytes :: int where "maxLogFileBytes = 256 * 1024"

definition keepEvents :: nat where "keepEvents = 1000"

definition defaultLimit :: nat where "defaultLimit = 100"

record event =
  ev_Time :: string
  ev_Kind :: string
  ev_Message :: string
  ev_PID :: int
  ev_Comm :: string
  ev_App :: string
  ev_RSSkb :: nat
  ev_Cgroup :: string
  ev_AvailRatio :: "int \<times> int"
  ev_PSIavg10 :: "int \<times> int"
  ev_Path :: string
  ev_SizeBytes :: nat

text \<open>Floating point fields are kept as decimals; an empty time stands for the zero time.\<close>

fun dec_u64 :: "json \<Rightarrow> nat option" where
  "dec_u64 JNull = Some 0"
| "dec_u64 (JNum i) = (if 0 \<le> i \<and> i < 2 ^ 64 then Some (nat i) else None)"
| "dec_u64 _ = None"

fun dec_float :: "json \<Rightarrow> (int \<times> int) option" where
  "dec_float JNull = Some (0, 0)"
| "dec_float (JNum i) = Some (i, 0)"
| "dec_float (JDec m e) = Some (m, e)"
| "dec_float _ = None"

definition dec_event :: "json \<Rightarrow> event option" where
  "dec_event = dec_obj (\<lambda>k.
     case (those (map (\<lambda>f. dec_str (k f)) [''time'', ''kind'', ''message'', ''comm'', ''app'', ''cgroup'', ''path'']),
       dec_int (k ''pid''), those (map (\<lambda>f. dec_u64 (k f)) [''rss_kb'', ''size_bytes'']),
       those (map (\<lambda>f. dec_float (k f)) [''avail_ratio'', ''psi_avg10''])) of
       (Some [t, kind, message, comm, app, cgroup, path], Some pid, Some [rss, sizeBytes], Some [avail, psi]) \<Rightarrow>
         Some \<lparr>ev_Time = t, ev_Kind = kind, ev_Message = message, ev_PID = pid, ev_Comm = comm, ev_App = app,
           ev_RSSkb = rss, ev_Cgroup = cgroup, ev_AvailRatio = avail, ev_PSIavg10 = psi, ev_Path = path, ev_SizeBytes = sizeBytes\<rparr>
     | _ \<Rightarrow> None)"

text \<open>Fields with \<^verbatim>\<open>omitempty\<close> are left out when they hold the zero value.\<close>

definition event_json :: "event \<Rightarrow> json" where
  "event_json e = JObj ([(''time'', JStr (ev_Time e)), (''kind'', JStr (ev_Kind e))] @
     concat (map (\<lambda>(k, v). if v = [] then [] else [(k, JStr v)]) [(''message'', ev_Message e)]) @
     (if ev_PID e = 0 then [] else [(''pid'', JNum (ev_PID e))]) @
     concat (map (\<lambda>(k, v). if v = [] then [] else [(k, JStr v)]) [(''comm'', ev_Comm e), (''app'', ev_App e)]) @
     (if ev_RSSkb e = 0 then [] else [(''rss_kb'', JNum (int (ev_RSSkb e)))]) @
     (if ev_Cgroup e = [] then [] else [(''cgroup'', JStr (ev_Cgroup e))]) @
     (if fst (ev_AvailRatio e) = 0 then [] else [(''avail_ratio'', JDec (fst (ev_AvailRatio e)) (snd (ev_AvailRatio e)))]) @
     (if fst (ev_PSIavg10 e) = 0 then [] else [(''psi_avg10'', JDec (fst (ev_PSIavg10 e)) (snd (ev_PSIavg10 e)))]) @
     (if ev_Path e = [] then [] else [(''path'', JStr (ev_Path e))]) @
     (if ev_SizeBytes e = 0 then [] else [(''size_bytes'', JNum (int (ev_SizeBytes e)))]))"

text \<open>
  The ring: event number \<open>n\<close> goes to the slot \<open>n mod limit\<close>, which starts out as the zero
  event \<open>z\<close>; the slots are then read from the newest or from the oldest event on.
\<close>

definition ring_put :: "nat \<Rightarrow> 'e list \<times> nat \<Rightarrow> 'e \<Rightarrow> 'e list \<times> nat" where
  "ring_put limit s e = (case s of (ring, n) \<Rightarrow> (ring[n mod limit := e], Suc n))"

definition ring_fill :: "'e \<Rightarrow> nat \<Rightarrow> 'e list \<Rightarrow> 'e list \<times> nat" where
  "ring_fill z limit es = foldl (ring_put limit) (replicate limit z, 0) es"

definition ring_index :: "nat \<Rightarrow> bool \<Rightarrow> nat \<Rightarrow> nat \<Rightarrow> nat" where
  "ring_index limit reverse n i =
     (if reverse then nat (((int n - 1 - int i) mod int limit + int limit) mod int limit)
      else ((if n > limit then n mod limit else 0) + i) mod limit)"

definition ring_read :: "'e \<Rightarrow> nat \<Rightarrow> bool \<Rightarrow> 'e list \<Rightarrow> 'e list" where
  "ring_read z limit reverse es = (case ring_fill z limit es of (ring, n) \<Rightarrow>
     map (\<lambda>i. ring ! ring_index limit reverse n i) [0..<min n limit])"

text \<open>
  What the decoder yields: the texts of the JSON values of the file up to the first one that
  is no event.
\<close>

fun decode_while :: "('a \<Rightarrow> 'b option) \<Rightarrow> 'a list \<Rightarrow> 'b list" where
  "decode_while f [] = []"
| "decode_while f (x # xs) = (case f x of None \<Rightarrow> [] | Some y \<Rightarrow> y # decode_while f xs)"

definition zero_event :: event where
  "zero_event = \<lparr>ev_Time = [], ev_Kind = [], ev_Message = [], ev_PID = 0, ev_Comm = [], ev_App = [], ev_RSSkb = 0,
     ev_Cgroup = [], ev_AvailRatio = (0, 0), ev_PSIavg10 = (0, 0), ev_Path = [], ev_SizeBytes = 0\<rparr>"

definition readLastLocked :: "string \<Rightarrow> nat \<Rightarrow> bool \<Rightarrow> event list go" where
  "readLastLocked path limit reverse =
     andThen (attempt (do_strs (Sys ''json-values'' [path]))) (\<lambda>r. case r of
       Inl e \<Rightarrow> if e = NotExist then ret [] else throw e
     | Inr texts \<Rightarrow> andThen (gets (\<lambda>w. e_json (w_env w))) (\<lambda>parse.
         ret (ring_read zero_event limit reverse (decode_while (\<lambda>t. Option.bind (parse t) dec_event) texts))))"

definition Recent :: "string \<Rightarrow> int \<Rightarrow> event list go" where
  "Recent path limit = readLastLocked path (if limit \<le> 0 then defaultLimit else nat limit) True"

text \<open>Encoding a value writes one line; a failure leaves the temporary file behind nothing.\<close>

fun encode_all :: "string \<Rightarrow> event list \<Rightarrow> unit go" where
  "encode_all tmp [] = ret ()"
| "encode_all tmp (e # es) = andThen (attempt (do_unit (WriteJson tmp (event_json e)))) (\<lambda>r. case r of
     Inr _ \<Rightarrow> encode_all tmp es
   | Inl err \<Rightarrow> andThen (attempt (do_sys ''remove'' [tmp])) (\<lambda>_. throw err))"

definition rotateLocked :: "string \<Rightarrow> nat \<Rightarrow> unit go" where
  "rotateLocked path keep =
     andThen (readLastLocked path keep False) (\<lambda>events.
     let tmp = path @ ''.tmp'' in
     andThen (do_sys ''open-trunc'' [tmp, ''0644'']) (\<lambda>_.
     andThen (encode_all tmp events) (\<lambda>_.
     andThen (attempt (do_sys ''close'' [tmp])) (\<lambda>r. case r of
       Inl err \<Rightarrow> andThen (attempt (do_sys ''remove'' [tmp])) (\<lambda>_. throw err)
     | Inr _ \<Rightarrow> do_sys ''rename'' [tmp, path]))))"

definition Append :: "string \<Rightarrow> event \<Rightarrow> unit go" where
  "Append path e =
     andThen (gets w_env) (\<lambda>env.
     andThen Now (\<lambda>now.
     let e' = (if ev_Time e = [] then e\<lparr>ev_Time := e_rfc3339 env ''UTC'' now\<rparr> else e) in
     andThen (do_sys ''open-append'' [path, ''0644'']) (\<lambda>_.
     andThen (do_unit (WriteJson path (event_json e'))) (\<lambda>_.
     andThen (attempt (do_int (Sys ''size'' [path]))) (\<lambda>r.
       if maxLogFileBytes < (case r of Inl _ \<Rightarrow> 0 | Inr fileSize \<Rightarrow> fileSize) then rotateLocked path keepEvents else ret ())))))"

definition MigrateEventLog :: "string \<Rightarrow> string \<Rightarrow> unit go" where
  "MigrateEventLog oldPath newPath =
     andThen (attempt (do_sys ''stat'' [newPath])) (\<lambda>r.
       if r \<noteq> Inl NotExist then ret ()
       else andThen (attempt (do_sys ''stat'' [oldPath])) (\<lambda>r2. case r2 of
         Inl _ \<Rightarrow> ret ()
       | Inr _ \<Rightarrow> andThen (attempt (do_sys ''rename'' [oldPath, newPath])) (\<lambda>_. ret ())))"

section \<open>The ring keeps the newest events\<close>

lemma ring_fill_length: "length (fst (ring_fill z limit es)) = limit \<and> snd (ring_fill z limit es) = length es"
  by (induction es rule: rev_induct) (auto simp: ring_fill_def ring_put_def split: prod.splits)

lemma ring_fill_nth:
  assumes "0 < limit" "j < length es" "length es - limit \<le> j"
  shows "fst (ring_fill z limit es) ! (j mod limit) = es ! j"
  using assms
proof (induction es arbitrary: j rule: rev_induct)
  case (snoc e es)
  let ?s = "ring_fill z limit es"
  have step: "fst (ring_fill z limit (es @ [e])) = (fst ?s)[length es mod limit := e]"
    using ring_fill_length [of z limit es] by (cases ?s) (simp add: ring_fill_def ring_put_def)
  have len: "length (fst ?s) = limit" using ring_fill_length [of z limit es] by simp
  show ?case
  proof (cases "j = length es")
    case True
    then show ?thesis using snoc.prems(1) len by (simp add: step)
  next
    case False
    then have j: "j < length es" "length es < j + limit" using snoc.prems by auto
    have "j mod limit \<noteq> length es mod limit"
    proof
      assume "j mod limit = length es mod limit"
      then have "limit dvd length es - j" using j(1) mod_eq_dvd_iff_nat [of j "length es" limit] by simp
      then have "limit \<le> length es - j" using j(1) by (intro dvd_imp_le) simp_all
      with j show False by simp
    qed
    moreover have "fst ?s ! (j mod limit) = es ! j" using snoc.IH [OF snoc.prems(1) j(1)] j(2) by simp
    ultimately show ?thesis using j(1) by (simp add: step nth_append)
  qed
qed simp

lemma ring_index_reverse:
  assumes "0 < limit" "i < min n limit"
  shows "ring_index limit True n i = (n - 1 - i) mod limit"
proof -
  have "int n - 1 - int i = int (n - 1 - i)" using assms by auto
  then have "ring_index limit True n i = nat (int (n - 1 - i) mod int limit)"
    unfolding ring_index_def by (simp only: if_True mod_add_self2 mod_mod_trivial)
  then show ?thesis by (simp only: nat_int flip: of_nat_mod)
qed

lemma ring_index_forward:
  assumes "0 < limit" "i < min n limit"
  shows "ring_index limit False n i = (n - limit + i) mod limit"
proof (cases "n > limit")
  case True
  then have "(n - limit + i) mod limit = (n + i) mod limit"
    by (metis add.commute le_add_diff_inverse less_imp_le_nat mod_add_self2 add.left_commute)
  then show ?thesis using True by (simp add: ring_index_def mod_add_left_eq)
next
  case False
  then show ?thesis by (simp add: ring_index_def)
qed

lemma ring_read_last:
  assumes "0 < limit"
  shows "ring_read z limit reverse es =
     (let newest = drop (length es - limit) es in if reverse then rev newest else newest)"
proof -
  let ?n = "length es" and ?ring = "fst (ring_fill z limit es)"
  have "ring_read z limit reverse es = map (\<lambda>i. ?ring ! ring_index limit reverse ?n i) [0..<min ?n limit]"
    using ring_fill_length [of z limit es] by (cases "ring_fill z limit es") (simp add: ring_read_def)
  moreover have "?ring ! ring_index limit True ?n i = rev (drop (?n - limit) es) ! i" if "i < min ?n limit" for i
  proof -
    have "?ring ! ((?n - 1 - i) mod limit) = es ! (?n - 1 - i)" using that by (intro ring_fill_nth [OF assms]) auto
    moreover have "rev (drop (?n - limit) es) ! i = es ! (?n - 1 - i)" using that by (auto simp: rev_nth intro!: arg_cong [of _ _ "(!) es"])
    ultimately show ?thesis by (simp add: ring_index_reverse [OF assms that])
  qed
  moreover have "?ring ! ring_index limit False ?n i = drop (?n - limit) es ! i" if "i < min ?n limit" for i
  proof -
    have "?n - limit + i < ?n" using that by auto
    from ring_fill_nth [OF assms this, of z] show ?thesis using that by (simp add: ring_index_forward [OF assms that])
  qed
  ultimately show ?thesis
    by (intro nth_equalityI) (auto simp: Let_def)
qed

text \<open>
  C10. Reading the event log with a ring is the same as decoding the whole file and taking the
  newest events of the list, at most as many as the limit, in the order of the file or from
  the newest on; nothing but the file is read.
\<close>

theorem event_log_newest:
  assumes "e_strs (w_env w) (w_hist w) (Sys ''json-values'' [path]) = Inr texts" "0 < limit"
  shows "readLastLocked path limit reverse w =
     (let all = decode_while (\<lambda>t. Option.bind (e_json (w_env w) t) dec_event) texts;
          newest = drop (length all - limit) all
      in (Ok (if reverse then rev newest else newest), record_call (Sys ''json-values'' [path]) w))"
  using assms by (simp add: readLastLocked_def do_strs_def attempt_def ring_read_last Let_def)

definition log_env :: environment where
  "log_env = calm\<lparr>e_strs := (\<lambda>_ _. Inr [''1'', ''2'', ''3'', ''x'']),
     e_json := (\<lambda>t. if t = ''x'' then None else Some (JObj [(''kind'', JStr t)]))\<rparr>"

theorem event_log_newest_witness:
  "\<exists>w'. readLastLocked ''log'' 2 True (start_world log_env) =
     (Ok [zero_event\<lparr>ev_Kind := ''3''\<rparr>, zero_event\<lparr>ev_Kind := ''2''\<rparr>], w')"
proof -
  have "e_strs (w_env (start_world log_env)) (w_hist (start_world log_env)) (Sys ''json-values'' [''log'']) = Inr [''1'', ''2'', ''3'', ''x'']"
    by (simp add: log_env_def)
  from event_log_newest [OF this, of 2 True] show ?thesis
    by (simp add: log_env_def dec_event_def jkey_def zero_event_def Let_def)
qed

section \<open>Counters of the kernel\<close>

text \<open>
  \<^verbatim>\<open>bufio.Scanner\<close> over the lines of a text: a carriage return before the line break is dropped,
  and a line of 65536 bytes or more stops the scan with an error.
\<close>

definition text_lines :: "string \<Rightarrow> string list" where
  "text_lines s = (let ls = Split s CHR 0x0A in if last ls = [] then butlast ls else ls)"

definition short_line :: "string \<Rightarrow> bool" where
  "short_line l \<longleftrightarrow> length l < 65536"

definition scan :: "string \<Rightarrow> string list \<times> error option" where
  "scan s = (map (\<lambda>l. TrimSuffix l [CHR 0x0D]) (takeWhile short_line (text_lines s)),
     if list_all short_line (text_lines s) then None else Some (Error ''bufio.Scanner: token too long''))"

text \<open>\<^verbatim>\<open>n, _ := strconv.ParseUint(s, 10, 64)\<close>: zero for a syntax error, the largest number when out of range.\<close>

definition uint_of :: "string \<Rightarrow> 64 word" where
  "uint_of s = (if s = [] then 0 else (case digits_val 0 s of
     None \<Rightarrow> 0 | Some n \<Rightarrow> if n < 2 ^ 64 then of_nat n else - 1))"

record cpu =
  c_User :: "64 word"
  c_Nice :: "64 word"
  c_System :: "64 word"
  c_Idle :: "64 word"
  c_IOWait :: "64 word"
  c_IRQ :: "64 word"
  c_SoftIRQ :: "64 word"
  c_Steal :: "64 word"

definition cpu_Total :: "cpu \<Rightarrow> 64 word" where
  "cpu_Total c = c_User c + c_Nice c + c_System c + c_Idle c + c_IOWait c + c_IRQ c + c_SoftIRQ c + c_Steal c"

definition cpu_Busy :: "cpu \<Rightarrow> 64 word" where
  "cpu_Busy c = cpu_Total c - c_Idle c - c_IOWait c"

definition cpu_of :: "64 word list \<Rightarrow> cpu" where
  "cpu_of nums = (let ns = nums @ replicate (8 - length nums) 0 in
     \<lparr>c_User = ns ! 0, c_Nice = ns ! 1, c_System = ns ! 2, c_Idle = ns ! 3, c_IOWait = ns ! 4, c_IRQ = ns ! 5,
      c_SoftIRQ = ns ! 6, c_Steal = ns ! 7\<rparr>)"

fun first_cpu :: "string list \<Rightarrow> cpu option" where
  "first_cpu [] = None"
| "first_cpu (line # rest) =
     (if HasPrefix line ''cpu '' then Some (cpu_of (map uint_of (tl (Fields line)))) else first_cpu rest)"

definition readCPU :: "cpu go" where
  "readCPU = andThen (do_str (Sys ''readfile'' [''/proc/stat''])) (\<lambda>text.
     case first_cpu (fst (scan text)) of
       None \<Rightarrow> throw (Error (''cpu: '' @ [CHR 0x27] @ ''cpu '' @ [CHR 0x27] @ '' line missing''))
     | Some c \<Rightarrow> ret c)"

record memory =
  m_TotalKB :: "64 word"
  m_AvailableKB :: "64 word"
  m_FreeKB :: "64 word"
  m_BuffersKB :: "64 word"
  m_CachedKB :: "64 word"
  m_SwapTotalKB :: "64 word"
  m_SwapFreeKB :: "64 word"
  m_SwapInPages :: "64 word"
  m_SwapOutPages :: "64 word"

definition zero_memory :: memory where
  "zero_memory = \<lparr>m_TotalKB = 0, m_AvailableKB = 0, m_FreeKB = 0, m_BuffersKB = 0, m_CachedKB = 0, m_SwapTotalKB = 0,
     m_SwapFreeKB = 0, m_SwapInPages = 0, m_SwapOutPages = 0\<rparr>"

definition memory_line :: "memory \<Rightarrow> string \<Rightarrow> memory" where
  "memory_line m line = (case CutAt '':'' line of
     None \<Rightarrow> m
   | Some (key, rest) \<Rightarrow> (let v = uint_of (TrimSpace (TrimSuffix (TrimSpace rest) '' kB'')) in
       if key = ''MemTotal'' then m\<lparr>m_TotalKB := v\<rparr>
       else if key = ''MemAvailable'' then m\<lparr>m_AvailableKB := v\<rparr>
       else if key = ''MemFree'' then m\<lparr>m_FreeKB := v\<rparr>
       else if key = ''Buffers'' then m\<lparr>m_BuffersKB := v\<rparr>
       else if key = ''Cached'' then m\<lparr>m_CachedKB := v\<rparr>
       else if key = ''SwapTotal'' then m\<lparr>m_SwapTotalKB := v\<rparr>
       else if key = ''SwapFree'' then m\<lparr>m_SwapFreeKB := v\<rparr>
       else m))"

definition readMemory :: "memory go" where
  "readMemory = andThen (do_str (Sys ''readfile'' [''/proc/meminfo''])) (\<lambda>text.
     case scan text of (lines, err) \<Rightarrow>
       (case err of Some e \<Rightarrow> throw e | None \<Rightarrow> ret (foldl memory_line zero_memory lines)))"

definition swap_line :: "64 word \<times> 64 word \<Rightarrow> string \<Rightarrow> 64 word \<times> 64 word" where
  "swap_line s line = (case Fields line of
     [key, v] \<Rightarrow> (if key = ''pswpin'' then (uint_of v, snd s) else if key = ''pswpout'' then (fst s, uint_of v) else s)
   | _ \<Rightarrow> s)"

definition readSwapCounters :: "(64 word \<times> 64 word) go" where
  "readSwapCounters = andThen (attempt (do_str (Sys ''readfile'' [''/proc/vmstat'']))) (\<lambda>r. case r of
     Inl _ \<Rightarrow> ret (0, 0) | Inr text \<Rightarrow> ret (foldl swap_line (0, 0) (fst (scan text))))"

record disk_counters =
  dc_Name :: string
  dc_ReadsTotal :: "64 word"
  dc_WritesTotal :: "64 word"
  dc_SectorsRead :: "64 word"
  dc_SectorsWrt :: "64 word"

definition isPartition :: "string \<Rightarrow> bool" where
  "isPartition name =
     (if HasPrefix name ''loop'' \<or> HasPrefix name ''ram'' \<or> HasPrefix name ''dm-'' then True
      else if name = [] then True
      else if \<not> is_digit (last name) then False
      else if HasPrefix name ''mmcblk'' \<or> HasPrefix name ''nvme'' then Contains name ''p''
      else True)"

definition disk_line :: "string \<Rightarrow> disk_counters list" where
  "disk_line line = (let fields = Fields line in
     if length fields < 14 \<or> isPartition (fields ! 2) then []
     else [\<lparr>dc_Name = fields ! 2, dc_ReadsTotal = uint_of (fields ! 3), dc_WritesTotal = uint_of (fields ! 7),
            dc_SectorsRead = uint_of (fields ! 5), dc_SectorsWrt = uint_of (fields ! 9)\<rparr>])"

text \<open>The reader of a file whose errors the caller drops: what was read before an error is kept.\<close>

definition readDisks :: "disk_counters list go" where
  "readDisks = andThen (attempt (do_str (Sys ''readfile'' [''/proc/diskstats'']))) (\<lambda>r. case r of
     Inl _ \<Rightarrow> ret [] | Inr text \<Rightarrow> ret (concat (map disk_line (fst (scan text)))))"

record net_counters =
  nc_Name :: string
  nc_RxBytes :: "64 word"
  nc_TxBytes :: "64 word"

definition net_line :: "string \<Rightarrow> net_counters list" where
  "net_line line = (case CutAt '':'' line of
     None \<Rightarrow> []
   | Some (before, rest) \<Rightarrow> (let name = TrimSpace before; fields = Fields rest in
       if name = ''lo'' \<or> length fields < 9 then []
       else [\<lparr>nc_Name = name, nc_RxBytes = uint_of (fields ! 0), nc_TxBytes = uint_of (fields ! 8)\<rparr>]))"

definition readNet :: "net_counters list go" where
  "readNet = andThen (attempt (do_str (Sys ''readfile'' [''/proc/net/dev'']))) (\<lambda>r. case r of
     Inl _ \<Rightarrow> ret [] | Inr text \<Rightarrow> ret (concat (map net_line (fst (scan text)))))"

record mount_usage =
  mu_Path :: string
  mu_TotalKB :: "64 word"
  mu_UsedKB :: "64 word"

definition statfs :: "string \<Rightarrow> (64 word \<times> 64 word \<times> 64 word) go" where
  "statfs path =
     andThen (do_u64 (Sys ''statfs-bsize'' [path])) (\<lambda>bsize.
     andThen (do_u64 (Sys ''statfs-blocks'' [path])) (\<lambda>blocks.
     andThen (do_u64 (Sys ''statfs-bavail'' [path])) (\<lambda>bavail. ret (bsize, blocks, bavail))))"

fun mounts_of :: "string list \<Rightarrow> string list \<Rightarrow> mount_usage list go" where
  "mounts_of [] seen = ret []"
| "mounts_of (line # rest) seen = (case Fields line of
     dev # mount # fs # _ \<Rightarrow>
       if \<not> HasPrefix dev ''/dev/'' \<or> fs \<in> {''squashfs'', ''tmpfs'', ''devtmpfs''} \<or> mount \<in> set seen then mounts_of rest seen
       else andThen (attempt (statfs mount)) (\<lambda>r. case r of
         Inl _ \<Rightarrow> mounts_of rest (mount # seen)
       | Inr (bsize, blocks, bavail) \<Rightarrow>
           (let total = blocks * bsize div 1024; free = bavail * bsize div 1024 in
            andThen (mounts_of rest (mount # seen)) (\<lambda>ms.
              ret (\<lparr>mu_Path = mount, mu_TotalKB = total, mu_UsedKB = total - free\<rparr> # ms))))
   | _ \<Rightarrow> mounts_of rest seen)"

definition Mounts :: "mount_usage list go" where
  "Mounts = andThen (attempt (do_str (Sys ''readfile'' [''/proc/mounts'']))) (\<lambda>r. case r of
     Inl _ \<Rightarrow> ret [] | Inr text \<Rightarrow> mounts_of (fst (scan text)) [])"

record health_snapshot =
  h_CPU :: cpu
  h_Memory :: memory
  h_Disks :: "disk_counters list"
  h_Mounts :: "mount_usage list"
  h_Net :: "net_counters list"

definition health_Snapshot :: "health_snapshot go" where
  "health_Snapshot =
     andThen readCPU (\<lambda>c.
     andThen readMemory (\<lambda>mem.
     andThen readSwapCounters (\<lambda>(swapIn, swapOut).
     andThen readDisks (\<lambda>disks.
     andThen readNet (\<lambda>net.
     andThen Mounts (\<lambda>mounts.
       ret \<lparr>h_CPU = c, h_Memory = mem\<lparr>m_SwapInPages := swapIn, m_SwapOutPages := swapOut\<rparr>, h_Disks = disks,
         h_Mounts = mounts, h_Net = net\<rparr>))))))"

definition events_path :: "sysconf \<Rightarrow> string" where
  "events_path c = path_join [DataDir c, ''stability-events.jsonl'']"

definition Health_Events :: "sysconf \<Rightarrow> int \<Rightarrow> event list go" where
  "Health_Events c limit = Recent (events_path c) limit"

definition Health_Metrics :: "health_snapshot go" where
  "Health_Metrics = health_Snapshot"

text \<open>Each mount point is reported once, in the order of the table.\<close>

lemma mounts_of_distinct:
  "mounts_of ls seen w = (Ok ms, w') \<Longrightarrow> distinct (map mu_Path ms) \<and> set (map mu_Path ms) \<inter> set seen = {}"
proof (induction ls arbitrary: seen w ms w')
  case (Cons line rest)
  show ?case
  proof (cases "Fields line")
    case fields: (Cons dev r)
    show ?thesis
    proof (cases r)
      case r: (Cons mount r2)
      show ?thesis
      proof (cases r2)
        case r2: (Cons fs r3)
        show ?thesis
        proof (cases "\<not> HasPrefix dev ''/dev/'' \<or> fs \<in> {''squashfs'', ''tmpfs'', ''devtmpfs''} \<or> mount \<in> set seen")
          case True
          then show ?thesis using Cons.IH Cons.prems fields r r2 by simp
        next
          case False
          obtain q w1 where st: "attempt (statfs mount) w = (q, w1)" by fastforce
          show ?thesis
          proof (cases q)
            case (Ok x)
            show ?thesis
            proof (cases x)
              case (Inl e)
              then have "mounts_of rest (mount # seen) w1 = (Ok ms, w')" using Cons.prems fields r r2 False st Ok by simp
              then show ?thesis using Cons.IH by fastforce
            next
              case (Inr t)
              obtain m ms1 where ms: "ms = m # ms1" "mu_Path m = mount" "mounts_of rest (mount # seen) w1 = (Ok ms1, w')"
                using Cons.prems fields r r2 False st Ok Inr
                by (cases t; cases "mounts_of rest (mount # seen) w1"; cases "fst (mounts_of rest (mount # seen) w1)") (auto simp: Let_def andThen_def)
              then show ?thesis using Cons.IH [OF ms(3)] False by auto
            qed
          qed (use Cons.prems fields r r2 False st in auto)
        qed
      qed (use Cons.IH Cons.prems fields r in simp)
    qed (use Cons.IH Cons.prems fields in simp)
  qed (use Cons.IH Cons.prems in simp)
qed simp

end
