(* ===== verification/Support.thy ===== *)
theory Support
  imports Redirect_Service
begin

text \<open>
  The report that a user can send to the support (\<^verbatim>\<open>backend/support\<close>): the ends of the log files
  and the output of a fixed list of commands, most of them kept even when they fail.
\<close>

definition newline :: string where "newline = [CHR 0x0A]"

definition Separator :: string where "Separator = newline @ ''----------------------'' @ newline"

definition log_pattern :: string where "log_pattern = ''/var/snap/*/common/log/*.log''"

text \<open>\<^verbatim>\<open>Cmd.String\<close> shows the path that the command was found at.\<close>

definition command_string :: "string \<Rightarrow> string list \<Rightarrow> string go" where
  "command_string app args = andThen (attempt (do_str (Sys ''LookPath'' [app]))) (\<lambda>r.
     ret (Join ((case r of Inl _ \<Rightarrow> app | Inr p \<Rightarrow> p) # args) '' ''))"

definition output_of :: "string \<Rightarrow> string list \<Rightarrow> string go" where
  "output_of app args = andThen (CombinedOutput app args) (\<lambda>(out, err). ret out)"

definition log_cmd :: "string \<Rightarrow> string list \<Rightarrow> string go" where
  "log_cmd app args = andThen (command_string app args) (\<lambda>s.
     andThen (output_of app args) (\<lambda>output. ret (s @ newline @ newline @ output @ Separator)))"

definition drop_trailing :: "char \<Rightarrow> string \<Rightarrow> string" where
  "drop_trailing c s = rev (dropWhile (\<lambda>x. x = c) (rev s))"

definition tail :: "string \<Rightarrow> nat \<Rightarrow> string" where
  "tail s n = (let lines = Split (drop_trailing CHR 0x0A s) CHR 0x0A in
     Join (drop (length lines - n) lines) newline)"

text \<open>\<^verbatim>\<open>dhclient\[|]: (XMT|RCV|PRC):\<close>\<close>

definition noise :: "string \<Rightarrow> bool" where
  "noise line \<longleftrightarrow> Contains line ''dhclient['' \<or> Contains line '']: XMT:'' \<or> Contains line '']: RCV:'' \<or> Contains line '']: PRC:''"

definition splitNoise :: "string \<Rightarrow> string \<times> string" where
  "splitNoise input = (let lines = Split input CHR 0x0A in
     (Join (filter (\<lambda>l. \<not> noise l) lines) newline, Join (filter noise lines) newline))"

definition journal :: "string go" where
  "journal = (let args = [''-n'', ''5000'', ''--no-pager''] in
     andThen (command_string ''journalctl'' args) (\<lambda>s.
     andThen (output_of ''journalctl'' args) (\<lambda>out.
       case splitNoise out of (signal, noisy) \<Rightarrow>
         ret (s @ newline @ newline @ tail signal 1000 @ Separator @ ''journal noise tail (filtered out above)'' @ newline @ newline
           @ tail noisy 100 @ Separator))))"

definition previousBootTail :: "string go" where
  "previousBootTail = (let args = [''-b'', ''-1'', ''-n'', ''100'', ''--no-pager''] in
     andThen (command_string ''journalctl'' args) (\<lambda>s.
     andThen (output_of ''journalctl'' args) (\<lambda>out.
       ret (s @ '' (tail before last reboot)'' @ newline @ newline @ out @ Separator))))"

text \<open>The ids of up to five changes that are not done, and of the first five changes.\<close>

fun pick_changes :: "string list list \<Rightarrow> string list \<times> string list \<Rightarrow> string list \<times> string list" where
  "pick_changes [] acc = acc"
| "pick_changes ((cid # status # _) # rows) (pending, recent) =
     pick_changes rows (if status \<noteq> ''Done'' \<and> length pending < 5 then pending @ [cid] else pending,
       if length recent < 5 then recent @ [cid] else recent)"
| "pick_changes (_ # rows) acc = pick_changes rows acc"

fun change_details :: "string list \<Rightarrow> string list \<Rightarrow> string go" where
  "change_details [] seen = ret []"
| "change_details (cid # ids) seen =
     (if cid \<in> set seen then change_details ids seen
      else andThen (output_of ''snap'' [''change'', cid]) (\<lambda>out.
        andThen (change_details ids (cid # seen)) (\<lambda>rest.
          ret (''=== snap change '' @ cid @ '' ==='' @ newline @ tail out 100 @ newline @ rest))))"

definition snapChangesDetail :: "string go" where
  "snapChangesDetail = (let result = ''snap changes detail'' @ newline @ newline in
     andThen (CombinedOutput ''snap'' [''changes'']) (\<lambda>(out, err). case err of
       Some _ \<Rightarrow> ret (result @ out @ Separator)
     | None \<Rightarrow> (case pick_changes (map Fields (tl (Split (TrimSpace out) CHR 0x0A))) ([], []) of (pending, recent) \<Rightarrow>
         andThen (change_details (pending @ recent) []) (\<lambda>details. ret (result @ details @ Separator)))))"

text \<open>\<^verbatim>\<open>(?i)I/O error|EXT4-fs error|usb-storage|disconnect\<close>\<close>

definition disk_trouble :: "string \<Rightarrow> bool" where
  "disk_trouble line \<longleftrightarrow> (let l = ToLower line in
     Contains l ''i/o error'' \<or> Contains l ''ext4-fs error'' \<or> Contains l ''usb-storage'' \<or> Contains l ''disconnect'')"

definition dmesgErrors :: "string go" where
  "dmesgErrors = andThen (output_of ''dmesg'' [''-T'']) (\<lambda>out.
     let matches = filter disk_trouble (Split out CHR 0x0A) in
     ret (''dmesg errors'' @ newline @ newline @ Join (drop (length matches - 50) matches) newline @ newline @ Separator))"

text \<open>A log file that cannot be read drops all of them.\<close>

fun file_ends :: "string list \<Rightarrow> string \<Rightarrow> string go" where
  "file_ends [] log = ret log"
| "file_ends (file # files) log =
     andThen (CombinedOutput ''tail'' [''-100'', file]) (\<lambda>(output, err). case err of
       Some _ \<Rightarrow> ret []
     | None \<Rightarrow> file_ends files (log @ ''file: '' @ file @ newline @ newline @ output @ Separator))"

definition fileLogs :: "string go" where
  "fileLogs = andThen (attempt (do_strs (Sys ''glob'' [log_pattern]))) (\<lambda>r. case r of
     Inl _ \<Rightarrow> ret [] | Inr matches \<Rightarrow> file_ends matches [])"

fun concat_logs :: "string go list \<Rightarrow> string go" where
  "concat_logs [] = ret []"
| "concat_logs (m # ms) = andThen m (\<lambda>s. andThen (concat_logs ms) (\<lambda>rest. ret (s @ rest)))"

definition log_parts :: "string go list" where
  "log_parts =
     [fileLogs, log_cmd ''date'' [], log_cmd ''mount'' [],
      log_cmd ''systemctl'' [''status'', ''--state=failed'', ''snap.*''],
      log_cmd ''top'' [''-n'', ''1'', ''-bc''], log_cmd ''ping'' [''google.com'', ''-c'', ''5''], log_cmd ''uname'' [''-a''],
      log_cmd ''cat'' [''/etc/debian_version''], log_cmd ''free'' [''-h''], log_cmd ''df'' [''-h''],
      log_cmd ''lsblk'' [''-o'', ''+UUID''],
      log_cmd ''lsblk'' [''-Pp'', ''-o'', ''NAME,SIZE,TYPE,MOUNTPOINT,PARTTYPE,FSTYPE,MODEL''],
      log_cmd ''ls'' [''-la'', ''/data''], log_cmd ''uptime'' [], log_cmd ''snap'' [''version''], log_cmd ''snap'' [''list''],
      log_cmd ''snap'' [''list'', ''--all''], log_cmd ''snap'' [''changes''], snapChangesDetail, log_cmd ''snap'' [''services''],
      log_cmd ''snap'' [''run'', ''platform.cli'', ''ipv4'', ''public''], journal, previousBootTail,
      log_cmd ''dmesg'' [''-T''], dmesgErrors, log_cmd ''cat'' [''/proc/diskstats'']]"

definition GetLogs :: "string go" where
  "GetLogs = concat_logs log_parts"

definition Support_Send :: "bool \<Rightarrow> unit go" where
  "Support_Send includeSupport = andThen GetLogs (\<lambda>logs. SendLogs logs includeSupport)"

section \<open>Properties\<close>

text \<open>Collecting a report never fails, whatever the commands do; only sending it can.\<close>

definition total :: "'a go \<Rightarrow> bool" where
  "total m \<longleftrightarrow> (\<forall>w. \<exists>a w'. m w = (Ok a, w') \<and> only_calls w w')"

lemma total_ret: "total (ret a)"
  by (auto simp: total_def within_def intro!: exI [of _ "[]"])

lemma total_andThen: "total m \<Longrightarrow> (\<And>a. total (k a)) \<Longrightarrow> total (andThen m k)"
  unfolding total_def
proof (intro allI)
  fix w
  assume m: "\<forall>w. \<exists>a w'. m w = (Ok a, w') \<and> only_calls w w'" and k: "\<And>a. \<forall>w. \<exists>b w'. k a w = (Ok b, w') \<and> only_calls w w'"
  obtain a w1 where 1: "m w = (Ok a, w1)" "only_calls w w1" using m by blast
  obtain b w2 where 2: "k a w1 = (Ok b, w2)" "only_calls w1 w2" using k by blast
  have "only_calls w w2" using transp_within 1(2) 2(2) by (rule transpD)
  then show "\<exists>b w'. andThen m k w = (Ok b, w') \<and> only_calls w w'" using 1(1) 2(1) by simp
qed

lemma total_CombinedOutput: "total (CombinedOutput cmd as)"
  by (auto simp: total_def CombinedOutput_def)

lemma total_attempt: "total (attempt (do_str c))" "total (attempt (do_strs c))"
  by (auto simp: total_def attempt_def do_str_def do_strs_def of_sum_def split: sum.splits)

lemma total_output_of: "total (output_of app args)"
  unfolding output_of_def by (auto intro!: total_andThen total_CombinedOutput total_ret simp del: ret_apply split: prod.splits)

lemma total_command_string: "total (command_string app args)"
  unfolding command_string_def by (intro total_andThen total_attempt total_ret)

lemma total_log_cmd: "total (log_cmd app args)"
  unfolding log_cmd_def by (intro total_andThen total_command_string total_output_of total_ret)

lemma total_change_details: "total (change_details ids seen)"
proof (induction ids arbitrary: seen)
  case (Cons i ids)
  then show ?case
    by (cases "i \<in> set seen") (auto simp del: ret_apply intro!: total_andThen total_output_of total_ret)
qed (simp only: change_details.simps total_ret)

lemma total_file_ends: "total (file_ends files log)"
proof (induction files arbitrary: log)
  case (Cons f files)
  then show ?case
    unfolding file_ends.simps
    by (intro total_andThen total_CombinedOutput) (auto simp del: ret_apply intro!: total_ret split: option.splits)
qed (simp only: file_ends.simps total_ret)

lemma total_concat_logs: "list_all total ms \<Longrightarrow> total (concat_logs ms)"
proof (induction ms)
  case (Cons m ms)
  then show ?case unfolding concat_logs.simps by (intro total_andThen total_ret) auto
qed (simp only: concat_logs.simps total_ret)

lemma total_GetLogs: "total GetLogs"
proof -
  have detail: "total snapChangesDetail"
    unfolding snapChangesDetail_def Let_def
    by (intro total_andThen total_CombinedOutput)
      (auto simp del: ret_apply intro!: total_ret total_andThen total_change_details split: option.splits prod.splits)
  have files: "total fileLogs"
    unfolding fileLogs_def
    by (intro total_andThen total_attempt) (auto simp del: ret_apply intro!: total_ret total_file_ends split: sum.splits)
  have "total journal" "total previousBootTail" "total dmesgErrors"
    unfolding journal_def previousBootTail_def dmesgErrors_def Let_def splitNoise_def prod.case
    by (intro total_andThen total_command_string total_output_of total_ret)+
  then show ?thesis
    unfolding GetLogs_def log_parts_def by (intro total_concat_logs) (simp add: detail files total_log_cmd)
qed

text \<open>At most ten changes are shown in detail, each once.\<close>

lemma pick_changes_bounds:
  "length p \<le> 5 \<Longrightarrow> length r \<le> 5 \<Longrightarrow> pick_changes rows (p, r) = (p', r') \<Longrightarrow> length p' \<le> 5 \<and> length r' \<le> 5"
  by (induction rows "(p, r)" arbitrary: p r rule: pick_changes.induct) (auto split: if_splits)

end
