(* ===== verification/Snapd.thy ===== *)
theory Snapd
  imports Snap "HOL-Library.Multiset"
begin

text \<open>
  The upgrade of snapd itself (\<^verbatim>\<open>backend/snap/snapd.go\<close>): download of the release archive,
  removal of old archives, the upgrade script, and the wait until snapd answers with the new
  version. \<^verbatim>\<open>runtime.GOARCH\<close> is a parameter.
\<close>

section \<open>The upgrade\<close>

definition SnapdAppsUrl :: string where
  "SnapdAppsUrl = ''http://apps.syncloud.org/apps''"

definition SnapdWorkDir :: string where
  "SnapdWorkDir = ''/tmp''"

definition SnapdUpgradeScript :: string where
  "SnapdUpgradeScript = ''snapd/upgrade.sh''"

definition SnapdKeepArchives :: nat where
  "SnapdKeepArchives = 2"

definition SnapdVerifyAttempts :: nat where
  "SnapdVerifyAttempts = 10"

definition snapdArchByGoArch :: "string \<rightharpoonup> string" where
  "snapdArchByGoArch = [''amd64'' \<mapsto> ''amd64'', ''arm64'' \<mapsto> ''arm64'', ''arm'' \<mapsto> ''armhf'']"

definition snapd_arch :: "string \<Rightarrow> string go" where
  "snapd_arch goarch = (case snapdArchByGoArch goarch of
     None \<Rightarrow> throw (Error (''unsupported architecture: '' @ goarch)) | Some a \<Rightarrow> ret a)"

definition download :: "string \<Rightarrow> string \<Rightarrow> unit go" where
  "download url dst = andThen (do_http (HttpGet url)) (\<lambda>resp.
     if StatusCode resp \<noteq> 200
     then throw (Error (''download failed '' @ url @ '': '' @ resp_Status resp))
     else andThen (do_sys ''create'' [dst]) (\<lambda>_.
            andThen (read_body resp) (\<lambda>b. do_sys ''write'' [dst, body_text b])))"

definition snapd_extract :: "string \<Rightarrow> string \<Rightarrow> unit go" where
  "snapd_extract archive dst = andThen (CombinedOutput ''tar'' [''-xzf'', archive, ''-C'', dst]) (\<lambda>(out, err).
     case err of
       Some e \<Rightarrow> throw (Error (''extract '' @ archive @ '' failed: '' @ out @ '': '' @ err_text e))
     | None \<Rightarrow> ret ())"

text \<open>
  Archives that cannot be examined are skipped; newest first (equally old ones stay in the
  order of the listing); a failing removal is only logged.
\<close>

fun archive_entries :: "string list \<Rightarrow> (string \<times> int) list go" where
  "archive_entries [] = ret []"
| "archive_entries (m # ms) = andThen (attempt (do_int (Sys ''stat'' [m]))) (\<lambda>info.
     andThen (archive_entries ms) (\<lambda>es.
       ret (case info of Inl _ \<Rightarrow> es | Inr mtime \<Rightarrow> (m, mtime) # es)))"

definition newest_first :: "(string \<times> int) list \<Rightarrow> (string \<times> int) list" where
  "newest_first es = sort_key (\<lambda>e. - snd e) es"

definition prune :: "string \<Rightarrow> nat \<Rightarrow> unit go" where
  "prune dir keep = andThen (attempt (do_strs (Sys ''glob'' [path_join [dir, ''snapd-*.tar.gz'']]))) (\<lambda>r.
     case r of
       Inl _ \<Rightarrow> ret ()
     | Inr matches \<Rightarrow> andThen (archive_entries matches) (\<lambda>es.
         forEach (drop keep (newest_first es)) (\<lambda>e.
           andThen (attempt (do_sys ''remove'' [fst e])) (\<lambda>_. ret ()))))"

text \<open>The loop of \<open>verify\<close> with the attempts that are left; every attempt but the first waits.\<close>

primrec verify_loop :: "nat \<Rightarrow> bool \<Rightarrow> string \<Rightarrow> string \<Rightarrow> unit go" where
  "verify_loop 0 first expected lst = throw (Error (''snapd upgrade verification failed: '' @ lst))"
| "verify_loop (Suc n) first expected lst =
     andThen (if first then ret () else do_void (Sys ''sleep'' [''3s''])) (\<lambda>_.
     andThen (attempt InstalledVersion) (\<lambda>r.
       case r of
         Inl e \<Rightarrow> verify_loop n False expected (err_text e)
       | Inr installed \<Rightarrow>
           if TrimSpace installed = expected then ret ()
           else verify_loop n False expected
                  (''installed '' @ TrimSpace installed @ '', expected '' @ expected)))"

definition verify :: "string \<Rightarrow> unit go" where
  "verify expected = verify_loop SnapdVerifyAttempts True expected []"

text \<open>The script runs in the work directory, which is recorded before a colon.\<close>

definition upgrade_script_cmd :: string where
  "upgrade_script_cmd = SnapdWorkDir @ '':./'' @ SnapdUpgradeScript"

definition Snapd_Upgrade :: "string \<Rightarrow> string \<Rightarrow> unit go" where
  "Snapd_Upgrade goarch v =
     (let version = TrimSpace v in
      andThen (snapd_arch goarch) (\<lambda>arch.
        let name = ''snapd-'' @ version @ ''-'' @ arch @ ''.tar.gz'';
            url = SnapdAppsUrl @ ''/'' @ name;
            archive = path_join [SnapdWorkDir, name]
        in andThen (download url archive) (\<lambda>_.
           andThen (prune SnapdWorkDir SnapdKeepArchives) (\<lambda>_.
           andThen (do_sys ''removeall'' [path_join [SnapdWorkDir, ''snapd'']]) (\<lambda>_.
           andThen (snapd_extract archive SnapdWorkDir) (\<lambda>_.
           andThen (run_cmd upgrade_script_cmd []) (\<lambda>_.
             verify version)))))))"

section \<open>Shared lemmas\<close>

abbreviation is_version_query :: "call \<Rightarrow> bool" where
  "is_version_query c \<equiv> c = SnapdGet (unix_url ''system-info'')"

abbreviation is_upgrade_script :: "call \<Rightarrow> bool" where
  "is_upgrade_script c \<equiv> c = Exec upgrade_script_cmd []"

abbreviation quiet_call :: "call \<Rightarrow> bool" where
  "quiet_call c \<equiv> \<not> is_version_query c \<and> \<not> is_upgrade_script c"

lemma script_is_not_tar: "upgrade_script_cmd \<noteq> ''tar''"
  by (simp add: upgrade_script_cmd_def SnapdWorkDir_def)

lemma keeps_archive_entries [keeps_intros]:
  "(\<And>m. P (Sys ''stat'' [m])) \<Longrightarrow> keeps (within P) (archive_entries ms)"
  by (induction ms) (auto intro!: keeps_intros)

lemma keeps_quiet:
  "keeps (within quiet_call) (download url dst)"
  "keeps (within quiet_call) (prune dir keep)"
  "keeps (within quiet_call) (snapd_extract archive dst)"
  "keeps (within quiet_call) (snapd_arch goarch)"
  using script_is_not_tar
  by (auto simp: download_def prune_def snapd_extract_def snapd_arch_def
      split: sum.splits option.splits prod.splits intro!: keeps_intros)

text \<open>
  What a computation that appends calls does to the number of calls of a kind.
\<close>

definition new_calls :: "world \<Rightarrow> world \<Rightarrow> call list" where
  "new_calls w w' = drop (length (w_hist w)) (w_hist w')"

lemma new_calls_append [simp]: "new_calls w (w\<lparr>w_hist := w_hist w @ cs\<rparr>) = cs"
  by (simp add: new_calls_def)

lemma InstalledVersion_calls:
  assumes "InstalledVersion w = (r, w')"
  shows "w' = record_call (SnapdGet (unix_url ''system-info'')) w"
  using assms
  by (auto simp: InstalledVersion_def Snapd_Get_def do_http_def of_sum_def andThen_def read_body_def
      json_body_def split: res.splits sum.splits if_splits option.splits prod.splits)

text \<open>Each attempt of the loop makes one query, and success is the wanted answer to the last one.\<close>

text \<open>
  The outcome of at most \<open>n\<close> checks: only calls, none of them the script, at most \<open>n\<close> questions for
  the version, and success only with the expected answer to the last one.
\<close>

definition checked :: "nat \<Rightarrow> string \<Rightarrow> world \<Rightarrow> unit res \<Rightarrow> world \<Rightarrow> bool" where
  "checked n expected w r w' \<longleftrightarrow> (\<exists>cs. w' = w\<lparr>w_hist := w_hist w @ cs\<rparr> \<and> list_all (\<lambda>c. \<not> is_upgrade_script c) cs
     \<and> length (filter is_version_query cs) \<le> n
     \<and> (is_Ok r \<longrightarrow> (\<exists>w0 v. grows w w0 \<and> InstalledVersion w0 = (Ok v, w') \<and> TrimSpace v = expected))
     \<and> (\<forall>p. r \<noteq> Crash p))"

lemma checked_more:
  assumes "checked n expected w2 r w'" "w2 = w\<lparr>w_hist := w_hist w @ pre @ [SnapdGet (unix_url ''system-info'')]\<rparr>"
    and "list_all (\<lambda>c. \<not> is_upgrade_script c) pre" "filter is_version_query pre = []"
  shows "checked (Suc n) expected w r w'"
proof -
  obtain cs where cs: "w' = w2\<lparr>w_hist := w_hist w2 @ cs\<rparr>" "list_all (\<lambda>c. \<not> is_upgrade_script c) cs"
    "length (filter is_version_query cs) \<le> n"
    "is_Ok r \<longrightarrow> (\<exists>w0 v. grows w2 w0 \<and> InstalledVersion w0 = (Ok v, w') \<and> TrimSpace v = expected)"
    "\<forall>p. r \<noteq> Crash p"
    using assms(1) unfolding checked_def by blast
  have "grows w w2" by (auto simp: assms(2) grows_def)
  then have "is_Ok r \<longrightarrow> (\<exists>w0 v. grows w w0 \<and> InstalledVersion w0 = (Ok v, w') \<and> TrimSpace v = expected)"
    using cs(4) transpD [OF transp_grows] by blast
  then show ?thesis
    unfolding checked_def using cs assms(2-4) by (intro exI [of _ "pre @ [SnapdGet (unix_url ''system-info'')] @ cs"]) auto
qed

lemma verify_loop_spec:
  assumes "verify_loop n first expected lst w = (r, w')"
  shows "checked n expected w r w'"
  using assms
proof (induction n arbitrary: first lst w)
  case 0
  then show ?case by (auto simp: checked_def intro!: exI [of _ "[]"])
next
  case (Suc n)
  define pre where "pre = (if first then [] else [Sys ''sleep'' [''3s'']])"
  define w1 where "w1 = w\<lparr>w_hist := w_hist w @ pre\<rparr>"
  have w1: "(if first then ret () else do_void (Sys ''sleep'' [''3s''])) w = (Ok (), w1)"
    by (simp add: w1_def pre_def do_void_def record_call_def)
  have g1: "grows w w1" by (auto simp: w1_def grows_def)
  obtain r2 w2 where iv: "InstalledVersion w1 = (r2, w2)" by (cases "InstalledVersion w1")
  have w2: "w2 = w\<lparr>w_hist := w_hist w @ pre @ [SnapdGet (unix_url ''system-info'')]\<rparr>"
    using InstalledVersion_calls [OF iv] by (simp add: w1_def record_call_def)
  have pre: "list_all (\<lambda>c. \<not> is_upgrade_script c) pre" "filter is_version_query pre = []"
    by (auto simp: pre_def)
  note more = checked_more [OF Suc.IH w2 pre]
  show ?case
  proof (cases "\<exists>v. r2 = Ok v \<and> TrimSpace v = expected")
    case True
    then have "r = Ok ()" "w' = w2" using Suc.prems w1 iv by auto
    then show ?thesis unfolding checked_def using pre w2 iv g1 True
      by (intro exI [of _ "pre @ [SnapdGet (unix_url ''system-info'')]"]) auto
  next
    case False
    moreover have "r2 \<noteq> Crash p" for p using iv safeD [OF safe_InstalledVersion] by metis
    ultimately show ?thesis using more Suc.prems w1 iv by (cases r2) auto
  qed
qed

text \<open>The upgrade up to the script.\<close>

definition upgrade_prep :: "string \<Rightarrow> string \<Rightarrow> unit go" where
  "upgrade_prep goarch version = andThen (snapd_arch goarch) (\<lambda>arch.
     let name = ''snapd-'' @ version @ ''-'' @ arch @ ''.tar.gz'';
         archive = path_join [SnapdWorkDir, name]
     in andThen (download (SnapdAppsUrl @ ''/'' @ name) archive) (\<lambda>_.
        andThen (prune SnapdWorkDir SnapdKeepArchives) (\<lambda>_.
        andThen (do_sys ''removeall'' [path_join [SnapdWorkDir, ''snapd'']]) (\<lambda>_.
          snapd_extract archive SnapdWorkDir))))"

lemma Snapd_Upgrade_split:
  "Snapd_Upgrade goarch v = andThen (upgrade_prep goarch (TrimSpace v))
     (\<lambda>_. andThen (run_cmd upgrade_script_cmd []) (\<lambda>_. verify (TrimSpace v)))"
  by (simp add: Snapd_Upgrade_def upgrade_prep_def andThen_assoc Let_def)

lemma keeps_upgrade_prep: "keeps (within quiet_call) (upgrade_prep goarch version)"
  unfolding upgrade_prep_def Let_def by (intro keeps_intros keeps_quiet) auto

lemma safe_archive_entries [safe_intros]: "safe (archive_entries ms)"
  by (induction ms) (auto simp del: ret_apply intro!: safe_intros)

lemma safe_upgrade_prep [safe_intros]: "safe (upgrade_prep goarch version)"
  by (auto simp: upgrade_prep_def Let_def download_def prune_def snapd_extract_def snapd_arch_def
      split: sum.splits option.splits prod.splits intro!: safe_intros)

lemma run_script_calls:
  assumes "run_cmd cmd as w = (r, w')"
  shows "w' = record_call (Exec cmd as) w"
  using assms by (auto simp: run_cmd_def CombinedOutput_def andThen_def split: option.splits prod.splits)

text \<open>The calls of the verification never include the script, and its success is the last answer.\<close>

lemma verify_calls:
  assumes "verify (TrimSpace v) w = (r, w')"
  obtains ds where "w' = w\<lparr>w_hist := w_hist w @ ds\<rparr>" "filter is_upgrade_script ds = []"
    "length (filter is_version_query ds) \<le> 10"
    "is_Ok r \<longrightarrow> (\<exists>w0 ver. grows w w0 \<and> InstalledVersion w0 = (Ok ver, w') \<and> TrimSpace ver = TrimSpace v)"
    "\<forall>p. r \<noteq> Crash p"
proof -
  obtain ds where ds: "w' = w\<lparr>w_hist := w_hist w @ ds\<rparr>"
    "list_all (\<lambda>c. \<not> is_upgrade_script c) ds" "length (filter is_version_query ds) \<le> 10"
    "is_Ok r \<longrightarrow> (\<exists>w0 ver. grows w w0 \<and> InstalledVersion w0 = (Ok ver, w') \<and> TrimSpace ver = TrimSpace v)"
    "\<forall>p. r \<noteq> Crash p"
    using verify_loop_spec [OF assms [unfolded verify_def SnapdVerifyAttempts_def]] unfolding checked_def by blast
  moreover have "filter is_upgrade_script ds = []"
    using ds(2) by (auto simp: list_all_iff filter_empty_conv)
  ultimately show thesis using that by blast
qed

section \<open>Properties\<close>

text \<open>
  C33. An upgrade of snapd runs the upgrade script at most once and asks snapd for its version
  at most ten times, only after the script; it reports success only when the last answer of
  snapd is the requested version. It changes no setting and never panics.
\<close>

theorem snapd_upgrade_verified:
  assumes "Snapd_Upgrade goarch v w = (r, w')"
  shows "\<exists>cs ds. w' = w\<lparr>w_hist := w_hist w @ cs @ ds\<rparr> \<and> list_all quiet_call cs
     \<and> (ds = [] \<or> hd ds = Exec upgrade_script_cmd []) \<and> length (filter is_upgrade_script ds) \<le> 1
     \<and> length (filter is_version_query ds) \<le> 10
     \<and> (is_Ok r \<longrightarrow> ds \<noteq> [] \<and>
          (\<exists>w0 ver. grows w w0 \<and> InstalledVersion w0 = (Ok ver, w') \<and> TrimSpace ver = TrimSpace v))
     \<and> (\<forall>p. r \<noteq> Crash p)"
proof -
  let ?script = "Exec upgrade_script_cmd []"
  obtain r1 w1 where p: "upgrade_prep goarch (TrimSpace v) w = (r1, w1)"
    by (cases "upgrade_prep goarch (TrimSpace v) w")
  obtain cs where cs: "w1 = w\<lparr>w_hist := w_hist w @ cs\<rparr>" "list_all quiet_call cs"
    using keepsD [OF keeps_upgrade_prep p] by (auto simp: within_def)
  have r1: "r1 \<noteq> Crash q" for q using p safeD [OF safe_upgrade_prep] by metis
  show ?thesis
  proof (cases r1)
    case (Ok u)
    obtain r2 w2 where s: "run_cmd upgrade_script_cmd [] w1 = (r2, w2)"
      by (cases "run_cmd upgrade_script_cmd [] w1")
    have r2: "r2 \<noteq> Crash q" for q using s safeD [OF safe_run_cmd] by metis
    have w2: "w2 = w\<lparr>w_hist := w_hist w @ cs @ [?script]\<rparr>"
      using run_script_calls [OF s] cs(1) by (simp add: record_call_def)
    show ?thesis
    proof (cases r2)
      case (Ok out)
      have "verify (TrimSpace v) w2 = (r, w')"
        using assms p \<open>r1 = Ok u\<close> s Ok by (simp add: Snapd_Upgrade_split)
      from verify_calls [OF this] obtain ds where ds: "w' = w2\<lparr>w_hist := w_hist w2 @ ds\<rparr>"
        "filter is_upgrade_script ds = []" "length (filter is_version_query ds) \<le> 10"
        "is_Ok r \<longrightarrow> (\<exists>w0 ver. grows w2 w0 \<and> InstalledVersion w0 = (Ok ver, w') \<and> TrimSpace ver = TrimSpace v)"
        "\<forall>p. r \<noteq> Crash p" .
      have "grows w w2" by (auto simp: w2 grows_def)
      then have "is_Ok r \<longrightarrow> (\<exists>w0 ver. grows w w0 \<and> InstalledVersion w0 = (Ok ver, w') \<and> TrimSpace ver = TrimSpace v)"
        using ds(4) transpD [OF transp_grows] by blast
      then show ?thesis
        using cs ds w2 by (intro exI [of _ cs] exI [of _ "?script # ds"]) auto
    next
      case (Err e)
      then have "r = Err e" "w' = w2" using assms p \<open>r1 = Ok u\<close> s by (auto simp: Snapd_Upgrade_split)
      then show ?thesis using cs w2 by (intro exI [of _ cs] exI [of _ "[?script]"]) auto
    qed (use r2 in auto)
  next
    case (Err e)
    then have "r = Err e" "w' = w1" using assms p by (auto simp: Snapd_Upgrade_split)
    then show ?thesis using cs by (intro exI [of _ cs] exI [of _ "[]"]) auto
  qed (use r1 in auto)
qed

definition snapd_env :: environment where
  "snapd_env = calm\<lparr>e_http := (\<lambda>_ _. Inr \<lparr>StatusCode = 200, resp_Status = [], Body = Inr \<lparr>body_text = [],
     body_json = Some (JObj [(''result'', JObj [(''version'', JStr ''2'')])])\<rparr>\<rparr>)\<rparr>"

theorem snapd_upgrade_verified_witness:
  "\<not> is_Ok (fst (Snapd_Upgrade ''mips'' ''3'' (start_world snapd_env)))
   \<and> (\<forall>p. fst (Snapd_Upgrade ''amd64'' '' 2 '' (start_world snapd_env)) \<noteq> Crash p)"
proof -
  obtain r w' where "Snapd_Upgrade ''mips'' ''3'' (start_world snapd_env) = (r, w')"
    by (cases "Snapd_Upgrade ''mips'' ''3'' (start_world snapd_env)")
  moreover have "\<not> is_Ok (fst (Snapd_Upgrade ''mips'' ''3'' (start_world snapd_env)))"
    by (simp add: Snapd_Upgrade_def Let_def snapd_arch_def snapdArchByGoArch_def)
  moreover obtain r2 w2 where "Snapd_Upgrade ''amd64'' '' 2 '' (start_world snapd_env) = (r2, w2)"
    by (cases "Snapd_Upgrade ''amd64'' '' 2 '' (start_world snapd_env)")
  ultimately show ?thesis
    using snapd_upgrade_verified [of "''amd64''" "'' 2 ''" "start_world snapd_env" r2 w2] by simp blast
qed

lemma sorted_split:
  assumes "sorted_wrt R xs" "x \<in> set (take n xs)" "y \<in> set (drop n xs)"
  shows "R x y"
  using assms sorted_wrt_append [of R "take n xs" "drop n xs"] by auto

lemma forEach_remove:
  "forEach es (\<lambda>e. andThen (attempt (do_sys ''remove'' [fst e])) (\<lambda>_. ret ())) w =
     (Ok (), w\<lparr>w_hist := w_hist w @ map (\<lambda>e. Sys ''remove'' [fst e]) es\<rparr>)"
proof (induction es arbitrary: w)
  case (Cons e es)
  have "andThen (attempt (do_sys ''remove'' [fst e])) (\<lambda>_. ret ()) w = (Ok (), record_call (Sys ''remove'' [fst e]) w)"
    by (rule do_unit_cases [of w "Sys ''remove'' [fst e]"]) (simp_all add: do_sys_def)
  then have "forEach (e # es) (\<lambda>e. andThen (attempt (do_sys ''remove'' [fst e])) (\<lambda>_. ret ())) w
      = forEach es (\<lambda>e. andThen (attempt (do_sys ''remove'' [fst e])) (\<lambda>_. ret ()))
          (record_call (Sys ''remove'' [fst e]) w)"
    by (simp only: forEach.simps andThen_Ok)
  then show ?case by (simp only: Cons) (simp add: record_call_def)
qed simp

text \<open>
  Pruning tries to remove every archive but the \<open>keep\<close> newest: the archives it could
  examine are split into kept and removed ones, as many as possible up to \<open>keep\<close> are kept, no
  removed archive is newer than a kept one, and no other file is touched. It always succeeds,
  whatever the removals do.
\<close>

lemma snapd_prune_keeps_newest:
  assumes "e_strs (w_env w) (w_hist w) (Sys ''glob'' [path_join [dir, ''snapd-*.tar.gz'']]) = Inr matches"
    and "archive_entries matches (record_call (Sys ''glob'' [path_join [dir, ''snapd-*.tar.gz'']]) w) = (Ok es, w1)"
  shows "\<exists>kept removed. mset es = mset kept + mset removed \<and> length kept = min keep (length es)
     \<and> (\<forall>k\<in>set kept. \<forall>r\<in>set removed. snd r \<le> snd k)
     \<and> prune dir keep w = (Ok (), w1\<lparr>w_hist := w_hist w1 @ map (\<lambda>e. Sys ''remove'' [fst e]) removed\<rparr>)"
proof -
  let ?s = "newest_first es"
  have "sorted_wrt (\<lambda>x y. - snd x \<le> - snd y) ?s"
    using sorted_sort_key [of "\<lambda>e. - snd e" es] by (simp add: newest_first_def sorted_wrt_map)
  then have "\<forall>k\<in>set (take keep ?s). \<forall>r\<in>set (drop keep ?s). snd r \<le> snd k"
    by (auto dest: sorted_split)
  moreover have "mset es = mset (take keep ?s) + mset (drop keep ?s)"
    by (metis append_take_drop_id mset_append mset_sort newest_first_def)
  moreover have "length (take keep ?s) = min keep (length es)" by (simp add: newest_first_def)
  moreover have "prune dir keep w =
      (Ok (), w1\<lparr>w_hist := w_hist w1 @ map (\<lambda>e. Sys ''remove'' [fst e]) (drop keep ?s)\<rparr>)"
    unfolding prune_def do_strs_def using assms forEach_remove [of "drop keep ?s" w1] by simp
  ultimately show ?thesis by blast
qed

definition archives_env :: environment where
  "archives_env = calm\<lparr>e_strs := (\<lambda>_ _. Inr [''/tmp/snapd-1'', ''/tmp/snapd-2'', ''/tmp/snapd-3'']),
     e_int := (\<lambda>_ c. Inr (if c = Sys ''stat'' [''/tmp/snapd-2''] then 5 else 7))\<rparr>"

lemma snapd_prune_keeps_newest_example:
  "\<exists>es :: (string \<times> int) list. length es = 1 \<and> w_hist (snd (prune ''/tmp'' 2 (start_world archives_env)))
     = [Sys ''glob'' [''/tmp/snapd-*.tar.gz''], Sys ''stat'' [''/tmp/snapd-1''], Sys ''stat'' [''/tmp/snapd-2''],
        Sys ''stat'' [''/tmp/snapd-3'']] @ map (\<lambda>e. Sys ''remove'' [fst e]) es"
proof -
  let ?w = "start_world archives_env" and ?g = "Sys ''glob'' [''/tmp/snapd-*.tar.gz'']"
  let ?ms = "[''/tmp/snapd-1'', ''/tmp/snapd-2'', ''/tmp/snapd-3'']"
  let ?es = "[(''/tmp/snapd-1'', 7::int), (''/tmp/snapd-2'', 5), (''/tmp/snapd-3'', 7)]"
  let ?w1 = "?w\<lparr>w_hist := [?g, Sys ''stat'' [''/tmp/snapd-1''], Sys ''stat'' [''/tmp/snapd-2''],
        Sys ''stat'' [''/tmp/snapd-3'']]\<rparr>"
  have path: "path_join [''/tmp'', ''snapd-*.tar.gz''] = ''/tmp/snapd-*.tar.gz''" by code_simp
  have g: "e_strs (w_env ?w) (w_hist ?w) (Sys ''glob'' [path_join [''/tmp'', ''snapd-*.tar.gz'']]) = Inr ?ms"
    by (simp add: archives_env_def)
  have es: "archive_entries ?ms (record_call (Sys ''glob'' [path_join [''/tmp'', ''snapd-*.tar.gz'']]) ?w) = (Ok ?es, ?w1)"
    unfolding path
    by (simp add: do_int_def archives_env_def record_call_def start_world_def)
  obtain kept removed where *: "mset ?es = mset kept + mset removed" "length kept = min 2 (length ?es)"
    "prune ''/tmp'' 2 ?w = (Ok (), ?w1\<lparr>w_hist := w_hist ?w1 @ map (\<lambda>e. Sys ''remove'' [fst e]) removed\<rparr>)"
    using snapd_prune_keeps_newest [OF g es, of 2] by (elim exE conjE) blast
  have "length kept + length removed = 3"
    using arg_cong [OF *(1), of size] by simp
  then have "length removed = 1" using *(2) by simp
  with *(3) show ?thesis by (intro exI [of _ removed]) simp
qed

end
