(* ===== verification/Clock.thy ===== *)
theory Clock
  imports Go_Prelude
begin

text \<open>
  The parts of Go's \<^verbatim>\<open>time\<close> that the backend uses. An instant is the number of seconds since
  1970 in UTC; a time zone gives the offset of local time at an instant. Fractions of a second
  are left out.
\<close>

section \<open>Local time\<close>

type_synonym zone = "int \<Rightarrow> int"

text \<open>\<^verbatim>\<open>t.Truncate(time.Hour)\<close> works on absolute time, not on the local clock.\<close>

definition Truncate_Hour :: "int \<Rightarrow> int" where
  "Truncate_Hour t = t - t mod 3600"

definition local_seconds :: "zone \<Rightarrow> int \<Rightarrow> int" where
  "local_seconds tz t = t + tz t"

definition Hour :: "zone \<Rightarrow> int \<Rightarrow> int" where
  "Hour tz t = local_seconds tz t mod 86400 div 3600"

definition Minute :: "zone \<Rightarrow> int \<Rightarrow> int" where
  "Minute tz t = local_seconds tz t mod 3600 div 60"

definition Second :: "zone \<Rightarrow> int \<Rightarrow> int" where
  "Second tz t = local_seconds tz t mod 60"

text \<open>Sunday is 0; day 0 of the epoch was a Thursday.\<close>

definition Weekday :: "zone \<Rightarrow> int \<Rightarrow> int" where
  "Weekday tz t = (local_seconds tz t div 86400 + 4) mod 7"

text \<open>
  Year, month and day of a day number in the Gregorian calendar, counted in eras of 400 years
  that begin in March.
\<close>

definition civil :: "int \<Rightarrow> int \<times> int \<times> int" where
  "civil days =
     (let z = days + 719468; era = z div 146097; doe = z mod 146097;
          yoe = (doe - doe div 1460 + doe div 36524 - doe div 146096) div 365;
          doy = doe - (365 * yoe + yoe div 4 - yoe div 100);
          mp = (5 * doy + 2) div 153;
          d = doy - (153 * mp + 2) div 5 + 1;
          m = (if mp < 10 then mp + 3 else mp - 9);
          y = yoe + era * 400 + (if m \<le> 2 then 1 else 0)
      in (y, m, d))"

section \<open>Time stamps in file names\<close>

text \<open>A number with at least the given number of digits.\<close>

fun low_digits :: "nat \<Rightarrow> nat \<Rightarrow> string" where
  "low_digits 0 n = []"
| "low_digits (Suc k) n = digit_char (n div 10 ^ k mod 10) # low_digits k n"

definition pad :: "nat \<Rightarrow> nat \<Rightarrow> string" where
  "pad k n = (if n < 10 ^ k then low_digits k n else nat_dec n)"

record wall_clock =
  wc_year :: nat
  wc_month :: nat
  wc_day :: nat
  wc_hour :: nat
  wc_min :: nat
  wc_sec :: nat

definition wall :: "zone \<Rightarrow> int \<Rightarrow> wall_clock" where
  "wall tz t = (case civil (local_seconds tz t div 86400) of (y, m, d) \<Rightarrow>
     \<lparr>wc_year = nat y, wc_month = nat m, wc_day = nat d, wc_hour = nat (Hour tz t),
      wc_min = nat (Minute tz t), wc_sec = nat (Second tz t)\<rparr>)"

text \<open>The layout \<^verbatim>\<open>2006-0102-150405\<close>.\<close>

definition stamp :: "wall_clock \<Rightarrow> string" where
  "stamp c = pad 4 (wc_year c) @ ''-'' @ pad 2 (wc_month c) @ pad 2 (wc_day c) @ ''-''
     @ pad 2 (wc_hour c) @ pad 2 (wc_min c) @ pad 2 (wc_sec c)"

text \<open>A clock whose fields have their usual number of digits, and the order of such clocks.\<close>

definition proper :: "wall_clock \<Rightarrow> bool" where
  "proper c \<longleftrightarrow> wc_year c < 10000 \<and> wc_month c < 100 \<and> wc_day c < 100
     \<and> wc_hour c < 100 \<and> wc_min c < 100 \<and> wc_sec c < 100"

definition clock_fields :: "wall_clock \<Rightarrow> nat list" where
  "clock_fields c = [wc_year c, wc_month c, wc_day c, wc_hour c, wc_min c, wc_sec c]"

section \<open>Lemmas\<close>

lemma length_low_digits [simp]: "length (low_digits k n) = k"
  by (induction k) auto

lemma low_digits_eval [str_simps]:
  shows "low_digits 2 n = [digit_char (n div 10 mod 10), digit_char (n mod 10)]"
    and "low_digits 4 n = [digit_char (n div 1000 mod 10), digit_char (n div 100 mod 10),
     digit_char (n div 10 mod 10), digit_char (n mod 10)]"
proof -
  show two: "low_digits 2 n = [digit_char (n div 10 mod 10), digit_char (n mod 10)]"
    by (simp add: numeral_2_eq_2)
  show "low_digits 4 n = [digit_char (n div 1000 mod 10), digit_char (n div 100 mod 10),
     digit_char (n div 10 mod 10), digit_char (n mod 10)]"
    using low_digits.simps(2) [of 3 n] low_digits.simps(2) [of 2 n] two by simp
qed

lemma length_pad: "n < 10 ^ k \<Longrightarrow> length (pad k n) = k"
  by (simp add: pad_def)

lemma low_digits_are_digits: "c \<in> set (low_digits k n) \<Longrightarrow> is_digit c"
  by (induction k) (auto simp: is_digit_digit_char)

lemma pad_are_digits: "c \<in> set (pad k n) \<Longrightarrow> is_digit c"
  by (auto simp: pad_def low_digits_are_digits nat_dec_digits split: if_splits)

lemma digit_char_less: "a < 10 \<Longrightarrow> b < 10 \<Longrightarrow> digit_char a < digit_char b \<longleftrightarrow> a < b"
  by (simp add: less_char_def of_char_digit_char)

lemma digit_char_eq: "a < 10 \<Longrightarrow> b < 10 \<Longrightarrow> digit_char a = digit_char b \<longleftrightarrow> a = b"
  by (metis digit_val_digit_char)

lemma low_digits_order:
  "low_digits k m \<le> low_digits k n \<longleftrightarrow> m mod 10 ^ k \<le> n mod 10 ^ k"
  "low_digits k m = low_digits k n \<longleftrightarrow> m mod 10 ^ k = n mod 10 ^ k"
proof (induction k)
  case 0
  { case 1 show ?case by simp }
  { case 2 show ?case by simp }
next
  case (Suc k)
  have e: "x mod 10 ^ Suc k = 10 ^ k * (x div 10 ^ k mod 10) + x mod 10 ^ k" for x :: nat
    using mod_mult2_eq [of x "10 ^ k" 10] by (simp add: mult.commute)
  have l: "x mod 10 ^ k < 10 ^ k" for x :: nat by simp
  let ?a = "m div 10 ^ k mod 10" and ?b = "n div 10 ^ k mod 10"
  have lt: "10 ^ k * a + r \<le> 10 ^ k * b + s \<longleftrightarrow> a < b \<or> a = b \<and> r \<le> s"
    if "r < 10 ^ k" "s < 10 ^ k" for a b r s :: nat
  proof (cases a b rule: linorder_cases)
    case less
    then have "10 ^ k * (a + 1) \<le> 10 ^ k * b" by (intro mult_le_mono2) simp
    then show ?thesis using that less by simp
  next
    case greater
    then have "10 ^ k * (b + 1) \<le> 10 ^ k * a" by (intro mult_le_mono2) simp
    then show ?thesis using that greater by simp
  qed simp
  have d: "low_digits (Suc k) m \<le> low_digits (Suc k) n \<longleftrightarrow> ?a < ?b \<or> ?a = ?b \<and> low_digits k m \<le> low_digits k n"
    "low_digits (Suc k) m = low_digits (Suc k) n \<longleftrightarrow> ?a = ?b \<and> low_digits k m = low_digits k n"
    by (simp_all only: low_digits.simps Cons_le_Cons list.inject digit_char_less digit_char_eq mod_less_divisor zero_less_numeral)
  have le: "m mod 10 ^ Suc k \<le> n mod 10 ^ Suc k \<longleftrightarrow> ?a < ?b \<or> ?a = ?b \<and> m mod 10 ^ k \<le> n mod 10 ^ k"
    using e [of m] e [of n] lt [OF l l, of ?a m ?b n] by (simp only:)
  have ge: "n mod 10 ^ Suc k \<le> m mod 10 ^ Suc k \<longleftrightarrow> ?b < ?a \<or> ?b = ?a \<and> n mod 10 ^ k \<le> m mod 10 ^ k"
    using e [of m] e [of n] lt [OF l l, of ?b n ?a m] by (simp only:)
  { case 1 show ?case using d(1) le Suc(1) by blast }
  { case 2
    have "m mod 10 ^ Suc k = n mod 10 ^ Suc k \<longleftrightarrow> ?a = ?b \<and> m mod 10 ^ k = n mod 10 ^ k"
      unfolding order_eq_iff [of "m mod 10 ^ Suc k"] le ge by auto
    then show ?case using d(2) Suc(2) by blast }
qed

lemma append_order:
  fixes a b x y :: string
  assumes "length a = length b"
  shows "a @ x \<le> b @ y \<longleftrightarrow> a < b \<or> a = b \<and> x \<le> y"
  using assms by (induction a b rule: list_induct2) auto

lemma pad_order:
  assumes "m < 10 ^ k" "n < 10 ^ k"
  shows "pad k m \<le> pad k n \<longleftrightarrow> m \<le> n" "pad k m < pad k n \<longleftrightarrow> m < n" "pad k m = pad k n \<longleftrightarrow> m = n"
  using assms low_digits_order [of k m n] by (auto simp: pad_def less_le)

lemma pad_append_order:
  assumes "m < 10 ^ k" "n < 10 ^ k"
  shows "pad k m @ x \<le> pad k n @ y \<longleftrightarrow> m < n \<or> m = n \<and> x \<le> y"
  using append_order [of "pad k m" "pad k n" x y] pad_order [OF assms] assms
  by (simp add: length_pad)

text \<open>Time stamps sort as the clocks they show.\<close>

lemma stamp_append_order:
  assumes "proper c" "proper d"
  shows "stamp c @ t \<le> stamp d @ t \<longleftrightarrow> clock_fields c \<le> clock_fields d"
  using assms
  by (auto simp: stamp_def clock_fields_def proper_def pad_append_order)

lemma stamp_digits: "c \<in> set (stamp w) \<Longrightarrow> is_digit c \<or> c = CHR ''-''"
  by (auto simp: stamp_def pad_are_digits)

lemma civil_year:
  assumes "0 \<le> days" "days < 2777778"
  shows "0 \<le> fst (civil days)" "fst (civil days) < 10000"
proof -
  define z doe where "z = days + 719468" and "doe = z mod 146097"
  define yoe where "yoe = (doe - doe div 1460 + doe div 36524 - doe div 146096) div 365"
  have doe: "0 \<le> doe" "doe < 146097" by (simp_all add: doe_def)
  have "\<exists>b. fst (civil days) = yoe + z div 146097 * 400 + (if b then 1 else 0)"
    unfolding civil_def Let_def fst_conv yoe_def doe_def z_def by (rule exI, rule refl)
  then have y: "fst (civil days) = yoe + z div 146097 * 400 \<or> fst (civil days) = yoe + z div 146097 * 400 + 1"
    by (metis add.right_neutral)
  have "doe div 146096 \<le> doe div 36524" using doe by (intro zdiv_mono2) auto
  moreover have "doe div 1460 \<le> doe" using doe by (simp add: div_le_dividend)
  ultimately have "0 \<le> yoe" using doe by (simp add: yoe_def pos_imp_zdiv_nonneg_iff)
  moreover have "yoe \<le> 400"
  proof -
    have "doe div 36524 \<le> 4" "0 \<le> doe div 1460" "0 \<le> doe div 146096" using doe by auto
    then have "doe - doe div 1460 + doe div 36524 - doe div 146096 \<le> 146100" using doe by linarith
    then have "yoe \<le> 146100 div 365" unfolding yoe_def by (rule zdiv_mono1) simp
    then show ?thesis by simp
  qed
  moreover have "0 \<le> z div 146097" "z div 146097 \<le> 23" using assms by (auto simp: z_def)
  ultimately show "0 \<le> fst (civil days)" "fst (civil days) < 10000" using y by auto
qed

end
