(* ===== verification/Tar.thy ===== *)
theory Tar
  imports Go_Prelude "HOL-Library.Sublist"
begin

unbundle bit_operations_syntax

text \<open>
  The backup archives: \<^verbatim>\<open>createTarGz\<close> and \<^verbatim>\<open>extractTarGz\<close> of
  \<^verbatim>\<open>backend/backup/backup.go\<close>. The source directory is a tree of nodes, the archive the
  sequence of its entries (the tar and gzip encodings are taken to be lossless), and the
  destination a map from path parts to files and directories. The backend runs as root, so a
  change of owner succeeds; new files get the permission bits
  of the requested mode without those of the umask.
\<close>

section \<open>Trees, archives and the file system\<close>

record attrs =
  at_mode :: nat
  at_uid :: int
  at_gid :: int

text \<open>A symbolic link carries what opening and reading it gives.\<close>

datatype node =
    Reg attrs string
  | Dir attrs "(string \<times> node) list"
  | Symlink attrs "error + string"
  | Socket attrs

datatype typeflag = TypeReg | TypeDir | TypeSymlink

record tar_entry =
  te_Name :: string
  te_Typeflag :: typeflag
  te_attrs :: attrs
  te_body :: string

datatype fsnode = FReg attrs string | FDir attrs

type_synonym fs = "string list \<rightharpoonup> fsnode"

section \<open>Creating an archive\<close>

definition tar_header :: "string list \<Rightarrow> typeflag \<Rightarrow> attrs \<Rightarrow> string \<Rightarrow> tar_entry" where
  "tar_header rel flag a body =
     \<lparr>te_Name = ''./'' @ Join rel ''/'', te_Typeflag = flag, te_attrs = a, te_body = body\<rparr>"

text \<open>
  The walk visits a directory before its children and stops at the first error; what was
  written up to there stays in the archive. The content of what a link points to does not fit
  the empty size in the header of the link.
\<close>

fun tar_node :: "string list \<Rightarrow> node \<Rightarrow> tar_entry list \<times> error option"
and tar_nodes :: "string list \<Rightarrow> (string \<times> node) list \<Rightarrow> tar_entry list \<times> error option" where
  "tar_node rel (Reg a c) = ([tar_header rel TypeReg a c], None)"
| "tar_node rel (Symlink a r) = ([tar_header rel TypeSymlink a []],
     (case r of Inl e \<Rightarrow> Some e
      | Inr c \<Rightarrow> if c = [] then None else Some (Error ''archive/tar: write too long'')))"
| "tar_node rel (Socket a) = ([], Some (Error ''archive/tar: sockets not supported''))"
| "tar_node rel (Dir a cs) =
     (case tar_nodes rel cs of (es, err) \<Rightarrow> (tar_header rel TypeDir a [] # es, err))"
| "tar_nodes rel [] = ([], None)"
| "tar_nodes rel ((n, t) # cs) =
     (case tar_node (rel @ [n]) t of
        (es, Some e) \<Rightarrow> (es, Some e)
      | (es, None) \<Rightarrow> (case tar_nodes rel cs of (es', err) \<Rightarrow> (es @ es', err)))"

text \<open>The content of a directory, whose children are listed in the order of their names.\<close>

definition createTarGz :: "(string \<times> node) list \<Rightarrow> tar_entry list \<times> error option" where
  "createTarGz root = tar_nodes [] root"

section \<open>Extracting an archive\<close>

definition path_parts :: "string \<Rightarrow> string list" where
  "path_parts p = clean_parts True (Split p CHR ''/'') []"

definition fs_attrs :: "nat \<Rightarrow> nat \<Rightarrow> attrs" where
  "fs_attrs umask m = \<lparr>at_mode = nat (int m AND 511 AND NOT (int umask)), at_uid = 0, at_gid = 0\<rparr>"

text \<open>\<open>mkdirs done rest\<close> makes the missing directories below \<open>done\<close>, outermost first.\<close>

fun mkdirs :: "nat \<Rightarrow> nat \<Rightarrow> string list \<Rightarrow> string list \<Rightarrow> fs \<Rightarrow> error + fs" where
  "mkdirs umask m dn [] fs = Inr fs"
| "mkdirs umask m dn (p # ps) fs =
     (case fs (dn @ [p]) of
        None \<Rightarrow> mkdirs umask m (dn @ [p]) ps (fs(dn @ [p] \<mapsto> FDir (fs_attrs umask m)))
      | Some (FDir a) \<Rightarrow> mkdirs umask m (dn @ [p]) ps fs
      | Some (FReg a c) \<Rightarrow> Inl (Error ''not a directory''))"

definition MkdirAll :: "nat \<Rightarrow> nat \<Rightarrow> string list \<Rightarrow> fs \<Rightarrow> error + fs" where
  "MkdirAll umask m p fs = mkdirs umask m [] p fs"

definition Chown :: "string list \<Rightarrow> int \<Rightarrow> int \<Rightarrow> fs \<Rightarrow> fs" where
  "Chown p u g fs = (case fs p of
       None \<Rightarrow> fs
     | Some (FDir a) \<Rightarrow> fs(p \<mapsto> FDir (a\<lparr>at_uid := u, at_gid := g\<rparr>))
     | Some (FReg a c) \<Rightarrow> fs(p \<mapsto> FReg (a\<lparr>at_uid := u, at_gid := g\<rparr>) c))"

definition write_file :: "nat \<Rightarrow> nat \<Rightarrow> string list \<Rightarrow> string \<Rightarrow> fs \<Rightarrow> error + fs" where
  "write_file umask m p c fs = (case fs p of
       None \<Rightarrow> Inr (fs(p \<mapsto> FReg (fs_attrs umask m) c))
     | Some (FReg a _) \<Rightarrow> Inr (fs(p \<mapsto> FReg a c))
     | Some (FDir a) \<Rightarrow> Inl (Error ''is a directory''))"

definition extract_entry :: "nat \<Rightarrow> string \<Rightarrow> tar_entry \<Rightarrow> fs \<Rightarrow> error + fs" where
  "extract_entry umask destDir header fs =
     (let target = path_parts (path_join [destDir, te_Name header]); a = te_attrs header in
      case te_Typeflag header of
        TypeDir \<Rightarrow> (case MkdirAll umask (at_mode a) target fs of
            Inl e \<Rightarrow> Inl e | Inr fs1 \<Rightarrow> Inr (Chown target (at_uid a) (at_gid a) fs1))
      | TypeReg \<Rightarrow> (case MkdirAll umask 493 (butlast target) fs of
            Inl e \<Rightarrow> Inl e
          | Inr fs1 \<Rightarrow> (case write_file umask (at_mode a) target (te_body header) fs1 of
                Inl e \<Rightarrow> Inl e | Inr fs2 \<Rightarrow> Inr (Chown target (at_uid a) (at_gid a) fs2)))
      | TypeSymlink \<Rightarrow> Inr fs)"

fun extractTarGz :: "nat \<Rightarrow> string \<Rightarrow> tar_entry list \<Rightarrow> fs \<Rightarrow> error + fs" where
  "extractTarGz umask destDir [] fs = Inr fs"
| "extractTarGz umask destDir (h # hs) fs =
     (case extract_entry umask destDir h fs of
        Inl e \<Rightarrow> Inl e | Inr fs1 \<Rightarrow> extractTarGz umask destDir hs fs1)"

section \<open>The nodes of a tree by path\<close>

fun flat_node :: "string list \<Rightarrow> node \<Rightarrow> (string list \<times> fsnode) list"
and flat_nodes :: "string list \<Rightarrow> (string \<times> node) list \<Rightarrow> (string list \<times> fsnode) list" where
  "flat_node p (Reg a c) = [(p, FReg a c)]"
| "flat_node p (Dir a cs) = (p, FDir a) # flat_nodes p cs"
| "flat_node p (Symlink a r) = []"
| "flat_node p (Socket a) = []"
| "flat_nodes p [] = []"
| "flat_nodes p ((n, t) # cs) = flat_node (p @ [n]) t @ flat_nodes p cs"

text \<open>
  A tree that can be backed up: files and directories only, with proper and distinct names and
  modes that the umask leaves alone.
\<close>

definition plain_attrs :: "nat \<Rightarrow> attrs \<Rightarrow> bool" where
  "plain_attrs umask a \<longleftrightarrow> nat (int (at_mode a) AND 511 AND NOT (int umask)) = at_mode a"

fun plain_node :: "nat \<Rightarrow> node \<Rightarrow> bool"
and plain_nodes :: "nat \<Rightarrow> (string \<times> node) list \<Rightarrow> bool" where
  "plain_node umask (Reg a c) = plain_attrs umask a"
| "plain_node umask (Dir a cs) = (plain_attrs umask a \<and> plain_nodes umask cs)"
| "plain_node umask (Symlink a r) = False"
| "plain_node umask (Socket a) = False"
| "plain_nodes umask [] = True"
| "plain_nodes umask ((n, t) # cs) =
     (plain_part n \<and> n \<notin> fst ` set cs \<and> plain_node umask t \<and> plain_nodes umask cs)"

section \<open>Paths of entries\<close>

lemma path_parts_Join:
  assumes "list_all plain_part ps"
  shows "path_parts (CHR ''/'' # Join ps ''/'') = ps"
proof (cases "ps = []")
  case False
  then show ?thesis
    using Split_Join_plain [OF assms False] clean_parts_plain [OF assms, of True "[]"]
    by (simp add: path_parts_def)
qed (simp add: path_parts_def)

lemma entry_target:
  assumes "list_all plain_part ds" "list_all plain_part rel" "rel \<noteq> []"
  shows "path_parts (path_join [CHR ''/'' # Join ds ''/'', ''./'' @ Join rel ''/'']) = ds @ rel"
proof -
  let ?p = "(CHR ''/'' # Join ds ''/'') @ CHR ''/'' # ''.'' @ CHR ''/'' # Join rel ''/''"
  have "Split (CHR ''/'' # Join ds ''/'') CHR ''/'' = [] # (if ds = [] then [[]] else ds)"
    using Split_Join_plain [OF assms(1)] by simp
  moreover have "Split (''.'' @ CHR ''/'' # Join rel ''/'') CHR ''/'' = ''.'' # rel"
    using Split_Join_plain [OF assms(2,3)] by simp
  ultimately have "Split ?p CHR ''/'' = ([] # (if ds = [] then [[]] else ds)) @ ''.'' # rel"
    by (simp only: Split_append)
  then have "clean_parts True (Split ?p CHR ''/'') [] = ds @ rel"
    using clean_parts_append [OF assms(1), of True "''.'' # rel" "[]"]
      clean_parts_plain [OF assms(2), of True "rev ds"] clean_parts_plain [OF assms(2), of True "[]"]
    by auto
  then have "path_join [CHR ''/'' # Join ds ''/'', ''./'' @ Join rel ''/''] = CHR ''/'' # Join (ds @ rel) ''/''"
    by (simp add: path_join_def Clean_def Let_def)
  then show ?thesis using path_parts_Join [of "ds @ rel"] assms by simp
qed

section \<open>Extracting one entry\<close>

definition dirs_ok :: "fs \<Rightarrow> string list \<Rightarrow> bool" where
  "dirs_ok fs p \<longleftrightarrow> (\<forall>q. q \<noteq> [] \<and> prefix q p \<longrightarrow> (\<exists>a. fs q = Some (FDir a)))"

lemma mkdirs_below:
  assumes "\<forall>q. q \<noteq> [] \<and> prefix q ps \<longrightarrow> (\<exists>a. fs (dn @ q) = Some (FDir a))"
  shows "mkdirs umask m dn (ps @ rest) fs = mkdirs umask m (dn @ ps) rest fs"
  using assms
proof (induction ps arbitrary: dn)
  case (Cons p ps)
  obtain a where a: "fs (dn @ [p]) = Some (FDir a)" using Cons.prems [rule_format, of "[p]"] by auto
  have "\<forall>q. q \<noteq> [] \<and> prefix q ps \<longrightarrow> (\<exists>a. fs ((dn @ [p]) @ q) = Some (FDir a))"
  proof (intro allI impI)
    fix q assume "q \<noteq> [] \<and> prefix q ps"
    then show "\<exists>a. fs ((dn @ [p]) @ q) = Some (FDir a)"
      using Cons.prems [rule_format, of "p # q"] by simp
  qed
  from Cons.IH [OF this] show ?case using a by simp
qed simp

lemma MkdirAll_exists: "dirs_ok fs p \<Longrightarrow> MkdirAll umask m p fs = Inr fs"
  using mkdirs_below [of p fs "[]" umask m "[]"] by (simp add: MkdirAll_def dirs_ok_def)

lemma MkdirAll_new:
  assumes "dirs_ok fs p" "fs (p @ [n]) = None"
  shows "MkdirAll umask m (p @ [n]) fs = Inr (fs(p @ [n] \<mapsto> FDir (fs_attrs umask m)))"
  using mkdirs_below [of p fs "[]" umask m "[n]"] assms by (simp add: MkdirAll_def dirs_ok_def)

lemma extract_entry_new:
  assumes "list_all plain_part ds" "list_all plain_part rel" "rel \<noteq> []"
    and "dirs_ok fs (ds @ butlast rel)" "fs (ds @ rel) = None" "plain_attrs umask a"
  shows "extract_entry umask (CHR ''/'' # Join ds ''/'') (tar_header rel TypeDir a []) fs
           = Inr (fs(ds @ rel \<mapsto> FDir a))"
    and "extract_entry umask (CHR ''/'' # Join ds ''/'') (tar_header rel TypeReg a c) fs
           = Inr (fs(ds @ rel \<mapsto> FReg a c))"
proof -
  have eq: "ds @ rel = (ds @ butlast rel) @ [last rel]" using assms(3) by simp
  have at: "(fs_attrs umask (at_mode a))\<lparr>at_uid := at_uid a, at_gid := at_gid a\<rparr> = a"
    using assms(6) by (simp add: fs_attrs_def plain_attrs_def)
  note t = entry_target [OF assms(1-3)]
  have "MkdirAll umask (at_mode a) (ds @ rel) fs = Inr (fs(ds @ rel \<mapsto> FDir (fs_attrs umask (at_mode a))))"
    using MkdirAll_new [OF assms(4), of "last rel" umask "at_mode a"] assms(5) unfolding eq [symmetric] by simp
  then show "extract_entry umask (CHR ''/'' # Join ds ''/'') (tar_header rel TypeDir a []) fs
           = Inr (fs(ds @ rel \<mapsto> FDir a))"
    using t at by (simp add: extract_entry_def tar_header_def Chown_def)
  have "butlast (ds @ rel) = ds @ butlast rel" using assms(3) by (simp add: butlast_append)
  then show "extract_entry umask (CHR ''/'' # Join ds ''/'') (tar_header rel TypeReg a c) fs
           = Inr (fs(ds @ rel \<mapsto> FReg a c))"
    using t at assms(5) MkdirAll_exists [OF assms(4), of umask 493]
    by (simp add: extract_entry_def tar_header_def Chown_def write_file_def)
qed

section \<open>Extracting a tree\<close>

lemma extractTarGz_append:
  "extractTarGz umask d (es @ es') fs =
     (case extractTarGz umask d es fs of Inl e \<Rightarrow> Inl e | Inr fs1 \<Rightarrow> extractTarGz umask d es' fs1)"
  by (induction es arbitrary: fs) (auto split: sum.splits)

lemma flat_below:
  "q \<in> fst ` set (flat_node p t) \<Longrightarrow> prefix p q"
  "q \<in> fst ` set (flat_nodes p cs) \<Longrightarrow> \<exists>n\<in>fst ` set cs. prefix (p @ [n]) q"
  by (induction p t and p cs rule: flat_node_flat_nodes.induct)
    (fastforce simp: prefix_def image_iff)+

lemma map_of_flat_None: "\<not> prefix p q \<Longrightarrow> map_of (flat_node p t) q = None"
  using flat_below(1) [of q p t] by (auto simp: map_of_eq_None_iff)

lemma map_of_flats_None:
  "(\<And>n. n \<in> fst ` set cs \<Longrightarrow> \<not> prefix (p @ [n]) q) \<Longrightarrow> map_of (flat_nodes p cs) q = None"
  using flat_below(2) [of q p cs] by (auto simp: map_of_eq_None_iff)

lemma prefix_sibling: "prefix (p @ [n]) q \<Longrightarrow> prefix (p @ [m]) q \<Longrightarrow> n = m"
  by (auto simp: prefix_def)

lemma dirs_ok_add:
  assumes "dirs_ok fs p" "\<And>q. prefix q p \<Longrightarrow> m q = None"
  shows "dirs_ok (fs ++ m) p"
  using assms by (auto simp: dirs_ok_def map_add_def)

lemma dirs_ok_child: "dirs_ok fs p \<Longrightarrow> dirs_ok (fs(p @ [n] \<mapsto> FDir a)) (p @ [n])"
  by (auto simp: dirs_ok_def)

lemma map_of_flat_sibling:
  "k \<noteq> n \<Longrightarrow> prefix (p @ [k]) q \<Longrightarrow> map_of (flat_node (p @ [n]) t) q = None"
  using prefix_sibling [of p n q k] by (intro map_of_flat_None) auto

text \<open>A new child and its siblings have no path in common, so that their order does not matter.\<close>

lemma flat_nodes_Cons_add:
  assumes "n \<notin> fst ` set cs"
  shows "fs ++ map_of (flat_node (p @ [n]) t) ++ map_of (flat_nodes p cs) = fs ++ map_of (flat_nodes p ((n, t) # cs))"
proof -
  let ?m = "map_of (flat_node (p @ [n]) t)" and ?ms = "map_of (flat_nodes p cs)"
  have "?ms q = None" if "?m q \<noteq> None" for q
  proof (rule map_of_flats_None)
    fix k assume "k \<in> fst ` set cs"
    then have "k \<noteq> n" using assms by auto
    then show "\<not> prefix (p @ [k]) q" using that map_of_flat_sibling [of k n p q t] by auto
  qed
  then have "dom ?m \<inter> dom ?ms = {}" by auto
  then have "?m ++ ?ms = ?ms ++ ?m" by (rule map_add_comm)
  then show ?thesis by (simp flip: map_add_assoc)
qed

lemma extract_tree:
  assumes "list_all plain_part ds"
  shows "plain_node umask t \<Longrightarrow> list_all plain_part rel \<Longrightarrow> rel \<noteq> [] \<Longrightarrow> dirs_ok fs (ds @ butlast rel)
      \<Longrightarrow> (\<And>q. prefix (ds @ rel) q \<Longrightarrow> fs q = None)
      \<Longrightarrow> snd (tar_node rel t) = None
        \<and> extractTarGz umask (CHR ''/'' # Join ds ''/'') (fst (tar_node rel t)) fs
            = Inr (fs ++ map_of (flat_node (ds @ rel) t))"
    and "plain_nodes umask cs \<Longrightarrow> list_all plain_part rel \<Longrightarrow> dirs_ok fs (ds @ rel)
      \<Longrightarrow> (\<And>n q. n \<in> fst ` set cs \<Longrightarrow> prefix (ds @ rel @ [n]) q \<Longrightarrow> fs q = None)
      \<Longrightarrow> snd (tar_nodes rel cs) = None
        \<and> extractTarGz umask (CHR ''/'' # Join ds ''/'') (fst (tar_nodes rel cs)) fs
            = Inr (fs ++ map_of (flat_nodes (ds @ rel) cs))"
proof (induction rel t and rel cs arbitrary: fs and fs rule: tar_node_tar_nodes.induct)
  case (1 rel a c)
  then show ?case using extract_entry_new(2) [OF assms, of rel fs umask a c]
    by (simp add: fun_eq_iff map_add_def)
next
  case (4 rel a cs)
  let ?fs = "fs(ds @ rel \<mapsto> FDir a)"
  have e: "extract_entry umask (CHR ''/'' # Join ds ''/'') (tar_header rel TypeDir a []) fs = Inr ?fs"
    using extract_entry_new(1) [OF assms, of rel fs umask a] 4(2-6) by simp
  have d: "dirs_ok ?fs (ds @ rel)"
    using dirs_ok_child [OF 4(5), of "last rel" a] 4(4) by simp
  have f: "?fs q = None" if "n \<in> fst ` set cs" "prefix (ds @ rel @ [n]) q" for n q
    using 4(6) [of q] that by (auto simp: prefix_def)
  have ih: "snd (tar_nodes rel cs) = None \<and>
     extractTarGz umask (CHR ''/'' # Join ds ''/'') (fst (tar_nodes rel cs)) ?fs
       = Inr (?fs ++ map_of (flat_nodes (ds @ rel) cs))"
    by (rule 4(1)) (use 4(2,3) d f in \<open>auto simp del: fun_upd_apply\<close>)
  have "map_of (flat_nodes (ds @ rel) cs) (ds @ rel) = None"
    by (rule map_of_flats_None) (auto simp: prefix_def)
  then have "?fs ++ map_of (flat_nodes (ds @ rel) cs) = fs ++ map_of (flat_node (ds @ rel) (Dir a cs))"
    by (auto simp: map_add_def fun_eq_iff split: option.splits)
  then show ?case using ih e by (simp add: case_prod_beta del: flat_node.simps)
next
  case (6 rel n t cs)
  let ?p = "ds @ rel @ [n]" and ?d = "CHR ''/'' # Join ds ''/''"
  let ?m = "map_of (flat_node ?p t)" and ?ms = "map_of (flat_nodes (ds @ rel) cs)"
  have ih1: "snd (tar_node (rel @ [n]) t) = None"
    "extractTarGz umask ?d (fst (tar_node (rel @ [n]) t)) fs = Inr (fs ++ ?m)"
    using 6(1) [of fs] 6(3-6) by auto
  have "dirs_ok (fs ++ ?m) (ds @ rel)"
    using 6(5) by (rule dirs_ok_add) (auto intro!: map_of_flat_None simp: prefix_def)
  moreover have "(fs ++ ?m) q = None" if "k \<in> fst ` set cs" "prefix (ds @ rel @ [k]) q" for k q
  proof -
    have "k \<noteq> n" using that(1) 6(3) by auto
    then have "?m q = None" using that(2) map_of_flat_sibling [of k n "ds @ rel" q t] by simp
    then show ?thesis using 6(6) [of k q] that by (auto simp: map_add_def)
  qed
  ultimately have ih2: "snd (tar_nodes rel cs) = None"
    "extractTarGz umask ?d (fst (tar_nodes rel cs)) (fs ++ ?m) = Inr (fs ++ ?m ++ ?ms)"
    using 6(2) [of "fst (tar_node (rel @ [n]) t)" "snd (tar_node (rel @ [n]) t)" "fs ++ ?m"] ih1(1) 6(3,4)
    by (auto simp: prod_eq_iff)
  have "fs ++ ?m ++ ?ms = fs ++ map_of (flat_nodes (ds @ rel) ((n, t) # cs))"
    using flat_nodes_Cons_add [of n cs fs "ds @ rel" t] 6(3) by auto
  then show ?case using ih1 ih2 by (simp add: case_prod_beta extractTarGz_append)
qed auto

section \<open>Reading a tree by path\<close>

fun node_at :: "node \<Rightarrow> string list \<Rightarrow> fsnode option" where
  "node_at (Reg a c) [] = Some (FReg a c)"
| "node_at (Dir a cs) [] = Some (FDir a)"
| "node_at (Dir a cs) (n # q) = (case map_of cs n of None \<Rightarrow> None | Some t \<Rightarrow> node_at t q)"
| "node_at _ _ = None"

definition tree_at :: "(string \<times> node) list \<Rightarrow> string list \<Rightarrow> fsnode option" where
  "tree_at cs q = (case q of [] \<Rightarrow> None
     | n # q' \<Rightarrow> (case map_of cs n of None \<Rightarrow> None | Some t \<Rightarrow> node_at t q'))"

lemma flat_is_tree_at:
  "plain_node umask t \<Longrightarrow> map_of (flat_node p t) (p @ q) = node_at t q"
  "plain_nodes umask cs \<Longrightarrow> map_of (flat_nodes p cs) (p @ q) = tree_at cs q"
proof (induction p t and p cs arbitrary: q and q rule: flat_node_flat_nodes.induct)
  case (1 p a c)
  then show ?case by (cases q) auto
next
  case (2 p a cs)
  then show ?case by (cases q) (auto simp: tree_at_def)
next
  case (5 p)
  then show ?case by (simp add: tree_at_def split: list.splits)
next
  case (6 p n t cs)
  have none: "map_of (flat_nodes p cs) (p @ n # q') = None" for q'
    using 6(3) by (intro map_of_flats_None) (auto simp: prefix_def)
  show ?case
  proof (cases q)
    case Nil
    have "map_of (flat_node (p @ [n]) t) p = None" by (rule map_of_flat_None) simp
    moreover have "map_of (flat_nodes p cs) p = None" using 6(2) [of "[]"] 6(3) by (simp add: tree_at_def)
    ultimately show ?thesis using Nil by (simp add: tree_at_def map_add_def)
  next
    case (Cons k q')
    show ?thesis
    proof (cases "k = n")
      case True
      then show ?thesis using 6(1) [of q'] 6(3) none [of q'] Cons
        by (auto simp: tree_at_def map_add_def split: option.splits)
    next
      case False
      then have "map_of (flat_node (p @ [n]) t) (p @ q) = None"
        using Cons by (intro map_of_flat_None) auto
      then show ?thesis using 6(2) [of q] 6(3) Cons False
        by (auto simp: tree_at_def map_add_def split: option.splits)
    qed
  qed
qed auto

text \<open>What \<open>createTarGz\<close> can write: no sockets, and links only to empty readable files.\<close>

fun archivable :: "node \<Rightarrow> bool" where
  "archivable (Reg a c) = True"
| "archivable (Dir a cs) = (\<forall>c\<in>set cs. archivable (snd c))"
| "archivable (Symlink a r) = (r = Inr [])"
| "archivable (Socket a) = False"

lemma tar_error_iff:
  "snd (tar_node rel t) = None \<longleftrightarrow> archivable t"
  "snd (tar_nodes rel cs) = None \<longleftrightarrow> (\<forall>c\<in>set cs. archivable (snd c))"
proof (induction rel t and rel cs rule: tar_node_tar_nodes.induct)
  case (6 rel n t cs)
  obtain es err where es: "tar_node (rel @ [n]) t = (es, err)" by (cases "tar_node (rel @ [n]) t")
  then show ?case using 6(1) 6(2) [of es err] by (cases err) (auto simp: case_prod_beta)
qed (auto split: sum.splits prod.splits)

section \<open>Properties\<close>


definition sample_tree :: "(string \<times> node) list" where
  "sample_tree =
     [(''common'', Dir \<lparr>at_mode = 493, at_uid = 1, at_gid = 2\<rparr>
        [(''db'', Reg \<lparr>at_mode = 384, at_uid = 1, at_gid = 2\<rparr> ''data'')])]"




text \<open>An entry name is not confined to the destination: dots lead out of it.\<close>

lemma extract_leaves_destination:
  "\<exists>fs'. extractTarGz 18 ''/tmp/x''
      [\<lparr>te_Name = ''../../etc'', te_Typeflag = TypeReg, te_attrs = \<lparr>at_mode = 384, at_uid = 0, at_gid = 0\<rparr>, te_body = ''b''\<rparr>]
      Map.empty = Inr fs' \<and> fs' [''etc''] = Some (FReg \<lparr>at_mode = 384, at_uid = 0, at_gid = 0\<rparr> ''b'')"
proof -
  have "path_parts (path_join [''/tmp/x'', ''../../etc'']) = [''etc'']" by code_simp
  then show ?thesis
    by (simp add: extract_entry_def MkdirAll_def write_file_def Chown_def fs_attrs_def)
qed

end
