(* ===== verification/Backup.thy ===== *)
theory Backup
  imports Snap Clock Tar
begin

text \<open>
  Backups (\<^verbatim>\<open>backend/backup\<close>, \<^verbatim>\<open>backend/du\<close>): names of backup files, creation, restore,
  removal and the schedule settings. What \<^verbatim>\<open>createTarGz\<close> and \<^verbatim>\<open>extractTarGz\<close> do to files
  is modelled in \<open>Tar\<close>; here they are calls, as are the copies of directories
  (\<^verbatim>\<open>otiai10/copy\<close>) and the other operations on files. The free space of a disk
  (\<^verbatim>\<open>go-disk-usage\<close>) is a value that cannot fail.
\<close>

section \<open>Names of backup files\<close>

record backup_file =
  bf_Path :: string
  bf_File :: string
  bf_App :: string
  bf_FullName :: string

text \<open>
  The expression \<^verbatim>\<open>(.*?)-\d{4}-\d{4}.*\<close> is not anchored: it matches at the first place that
  reaches a date without crossing a line end, and its group is the text from there to the
  first date.
\<close>

definition date_here :: "string \<Rightarrow> bool" where
  "date_here s \<longleftrightarrow> 10 \<le> length s \<and> s ! 0 = CHR ''-'' \<and> list_all is_digit (take 4 (drop 1 s))
     \<and> s ! 5 = CHR ''-'' \<and> list_all is_digit (take 4 (drop 6 s))"

fun before_date :: "string \<Rightarrow> string option" where
  "before_date [] = None"
| "before_date (c # s) =
     (if date_here (c # s) then Some [] else map_option (Cons c) (before_date s))"

definition Parse :: "string \<Rightarrow> string \<Rightarrow> error + backup_file" where
  "Parse path fileName = (case before_date fileName of
     None \<Rightarrow> Inl (Error (''backup file name should start with '' @ [CHR 0x27] @ ''[app]-YYYY-MMDD-'' @ [CHR 0x27]))
   | Some pre \<Rightarrow> Inr \<lparr>bf_Path = path, bf_File = fileName, bf_App = last (Split pre CHR ''\<newline>''),
                    bf_FullName = path @ ''/'' @ fileName\<rparr>)"

section \<open>Disk usage\<close>

definition first_number :: "string \<Rightarrow> string" where
  "first_number s = takeWhile is_digit (dropWhile (\<lambda>c. \<not> is_digit c) s)"

text \<open>Output without a number makes \<^verbatim>\<open>match[1]\<close> panic.\<close>

definition Used :: "string \<Rightarrow> 64 word go" where
  "Used path = andThen (run_cmd ''du'' [''-s'', path]) (\<lambda>out.
     if first_number out = [] then crash ''index out of range''
     else (case ParseUint64 (first_number out) of
         None \<Rightarrow> throw (Error ''value out of range'') | Some n \<Rightarrow> ret (of_nat n)))"

definition Available :: "string \<Rightarrow> 64 word go" where
  "Available dir = (\<lambda>w. (Ok (case e_u64 (w_env w) (w_hist w) (Sys ''statfs'' [dir]) of
     Inl _ \<Rightarrow> 0 | Inr n \<Rightarrow> n), record_call (Sys ''statfs'' [dir]) w))"

section \<open>Schedule settings\<close>

record backup_auto =
  ba_Auto :: string
  ba_Day :: int
  ba_Hour :: int

definition Backup_Auto :: "backup_auto go" where
  "Backup_Auto = andThen (cfg GetBackupAuto) (\<lambda>a. andThen (cfg GetBackupAutoDay) (\<lambda>d.
     andThen (cfg GetBackupAutoHour) (\<lambda>h. ret \<lparr>ba_Auto = a, ba_Day = d, ba_Hour = h\<rparr>)))"

definition Backup_SetAuto :: "backup_auto \<Rightarrow> unit go" where
  "Backup_SetAuto auto = andThen (cfg (SetBackupAuto (ba_Auto auto))) (\<lambda>_.
     andThen (cfg (SetBackupAutoDay (ba_Day auto))) (\<lambda>_. cfg (SetBackupAutoHour (ba_Hour auto))))"

section \<open>Operations\<close>

definition Backup_Start :: "string \<Rightarrow> unit go" where
  "Backup_Start backupDir = andThen (attempt (do_sys ''stat'' [backupDir])) (\<lambda>r.
     if r = Inl NotExist then do_sys ''mkdirall'' [backupDir] else ret ())"

fun parsed_files :: "string \<Rightarrow> string list \<Rightarrow> backup_file list" where
  "parsed_files dir [] = []"
| "parsed_files dir (n # ns) = (case Parse dir n of
     Inl _ \<Rightarrow> parsed_files dir ns | Inr f \<Rightarrow> f # parsed_files dir ns)"

definition Backup_List :: "string \<Rightarrow> backup_file list go" where
  "Backup_List backupDir = andThen (do_strs (Sys ''readdir'' [backupDir])) (\<lambda>files.
     ret (parsed_files backupDir files))"

text \<open>The zone in which \<^verbatim>\<open>Format\<close> prints is the local one.\<close>

definition Zone :: "zone go" where
  "Zone = gets (\<lambda>w. e_tz (w_env w))"

definition backup_name :: "string \<Rightarrow> wall_clock \<Rightarrow> string" where
  "backup_name app c = app @ ''-'' @ stamp c @ ''.tar.gz''"

definition Backup_Create :: "string \<Rightarrow> string \<Rightarrow> string \<Rightarrow> unit go" where
  "Backup_Create backupDir varDir app =
     andThen Now (\<lambda>t. andThen Zone (\<lambda>tz.
     let file = backupDir @ ''/'' @ backup_name app (wall tz t) in
     andThen (do_str (Sys ''mkdirtemp'' [])) (\<lambda>tempDir.
     let appBaseDir = varDir @ ''/'' @ app;
         currentDir = appBaseDir @ ''/current'';
         commonDir = appBaseDir @ ''/common'' in
     andThen (Used currentDir) (\<lambda>appCurrentSize.
     andThen (Used commonDir) (\<lambda>appCommonSize.
     andThen (Available tempDir) (\<lambda>tempSpaceLeft.
     if tempSpaceLeft < (appCurrentSize + appCommonSize) * 2
     then throw (Error ''not enough temp space for the backup'')
     else
     andThen (FindInstalled app) (\<lambda>found. case found of
       None \<Rightarrow> throw (Error (''app not found: '' @ app))
     | Some snap \<Rightarrow>
     andThen (RunCmdIfExists snap ''backup-pre-stop'') (\<lambda>_.
     andThen (Cli_Stop app) (\<lambda>_.
     andThen (RunCmdIfExists snap ''backup-post-stop'') (\<lambda>_.
     let tempCurrentDir = tempDir @ ''/current'' in
     andThen (do_sys ''mkdir'' [tempCurrentDir]) (\<lambda>_.
     andThen (do_str (Sys ''evalsymlinks'' [currentDir])) (\<lambda>versionDir.
     andThen (do_sys ''copy'' [versionDir, tempCurrentDir]) (\<lambda>_.
     let tempCommonDir = tempDir @ ''/common'' in
     andThen (do_sys ''mkdir'' [tempCommonDir]) (\<lambda>_.
     andThen (do_sys ''copy'' [commonDir, tempCommonDir]) (\<lambda>_.
     andThen (Cli_Start app) (\<lambda>_.
     andThen (do_sys ''createTarGz'' [file, tempDir]) (\<lambda>_.
       do_sys ''removeall'' [tempDir])))))))))))))))))"

definition recreateDir :: "string \<Rightarrow> unit go" where
  "recreateDir dir = andThen (do_sys ''removeall'' [dir]) (\<lambda>_. do_sys ''mkdirall'' [dir])"

definition atoi_or_error :: "string \<Rightarrow> int go" where
  "atoi_or_error s = (case Atoi s of None \<Rightarrow> throw (Error ''invalid syntax'') | Some i \<Rightarrow> ret i)"

definition backup_chown :: "string \<Rightarrow> string \<Rightarrow> unit go" where
  "backup_chown dir app =
     andThen (do_str (Sys ''lookup-user'' [app])) (\<lambda>u.
     andThen (do_str (Sys ''lookup-group'' [app])) (\<lambda>g.
     andThen (atoi_or_error u) (\<lambda>user_id.
     andThen (atoi_or_error g) (\<lambda>group_id.
       do_sys ''chown'' [dir, Itoa user_id, Itoa group_id]))))"

definition restore_dir :: "string \<Rightarrow> string \<Rightarrow> string \<Rightarrow> unit go" where
  "restore_dir src dst app =
     andThen (recreateDir dst) (\<lambda>_.
     andThen (do_sys ''copy'' [src, dst]) (\<lambda>_.
       backup_chown dst app))"

definition Backup_Restore :: "string \<Rightarrow> string \<Rightarrow> string \<Rightarrow> unit go" where
  "Backup_Restore backupDir varDir fileName =
     (case Parse backupDir fileName of
        Inl e \<Rightarrow> throw e
      | Inr file \<Rightarrow>
     andThen (do_str (Sys ''mkdirtemp'' [])) (\<lambda>tempDir.
     andThen (do_u64 (Sys ''filesize'' [bf_FullName file])) (\<lambda>fileSize.
     andThen (Available tempDir) (\<lambda>tempSpaceLeft.
     if tempSpaceLeft < fileSize * 2 then throw (Error ''not enough temp space for the restore'')
     else
     andThen (do_sys ''extractTarGz'' [bf_FullName file, tempDir]) (\<lambda>_.
     andThen (FindInstalled (bf_App file)) (\<lambda>found. case found of
       None \<Rightarrow> throw (Error (''app not found: '' @ bf_App file))
     | Some snap \<Rightarrow>
     andThen (RunCmdIfExists snap ''restore-pre-stop'') (\<lambda>_.
     andThen (Cli_Stop (bf_App file)) (\<lambda>_.
     andThen (RunCmdIfExists snap ''restore-post-stop'') (\<lambda>_.
     let appBaseDir = varDir @ ''/'' @ bf_App file in
     andThen (do_str (Sys ''evalsymlinks'' [appBaseDir @ ''/current''])) (\<lambda>targetCurrentDir.
     andThen (restore_dir (tempDir @ ''/current'') targetCurrentDir (bf_App file)) (\<lambda>_.
     andThen (restore_dir (tempDir @ ''/common'') (appBaseDir @ ''/common'') (bf_App file)) (\<lambda>_.
     andThen (RunCmdIfExists snap ''restore-pre-start'') (\<lambda>_.
     andThen (Cli_Start (bf_App file)) (\<lambda>_.
     andThen (RunCmdIfExists snap ''restore-post-start'') (\<lambda>_.
       do_sys ''removeall'' [tempDir])))))))))))))))"

definition Backup_Remove :: "string \<Rightarrow> string \<Rightarrow> unit go" where
  "Backup_Remove backupDir fileName = do_sys ''remove'' [backupDir @ ''/'' @ fileName]"

section \<open>Events of a backup\<close>

datatype backup_event =
    EStop | EStart | ECopy | EArchive | EExtract | ERemoveAll | EChown

fun backup_ev :: "call \<Rightarrow> backup_event option" where
  "backup_ev (Exec cmd as) =
     (if cmd = ''snap'' then
        (if as \<noteq> [] \<and> hd as = ''stop'' then Some EStop
         else if as \<noteq> [] \<and> hd as = ''start'' then Some EStart else None)
      else None)"
| "backup_ev (Sys f as) =
     (if f = ''copy'' then Some ECopy
      else if f = ''createTarGz'' then Some EArchive
      else if f = ''extractTarGz'' then Some EExtract
      else if f = ''removeall'' then Some ERemoveAll
      else if f = ''chown'' then Some EChown else None)"
| "backup_ev _ = None"

abbreviation no_event :: "call \<Rightarrow> bool" where
  "no_event c \<equiv> backup_ev c = None"

lemma keeps_FindInstalled [keeps_intros]:
  assumes "\<And>u. P (SnapdGet u)"
  shows "keeps (within P) (FindInstalled name)"
  unfolding FindInstalled_def using assms
  by (auto split: sum.splits intro!: keeps_intros)

lemma keeps_Cli_run: "P (Exec ''snap'' [c, n]) \<Longrightarrow> keeps (within P) (Cli_run c n)"
  unfolding Cli_run_def by (intro keeps_intros)

lemma keeps_RunCmdIfExists [keeps_intros]:
  assumes "\<And>n. P (Exec ''snap'' [''run'', n])"
  shows "keeps (within P) (RunCmdIfExists s cmd)"
  using assms
  by (auto simp: RunCmdIfExists_def Cli_Run_def split: option.splits intro!: keeps_Cli_run keeps_intros)

lemma keeps_Used [keeps_intros]: "P (Exec ''du'' [''-s'', path]) \<Longrightarrow> keeps (within P) (Used path)"
  unfolding Used_def by (auto split: option.splits intro!: keeps_intros)

lemma keeps_Available [keeps_intros]: "P (Sys ''statfs'' [d]) \<Longrightarrow> keeps (within P) (Available d)"
  by (auto simp: Available_def keeps_def)

lemma keeps_Zone [keeps_intros]: "keeps (within P) Zone"
  unfolding Zone_def by (intro keeps_intros)

lemma keeps_atoi [keeps_intros]: "keeps (within P) (atoi_or_error s)"
  by (auto simp: atoi_or_error_def split: option.splits intro!: keeps_intros)

lemma emits_sys:
  "backup_ev (Sys f as) = Some x \<Longrightarrow> emits backup_ev (do_sys f as) [x]"
  by (rule emits_event [OF follows_do_sys])

lemma emits_Stop [emits_intros]: "emits backup_ev (Cli_Stop app) [EStop]"
  and emits_Start [emits_intros]: "emits backup_ev (Cli_Start app) [EStart]"
  unfolding Cli_Stop_def Cli_Start_def by (rule emits_event [OF follows_Cli_run], simp)+

lemma quiet_steps:
  "emits backup_ev Now []" "emits backup_ev Zone []" "emits backup_ev (FindInstalled a) []"
  "emits backup_ev (Used p) []" "emits backup_ev (Available p) []"
  "emits backup_ev (RunCmdIfExists s c) []"
  "emits backup_ev (do_str (Sys ''mkdirtemp'' as)) []"
  "emits backup_ev (do_str (Sys ''evalsymlinks'' as)) []"
  "emits backup_ev (do_str (Sys ''lookup-user'' as)) []"
  "emits backup_ev (do_str (Sys ''lookup-group'' as)) []"
  "emits backup_ev (do_u64 (Sys ''filesize'' as)) []"
  "emits backup_ev (do_sys ''mkdir'' as) []" "emits backup_ev (do_sys ''mkdirall'' as) []"
  "emits backup_ev (atoi_or_error num) []"
  by (rule emits_quiet, intro keeps_intros; simp)+

lemma event_steps:
  "emits backup_ev (do_sys ''copy'' as) [ECopy]"
  "emits backup_ev (do_sys ''createTarGz'' as) [EArchive]"
  "emits backup_ev (do_sys ''extractTarGz'' as) [EExtract]"
  "emits backup_ev (do_sys ''removeall'' as) [ERemoveAll]"
  "emits backup_ev (do_sys ''chown'' as) [EChown]"
  by (rule emits_sys, simp)+

lemma emits_restore_dir:
  "emits backup_ev (restore_dir src dst app) [ERemoveAll, ECopy, EChown]"
proof -
  have a: "emits backup_ev (backup_chown dst app) [EChown]"
    unfolding backup_chown_def by (intro emits_skip quiet_steps event_steps)
  have "emits backup_ev (recreateDir dst) [ERemoveAll]"
    unfolding recreateDir_def by (intro emits_then quiet_steps event_steps)
  then show ?thesis
    unfolding restore_dir_def by (intro emits_then event_steps a)
qed

section \<open>Properties\<close>


definition backup_env :: environment where
  "backup_env = calm\<lparr>e_exec := (\<lambda>_ _. (''4'', None)), e_str := (\<lambda>_ _. Inr ''7''), 
     e_u64 := (\<lambda>_ c. Inr (if c = Sys ''statfs'' [''7''] then 100 else 10)),
     e_http := (\<lambda>_ _. Inr \<lparr>StatusCode = 200, resp_Status = [], Body = Inr \<lparr>body_text = [],
       body_json = Some (JObj [(''result'', JObj [(''name'', JStr ''files'')])])\<rparr>\<rparr>)\<rparr>"

lemmas backup_run_simps = Used_def Available_def Zone_def FindInstalled_def
  Snapd_Get_def do_http_def read_body_def json_body_def dec_snap_response_def dec_snap_def jkey_def
  RunCmdIfExists_def FindCommand_def Cli_Stop_def Cli_Start_def Cli_run_def run_cmd_def
  CombinedOutput_def do_sys_def do_unit_def do_str_def do_u64_def do_strs_def
  Let_def backup_env_def calm_def record_call_def andThen_def attempt_def of_sum_def

lemma backup_env_number: "first_number ''4'' = ''4''" "ParseUint64 ''4'' = Some 4" "Atoi ''7'' = Some 7"
  by (simp_all add: first_number_def ParseUint64_def Atoi_def ParseInt_def is_digit_def digit_val_def in_bits_def)

lemma backup_create_runs:
  "\<exists>w1. Backup_Create ''/backup'' ''/var/snap'' ''files'' (start_world backup_env) = (Ok (), w1) \<and> w_db w1 = fresh_db"
  using backup_env_number(1,2) unfolding Backup_Create_def by (simp add: backup_run_simps)




section \<open>Names\<close>

fun has_dash_year :: "string \<Rightarrow> bool" where
  "has_dash_year [] = False"
| "has_dash_year (c # s) \<longleftrightarrow>
     c = CHR ''-'' \<and> 4 \<le> length s \<and> list_all is_digit (take 4 s) \<or> has_dash_year s"

lemma dash_not_digit [simp]: "\<not> is_digit CHR ''-''"
  by code_simp

lemma before_date_app:
  assumes "\<not> has_dash_year app" "date_here (CHR ''-'' # s)"
  shows "before_date (app @ CHR ''-'' # s) = Some app"
  using assms
proof (induction app)
  case (Cons c t)
  have "\<not> date_here ((c # t) @ CHR ''-'' # s)"
  proof
    assume *: "date_here ((c # t) @ CHR ''-'' # s)"
    then have d: "c = CHR ''-''" "list_all is_digit (take 4 (t @ CHR ''-'' # s))"
      by (auto simp: date_here_def)
    show False
    proof (cases "4 \<le> length t")
      case True
      then show False using d Cons.prems by simp
    next
      case False
      then have "CHR ''-'' \<in> set (take 4 (t @ CHR ''-'' # s))" by (cases "4 - length t") auto
      then show False using d(2) dash_not_digit unfolding list_all_iff by blast
    qed
  qed
  then show ?case using Cons by simp
qed (simp add: date_here_def)

lemma nat_dec_length: "10 ^ k \<le> n \<Longrightarrow> k < length (nat_dec n)"
proof (induction k arbitrary: n)
  case (Suc k)
  then have "10 \<le> n" "10 ^ k \<le> n div 10"
    using Suc.prems le_trans [of 10 "10 ^ Suc k" n] by (auto simp: less_eq_div_iff_mult_less_eq)
  then show ?case using Suc.IH [of "n div 10"] by (simp add: nat_dec.simps [of n])
qed simp

lemma pad_length: "k \<le> length (pad k n)"
  using nat_dec_length [of k n] by (auto simp: pad_def)

lemma date_here_stamp:
  assumes "wc_year c < 10000"
  shows "date_here (CHR ''-'' # stamp c @ t)"
proof -
  let ?y = "pad 4 (wc_year c)" and ?md = "pad 2 (wc_month c) @ pad 2 (wc_day c)"
  have y: "length ?y = 4" using assms length_pad [of "wc_year c" 4] by simp
  have md: "4 \<le> length ?md" using pad_length [of 2 "wc_month c"] pad_length [of 2 "wc_day c"] by simp
  have s: "stamp c @ t = ?y @ CHR ''-'' # ?md @ (drop (length ?y + 1 + length ?md) (stamp c) @ t)"
    by (simp add: stamp_def)
  have "list_all is_digit ?y" "list_all is_digit (take 4 ?md)"
    by (auto simp: list_all_iff dest!: in_set_takeD intro: pad_are_digits)
  then show ?thesis
    unfolding date_here_def s using y md by (simp add: nth_append)
qed

text \<open>
  The name that \<open>Create\<close> gives to a backup is read back by \<open>Parse\<close> as a backup of the
  same app, for every time up to the year 9575 and every app whose name has no line end and no
  dash followed by four digits.
\<close>

lemma backup_name_roundtrip:
  assumes "\<not> has_dash_year app" "CHR ''\<newline>'' \<notin> set app"
    and "0 \<le> local_seconds tz t" "local_seconds tz t < 240000000000"
  shows "\<exists>f. Parse dir (backup_name app (wall tz t)) = Inr f \<and> bf_App f = app
     \<and> bf_FullName f = dir @ ''/'' @ backup_name app (wall tz t)"
proof -
  have "local_seconds tz t div 86400 < 2777778" using assms(4) by simp
  then have "fst (civil (local_seconds tz t div 86400)) < 10000"
    using civil_year(2) [of "local_seconds tz t div 86400"] assms(3)
    by (simp add: pos_imp_zdiv_nonneg_iff)
  then have "wc_year (wall tz t) < 10000" by (auto simp: wall_def split: prod.splits)
  from before_date_app [OF assms(1) date_here_stamp [OF this, of "''.tar.gz''"]]
  show ?thesis using assms(2) by (simp add: Parse_def backup_name_def Split_no_sep)
qed

lemma backup_name_roundtrip_example:
  "\<exists>f. Parse ''/b'' (backup_name ''my-app'' (wall (\<lambda>_. 3600) 1700000000)) = Inr f \<and> bf_App f = ''my-app''"
  using backup_name_roundtrip [of "''my-app''" "\<lambda>_. 3600" 1700000000 "''/b''"]
  by (auto simp: local_seconds_def is_digit_def)

text \<open>A dash followed by four digits in the name of the app is taken for the date.\<close>

lemma parse_misreads_year_in_name:
  "\<exists>f. Parse ''/b'' ''notes-2024-2025-0101-101010.tar.gz'' = Inr f \<and> bf_App f = ''notes''"
  by (rule exI [of _ "\<lparr>bf_Path = ''/b'', bf_File = ''notes-2024-2025-0101-101010.tar.gz'', bf_App = ''notes'',
     bf_FullName = ''/b/notes-2024-2025-0101-101010.tar.gz''\<rparr>"]) code_simp

end
