(* ===== verification/Cron.thy ===== *)
theory Cron
  imports Snapd Backup
begin

text \<open>
  The periodic jobs (\<^verbatim>\<open>backend/cron\<close>): the scheduler that decides whether a job is due, the
  jobs for backups, snapd upgrades, snapshots and the clock, and the loop body that runs them.
  The scheduler is an interface of the jobs; its contract is the locale below.
\<close>

section \<open>The scheduler\<close>

definition weekDay :: "zone \<Rightarrow> int \<Rightarrow> int" where
  "weekDay tz now = (if Weekday tz now = 0 then 7 else Weekday tz now)"

definition ShouldRun :: "zone \<Rightarrow> int \<Rightarrow> int \<Rightarrow> int \<Rightarrow> int \<Rightarrow> bool" where
  "ShouldRun tz day hour now lst =
     (if Truncate_Hour now = Truncate_Hour lst then False
      else if day = 0 then Hour tz now = hour
      else if weekDay tz now = day then Hour tz now = hour
      else False)"

section \<open>The jobs\<close>

definition AutoNo :: string where "AutoNo = ''no''"

definition AutoBackup :: string where "AutoBackup = ''backup''"

definition AutoRestore :: string where "AutoRestore = ''restore''"

record dirs =
  backupDir :: string
  varDir :: string

definition LatestBackup :: "dirs \<Rightarrow> string \<Rightarrow> string go" where
  "LatestBackup ds app = andThen (Backup_List (backupDir ds)) (\<lambda>list.
     let appFiles = map bf_File (filter (\<lambda>f. bf_App f = app) list)
     in if appFiles \<noteq> [] then ret (last (sort appFiles)) else throw (Error ''not found''))"

definition runBackup :: "dirs \<Rightarrow> string \<Rightarrow> int \<Rightarrow> unit go" where
  "runBackup ds app now = andThen (attempt (Backup_Create (backupDir ds) (varDir ds) app)) (\<lambda>r.
     case r of Inl _ \<Rightarrow> ret () | Inr _ \<Rightarrow> cfg (SetBackupAppTime app AutoBackup now))"

definition runRestore :: "dirs \<Rightarrow> string \<Rightarrow> int \<Rightarrow> unit go" where
  "runRestore ds app now = andThen (attempt (LatestBackup ds app)) (\<lambda>r.
     case r of
       Inl _ \<Rightarrow> ret ()
     | Inr latestBackup \<Rightarrow>
         andThen (attempt (Backup_Restore (backupDir ds) (varDir ds) latestBackup)) (\<lambda>r.
           case r of Inl _ \<Rightarrow> ret () | Inr _ \<Rightarrow> cfg (SetBackupAppTime app AutoRestore now)))"

definition backup_app :: "dirs \<Rightarrow> zone \<Rightarrow> string \<Rightarrow> int \<Rightarrow> int \<Rightarrow> int \<Rightarrow> syncloud_app \<Rightarrow> unit go" where
  "backup_app ds tz auto day hour now app =
     (if sa_Id app = ''syncthing'' then ret ()
      else andThen (cfg (GetBackupAppTime (sa_Id app) auto)) (\<lambda>lst.
        if ShouldRun tz day hour now lst
        then (if auto = AutoBackup then runBackup ds (sa_Id app) now else runRestore ds (sa_Id app) now)
        else ret ()))"

definition BackupJob_Run :: "dirs \<Rightarrow> unit go" where
  "BackupJob_Run ds = andThen InstalledUserApps (\<lambda>apps.
     andThen (cfg GetBackupAuto) (\<lambda>auto.
     if auto = AutoNo then ret ()
     else
     andThen (cfg GetBackupAutoDay) (\<lambda>day.
     andThen (cfg GetBackupAutoHour) (\<lambda>hour.
     andThen Now (\<lambda>now.
     andThen Zone (\<lambda>tz.
       forEach apps (backup_app ds tz auto day hour now)))))))"

definition SnapdUpgradeEveryDay :: int where "SnapdUpgradeEveryDay = 0"

definition SnapdUpgradeHour :: int where "SnapdUpgradeHour = 5"

definition offer_job :: "string \<Rightarrow> closure \<Rightarrow> unit go" where
  "offer_job name j = zoom w_jobs (\<lambda>m w. w\<lparr>w_jobs := m\<rparr>) (Offer name (Some j))"

definition SnapdUpgradeJob_Run :: "string \<Rightarrow> unit go" where
  "SnapdUpgradeJob_Run channel =
     andThen Now (\<lambda>now. andThen Zone (\<lambda>tz. andThen (gets snapd_lastRun) (\<lambda>lastRun.
     if \<not> ShouldRun tz SnapdUpgradeEveryDay SnapdUpgradeHour now lastRun then ret ()
     else
     andThen (Installer channel) (\<lambda>info.
     if TrimSpace (StoreVersion info) = TrimSpace (inst_InstalledVersion info)
     then modify (\<lambda>w. w\<lparr>snapd_lastRun := now\<rparr>)
     else
       let storeVersion = TrimSpace (StoreVersion info) in
       andThen (offer_job ''installer.upgrade'' (UpgradeSnapd storeVersion)) (\<lambda>_.
         modify (\<lambda>w. w\<lparr>snapd_lastRun := now\<rparr>))))))"

definition SnapshotsJob_Run :: "unit go" where
  "SnapshotsJob_Run = andThen DisableAutomatic (\<lambda>_. ForgetAuto)"

definition TimeSyncJob_Run :: "unit go" where
  "TimeSyncJob_Run = andThen Now (\<lambda>now. andThen (gets timesync_lastRun) (\<lambda>lastRun.
     if lastRun + 24 * 3600 < now
     then
       andThen (run_cmd ''service'' [''ntp'', ''stop'']) (\<lambda>_.
       andThen (run_cmd ''ntpd'' [''-gq'']) (\<lambda>_.
       andThen (run_cmd ''service'' [''ntp'', ''start'']) (\<lambda>_.
         modify (\<lambda>w. w\<lparr>timesync_lastRun := now\<rparr>))))
     else ret ()))"

text \<open>One round of the loop: an error of a job is logged and does not stop the others.\<close>

definition StartSingle :: "unit go list \<Rightarrow> unit go" where
  "StartSingle jobs = andThen (cfg IsActivated) (\<lambda>active.
     if \<not> active then ret ()
     else forEach jobs (\<lambda>job. andThen (attempt job) (\<lambda>_. ret ())))"

text \<open>
  The instants at which a job runs, for the instants at which the loop asks, when every run
  succeeds and is recorded.
\<close>

fun schedule_runs :: "(int \<Rightarrow> int \<Rightarrow> bool) \<Rightarrow> int \<Rightarrow> int list \<Rightarrow> int list" where
  "schedule_runs should_run lst [] = []"
| "schedule_runs should_run lst (t # ts) =
     (if should_run t lst then t # schedule_runs should_run t ts else schedule_runs should_run lst ts)"

section \<open>The contract of a scheduler\<close>

text \<open>
  A scheduler runs a job only in its hour and day, never twice in the same hour of absolute
  time, and does run it when it is due and has not run in this hour.
\<close>

locale scheduler =
  fixes should_run :: "int \<Rightarrow> int \<Rightarrow> bool" and due :: "int \<Rightarrow> bool"
  assumes not_in_last_hour: "should_run now lst \<Longrightarrow> Truncate_Hour now \<noteq> Truncate_Hour lst"
    and only_due: "should_run now lst \<Longrightarrow> due now"
    and due_runs: "due now \<Longrightarrow> Truncate_Hour now \<noteq> Truncate_Hour lst \<Longrightarrow> should_run now lst"
begin

lemma runs_are_asked: "set (schedule_runs should_run lst ts) \<subseteq> set ts"
  by (induction ts arbitrary: lst) auto

lemma runs_are_due: "t \<in> set (schedule_runs should_run lst ts) \<Longrightarrow> due t"
  by (induction ts arbitrary: lst) (auto dest: only_due split: if_splits)

lemma Truncate_mono: "s \<le> t \<Longrightarrow> Truncate_Hour s \<le> Truncate_Hour t"
proof -
  assume "s \<le> t"
  then have "s div 3600 \<le> t div 3600" by (rule zdiv_mono1) simp
  moreover have "Truncate_Hour x = 3600 * (x div 3600)" for x
    by (simp add: Truncate_Hour_def minus_mod_eq_mult_div)
  ultimately show ?thesis by simp
qed

text \<open>Runs happen in different hours.\<close>

lemma runs_increase:
  assumes "sorted ts" "\<And>t. t \<in> set ts \<Longrightarrow> lst \<le> t"
  shows "sorted_wrt (<) (map Truncate_Hour (schedule_runs should_run lst ts))
     \<and> (\<forall>t\<in>set (schedule_runs should_run lst ts). Truncate_Hour lst < Truncate_Hour t)"
  using assms
proof (induction ts arbitrary: lst)
  case (Cons t ts)
  then have le: "Truncate_Hour lst \<le> Truncate_Hour t" by (intro Truncate_mono) simp
  show ?case
  proof (cases "should_run t lst")
    case True
    then have "Truncate_Hour lst < Truncate_Hour t" using le not_in_last_hour by force
    moreover have "sorted_wrt (<) (map Truncate_Hour (schedule_runs should_run t ts))
        \<and> (\<forall>s\<in>set (schedule_runs should_run t ts). Truncate_Hour t < Truncate_Hour s)"
      using Cons by auto
    ultimately show ?thesis using True by fastforce
  next
    case False
    then show ?thesis using Cons by auto
  qed
qed simp

text \<open>Every due instant falls into the hour of a run.\<close>

lemma runs_cover:
  assumes "t \<in> set ts" "due t"
  shows "Truncate_Hour t = Truncate_Hour lst
     \<or> (\<exists>s\<in>set (schedule_runs should_run lst ts). Truncate_Hour s = Truncate_Hour t)"
  using assms
proof (induction ts arbitrary: lst)
  case (Cons u ts)
  show ?case
  proof (cases "t = u")
    case True
    then show ?thesis using Cons.prems due_runs [of u lst] by auto
  next
    case False
    then have t: "t \<in> set ts" using Cons.prems by simp
    show ?thesis
      using Cons.IH [OF t Cons.prems(2), of u] Cons.IH [OF t Cons.prems(2), of lst] not_in_last_hour
        due_runs [OF Cons.prems(2), of u]
      by (cases "should_run u lst") auto
  qed
qed simp

end

definition in_slot :: "zone \<Rightarrow> int \<Rightarrow> int \<Rightarrow> int \<Rightarrow> bool" where
  "in_slot tz day hour now \<longleftrightarrow> Hour tz now = hour \<and> (day = 0 \<or> weekDay tz now = day)"

interpretation simple: scheduler "ShouldRun tz day hour" "in_slot tz day hour"
  for tz day hour
  by unfold_locales (auto simp: ShouldRun_def in_slot_def split: if_splits)

section \<open>Lemmas\<close>

lemma distinct_map_coarser:
  assumes "distinct (map g xs)" "\<And>s t. s \<in> set xs \<Longrightarrow> t \<in> set xs \<Longrightarrow> f s = f t \<Longrightarrow> g s = g t"
  shows "distinct (map f xs)"
proof -
  have "inj_on g (set xs)" "distinct xs" using assms(1) by (simp_all add: distinct_map)
  moreover have "inj_on f (set xs)"
    using assms(2) \<open>inj_on g (set xs)\<close> by (metis inj_on_def)
  ultimately show ?thesis by (simp add: distinct_map)
qed

lemma Truncate_Hour_div: "Truncate_Hour t = 3600 * (t div 3600)"
  by (simp add: Truncate_Hour_def minus_mod_eq_mult_div)

text \<open>With an offset of whole hours, local day and local hour determine the absolute hour.\<close>

lemma hours_of_day: "(l :: int) div 3600 = 24 * (l div 86400) + l mod 86400 div 3600"
proof -
  have d: "l div (3600 * 24) = l div 3600 div 24" by (rule zdiv_zmult2_eq) simp
  have m: "l mod (3600 * 24) = 3600 * (l div 3600 mod 24) + l mod 3600" by (rule zmod_zmult2_eq) simp
  have "(3600 * q + l mod 3600) div 3600 = q" for q
    using div_mult_self4 [of 3600 q "l mod 3600"] by simp
  then have "l mod (3600 * 24) div 3600 = l div 3600 mod 24" unfolding m by blast
  then show ?thesis using d mult_div_mod_eq [of 24 "l div 3600"] by simp
qed

lemma local_hour_div:
  assumes "off mod 3600 = 0"
  shows "t div 3600 + off div 3600 = 24 * (local_seconds (\<lambda>_. off) t div 86400) + Hour (\<lambda>_. off) t"
proof -
  obtain h where h: "off = 3600 * h" using assms by (meson mod_0_imp_dvd dvdE)
  have "(t + 3600 * h) div 3600 = h + t div 3600" by (rule div_mult_self2) simp
  then show ?thesis
    using hours_of_day [of "t + 3600 * h"] unfolding h local_seconds_def Hour_def by simp
qed

section \<open>Properties\<close>

text \<open>
  C32. In a time zone with an offset of whole hours and for ticks in increasing order, a
  scheduled job runs only in its hour and on its day, at most once a day, and in every slot
  with a tick in which it has not already run it does run.
\<close>

theorem scheduler_once_per_slot:
  assumes "off mod 3600 = 0" "sorted ts" "\<forall>t\<in>set ts. lst \<le> t"
  shows "(\<forall>t\<in>set (schedule_runs (ShouldRun (\<lambda>_. off) day hour) lst ts). in_slot (\<lambda>_. off) day hour t)
     \<and> distinct (map (\<lambda>t. local_seconds (\<lambda>_. off) t div 86400)
         (schedule_runs (ShouldRun (\<lambda>_. off) day hour) lst ts))
     \<and> (\<forall>t\<in>set ts. in_slot (\<lambda>_. off) day hour t \<longrightarrow> Truncate_Hour t = Truncate_Hour lst
         \<or> (\<exists>s\<in>set (schedule_runs (ShouldRun (\<lambda>_. off) day hour) lst ts). Truncate_Hour s = Truncate_Hour t))"
proof -
  let ?rs = "schedule_runs (ShouldRun (\<lambda>_. off) day hour) lst ts"
  have due: "\<forall>t\<in>set ?rs. in_slot (\<lambda>_. off) day hour t" using simple.runs_are_due by blast
  have "sorted_wrt (<) (map Truncate_Hour ?rs)" using simple.runs_increase [of ts lst] assms(2,3) by blast
  then have "distinct (map Truncate_Hour ?rs)" by (simp add: strict_sorted_iff)
  moreover have "Truncate_Hour s = Truncate_Hour t"
    if "s \<in> set ?rs" "t \<in> set ?rs" "local_seconds (\<lambda>_. off) s div 86400 = local_seconds (\<lambda>_. off) t div 86400" for s t
  proof -
    have "Hour (\<lambda>_. off) s = Hour (\<lambda>_. off) t" using due that(1,2) by (simp add: in_slot_def)
    then have "s div 3600 = t div 3600"
      using local_hour_div [OF assms(1), of s] local_hour_div [OF assms(1), of t] that(3) by simp
    then show ?thesis by (simp add: Truncate_Hour_div)
  qed
  ultimately have "distinct (map (\<lambda>t. local_seconds (\<lambda>_. off) t div 86400) ?rs)"
    by (rule distinct_map_coarser)
  moreover have "\<forall>t\<in>set ts. in_slot (\<lambda>_. off) day hour t \<longrightarrow> Truncate_Hour t = Truncate_Hour lst
      \<or> (\<exists>s\<in>set ?rs. Truncate_Hour s = Truncate_Hour t)"
    by (intro ballI impI simple.runs_cover)
  ultimately show ?thesis using due by simp
qed

theorem scheduler_once_per_slot_witness:
  "\<exists>s\<in>set (schedule_runs (ShouldRun (\<lambda>_. 3600) 0 2) 0 [3000, 4000, 5000]). Truncate_Hour s = 3600"
  using scheduler_once_per_slot [of 3600 "[3000, 4000, 5000]" 0 0 2]
  by (auto simp: in_slot_def Hour_def local_seconds_def Truncate_Hour_def)

text \<open>With an offset of half an hour the same slot can see two runs.\<close>

lemma half_hour_zone_runs_twice:
  "schedule_runs (ShouldRun (\<lambda>_. 19800) 0 6) (- 1) [2000, 4000] = [2000, 4000]"
  "Hour (\<lambda>_. 19800) 2000 = 6" "Hour (\<lambda>_. 19800) 4000 = 6"
  by (simp_all add: ShouldRun_def Hour_def local_seconds_def Truncate_Hour_def)

text \<open>
  A backup that succeeded is remembered: for every later instant of the same hour the
  scheduler finds the app not due, as long as the time fits 32 bits.
\<close>

lemma backup_not_repeated_in_hour:
  assumes "Backup_Create (backupDir ds) (varDir ds) app w = (Ok (), w1)" "db_ready (w_db w1)"
    and "- 2147483648 \<le> now" "now \<le> 2147483647" "Truncate_Hour later = Truncate_Hour now"
  shows "\<exists>w' lst. runBackup ds app now w = (Ok (), w')
     \<and> cfg (GetBackupAppTime app AutoBackup) w' = (Ok lst, w') \<and> \<not> ShouldRun tz day hour later lst"
proof -
  have n: "in_bits 32 now" using assms(3,4) by (simp add: in_bits_def)
  show ?thesis using assms n
    by (simp add: runBackup_def cfg_def zoom_def io_simps ParseInt_Itoa ShouldRun_def)
qed

lemma backup_not_repeated_in_hour_example:
  "\<exists>w' lst. runBackup \<lparr>backupDir = ''/backup'', varDir = ''/var/snap''\<rparr> ''files'' 1700000000 (start_world backup_env) = (Ok (), w')
     \<and> cfg (GetBackupAppTime ''files'' AutoBackup) w' = (Ok lst, w') \<and> \<not> ShouldRun (\<lambda>_. 0) 0 22 1700000001 lst"
proof -
  obtain w1 where w1: "Backup_Create ''/backup'' ''/var/snap'' ''files'' (start_world backup_env) = (Ok (), w1)"
    "db_ready (w_db w1)" using backup_create_runs by auto
  let ?ds = "\<lparr>backupDir = ''/backup'', varDir = ''/var/snap''\<rparr>"
  have "Backup_Create (backupDir ?ds) (varDir ?ds) ''files'' (start_world backup_env) = (Ok (), w1)"
    using w1(1) by simp
  from backup_not_repeated_in_hour [OF this w1(2), of 1700000000 1700000001] show ?thesis
    by (simp add: Truncate_Hour_def)
qed

text \<open>
  The backup job does nothing but list the apps when automatic backups are off, or when
  every app is the backup transport or not due: no app is stopped and no setting changes.
\<close>

lemma backup_job_only_when_due:
  assumes "InstalledUserApps w = (Ok apps, w1)" "db_ready (w_db w1)"
    and "cfg GetBackupAuto w1 = (Ok auto, w1)" "cfg GetBackupAutoDay w1 = (Ok day, w1)"
    and "cfg GetBackupAutoHour w1 = (Ok hour, w1)"
    and "auto = AutoNo \<or> (\<forall>app\<in>set apps. sa_Id app = ''syncthing''
        \<or> (\<exists>lst. cfg (GetBackupAppTime (sa_Id app) auto) w1 = (Ok lst, w1)
              \<and> \<not> ShouldRun (e_tz (w_env w1)) day hour (e_now (w_env w1) (w_hist w1)) lst))"
  shows "BackupJob_Run ds w = (Ok (), w1)"
proof (cases "auto = AutoNo")
  case True
  then show ?thesis using assms(1,3) by (simp add: BackupJob_Run_def)
next
  case False
  let ?step = "backup_app ds (e_tz (w_env w1)) auto day hour (e_now (w_env w1) (w_hist w1))"
  have step: "?step app w1 = (Ok (), w1)" if "app \<in> set apps" for app
    using assms(6) False that by (auto simp: backup_app_def)
  have "set xs \<subseteq> set apps \<Longrightarrow> forEach xs ?step w1 = (Ok (), w1)" for xs
    using step by (induction xs) auto
  then show ?thesis using assms(1,3-5) False by (simp add: BackupJob_Run_def Zone_def)
qed

lemma backup_job_only_when_due_example:
  "\<exists>w1. BackupJob_Run \<lparr>backupDir = ''/backup'', varDir = ''/var/snap''\<rparr> (start_world one_snap_env) = (Ok (), w1) \<and> w_db w1 = fresh_db"
proof -
  obtain apps w1 where w1: "InstalledUserApps (start_world one_snap_env) = (Ok apps, w1)" "w_db w1 = fresh_db"
    by (simp add: InstalledUserApps_def Snaps_def Snapd_Get_def do_http_def start_world_def one_snap_env_def
        calm_def andThen_def read_body_def json_body_def dec_snaps_response_def jkey_def dec_snap_def
        dec_app_def record_call_def IsApp_def)
  have "cfg GetBackupAuto w1 = (Ok ''no'', w1)" "cfg GetBackupAutoDay w1 = (Ok 0, w1)"
    "cfg GetBackupAutoHour w1 = (Ok 0, w1)"
    using w1(2) by (simp_all add: cfg_def zoom_def io_simps view_str_def GetBackupAutoDay_def GetBackupAutoHour_def)
  from backup_job_only_when_due [OF w1(1) _ this] w1(2) show ?thesis by (auto simp: AutoNo_def)
qed

text \<open>
  Automatic restore takes the newest backup: when the backups of an app carry the names
  that \<open>Create\<close> gave them, \<open>LatestBackup\<close> returns one whose clock is not before any other's.
\<close>

lemma last_sort_max: "xs \<noteq> [] \<Longrightarrow> last (sort xs) \<in> set xs \<and> (\<forall>x\<in>set xs. x \<le> last (sort xs))"
proof -
  assume ne: "xs \<noteq> []"
  then have "sort xs \<noteq> []" by (metis set_empty set_sort)
  then have "last (sort xs) \<in> set xs" using last_in_set by fastforce
  moreover have "x \<le> last (sort xs)" if "x \<in> set xs" for x
  proof -
    have "x \<in> set (sort xs)" using that by simp
    then obtain i where "i < length (sort xs)" "x = sort xs ! i" unfolding in_set_conv_nth by blast
    then show ?thesis
      using sorted_nth_mono [OF sorted_sort, of i "length xs - 1" xs] \<open>sort xs \<noteq> []\<close>
      by (simp add: last_conv_nth)
  qed
  ultimately show ?thesis by blast
qed

lemma backup_name_order:
  assumes "proper c" "proper d"
  shows "backup_name app c \<le> backup_name app d \<longleftrightarrow> clock_fields c \<le> clock_fields d"
  using stamp_append_order [OF assms, of "''.tar.gz''"] append_order [of app app]
  by (simp add: backup_name_def)

lemma latest_backup_is_newest:
  assumes "Backup_List (backupDir ds) w = (Ok files, w1)"
    and "\<forall>f\<in>set files. bf_App f = app \<longrightarrow> (\<exists>c. proper c \<and> bf_File f = backup_name app c)"
    and "f \<in> set files" "bf_App f = app" "proper c" "bf_File f = backup_name app c"
  shows "\<exists>l. LatestBackup ds app w = (Ok (backup_name app l), w1)
     \<and> backup_name app l \<in> bf_File ` set files \<and> clock_fields c \<le> clock_fields l"
proof -
  let ?fs = "map bf_File (filter (\<lambda>f. bf_App f = app) files)"
  have mem: "bf_File f \<in> set ?fs" using assms(3,4) by auto
  then have ne: "?fs \<noteq> []" by (metis empty_iff list.set(1))
  then have latest: "LatestBackup ds app w = (Ok (last (sort ?fs)), w1)"
    using assms(1) by (simp add: LatestBackup_def Let_def)
  have l: "last (sort ?fs) \<in> set ?fs" "bf_File f \<le> last (sort ?fs)"
    using last_sort_max [OF ne] mem by blast+
  then obtain g d where "g \<in> set files" "bf_App g = app" "proper d" "last (sort ?fs) = backup_name app d"
    "bf_File g = backup_name app d"
    using assms(2) by fastforce
  then show ?thesis
    using latest l(2) backup_name_order [OF assms(5)] assms(6) by (metis image_eqI)
qed

definition two_backups_env :: environment where
  "two_backups_env = calm\<lparr>e_strs := (\<lambda>_ _. Inr [''a-2023-0102-030405.tar.gz'', ''a-2022-0102-030405.tar.gz''])\<rparr>"

lemma latest_backup_is_newest_example:
  "\<exists>l w1. LatestBackup \<lparr>backupDir = ''/b'', varDir = ''/v''\<rparr> ''a'' (start_world two_backups_env) = (Ok (backup_name ''a'' l), w1)
     \<and> [2023, 1, 2, 3, 4, 5] \<le> clock_fields l"
proof -
  let ?c = "\<lambda>y. \<lparr>wc_year = y, wc_month = 1, wc_day = 2, wc_hour = 3, wc_min = 4, wc_sec = 5\<rparr>"
  let ?f = "\<lambda>n. \<lparr>bf_Path = ''/b'', bf_File = n, bf_App = ''a'', bf_FullName = ''/b/'' @ n\<rparr>"
  let ?n1 = "''a-2023-0102-030405.tar.gz''" and ?n2 = "''a-2022-0102-030405.tar.gz''"
  let ?ds = "\<lparr>backupDir = ''/b'', varDir = ''/v''\<rparr>"
  have n: "?n1 = backup_name ''a'' (?c 2023)" "?n2 = backup_name ''a'' (?c 2022)"
    by (simp_all add: backup_name_def stamp_def pad_def str_simps)
  have p: "proper (?c 2023)" "proper (?c 2022)" by (simp_all add: proper_def)
  have "parsed_files ''/b'' [?n1, ?n2] = [?f ?n1, ?f ?n2]" by code_simp
  then obtain w1 where w1: "Backup_List (backupDir ?ds) (start_world two_backups_env) = (Ok [?f ?n1, ?f ?n2], w1)"
    by (simp add: Backup_List_def do_strs_def two_backups_env_def andThen_def)
  have all: "\<forall>f\<in>set [?f ?n1, ?f ?n2]. bf_App f = ''a'' \<longrightarrow> (\<exists>c. proper c \<and> bf_File f = backup_name ''a'' c)"
  proof (intro ballI impI)
    fix f assume "f \<in> set [?f ?n1, ?f ?n2]"
    then have "bf_File f = ?n1 \<or> bf_File f = ?n2" by auto
    then show "\<exists>c. proper c \<and> bf_File f = backup_name ''a'' c" using n p by metis
  qed
  have f: "bf_File (?f ?n1) = backup_name ''a'' (?c 2023)" unfolding n(1) [symmetric] by simp
  from latest_backup_is_newest [OF w1 all _ _ p(1) f]
  have "\<exists>l. LatestBackup ?ds ''a'' (start_world two_backups_env) = (Ok (backup_name ''a'' l), w1)
      \<and> clock_fields (?c 2023) \<le> clock_fields l" by auto
  moreover have "clock_fields (?c 2023) = [2023, 1, 2, 3, 4, 5]" by (simp add: clock_fields_def)
  ultimately show ?thesis by metis
qed

text \<open>
  The snapd upgrade job: when it is due and the store has another version, the upgrade is
  offered to the job queue; only an accepted offer marks the hour as done, so a busy queue is
  asked again at the next tick. When it is not due nothing happens at all.
\<close>

lemma snapd_job_retries_when_busy:
  assumes "Installer channel w = (Ok info, w1)" "w_jobs w1 = w_jobs w"
    and "TrimSpace (StoreVersion info) \<noteq> TrimSpace (inst_InstalledVersion info)"
    and "snapd_lastRun w1 = snapd_lastRun w"
  shows "SnapdUpgradeJob_Run channel w =
     (if \<not> ShouldRun (e_tz (w_env w)) 0 5 (e_now (w_env w) (w_hist w)) (snapd_lastRun w) then (Ok (), w)
      else if m_status (w_jobs w) \<noteq> Idle then (Err (Error ''busy''), w1)
      else (Ok (), w1\<lparr>w_jobs := (w_jobs w)\<lparr>m_status := Waiting,
              m_job := Some (UpgradeSnapd (TrimSpace (StoreVersion info))), m_name := ''installer.upgrade''\<rparr>,
              snapd_lastRun := e_now (w_env w) (w_hist w)\<rparr>))"
  using assms
  by (auto simp: SnapdUpgradeJob_Run_def Zone_def SnapdUpgradeEveryDay_def SnapdUpgradeHour_def Let_def
      offer_job_def zoom_def Offer_def andThen_def)

definition five_env :: environment where
  "five_env = snapd_env\<lparr>e_now := (\<lambda>_. 18000)\<rparr>"

lemma snapd_job_retries_when_busy_example:
  "m_status (w_jobs (snd (SnapdUpgradeJob_Run ''stable'' (start_world five_env)))) = Waiting"
proof -
  let ?w = "start_world five_env"
  obtain w1 where i: "Installer ''stable'' ?w = (Ok \<lparr>StoreVersion = [], inst_InstalledVersion = ''2''\<rparr>, w1)"
    "w_jobs w1 = w_jobs ?w" "snapd_lastRun w1 = snapd_lastRun ?w"
    by (simp add: Installer_def InstalledVersion_def Snapd_Get_def do_http_def five_env_def snapd_env_def calm_def
        start_world_def andThen_def read_body_def json_body_def dec_system_info_def jkey_def record_call_def)
  have "TrimSpace [] \<noteq> TrimSpace ''2''" by code_simp
  moreover have "m_status (w_jobs ?w) = Idle" by (simp add: NewMaster_def)
  moreover have "ShouldRun (e_tz (w_env ?w)) 0 5 (e_now (w_env ?w) (w_hist ?w)) (snapd_lastRun ?w)"
    by (simp add: five_env_def snapd_env_def calm_def ShouldRun_def Truncate_Hour_def Hour_def local_seconds_def
        start_world_def zero_time_def)
  ultimately show ?thesis
    using snapd_job_retries_when_busy [OF i(1,2) _ i(3)] by simp
qed

text \<open>
  A round of the cron loop runs every job, in order, each in the state the ones before it
  left, whether or not they failed, and reports no error; before activation it runs none.
\<close>

lemma cron_runs_all_jobs:
  assumes "cfg IsActivated w = (Ok active, w)" "\<forall>j\<in>set jobs. safe j"
  shows "StartSingle jobs w = (Ok (), if active then fold (\<lambda>j w. snd (j w)) jobs w else w)"
proof -
  have "forEach jobs (\<lambda>job. andThen (attempt job) (\<lambda>_. ret ())) v = (Ok (), fold (\<lambda>j w. snd (j w)) jobs v)" for v
    using assms(2)
  proof (induction jobs arbitrary: v)
    case (Cons j js)
    obtain r v' where j: "j v = (r, v')" by (cases "j v")
    have "r \<noteq> Crash p" for p using Cons.prems j safeD [of j v p v'] by auto
    then have "andThen (attempt j) (\<lambda>_. ret ()) v = (Ok (), v')" using j by (cases r) auto
    then show ?case using Cons.IH [of v'] Cons.prems j
      by (simp only: forEach.simps andThen_Ok) (simp del: ret_apply)
  qed simp
  then show ?thesis using assms(1) by (simp add: StartSingle_def)
qed

lemma cron_runs_all_jobs_example:
  "fst (StartSingle [throw NotFound, do_sys ''sync'' []] (start_world calm)) = Ok ()"
proof -
  have "cfg IsActivated (start_world calm) = (Ok False, start_world calm)"
    by (simp add: cfg_def zoom_def IsActivated_def io_simps view_bool_def view_str_def)
  from cron_runs_all_jobs [OF this, of "[throw NotFound, do_sys ''sync'' []]"] show ?thesis
    by (simp add: safe_basic safe_do)
qed

end
