(* ===== verification/Rest_Handlers.thy ===== *)
theory Rest_Handlers
  imports Middleware Activation Access Health Support Cron
begin

text \<open>
  The handlers of the web backend (\<^verbatim>\<open>backend/rest/backend.go\<close>, \<^verbatim>\<open>activate.go\<close>, \<^verbatim>\<open>certificate.go\<close>,
  \<^verbatim>\<open>custom_proxy.go\<close>, \<^verbatim>\<open>proxy.go\<close> and the request types), with the small services that only they
  use: power and uptime (\<^verbatim>\<open>backend/system\<close>) and the list of network interfaces.
\<close>

section \<open>Power, uptime, interfaces\<close>

text \<open>The command runs in a goroutine of its own, two seconds later.\<close>

definition schedule :: "string list \<Rightarrow> unit go" where
  "schedule args = spawn (RunShutdown args)"

definition Power_Restart :: "unit go" where
  "Power_Restart = schedule [''-r'', ''now'']"

definition Power_Shutdown :: "unit go" where
  "Power_Shutdown = schedule [''now'']"

definition shutdown_task :: "string list \<Rightarrow> unit go" where
  "shutdown_task args = andThen (do_void (Sys ''sleep'' [''2s''])) (\<lambda>_.
     andThen (CombinedOutput ''shutdown'' args) (\<lambda>_. ret ()))"

text \<open>The whole seconds of a plain decimal number.\<close>

definition decimal_seconds :: "string \<Rightarrow> int option" where
  "decimal_seconds s = (case Split s CHR ''.'' of
     [a] \<Rightarrow> if a = [] then None else map_option int (digits_val 0 a)
   | [a, b] \<Rightarrow> if (a = [] \<and> b = []) \<or> digits_val 0 b = None then None else map_option int (digits_val 0 a)
   | _ \<Rightarrow> None)"

definition Uptime_Seconds :: "int go" where
  "Uptime_Seconds = andThen (do_str (Sys ''readfile'' [''/proc/uptime''])) (\<lambda>content. case Fields content of
     [] \<Rightarrow> throw (Error (''cannot parse /proc/uptime: '' @ content))
   | f # _ \<Rightarrow> (case decimal_seconds f of
       None \<Rightarrow> throw (Error ''cannot parse /proc/uptime: invalid syntax'') | Some n \<Rightarrow> ret n))"

record network_interface =
  ni_Name :: string
  ni_Addresses :: "string list"

fun interfaces_of :: "(string \<times> string) list \<Rightarrow> network_interface list go" where
  "interfaces_of [] = ret []"
| "interfaces_of ((name, _) # rest) =
     (if name = ''lo'' then interfaces_of rest
      else andThen (do_strs (Sys ''Addrs'' [name])) (\<lambda>addresses.
        andThen (interfaces_of rest) (\<lambda>is. ret (\<lparr>ni_Name = name, ni_Addresses = addresses\<rparr> # is))))"

definition Interfaces_List :: "network_interface list go" where
  "Interfaces_List = andThen (do_pairs (Sys ''net.Interfaces'' [])) interfaces_of"

section \<open>Data of answers\<close>

record mail_credentials =
  mc_Enabled :: bool
  mc_Host :: string
  mc_Port :: int
  mc_Login :: string
  mc_Password :: string

text \<open>The dynamic types behind \<^verbatim>\<open>interface{}\<close>.\<close>

datatype data =
    D_Nil
  | D_String string
  | D_StringPtr "string option"
  | D_Bool bool
  | D_Int int
  | D_Strings "string list"
  | D_Error "error option"
  | D_Files "backup_file list"
  | D_Auto backup_auto
  | D_Status job_status
  | D_RedirectInfo string
  | D_Access access
  | D_MailRelay bool
  | D_MailCredentials mail_credentials
  | D_Apps "syncloud_app list"
  | D_App app_versions
  | D_Installer installer_info
  | D_Progress "bool \<times> (string \<Rightarrow> installer_progress option)"
  | D_Id device_id
  | D_Disks "disk list"
  | D_Partition partition
  | D_Space "bool \<times> space_mount list"
  | D_Interfaces "network_interface list"
  | D_UserInfo string bool
  | D_Users "user list"
  | D_Groups "user_group list"
  | D_Events "event list"
  | D_Metrics health_snapshot
  | D_TwoFactor bool string
  | D_Timezone string
  | D_Time string string
  | D_Uri string
  | D_CertInfo cert_info
  | D_Proxies "proxy_entry list"

text \<open>What the backend is built with.\<close>

record backend_conf =
  bc_sys :: sysconf
  bc_backupDir :: string
  bc_varDir :: string
  bc_arch :: string

section \<open>Reading requests\<close>

definition decode_request :: "(json \<Rightarrow> 'a option) \<Rightarrow> string \<Rightarrow> ('d, 'a) web" where
  "decode_request dec msg = andThen (gets (\<lambda>x. Option.bind (rq_json (x_req x)) dec)) (\<lambda>r.
     case r of None \<Rightarrow> throw (Error msg) | Some a \<Rightarrow> ret a)"

definition query_Get :: "string \<Rightarrow> ('d, string) web" where
  "query_Get k = gets (\<lambda>x. case map_of (rq_query (x_req x)) k of None \<Rightarrow> [] | Some v \<Rightarrow> v)"

definition query_Has :: "string \<Rightarrow> ('d, bool) web" where
  "query_Has k = gets (\<lambda>x. map_of (rq_query (x_req x)) k \<noteq> None)"

definition str_field :: "string \<Rightarrow> json \<Rightarrow> string option" where
  "str_field name = dec_obj (\<lambda>k. dec_str (k name))"

definition bool_field :: "string \<Rightarrow> json \<Rightarrow> bool option" where
  "bool_field name = dec_obj (\<lambda>k. dec_bool (k name))"

definition two_fields :: "string \<Rightarrow> string \<Rightarrow> json \<Rightarrow> (string \<times> string) option" where
  "two_fields a b = dec_obj (\<lambda>k. case (dec_str (k a), dec_str (k b)) of (Some x, Some y) \<Rightarrow> Some (x, y) | _ \<Rightarrow> None)"

definition str_bool_fields :: "string \<Rightarrow> string \<Rightarrow> json \<Rightarrow> (string \<times> bool) option" where
  "str_bool_fields a b = dec_obj (\<lambda>k. case (dec_str (k a), dec_bool (k b)) of (Some x, Some y) \<Rightarrow> Some (x, y) | _ \<Rightarrow> None)"

definition dec_backup_auto :: "json \<Rightarrow> backup_auto option" where
  "dec_backup_auto = dec_obj (\<lambda>k. case (dec_str (k ''auto''), dec_int (k ''day''), dec_int (k ''hour'')) of
     (Some a, Some d, Some h) \<Rightarrow> Some \<lparr>ba_Auto = a, ba_Day = d, ba_Hour = h\<rparr> | _ \<Rightarrow> None)"

definition dec_access :: "json \<Rightarrow> access option" where
  "dec_access = dec_obj (\<lambda>k.
     case (dec_bool (k ''relay_enabled''), dec_opt dec_str (k ''ipv4''), dec_bool (k ''ipv4_enabled''),
       dec_bool (k ''ipv4_public''), dec_opt dec_int (k ''access_port''), dec_bool (k ''ipv6_enabled'')) of
       (Some relay, Some ip, Some en, Some pub, Some port, Some six) \<Rightarrow>
         Some \<lparr>RelayEnabled = relay, Ipv4 = ip, Ipv4Enabled = en, Ipv4Public = pub, AccessPort = port, Ipv6Enabled = six\<rparr>
     | _ \<Rightarrow> None)"

record user_add =
  ua_Username :: string
  ua_Password :: string
  ua_Email :: string
  ua_Admin :: bool

definition dec_user_add :: "json \<Rightarrow> user_add option" where
  "dec_user_add = dec_obj (\<lambda>k.
     case (dec_str (k ''username''), dec_str (k ''password''), dec_str (k ''email''), dec_bool (k ''admin'')) of
       (Some u, Some p, Some e, Some a) \<Rightarrow> Some \<lparr>ua_Username = u, ua_Password = p, ua_Email = e, ua_Admin = a\<rparr>
     | _ \<Rightarrow> None)"

definition dec_activate_disks :: "json \<Rightarrow> (string list \<times> bool) option" where
  "dec_activate_disks = dec_obj (\<lambda>k. case (dec_list dec_str (k ''devices''), dec_bool (k ''format'')) of
     (Some ds, Some f) \<Rightarrow> Some (ds, f) | _ \<Rightarrow> None)"

section \<open>Backups and jobs\<close>

type_synonym handler = "(data, data) page"

definition serve_as :: "('a \<Rightarrow> data) \<Rightarrow> 'a go \<Rightarrow> handler" where
  "serve_as f m = andThen (serve m) (\<lambda>a. ret (f a))"

definition serve_then :: "string \<Rightarrow> 'a go \<Rightarrow> handler" where
  "serve_then msg m = andThen (serve m) (\<lambda>_. ret (D_String msg))"

definition BackupList_h :: "backend_conf \<Rightarrow> handler" where
  "BackupList_h b = serve_as D_Files (Backup_List (bc_backupDir b))"

definition GetBackupAuto_h :: handler where
  "GetBackupAuto_h = serve_as D_Auto Backup_Auto"

definition SetBackupAuto_h :: handler where
  "SetBackupAuto_h = andThen (decode_request dec_backup_auto ''bad request'') (\<lambda>request. serve_then ''OK'' (Backup_SetAuto request))"

definition BackupRemove_h :: "backend_conf \<Rightarrow> handler" where
  "BackupRemove_h b = andThen (decode_request (str_field ''file'') ''file is missing'') (\<lambda>file.
     serve_then ''removed'' (Backup_Remove (bc_backupDir b) file))"

definition BackupCreate_h :: handler where
  "BackupCreate_h = andThen (decode_request (str_field ''app'') ''app is missing'') (\<lambda>app.
     serve_then ''submitted'' (offer_job ''backup.create'' (CreateBackup app)))"

definition BackupRestore_h :: handler where
  "BackupRestore_h = andThen (decode_request (str_field ''file'') ''file is missing'') (\<lambda>file.
     serve_then ''submitted'' (offer_job ''backup.restore'' (RestoreBackup file)))"

definition InstallerUpgrade_h :: "backend_conf \<Rightarrow> handler" where
  "InstallerUpgrade_h b = andThen (serve (Installer (Channel (bc_sys b)))) (\<lambda>info.
     serve_then ''submitted'' (offer_job ''installer.upgrade'' (UpgradeSnapd (StoreVersion info))))"

definition JobStatus_h :: handler where
  "JobStatus_h = serve_as D_Status (\<lambda>w. (Master_Status (w_jobs w), w))"

definition EventTrigger_h :: handler where
  "EventTrigger_h = andThen (decode_request (str_field ''event'') ''event is missing'') (\<lambda>e. serve_then ''ok'' (RunEventOnAllApps e))"

text \<open>What the worker does with a closure.\<close>

definition run_closure :: "backend_conf \<Rightarrow> closure \<Rightarrow> unit go" where
  "run_closure b j = (case j of
     UpgradeSnapd version \<Rightarrow> Snapd_Upgrade (bc_arch b) version
   | CreateBackup app \<Rightarrow> Backup_Create (bc_backupDir b) (bc_varDir b) app
   | RestoreBackup file \<Rightarrow> Backup_Restore (bc_backupDir b) (bc_varDir b) file
   | ExtendBoot \<Rightarrow> BootExtend
   | ActivateOnPartition device \<Rightarrow> ActivatePartition (bc_sys b) device
   | ActivateOnDisks devices format \<Rightarrow> ActivateDisks (bc_sys b) devices format
   | RunShutdown args \<Rightarrow> shutdown_task args)"

section \<open>Settings\<close>

definition RedirectInfo_h :: handler where
  "RedirectInfo_h = serve_as D_RedirectInfo (cfg Redirect_Domain)"

definition stored_access :: "access cfg" where
  "stored_access =
     andThen IsRelayEnabled (\<lambda>relay.
     andThen GetPublicIp (\<lambda>ip.
     andThen IsIpv4Enabled (\<lambda>en.
     andThen IsIpv4Public (\<lambda>pub.
     andThen GetPublicPort (\<lambda>port.
     andThen IsIpv6Enabled (\<lambda>six.
       ret \<lparr>RelayEnabled = relay, Ipv4 = ip, Ipv4Enabled = en, Ipv4Public = pub, AccessPort = port, Ipv6Enabled = six\<rparr>))))))"

definition GetAccess_h :: handler where
  "GetAccess_h = serve_as D_Access (cfg stored_access)"

definition SetAccess_h :: "backend_conf \<Rightarrow> handler" where
  "SetAccess_h b = andThen (decode_request dec_access ''access request is wrong'') (\<lambda>request.
     andThen (serve (Access_Update (bc_sys b) request)) (\<lambda>_. ret (D_Access request)))"

definition IsActivated_h :: handler where
  "IsActivated_h = serve_as D_Bool (cfg IsActivated)"

definition GetMailRelay_h :: handler where
  "GetMailRelay_h = serve_as D_MailRelay (cfg IsMailRelayEnabled)"

definition SetMailRelay_h :: "backend_conf \<Rightarrow> handler" where
  "SetMailRelay_h b = andThen (decode_request (bool_field ''enabled'') ''mail relay request is wrong'') (\<lambda>enabled.
     andThen (serve (cfg (SetMailRelayEnabled enabled))) (\<lambda>_.
     andThen (serve (Access_Sync (bc_sys b))) (\<lambda>_.
     andThen (serve RunMailRelayChangeEvent) (\<lambda>_. ret (D_MailRelay enabled)))))"

definition Deactivate_h :: handler where
  "Deactivate_h = serve_then ''OK'' (cfg SetDeactivated)"

definition DeviceUrl_h :: handler where
  "DeviceUrl_h = serve_as D_String (cfg DeviceUrl)"

definition GetTwoFactorSettings_h :: handler where
  "GetTwoFactorSettings_h = andThen (serve (cfg IsTwoFactorEnabled)) (\<lambda>enabled.
     andThen (serve (cfg (Url ''auth''))) (\<lambda>url. ret (D_TwoFactor enabled url)))"

definition SetTwoFactorSettings_h :: handler where
  "SetTwoFactorSettings_h = andThen (decode_request (bool_field ''enabled'') ''bad request'') (\<lambda>enabled.
     andThen (serve (cfg (SetTwoFactorEnabled enabled))) (\<lambda>_.
     andThen (if enabled then andThen (attempt (serve TOTP_ResetAll)) (\<lambda>_. ret ()) else ret ()) (\<lambda>_.
     andThen (serve (wrap_err ''unable to apply 2FA settings: '' Authelia_InitConfig)) (\<lambda>_.
     andThen (serve (wrap_err ''authelia not ready after 2FA settings change: '' WaitForReady)) (\<lambda>_.
       ret (D_String ''OK''))))))"

definition GetTimezone_h :: handler where
  "GetTimezone_h = serve_as D_Timezone Timezone_Current"

definition SetTimezone_h :: handler where
  "SetTimezone_h = andThen (decode_request (str_field ''timezone'') ''bad request'') (\<lambda>tz. serve_then ''OK'' (Timezone_Apply tz))"

definition GetTime_h :: handler where
  "GetTime_h = andThen (serve Timezone_Current) (\<lambda>tz.
     andThen (serve Now) (\<lambda>now.
     andThen (gets (\<lambda>x. w_env (x_world x))) (\<lambda>e.
       ret (D_Time tz (e_rfc3339 e (if e_location e tz then tz else ''UTC'') now)))))"

section \<open>Apps\<close>

definition AppsAvailable_h :: handler where
  "AppsAvailable_h = serve_as D_Apps StoreUserApps"

definition AppsInstalled_h :: handler where
  "AppsInstalled_h = serve_as D_Apps InstalledUserApps"

definition app_action_h :: "(string \<Rightarrow> unit go) \<Rightarrow> handler" where
  "app_action_h act = andThen (decode_request (str_field ''app_id'') ''wrong request'') (\<lambda>app.
     andThen (serve (act app)) (\<lambda>_. ret D_Nil))"

definition AppUpgrade_h :: handler where "AppUpgrade_h = app_action_h Snap_Upgrade"

definition AppInstall_h :: handler where "AppInstall_h = app_action_h Snap_Install"

definition AppRemove_h :: handler where "AppRemove_h = app_action_h Snap_Remove"

definition App_h :: handler where
  "App_h = andThen (query_Has ''app_id'') (\<lambda>has.
     if has then andThen (query_Get ''app_id'') (\<lambda>app. serve_as D_App (Find app))
     else throw (Error ''app_id query param is missing''))"

definition InstallerVersion_h :: "backend_conf \<Rightarrow> handler" where
  "InstallerVersion_h b = serve_as D_Installer (Installer (Channel (bc_sys b)))"

definition InstallerStatus_h :: handler where
  "InstallerStatus_h = serve_as D_Progress Changes"

definition Id_h :: handler where
  "Id_h = andThen (attempt (serve GetId)) (\<lambda>r. case r of
     Inl _ \<Rightarrow> throw (Error ''id is not available'') | Inr i \<Rightarrow> ret (D_Id i))"

section \<open>Storage and power\<close>

definition StorageBootExtend_h :: handler where
  "StorageBootExtend_h = andThen (attempt (serve (offer_job ''storage.boot.extend'' ExtendBoot))) (\<lambda>_. ret (D_String ''submitted''))"

definition StorageDisks_h :: "backend_conf \<Rightarrow> handler" where
  "StorageDisks_h b = andThen (gets (\<lambda>x. e_json (w_env (x_world x)))) (\<lambda>parse.
     serve_as D_Disks (Disks_AvailableDisks parse (bc_sys b)))"

definition StorageBootDisk_h :: "backend_conf \<Rightarrow> handler" where
  "StorageBootDisk_h b = serve_as D_Partition (RootPartition (bc_sys b))"

definition StorageDiskDeactivate_h :: "backend_conf \<Rightarrow> handler" where
  "StorageDiskDeactivate_h b = serve_then ''OK'' (Deactivate (bc_sys b))"

definition StorageActivatePartition_h :: handler where
  "StorageActivatePartition_h = andThen (decode_request (str_bool_fields ''device'' ''format'') ''cannot decode'') (\<lambda>(device, format).
     andThen (if format then serve (Storage_Format device) else ret ()) (\<lambda>_.
       serve_then ''OK'' (offer_job ''storage.activate.partition'' (ActivateOnPartition device))))"

definition StorageActivateDisks_h :: handler where
  "StorageActivateDisks_h = andThen (decode_request dec_activate_disks ''cannot decode'') (\<lambda>(devices, format).
     serve_then ''OK'' (offer_job ''storage.activate.disks'' (ActivateOnDisks devices format)))"

definition StorageSpace_h :: "backend_conf \<Rightarrow> handler" where
  "StorageSpace_h b = serve_as D_Space (DiskSpace_Status (bc_sys b))"

definition StorageLastError_h :: handler where
  "StorageLastError_h = andThen (serve GetLastError) (\<lambda>e. case e of None \<Rightarrow> ret (D_String ''OK'') | Some err \<Rightarrow> throw err)"

definition StorageClearError_h :: handler where
  "StorageClearError_h = serve_then ''OK'' ClearLastError"

definition Logs_h :: handler where
  "Logs_h = serve_as D_Strings (ReadAll (\<lambda>_. True))"

definition Restart_h :: handler where
  "Restart_h = serve_then ''OK'' Power_Restart"

definition Shutdown_h :: handler where
  "Shutdown_h = serve_then ''OK'' Power_Shutdown"

definition Uptime_h :: handler where
  "Uptime_h = serve_as D_Int Uptime_Seconds"

definition NetworkInterfaces_h :: handler where
  "NetworkInterfaces_h = serve_as D_Interfaces Interfaces_List"

text \<open>The error of sending is the data of the answer, not its error.\<close>

definition SendLogs_h :: handler where
  "SendLogs_h = andThen (query_Get ''include_support'') (\<lambda>v.
     andThen (attempt (serve (Support_Send (v = ''true'')))) (\<lambda>r.
       ret (D_Error (case r of Inl e \<Rightarrow> Some e | Inr _ \<Rightarrow> None))))"

definition HealthEvents_h :: "backend_conf \<Rightarrow> handler" where
  "HealthEvents_h b = andThen (query_Get ''limit'') (\<lambda>v.
     let limit = (case (if v = [] then None else Atoi v) of
        Some n \<Rightarrow> if 0 < n \<and> n \<le> 1000 then n else 100 | None \<Rightarrow> 100) in
     serve_as D_Events (Health_Events (bc_sys b) limit))"

definition HealthMetrics_h :: handler where
  "HealthMetrics_h = serve_as D_Metrics Health_Metrics"

section \<open>Users and groups\<close>

definition User_h :: handler where
  "User_h = andThen (attempt GetSessionUser) (\<lambda>r.
     let username = (case r of Inl _ \<Rightarrow> [] | Inr u \<Rightarrow> u) in
     andThen (attempt (serve (IsAdmin username))) (\<lambda>a.
       ret (D_UserInfo username (case a of Inl _ \<Rightarrow> False | Inr b \<Rightarrow> b))))"

definition Users_h :: handler where
  "Users_h = serve_as D_Users ListUsers"

definition UserAdd_h :: handler where
  "UserAdd_h = andThen (decode_request dec_user_add ''wrong request'') (\<lambda>r.
     serve_then ''ok'' (AddUser (ua_Username r) (ua_Password r) (ua_Email r) (ua_Admin r)))"

definition UserRemove_h :: handler where
  "UserRemove_h = andThen (decode_request (str_field ''username'') ''wrong request'') (\<lambda>u. serve_then ''ok'' (RemoveUser u))"

definition UserSetEmail_h :: handler where
  "UserSetEmail_h = andThen (decode_request (two_fields ''username'' ''email'') ''wrong request'') (\<lambda>(u, e).
     serve_then ''ok'' (SetUserEmail u e))"

definition UserSetPassword_h :: handler where
  "UserSetPassword_h = andThen (decode_request (two_fields ''username'' ''password'') ''wrong request'') (\<lambda>(u, p).
     serve_then ''ok'' (SetPassword u p))"

definition UserSetAdmin_h :: handler where
  "UserSetAdmin_h = andThen (decode_request (str_bool_fields ''username'' ''admin'') ''wrong request'') (\<lambda>(u, a).
     serve_then ''ok'' (SetAdmin u a))"

definition Groups_h :: handler where
  "Groups_h = serve_as D_Groups ListGroups"

definition GroupAdd_h :: handler where
  "GroupAdd_h = andThen (decode_request (str_field ''name'') ''wrong request'') (\<lambda>g. serve_then ''ok'' (AddGroup g))"

definition GroupRemove_h :: handler where
  "GroupRemove_h = andThen (decode_request (str_field ''name'') ''wrong request'') (\<lambda>g. serve_then ''ok'' (RemoveGroup g))"

definition GroupMemberAdd_h :: handler where
  "GroupMemberAdd_h = andThen (decode_request (two_fields ''group'' ''username'') ''wrong request'') (\<lambda>(g, u).
     serve_then ''ok'' (AddGroupMember g u))"

definition GroupMemberRemove_h :: handler where
  "GroupMemberRemove_h = andThen (decode_request (two_fields ''group'' ''username'') ''wrong request'') (\<lambda>(g, u).
     serve_then ''ok'' (RemoveGroupMember g u))"

text \<open>\<^verbatim>\<open>fmt.Errorf("...: %w", err)\<close> around the error of a handler's own step.\<close>

definition web_wrap :: "string \<Rightarrow> ('d, 'a) web \<Rightarrow> ('d, 'a) web" where
  "web_wrap p m = andThen (attempt m) (\<lambda>r. case r of Inl e \<Rightarrow> throw (Error (p @ err_text e)) | Inr a \<Rightarrow> ret a)"

definition GenerateTOTP_h :: handler where
  "GenerateTOTP_h = andThen (web_wrap ''unable to get session user: '' GetSessionUser) (\<lambda>username.
     andThen (web_wrap ''unable to generate TOTP: '' (serve (TOTP_Generate username))) (\<lambda>uri. ret (D_Uri uri)))"

section \<open>Login and logout\<close>

definition fail_bad :: "error \<Rightarrow> (data, unit) page" where
  "fail_bad e = Fail (BadRequest e)"

definition OIDCLogin :: "(data, unit) page" where
  "OIDCLogin = andThen (attempt (serve GetAuthorizationURL)) (\<lambda>r. case r of
     Inl e \<Rightarrow> fail_bad e
   | Inr (authURL, state, codeVerifier) \<Rightarrow> andThen (attempt (SetOIDCState state codeVerifier)) (\<lambda>s. case s of
       Inl e \<Rightarrow> fail_bad e | Inr _ \<Rightarrow> http_Redirect authURL 302))"

definition start_session :: "string \<Rightarrow> (data, unit) page" where
  "start_session username =
     andThen (attempt ClearOIDCState) (\<lambda>_.
     andThen (attempt ClearSessionUser) (\<lambda>r. case r of
       Inl e \<Rightarrow> fail_bad e
     | Inr _ \<Rightarrow> andThen (attempt (SetSessionUser username)) (\<lambda>s. case s of
         Inl e \<Rightarrow> fail_bad e | Inr _ \<Rightarrow> http_Redirect ''/'' 302)))"

definition OIDCCallback :: "(data, unit) page" where
  "OIDCCallback =
     andThen (query_Get ''error'') (\<lambda>oidcError.
     if oidcError \<noteq> [] then http_Redirect ''/#/login'' 302
     else andThen (query_Get ''code'') (\<lambda>code.
       andThen (query_Get ''state'') (\<lambda>state.
       if code = [] \<or> state = [] then http_Redirect ''/#/login'' 302
       else andThen (attempt GetOIDCState) (\<lambda>r. case r of
           Inl e \<Rightarrow> fail_bad (Error (''no OIDC session: '' @ err_text e))
         | Inr (savedState, codeVerifier) \<Rightarrow>
             if state \<noteq> savedState then fail_bad (Error ''invalid state'')
             else andThen (attempt (serve (ExchangeCode code codeVerifier))) (\<lambda>u. case u of
               Inl e \<Rightarrow> fail_bad e | Inr username \<Rightarrow> start_session username)))))"

definition loginTokenFile :: string where
  "loginTokenFile = ''/var/snap/platform/common/login-token''"

text \<open>\<^verbatim>\<open>strings.SplitN(s, ":", 2)\<close> has two parts when there is a colon.\<close>

definition LoginToken :: "(data, unit) page" where
  "LoginToken = andThen (gets (\<lambda>x. Option.bind (rq_json (x_req x)) (str_field ''token''))) (\<lambda>token.
     case token of
       None \<Rightarrow> fail_bad (Error ''missing token'')
     | Some t \<Rightarrow> if t = [] then fail_bad (Error ''missing token'')
       else andThen (attempt (serve (do_str (Sys ''readfile'' [loginTokenFile])))) (\<lambda>r. case r of
           Inl _ \<Rightarrow> fail_bad (Error ''no pending login token'')
         | Inr content \<Rightarrow> (case CutAt '':'' content of
             None \<Rightarrow> andThen (attempt (serve (do_sys ''remove'' [loginTokenFile]))) (\<lambda>_. fail_bad (Error ''invalid token file''))
           | Some (savedToken, username) \<Rightarrow>
               if t \<noteq> savedToken then fail_bad (Error ''invalid token'')
               else andThen (attempt (serve (do_sys ''remove'' [loginTokenFile]))) (\<lambda>_.
                 andThen (attempt (SetSessionUser username)) (\<lambda>s. case s of
                   Inl e \<Rightarrow> fail_bad e
                 | Inr _ \<Rightarrow> andThen (write_status 200) (\<lambda>_. write_body (Api
                     \<lparr>ar_Success = True, ar_Message = [], ar_Data = None, ar_Parameters = None\<rparr>)))))))"

definition UserLogout :: "(data, unit) page" where
  "UserLogout = andThen (attempt ClearSessionUser) (\<lambda>r. case r of
     Inl e \<Rightarrow> Fail (ServiceError (err_text e) 400)
   | Inr _ \<Rightarrow> andThen (serve (cfg (Url ''auth''))) (\<lambda>url. http_Redirect (url @ ''/logout'') 302))"

section \<open>Activation, certificates, proxies\<close>

definition SingleParameterError :: "string \<Rightarrow> string \<Rightarrow> error" where
  "SingleParameterError parameter message = ParameterError [(parameter, [message])]"

definition validate :: "string \<Rightarrow> string \<Rightarrow> error option" where
  "validate username password =
     (if length username < 3 then Some (SingleParameterError ''device_username'' ''less than 3 characters'')
      else if length password < 7 then Some (SingleParameterError ''device_password'' ''less than 7 characters'')
      else if ToLower username \<noteq> username then Some (SingleParameterError ''device_username'' ''use lower case username'')
      else None)"

definition applyOptionalTimezone :: "string \<Rightarrow> unit go" where
  "applyOptionalTimezone tz = (if tz = [] then ret () else Timezone_Apply tz)"

record activate_request =
  aq_Email :: string
  aq_RedirectPassword :: string
  aq_Domain :: string
  aq_Username :: string
  aq_Password :: string
  aq_Timezone :: string

definition dec_custom_activate :: "json \<Rightarrow> activate_request option" where
  "dec_custom_activate = dec_obj (\<lambda>k.
     case those (map (\<lambda>f. dec_str (k f)) [''domain'', ''device_username'', ''device_password'', ''timezone'']) of
       Some [d, u, p, tz] \<Rightarrow> Some \<lparr>aq_Email = [], aq_RedirectPassword = [], aq_Domain = d, aq_Username = u, aq_Password = p, aq_Timezone = tz\<rparr>
     | _ \<Rightarrow> None)"

definition dec_managed_activate :: "json \<Rightarrow> activate_request option" where
  "dec_managed_activate = dec_obj (\<lambda>k.
     case those (map (\<lambda>f. dec_str (k f)) [''redirect_email'', ''redirect_password'', ''domain'', ''device_username'',
         ''device_password'', ''timezone'']) of
       Some [e, rp, d, u, p, tz] \<Rightarrow> Some \<lparr>aq_Email = e, aq_RedirectPassword = rp, aq_Domain = d, aq_Username = u, aq_Password = p, aq_Timezone = tz\<rparr>
     | _ \<Rightarrow> None)"

definition activate_with :: "(json \<Rightarrow> activate_request option) \<Rightarrow> (activate_request \<Rightarrow> unit go) \<Rightarrow> handler" where
  "activate_with dec act = andThen (decode_request dec ''cannot decode'') (\<lambda>request.
     case validate (aq_Username request) (aq_Password request) of
       Some e \<Rightarrow> throw e
     | None \<Rightarrow> andThen (serve (applyOptionalTimezone (aq_Timezone request))) (\<lambda>_. serve_then ''ok'' (act request)))"

definition Activate_Custom_h :: "backend_conf \<Rightarrow> handler" where
  "Activate_Custom_h b = activate_with dec_custom_activate (\<lambda>r.
     Custom_Activate (bc_sys b) (aq_Domain r) (aq_Username r) (aq_Password r))"

definition Activate_Managed_h :: "backend_conf \<Rightarrow> handler" where
  "Activate_Managed_h b = activate_with dec_managed_activate (\<lambda>r.
     Managed_Activate (bc_sys b) (aq_Email r) (aq_RedirectPassword r) (aq_Domain r) (aq_Username r) (aq_Password r))"

definition Certificate_h :: "backend_conf \<Rightarrow> handler" where
  "Certificate_h b = serve_as D_CertInfo (ReadCertificateInfo (bc_sys b))"

definition certificate_mark :: string where
  "certificate_mark = [CHR 0x22] @ ''category'' @ [CHR 0x22] @ '': '' @ [CHR 0x22] @ ''certificate'' @ [CHR 0x22]"

definition CertificateLog_h :: handler where
  "CertificateLog_h = serve_as D_Strings (ReadBackend (\<lambda>line. Contains line certificate_mark))"

definition CustomProxy_List_h :: handler where
  "CustomProxy_List_h = serve_as D_Proxies (cfg Proxy_List)"

definition dec_proxy_add :: "json \<Rightarrow> proxy_entry option" where
  "dec_proxy_add = dec_obj (\<lambda>k.
     case (dec_str (k ''name''), dec_str (k ''host''), dec_int (k ''port''), dec_bool (k ''https''), dec_bool (k ''authelia'')) of
       (Some n, Some h, Some p, Some s, Some a) \<Rightarrow> Some \<lparr>pe_Name = n, pe_Host = h, pe_Port = p, pe_Https = s, pe_Authelia = a\<rparr>
     | _ \<Rightarrow> None)"

definition CustomProxy_Add_h :: "backend_conf \<Rightarrow> handler" where
  "CustomProxy_Add_h b = andThen (decode_request dec_proxy_add ''bad request'') (\<lambda>r.
     if pe_Name r = [] \<or> pe_Host r = [] \<or> pe_Port r = 0 then throw (Error ''name, host and port are required'')
     else andThen (serve (cfg (Proxy_Add (pe_Name r) (pe_Host r) (pe_Port r) (pe_Https r) (pe_Authelia r)))) (\<lambda>_.
       serve_then ''OK'' (ReloadCustomProxy (bc_sys b))))"

definition CustomProxy_Remove_h :: "backend_conf \<Rightarrow> handler" where
  "CustomProxy_Remove_h b = andThen (decode_request (str_field ''name'') ''bad request'') (\<lambda>name.
     if name = [] then throw (Error ''name is required'')
     else andThen (serve (cfg (Proxy_Remove name))) (\<lambda>_. serve_then ''OK'' (ReloadCustomProxy (bc_sys b))))"

text \<open>The icon of an app comes with the status of the upstream server.\<close>

definition ProxyImageFunc :: "(data, unit) page" where
  "ProxyImageFunc = andThen (query_Get ''app'') (\<lambda>app.
     if app = [] then http_Error ''app is required'' 400
     else andThen (attempt (serve (AppImageUrl app))) (\<lambda>r. case r of
       Inl _ \<Rightarrow> http_Error ''icon not found'' 404
     | Inr imageUrl \<Rightarrow> andThen (attempt (serve (do_http (HttpGet imageUrl)))) (\<lambda>q. case q of
         Inl _ \<Rightarrow> http_Error ''icon unavailable'' 502
       | Inr resp \<Rightarrow> andThen (write_status (StatusCode resp)) (\<lambda>_. case Body resp of
           Inl _ \<Rightarrow> ret () | Inr b \<Rightarrow> write_body (Raw b)))))"

text \<open>
  A reverse proxy to the service that manages domains, for the path after the prefix. The
  address is read once, when the backend starts.
\<close>

definition ProxyRedirect :: "string \<Rightarrow> (data, unit) page" where
  "ProxyRedirect redirectApiUrl = andThen (gets x_req) (\<lambda>req.
     andThen (attempt (serve (do_http (Sys ''proxy'' [rq_Method req, redirectApiUrl, TrimPrefix (rq_Path req) ''/rest/redirect''])))) (\<lambda>r. case r of
       Inl _ \<Rightarrow> write_status 502
     | Inr resp \<Rightarrow> andThen (write_status (StatusCode resp)) (\<lambda>_. case Body resp of
         Inl _ \<Rightarrow> ret () | Inr b \<Rightarrow> write_body (Raw b))))"

end
