(* ===== verification/Rest_Api.thy ===== *)
theory Rest_Api
  imports Rest_Handlers
begin

text \<open>
  The API for the apps of the device (\<^verbatim>\<open>backend/rest/api.go\<close>), served on a local socket. A form
  is the list of its values in order, so the first value of a key is the one that
  \<^verbatim>\<open>FormValue\<close> returns.
\<close>

section \<open>Forms\<close>

definition ParseForm :: "('d, (string \<times> string) list) web" where
  "ParseForm = andThen (gets (\<lambda>x. rq_form (x_req x))) (\<lambda>r. case r of Inl e \<Rightarrow> throw e | Inr kvs \<Rightarrow> ret kvs)"

definition FormValue :: "string \<Rightarrow> (string \<times> string) list \<Rightarrow> string" where
  "FormValue k kvs = (case map_of kvs k of None \<Rightarrow> [] | Some v \<Rightarrow> v)"

definition form_values :: "string \<Rightarrow> (string \<times> string) list \<Rightarrow> string list" where
  "form_values k kvs = map snd (filter (\<lambda>(k', _). k' = k) kvs)"

definition query_name :: "('d, string) web" where
  "query_name = andThen (gets (\<lambda>x. map_of (rq_query (x_req x)) ''name'')) (\<lambda>r.
     case r of None \<Rightarrow> throw (Error ''no name'') | Some name \<Rightarrow> ret name)"

section \<open>Handlers\<close>

definition AppInstallPath_h :: handler where
  "AppInstallPath_h = andThen query_name (\<lambda>name. ret (D_String (''/snap/'' @ name @ ''/current'')))"

definition AppDataPath_h :: handler where
  "AppDataPath_h = andThen query_name (\<lambda>name. ret (D_String (''/var/snap/'' @ name @ ''/common'')))"

definition AppUrl_h :: handler where
  "AppUrl_h = andThen query_name (\<lambda>name. serve_as D_String (cfg (Url name)))"

definition AppDomainName_h :: handler where
  "AppDomainName_h = andThen query_name (\<lambda>name. serve_as D_String (cfg (AppDomain name)))"

definition AppDeviceDomainName_h :: handler where
  "AppDeviceDomainName_h = serve_as D_String (cfg GetDeviceDomain)"

definition AppInitStorage_h :: "backend_conf \<Rightarrow> handler" where
  "AppInitStorage_h b = andThen ParseForm (\<lambda>form.
     serve_as D_String (InitAppStorageOwner (bc_sys b) (FormValue ''app_name'' form) (FormValue ''user_name'' form)))"

definition RegisterOIDCClient_h :: handler where
  "RegisterOIDCClient_h = andThen ParseForm (\<lambda>form.
     serve_as D_String (RegisterOIDCClient (FormValue ''id'' form) (form_values ''redirect_uri'' form)
       (FormValue ''require_pkce'' form = ''true'') (FormValue ''token_endpoint_auth_method'' form)))"

definition RegisterMailInbound_h :: "backend_conf \<Rightarrow> handler" where
  "RegisterMailInbound_h b = andThen ParseForm (\<lambda>form.
     let socket = FormValue ''socket'' form in
     if socket = [] then throw (Error ''socket is required'')
     else andThen (serve (cfg (SetMailInboundSocket (Some socket)))) (\<lambda>_.
       andThen (serve (cfg IsRelayEnabled)) (\<lambda>relay. serve_then socket (Relay_Apply (bc_sys b) relay))))"

definition UnregisterMailInbound_h :: "backend_conf \<Rightarrow> handler" where
  "UnregisterMailInbound_h b = andThen (serve (cfg (SetMailInboundSocket None))) (\<lambda>_.
     andThen (serve (cfg IsRelayEnabled)) (\<lambda>relay. serve_then ''unregistered'' (Relay_Apply (bc_sys b) relay)))"

definition ConfigGetDkimKey_h :: handler where
  "ConfigGetDkimKey_h = serve_as D_StringPtr (cfg GetDkimKey)"

definition MailRelay_h :: handler where
  "MailRelay_h = andThen (serve (cfg GetDomainUpdateToken)) (\<lambda>token.
     andThen (serve (cfg IsMailRelayEnabled)) (\<lambda>enabled. case (if enabled then token else None) of
       None \<Rightarrow> ret (D_MailCredentials \<lparr>mc_Enabled = False, mc_Host = [], mc_Port = 0, mc_Login = [], mc_Password = []\<rparr>)
     | Some t \<Rightarrow> andThen (serve (cfg Redirect_Domain)) (\<lambda>domain.
         andThen (serve (cfg GetDeviceDomain)) (\<lambda>device.
         ret (D_MailCredentials \<lparr>mc_Enabled = True, mc_Host = ''mail-relay.'' @ domain, mc_Port = 465,
           mc_Login = device, mc_Password = t\<rparr>)))))"

definition ConfigSetDkimKey_h :: handler where
  "ConfigSetDkimKey_h = andThen ParseForm (\<lambda>form. serve_then ''OK'' (cfg (SetDkimKey (Some (FormValue ''dkim_key'' form)))))"

definition ServiceRestart_h :: handler where
  "ServiceRestart_h = andThen ParseForm (\<lambda>form. serve_then ''OK'' (RestartService (FormValue ''name'' form)))"

definition AppStorageDir_h :: "backend_conf \<Rightarrow> handler" where
  "AppStorageDir_h b = andThen query_name (\<lambda>name. ret (D_String (GetAppStorageDir (bc_sys b) name)))"

definition UserEmail_h :: handler where
  "UserEmail_h = serve_as D_StringPtr (cfg Redirect_UserEmail)"

section \<open>Routes\<close>

text \<open>A row of a router's table: a path or the prefix of paths, the methods (none: all), the handler.\<close>

record route =
  rt_Path :: string
  rt_prefix :: bool
  rt_Methods :: "string list"
  rt_Handler :: "(data, unit) page"

definition HandleFunc :: "string \<Rightarrow> (data, unit) page \<Rightarrow> string list \<Rightarrow> route" where
  "HandleFunc path h methods = \<lparr>rt_Path = path, rt_prefix = False, rt_Methods = methods, rt_Handler = h\<rparr>"

definition PathPrefix :: "string \<Rightarrow> (data, unit) page \<Rightarrow> route" where
  "PathPrefix path h = \<lparr>rt_Path = path, rt_prefix = True, rt_Methods = [], rt_Handler = h\<rparr>"

definition api_routes :: "backend_conf \<Rightarrow> route list" where
  "api_routes b = [
     HandleFunc ''/app/install_path'' (Handle AppInstallPath_h) [''GET''],
     HandleFunc ''/app/data_path'' (Handle AppDataPath_h) [''GET''],
     HandleFunc ''/app/url'' (Handle AppUrl_h) [''GET''],
     HandleFunc ''/app/domain_name'' (Handle AppDomainName_h) [''GET''],
     HandleFunc ''/app/device_domain_name'' (Handle AppDeviceDomainName_h) [''GET''],
     HandleFunc ''/app/init_storage'' (Handle (AppInitStorage_h b)) [''POST''],
     HandleFunc ''/config/get_dkim_key'' (Handle ConfigGetDkimKey_h) [''GET''],
     HandleFunc ''/config/set_dkim_key'' (Handle ConfigSetDkimKey_h) [''POST''],
     HandleFunc ''/mail/relay'' (Handle MailRelay_h) [''GET''],
     HandleFunc ''/service/restart'' (Handle ServiceRestart_h) [''POST''],
     HandleFunc ''/app/storage_dir'' (Handle (AppStorageDir_h b)) [''GET''],
     HandleFunc ''/user/email'' (Handle UserEmail_h) [''GET''],
     HandleFunc ''/oidc/register'' (Handle RegisterOIDCClient_h) [''POST''],
     HandleFunc ''/mail/inbound/register'' (Handle (RegisterMailInbound_h b)) [''POST''],
     HandleFunc ''/mail/inbound/unregister'' (Handle (UnregisterMailInbound_h b)) [''POST'']]"

end
