(* ===== verification/Rest.thy ===== *)
theory Rest
  imports Rest_Api
begin

text \<open>
  The router of the web backend (\<^verbatim>\<open>Backend.Start\<close>): its table of routes, and what a client can
  reach without a session, as a user and as an administrator. The router itself is a
  library; it is a parameter that picks the row for a request.
\<close>

section \<open>The table\<close>

text \<open>\<open>url\<close> is the address of the domain service when the backend starts.\<close>

definition backend_routes :: "backend_conf \<Rightarrow> string \<Rightarrow> route list" where
  "backend_routes b url = [
     HandleFunc ''/rest/id'' (Handle Id_h) [''GET''],
     HandleFunc ''/rest/activation/status'' (Handle IsActivated_h) [''GET''],
     HandleFunc ''/rest/oidc/login'' (FailIfNotActivated OIDCLogin) [''GET''],
     HandleFunc ''/rest/oidc/callback'' (FailIfNotActivated OIDCCallback) [''GET''],
     HandleFunc ''/rest/login/token'' (FailIfNotActivated LoginToken) [''POST''],
     HandleFunc ''/rest/redirect_info'' (FailIfActivated (Handle RedirectInfo_h)) [''GET''],
     PathPrefix ''/rest/redirect/domain/availability'' (FailIfActivated (ProxyRedirect url)),
     HandleFunc ''/rest/activate/managed'' (FailIfActivated (Handle (Activate_Managed_h b))) [''POST''],
     HandleFunc ''/rest/activate/custom'' (FailIfActivated (Handle (Activate_Custom_h b))) [''POST''],
     HandleFunc ''/rest/user'' (FailIfNotActivated (SecuredHandle User_h)) [''GET''],
     HandleFunc ''/rest/users'' (FailIfNotActivated (AdminSecuredHandle Users_h)) [''GET''],
     HandleFunc ''/rest/users/add'' (FailIfNotActivated (AdminSecuredHandle UserAdd_h)) [''POST''],
     HandleFunc ''/rest/users/remove'' (FailIfNotActivated (AdminSecuredHandle UserRemove_h)) [''POST''],
     HandleFunc ''/rest/users/email'' (FailIfNotActivated (AdminSecuredHandle UserSetEmail_h)) [''POST''],
     HandleFunc ''/rest/users/password'' (FailIfNotActivated (AdminSecuredHandle UserSetPassword_h)) [''POST''],
     HandleFunc ''/rest/users/admin'' (FailIfNotActivated (AdminSecuredHandle UserSetAdmin_h)) [''POST''],
     HandleFunc ''/rest/groups'' (FailIfNotActivated (AdminSecuredHandle Groups_h)) [''GET''],
     HandleFunc ''/rest/groups/add'' (FailIfNotActivated (AdminSecuredHandle GroupAdd_h)) [''POST''],
     HandleFunc ''/rest/groups/remove'' (FailIfNotActivated (AdminSecuredHandle GroupRemove_h)) [''POST''],
     HandleFunc ''/rest/groups/member/add'' (FailIfNotActivated (AdminSecuredHandle GroupMemberAdd_h)) [''POST''],
     HandleFunc ''/rest/groups/member/remove'' (FailIfNotActivated (AdminSecuredHandle GroupMemberRemove_h)) [''POST''],
     HandleFunc ''/rest/logout'' (FailIfNotActivated UserLogout) [''POST'', ''GET''],
     HandleFunc ''/rest/2fa'' (FailIfNotActivated (AdminSecuredHandle GetTwoFactorSettings_h)) [''GET''],
     HandleFunc ''/rest/2fa'' (FailIfNotActivated (AdminSecuredHandle SetTwoFactorSettings_h)) [''POST''],
     HandleFunc ''/rest/2fa/totp'' (FailIfNotActivated (AdminSecuredHandle GenerateTOTP_h)) [''POST''],
     HandleFunc ''/rest/timezone'' (FailIfNotActivated (AdminSecuredHandle GetTimezone_h)) [''GET''],
     HandleFunc ''/rest/timezone'' (FailIfNotActivated (AdminSecuredHandle SetTimezone_h)) [''POST''],
     HandleFunc ''/rest/time'' (FailIfNotActivated (AdminSecuredHandle GetTime_h)) [''GET''],
     HandleFunc ''/rest/health/events'' (FailIfNotActivated (AdminSecuredHandle (HealthEvents_h b))) [''GET''],
     HandleFunc ''/rest/health/metrics'' (FailIfNotActivated (AdminSecuredHandle HealthMetrics_h)) [''GET''],
     HandleFunc ''/rest/job/status'' (FailIfNotActivated (AdminSecuredHandle JobStatus_h)) [''GET''],
     HandleFunc ''/rest/backup/list'' (FailIfNotActivated (AdminSecuredHandle (BackupList_h b))) [''GET''],
     HandleFunc ''/rest/backup/auto'' (FailIfNotActivated (AdminSecuredHandle GetBackupAuto_h)) [''GET''],
     HandleFunc ''/rest/backup/auto'' (FailIfNotActivated (AdminSecuredHandle SetBackupAuto_h)) [''POST''],
     HandleFunc ''/rest/backup/create'' (FailIfNotActivated (AdminSecuredHandle BackupCreate_h)) [''POST''],
     HandleFunc ''/rest/backup/restore'' (FailIfNotActivated (AdminSecuredHandle BackupRestore_h)) [''POST''],
     HandleFunc ''/rest/backup/remove'' (FailIfNotActivated (AdminSecuredHandle (BackupRemove_h b))) [''POST''],
     HandleFunc ''/rest/installer/upgrade'' (FailIfNotActivated (AdminSecuredHandle (InstallerUpgrade_h b))) [''POST''],
     HandleFunc ''/rest/installer/version'' (FailIfNotActivated (AdminSecuredHandle (InstallerVersion_h b))) [''GET''],
     HandleFunc ''/rest/installer/status'' (FailIfNotActivated (AdminSecuredHandle InstallerStatus_h)) [''GET''],
     HandleFunc ''/rest/storage/boot_extend'' (FailIfNotActivated (AdminSecuredHandle StorageBootExtend_h)) [''POST''],
     HandleFunc ''/rest/storage/boot/disk'' (FailIfNotActivated (AdminSecuredHandle (StorageBootDisk_h b))) [''GET''],
     HandleFunc ''/rest/storage/deactivate'' (FailIfNotActivated (AdminSecuredHandle (StorageDiskDeactivate_h b))) [''POST''],
     HandleFunc ''/rest/storage/activate/partition'' (FailIfNotActivated (AdminSecuredHandle StorageActivatePartition_h)) [''POST''],
     HandleFunc ''/rest/storage/activate/disk'' (FailIfNotActivated (AdminSecuredHandle StorageActivateDisks_h)) [''POST''],
     HandleFunc ''/rest/storage/error/last'' (FailIfNotActivated (AdminSecuredHandle StorageLastError_h)) [''GET''],
     HandleFunc ''/rest/storage/error/clear'' (FailIfNotActivated (AdminSecuredHandle StorageClearError_h)) [''POST''],
     HandleFunc ''/rest/storage/disks'' (FailIfNotActivated (AdminSecuredHandle (StorageDisks_h b))) [''GET''],
     HandleFunc ''/rest/storage/space'' (FailIfNotActivated (AdminSecuredHandle (StorageSpace_h b))) [''GET''],
     HandleFunc ''/rest/event/trigger'' (FailIfNotActivated (AdminSecuredHandle EventTrigger_h)) [''POST''],
     HandleFunc ''/rest/deactivate'' (FailIfNotActivated (AdminSecuredHandle Deactivate_h)) [''POST''],
     HandleFunc ''/rest/certificate'' (FailIfNotActivated (AdminSecuredHandle (Certificate_h b))) [''GET''],
     HandleFunc ''/rest/certificate/log'' (FailIfNotActivated (AdminSecuredHandle CertificateLog_h)) [''GET''],
     HandleFunc ''/rest/access'' (FailIfNotActivated (AdminSecuredHandle GetAccess_h)) [''GET''],
     HandleFunc ''/rest/access'' (FailIfNotActivated (AdminSecuredHandle (SetAccess_h b))) [''POST''],
     HandleFunc ''/rest/mail_relay'' (FailIfNotActivated (AdminSecuredHandle GetMailRelay_h)) [''GET''],
     HandleFunc ''/rest/mail_relay'' (FailIfNotActivated (AdminSecuredHandle (SetMailRelay_h b))) [''POST''],
     HandleFunc ''/rest/apps/available'' (FailIfNotActivated (AdminSecuredHandle AppsAvailable_h)) [''GET''],
     HandleFunc ''/rest/apps/installed'' (FailIfNotActivated (SecuredHandle AppsInstalled_h)) [''GET''],
     HandleFunc ''/rest/app/install'' (FailIfNotActivated (AdminSecuredHandle AppInstall_h)) [''POST''],
     HandleFunc ''/rest/app/remove'' (FailIfNotActivated (AdminSecuredHandle AppRemove_h)) [''POST''],
     HandleFunc ''/rest/app/upgrade'' (FailIfNotActivated (AdminSecuredHandle AppUpgrade_h)) [''POST''],
     HandleFunc ''/rest/app'' (FailIfNotActivated (SecuredHandle App_h)) [''GET''],
     HandleFunc ''/rest/logs'' (FailIfNotActivated (AdminSecuredHandle Logs_h)) [''GET''],
     HandleFunc ''/rest/logs/send'' (FailIfNotActivated (AdminSecuredHandle SendLogs_h)) [''POST''],
     HandleFunc ''/rest/device/url'' (FailIfNotActivated (AdminSecuredHandle DeviceUrl_h)) [''GET''],
     HandleFunc ''/rest/restart'' (FailIfNotActivated (AdminSecuredHandle Restart_h)) [''POST''],
     HandleFunc ''/rest/shutdown'' (FailIfNotActivated (AdminSecuredHandle Shutdown_h)) [''POST''],
     HandleFunc ''/rest/uptime'' (FailIfNotActivated (SecuredHandle Uptime_h)) [''GET''],
     HandleFunc ''/rest/network/interfaces'' (FailIfNotActivated (AdminSecuredHandle NetworkInterfaces_h)) [''GET''],
     PathPrefix ''/rest/proxy/image'' (FailIfNotActivated (Secured ProxyImageFunc)),
     HandleFunc ''/rest/proxy_custom/list'' (FailIfNotActivated (AdminSecuredHandle CustomProxy_List_h)) [''GET''],
     HandleFunc ''/rest/proxy_custom/add'' (FailIfNotActivated (AdminSecuredHandle (CustomProxy_Add_h b))) [''POST''],
     HandleFunc ''/rest/proxy_custom/remove'' (FailIfNotActivated (AdminSecuredHandle (CustomProxy_Remove_h b))) [''POST'']]"

section \<open>Dispatch\<close>

text \<open>What the router finds for a request: a row, no row, a row for other methods only, or a
  path that is not in its shortest form.\<close>

datatype decision =
    Matched route
  | No_match
  | Bad_method
  | Clean_path string

definition serve_http :: "(route list \<Rightarrow> request \<Rightarrow> decision) \<Rightarrow> route list \<Rightarrow> (data, unit) page" where
  "serve_http mux rs = andThen (gets x_req) (\<lambda>req. case mux rs req of
     Matched r \<Rightarrow> rt_Handler r
   | No_match \<Rightarrow> NotFoundHandler
   | Bad_method \<Rightarrow> write_status 405
   | Clean_path p \<Rightarrow> http_Redirect p 301)"

definition path_matches :: "route \<Rightarrow> string \<Rightarrow> bool" where
  "path_matches r p \<longleftrightarrow> (if rt_prefix r then prefix (rt_Path r) p else rt_Path r = p)"

text \<open>The documented promise of the router: the row is one of the table, and its path matches.\<close>

definition routes_by_path :: "(route list \<Rightarrow> request \<Rightarrow> decision) \<Rightarrow> bool" where
  "routes_by_path mux \<longleftrightarrow> (\<forall>rs req r. mux rs req = Matched r \<longrightarrow> r \<in> set rs \<and> path_matches r (rq_Path req))"

section \<open>Who may do what\<close>

definition public_paths :: "string list" where
  "public_paths = [''/rest/id'', ''/rest/activation/status'', ''/rest/oidc/login'', ''/rest/oidc/callback'',
     ''/rest/login/token'', ''/rest/redirect_info'', ''/rest/activate/managed'', ''/rest/activate/custom'', ''/rest/logout'']"

definition public_path :: "string \<Rightarrow> bool" where
  "public_path p \<longleftrightarrow> p \<in> set public_paths \<or> prefix ''/rest/redirect/domain/availability'' p"

definition user_paths :: "string list" where
  "user_paths = [''/rest/user'', ''/rest/apps/installed'', ''/rest/app'', ''/rest/uptime'']"

definition user_path :: "string \<Rightarrow> bool" where
  "user_path p \<longleftrightarrow> p \<in> set user_paths \<or> prefix ''/rest/proxy/image'' p"

definition needs_admin :: "route \<Rightarrow> bool" where
  "needs_admin r \<longleftrightarrow> (\<exists>h. rt_Handler r = FailIfNotActivated (AdminSecured h))"

definition needs_user :: "route \<Rightarrow> bool" where
  "needs_user r \<longleftrightarrow> (\<exists>h. rt_Handler r = FailIfNotActivated (Secured h))"

lemma needs_simps [simp]:
  "needs_admin (HandleFunc p (FailIfNotActivated (AdminSecuredHandle f)) ms)"
  "needs_user (HandleFunc p (FailIfNotActivated (SecuredHandle f)) ms)"
  "needs_user (PathPrefix p (FailIfNotActivated (Secured g)))"
  by (auto simp: needs_admin_def needs_user_def HandleFunc_def PathPrefix_def AdminSecuredHandle_def SecuredHandle_def)

lemma path_matches_simps [simp]:
  "path_matches (HandleFunc q h ms) p \<longleftrightarrow> q = p"
  "path_matches (PathPrefix q h) p \<longleftrightarrow> prefix q p"
  by (auto simp: path_matches_def HandleFunc_def PathPrefix_def)

text \<open>Every row of the table is public, for users, or for administrators, by its path.\<close>

definition classified :: "route \<Rightarrow> bool" where
  "classified r \<longleftrightarrow> (\<forall>p. path_matches r p \<longrightarrow> public_path p) \<or> ((\<forall>p. path_matches r p \<longrightarrow> user_path p) \<and> needs_user r)
     \<or> needs_admin r"

lemma classified_admin [simp]: "classified (HandleFunc p (FailIfNotActivated (AdminSecuredHandle f)) ms)"
  by (simp add: classified_def)

lemma classified_user:
  "user_path p \<Longrightarrow> classified (HandleFunc p (FailIfNotActivated (SecuredHandle f)) ms)"
  by (simp add: classified_def)

lemma classified_public: "public_path p \<Longrightarrow> classified (HandleFunc p h ms)"
  by (auto simp: classified_def)

lemma classified_prefixes [simp]:
  "classified (PathPrefix ''/rest/redirect/domain/availability'' h)"
  "classified (PathPrefix ''/rest/proxy/image'' (FailIfNotActivated (Secured g)))"
  by (auto simp: classified_def public_path_def user_path_def)

lemma backend_routes_classified: "list_all classified (backend_routes b url)"
  by (simp add: backend_routes_def classified_user classified_public public_path_def public_paths_def user_path_def user_paths_def)

lemma routed_class:
  assumes "routes_by_path mux" "mux (backend_routes b url) req = Matched r"
  shows "public_path (rq_Path req) \<or> (user_path (rq_Path req) \<and> needs_user r) \<or> needs_admin r"
proof -
  have "r \<in> set (backend_routes b url)" "path_matches r (rq_Path req)"
    using assms by (auto simp: routes_by_path_def)
  moreover from this(1) have "classified r" using backend_routes_classified by (auto simp: list_all_iff)
  ultimately show ?thesis unfolding classified_def by blast
qed

text \<open>What the check for administrators asks the directory.\<close>

definition admin_lookup :: "call list" where
  "admin_lookup = [Sys ''ldap-dial'' [''ldap://localhost:389''], Sys ''ldap-bind'' [Domain_dn, ''syncloud''], search_members AdminGroup]"

lemma keeps_IsAdmin: "keeps (within (\<lambda>c. c \<in> set admin_lookup)) (IsAdmin u)"
  unfolding IsAdmin_def Members_def Connect_def groupMembers_def
  by (intro keeps_intros) (auto simp: admin_lookup_def split: list.splits intro!: keeps_intros)

text \<open>
  A refusal: nothing happened but calls of the list \<open>cs\<close>, no cookie is given out, and the
  answer is a status of the list \<open>codes\<close> with at most a plain text.
\<close>

definition refused :: "call list \<Rightarrow> int list \<Rightarrow> 'd payload exchange \<Rightarrow> 'd payload exchange \<Rightarrow> bool" where
  "refused cs codes x x' \<longleftrightarrow> within (\<lambda>c. c \<in> set cs) (x_world x) (x_world x') \<and> x_cookies x' = x_cookies x
     \<and> (\<exists>s \<in> set codes. x_status x' = Some s) \<and> (\<exists>ts. x_body x' = x_body x @ map Text ts)"

lemma refused_weaken: "refused cs codes x x' \<Longrightarrow> set cs \<subseteq> set cs' \<Longrightarrow> set codes \<subseteq> set codes' \<Longrightarrow> refused cs' codes' x x'"
  by (auto simp: refused_def intro: within_mono)

lemma within_refl [simp]: "within P w w"
  using reflpD [OF reflp_within] .

lemma http_Error_refused:
  assumes "within (\<lambda>c. c \<in> set cs) (x_world x) (x_world y)" "x_cookies y = x_cookies x" "x_status y = None"
    "x_body y = x_body x" "code \<in> set codes"
  shows "\<exists>x'. http_Error msg code y = (Ok (), x') \<and> refused cs codes x x'"
  using assms by (auto simp: http_Error_def write_status_def write_body_def refused_def intro!: exI [of _ "[msg]"])

lemma cfg_IsActivated: "db_ready (w_db w) \<Longrightarrow> cfg IsActivated w = (Ok (view_bool (w_db w) ''platform.activated'' False), w)"
  by (simp add: cfg_def zoom_def IsActivated_def io_simps)

lemma FailIfNotActivated_run:
  assumes "db_ready (w_db (x_world x))"
  shows "FailIfNotActivated f x = (if activated x = None then http_Error ''Device is not activated'' 501 x else f x)"
  using assms by (simp add: FailIfNotActivated_def activated_def serve_def zoom_def cfg_IsActivated)

lemma session_values_some: "cookies_key (x_world x) \<noteq> None \<Longrightarrow> \<exists>vs. session_values x = Some vs"
  by (cases "x_session x") (auto simp: session_values_def)

lemma user_route_refused:
  assumes "db_ready (w_db (x_world x))" "cookies_key (x_world x) \<noteq> None" "x_status x = None"
    and "Option.bind (activated x) logged_in = None"
  shows "\<exists>x'. FailIfNotActivated (Secured h) x = (Ok (), x') \<and> refused [] [401, 501] x x'"
proof (cases "activated x")
  case None
  then show ?thesis using http_Error_refused [of "[]" x x] assms by (simp add: FailIfNotActivated_run)
next
  case (Some y)
  then have "y = x" by (simp add: activated_def split: if_splits)
  with Some assms(4) have none: "session_user x = None" by (auto simp: logged_in_def split: if_splits)
  obtain vs where vs: "session_values x = Some vs" using session_values_some [OF assms(2)] by blast
  then have "map_of vs UserKey = None" using none by (simp add: session_user_def)
  then show ?thesis using http_Error_refused [of "[]" x "x\<lparr>x_session := Some vs\<rparr>"] assms(1,3) Some vs
    by (simp add: FailIfNotActivated_run Secured_run)
qed

lemma admin_route_refused:
  assumes "db_ready (w_db (x_world x))" "cookies_key (x_world x) \<noteq> None" "x_status x = None"
    and "Option.bind (activated x) admin = None"
  shows "\<exists>x'. FailIfNotActivated (AdminSecured h) x = (Ok (), x') \<and> refused admin_lookup [401, 403, 501] x x'"
proof (cases "Option.bind (activated x) logged_in")
  case None
  then show ?thesis
    using user_route_refused [OF assms(1-3) None] refused_weaken [of "[]" "[401, 501]" x _ admin_lookup "[401, 403, 501]"]
    unfolding AdminSecured_def by fastforce
next
  case (Some y)
  then obtain u where act: "activated x = Some x" and u: "session_user x = Some u"
    by (auto simp: activated_def logged_in_def Option.bind_eq_Some_conv split: if_splits)
  then obtain vs where vs: "session_values x = Some vs" "map_of vs UserKey = Some u"
    by (auto simp: session_user_def Option.bind_eq_Some_conv)
  obtain r w where run: "IsAdmin u (x_world x) = (r, w)" by fastforce
  then have "r \<noteq> Ok True" using assms(4) act u by (auto simp: admin_def)
  moreover have "within (\<lambda>c. c \<in> set admin_lookup) (x_world x) w" by (rule keepsD [OF keeps_IsAdmin run])
  ultimately show ?thesis
    using http_Error_refused [of admin_lookup x "x\<lparr>x_session := Some vs, x_world := w\<rparr>"] assms(1,3) act
    by (simp add: FailIfNotActivated_run AdminSecured_run [OF vs run])
qed

text \<open>The answers of the router itself.\<close>

lemma router_refused:
  assumes "x_status x = None" "\<And>r. mux rs (x_req x) = Matched r \<Longrightarrow> \<exists>x'. rt_Handler r x = (Ok (), x') \<and> refused cs codes x x'"
  shows "\<exists>x'. serve_http mux rs x = (Ok (), x') \<and> refused cs (codes @ [301, 404, 405]) x x'"
proof (cases "mux rs (x_req x)")
  case (Matched r)
  then obtain x' where x': "rt_Handler r x = (Ok (), x')" "refused cs codes x x'" using assms(2) by blast
  then have "refused cs (codes @ [301, 404, 405]) x x'" by (auto elim: refused_weaken)
  then show ?thesis using Matched x'(1) by (simp add: serve_http_def)
qed (use assms(1) in \<open>auto simp: serve_http_def NotFoundHandler_def http_Error_def http_Redirect_def write_status_def
  write_body_def refused_def intro: exI [of _ "[]"] exI [of _ "[_]"]\<close>)

text \<open>
  C3. Only administrators reach the operations of the device: whatever the router's row for a
  request whose path is neither public nor for users, unless the device is activated and the
  session's user is an administrator, the handler does not run. The database, the jobs and
  the rest of the memory stay as they are, the only calls are the look-up of the
  administrators, no cookie is set, and the answer is a refusal without data.
\<close>

theorem admins_only_routes:
  assumes "routes_by_path mux" "db_ready (w_db (x_world x))" "cookies_key (x_world x) \<noteq> None" "x_status x = None"
    and "\<not> public_path (rq_Path (x_req x))" "\<not> user_path (rq_Path (x_req x))"
    and "\<not> (\<exists>u. fst (cfg IsActivated (x_world x)) = Ok True \<and> session_user x = Some u \<and> fst (IsAdmin u (x_world x)) = Ok True)"
  shows "\<exists>x'. serve_http mux (backend_routes b url) x = (Ok (), x') \<and> refused admin_lookup [401, 403, 501, 301, 404, 405] x x'"
proof -
  have "Option.bind (activated x) admin = None"
    using assms(7) by (cases "session_user x")
      (auto simp: activated_def admin_def split: prod.splits res.splits bool.splits if_splits)
  then have "\<exists>x'. rt_Handler r x = (Ok (), x') \<and> refused admin_lookup [401, 403, 501] x x'"
    if "mux (backend_routes b url) (x_req x) = Matched r" for r
    using routed_class [OF assms(1) that] assms(5,6) admin_route_refused [OF assms(2-4)] by (auto simp: needs_admin_def)
  from router_refused [OF assms(4) this] show ?thesis by simp
qed

text \<open>
  C22. Without a session nobody gets further than the public paths: unless the device is
  activated and the session has a user, a request for any other path is refused and nothing
  is called at all.
\<close>

theorem users_only_routes:
  assumes "routes_by_path mux" "db_ready (w_db (x_world x))" "cookies_key (x_world x) \<noteq> None" "x_status x = None"
    and "\<not> public_path (rq_Path (x_req x))"
    and "fst (cfg IsActivated (x_world x)) \<noteq> Ok True \<or> session_user x = None"
  shows "\<exists>x'. serve_http mux (backend_routes b url) x = (Ok (), x') \<and> refused [] [401, 501, 301, 404, 405] x x'
     \<and> x_world x' = x_world x"
proof -
  have none: "Option.bind (activated x) logged_in = None"
    using assms(6) by (auto simp: activated_def logged_in_def bind_eq_None_conv split: if_splits)
  have "\<exists>x'. rt_Handler r x = (Ok (), x') \<and> refused [] [401, 501] x x'"
    if "mux (backend_routes b url) (x_req x) = Matched r" for r
    using routed_class [OF assms(1) that] assms(5) user_route_refused [OF assms(2-4) none]
    by (auto simp: needs_user_def needs_admin_def AdminSecured_def)
  from router_refused [OF assms(4) this]
  have "\<exists>x'. serve_http mux (backend_routes b url) x = (Ok (), x') \<and> refused [] [401, 501, 301, 404, 405] x x'" by simp
  moreover have "x_world x' = x_world x" if "refused [] codes x x'" for codes and x' :: "data payload exchange"
    using that by (auto simp: refused_def within_def list_all_iff)
  ultimately show ?thesis by blast
qed

section \<open>A router and a user\<close>

definition first_match :: "route list \<Rightarrow> request \<Rightarrow> decision" where
  "first_match rs req = (case List.find (\<lambda>r. path_matches r (rq_Path req)) rs of
     None \<Rightarrow> No_match
   | Some r \<Rightarrow> if rt_Methods r = [] \<or> rq_Method req \<in> set (rt_Methods r) then Matched r else Bad_method)"

lemma first_match_by_path: "routes_by_path first_match"
  by (auto simp: routes_by_path_def first_match_def find_Some_iff split: option.splits if_splits)

definition sample_backend :: backend_conf where
  "sample_backend = \<lparr>bc_sys = sample_conf, bc_backupDir = ''/data/platform/backup'', bc_varDir = ''/var/snap'', bc_arch = ''amd64''\<rparr>"

definition bob_at :: "string \<Rightarrow> string option \<Rightarrow> data payload exchange" where
  "bob_at path cookie = new_exchange (bob_world\<lparr>w_db := db_put ''platform.activated'' True_str fresh_db\<rparr>)
     ((plain_request cookie)\<lparr>rq_Path := path\<rparr>)"

lemma bob_at_sel [simp]:
  "x_status (bob_at p c) = None" "rq_Path (x_req (bob_at p c)) = p" "cookies_key (x_world (bob_at p c)) = Some ''k''"
  "w_db (x_world (bob_at p c)) = db_put ''platform.activated'' True_str fresh_db" "w_env (x_world (bob_at p c)) = bob_env"
  by (simp_all add: bob_at_def new_exchange_def)

lemma bob_not_admin: "fst (IsAdmin ''bob'' (x_world (bob_at p c))) \<noteq> Ok True"
  by (simp add: IsAdmin_def Members_def Connect_def groupMembers_def wrap_err_def do_sys_def do_unit_def do_ldap_def bob_env_def calm_def
      attempt_def andThen_def)

lemma bob_session: "session_user (bob_at p (Some ''c'')) = Some ''bob''" "session_user (bob_at p None) = None"
  by (simp_all add: session_user_def session_values_def bob_at_def new_exchange_def decode_session_def plain_request_def bob_env_def)

theorem admins_only_routes_witness:
  "session_user (bob_at ''/rest/users'' (Some ''c'')) = Some ''bob'' \<and>
   (\<exists>x'. serve_http first_match (backend_routes sample_backend ''https://api.syncloud.it'') (bob_at ''/rest/users'' (Some ''c'')) = (Ok (), x')
     \<and> refused admin_lookup [401, 403, 501, 301, 404, 405] (bob_at ''/rest/users'' (Some ''c'')) x')"
  using admins_only_routes [OF first_match_by_path, of "bob_at ''/rest/users'' (Some ''c'')" sample_backend "''https://api.syncloud.it''"]
    bob_not_admin [of "''/rest/users''" "Some ''c''"] bob_session [of "''/rest/users''"]
  by (simp add: public_path_def public_paths_def user_path_def user_paths_def)

theorem users_only_routes_witness:
  "\<exists>x'. serve_http first_match (backend_routes sample_backend ''https://api.syncloud.it'') (bob_at ''/rest/user'' None) = (Ok (), x')
     \<and> refused [] [401, 501, 301, 404, 405] (bob_at ''/rest/user'' None) x'"
  using users_only_routes [OF first_match_by_path, of "bob_at ''/rest/user'' None" sample_backend "''https://api.syncloud.it''"] bob_session [of "''/rest/user''"]
  by (auto simp: public_path_def public_paths_def)

section \<open>How a session starts\<close>

text \<open>Only saving a session gives out a cookie; an answer of the other kinds never does.\<close>

definition query_value :: "string \<Rightarrow> 'd exchange \<Rightarrow> string" where
  "query_value k x = (case map_of (rq_query (x_req x)) k of None \<Rightarrow> [] | Some v \<Rightarrow> v)"

lemma query_Get_run: "query_Get k x = (Ok (query_value k x), x)"
  by (simp add: query_Get_def query_value_def)

lemma answers_run:
  "http_Redirect u c x = (Ok (), x\<lparr>x_location := Some u, x_status := Some (case x_status x of None \<Rightarrow> c | Some s \<Rightarrow> s),
     x_body := x_body x @ [Text u]\<rparr>)"
  "\<exists>body. fail_bad e y = (Ok (), y\<lparr>x_status := Some (case x_status y of None \<Rightarrow> 400 | Some s \<Rightarrow> s), x_body := x_body y @ [body]\<rparr>)"
  by (auto simp: http_Redirect_def fail_bad_def Fail_def BadRequest_def error_status_def write_status_def write_body_def split: option.splits)

lemma answers_keep:
  assumes "http_Redirect u c x = (r, x') \<or> fail_bad e x = (r, x')"
  shows "r = Ok ()" "x_cookies x' = x_cookies x" "x_session x' = x_session x" "x_world x' = x_world x"
  using assms answers_run(2) [of e x] by (auto simp: answers_run(1))

lemma answers_sel [simp]:
  "x_cookies (snd (http_Redirect u c x)) = x_cookies x" "x_session (snd (http_Redirect u c x)) = x_session x"
  "x_cookies (snd (fail_bad e y)) = x_cookies y" "x_session (snd (fail_bad e y)) = x_session y"
  using answers_run(2) [of e y] by (auto simp: answers_run(1))

lemma GetOIDCState_run:
  "session_values x = Some vs \<Longrightarrow> GetOIDCState x =
     ((case map_of vs OIDCStateKey of None \<Rightarrow> Err (Error ''no OIDC state found'')
       | Some s \<Rightarrow> (case map_of vs OIDCCodeVerifierKey of None \<Rightarrow> Err (Error ''no OIDC code verifier found'') | Some v \<Rightarrow> Ok (s, v))),
      x\<lparr>x_session := Some vs\<rparr>)"
  by (simp add: GetOIDCState_def getSession_run andThen_def split: option.splits)

text \<open>Whether or not a save succeeds, the session has the new values, and the world is the same.\<close>

lemma session_Save_session: "x_session (snd (session_Save vs x)) = Some vs" "x_world (snd (session_Save vs x)) = x_world x"
  by (simp_all add: session_Save_def andThen_def split: option.splits sum.splits)

lemma session_ops:
  assumes "session_values x = Some vs"
  shows "x_session (snd (SetSessionUser u x)) = Some (row_put UserKey u vs)" "x_world (snd (SetSessionUser u x)) = x_world x"
    and "x_session (snd (ClearOIDCState x)) = Some (row_del OIDCCodeVerifierKey (row_del OIDCStateKey vs))"
    "x_world (snd (ClearOIDCState x)) = x_world x"
  using assms by (simp_all add: SetSessionUser_def ClearOIDCState_def getSession_run session_Save_session)

lemma ClearSessionUser_session:
  assumes "x_session x = Some vs"
  shows "x_session (snd (ClearSessionUser x)) = Some (row_del UserKey vs)"
  using assms by (simp add: ClearSessionUser_def getSession_run session_values_def session_Save_session)

lemma attempt_snd: "snd (attempt m x) = snd (m x)"
  by (simp add: attempt_def split: prod.splits res.splits)

lemma andThen_attempt_snd:
  assumes "\<And>p. fst (m x) \<noteq> Crash p"
  obtains a where "andThen (attempt m) k x = k a (snd (m x))"
  using assms by (cases "m x"; cases "fst (m x)") (auto simp: attempt_def andThen_def)

lemma session_no_crash:
  assumes "session_values x = Some vs"
  shows "fst (SetSessionUser u x) \<noteq> Crash p" "fst (ClearOIDCState x) \<noteq> Crash p" "fst (GetOIDCState x) \<noteq> Crash p"
  using assms by (auto simp: SetSessionUser_def ClearOIDCState_def getSession_run session_Save_def GetOIDCState_run andThen_def
      split: option.splits sum.splits)

lemma ClearSessionUser_no_crash: "x_session x = Some vs \<Longrightarrow> fst (ClearSessionUser x) \<noteq> Crash p"
  by (auto simp: ClearSessionUser_def getSession_run session_values_def session_Save_def andThen_def split: option.splits sum.splits)

text \<open>However far the start of a session gets, its user is the new one or nobody.\<close>

lemma start_session_user:
  assumes "x_session x = Some vs"
  shows "session_user (snd (start_session u x)) \<in> {None, Some u}"
proof -
  have v: "session_values x = Some vs" using assms by (simp add: session_values_def)
  let ?x1 = "snd (ClearOIDCState x)"
  obtain vs1 where s1: "x_session ?x1 = Some vs1" using session_ops(3) [OF v] by blast
  let ?x2 = "snd (ClearSessionUser ?x1)"
  have s2: "x_session ?x2 = Some (row_del UserKey vs1)" using ClearSessionUser_session [OF s1] .
  let ?k = "\<lambda>r :: error + unit. case r of Inl e \<Rightarrow> fail_bad e
     | Inr _ \<Rightarrow> andThen (attempt (SetSessionUser u)) (\<lambda>s. case s of Inl e \<Rightarrow> fail_bad e | Inr _ \<Rightarrow> http_Redirect ''/'' 302)"
  have a: "start_session u x = andThen (attempt ClearSessionUser) ?k ?x1"
    by (rule andThen_attempt_snd [of ClearOIDCState x "\<lambda>_. andThen (attempt ClearSessionUser) ?k"])
      (use session_no_crash(2) [OF v] in \<open>auto simp: start_session_def\<close>)
  obtain b where b: "andThen (attempt ClearSessionUser) ?k ?x1 = ?k b ?x2"
    by (rule andThen_attempt_snd [of ClearSessionUser ?x1 ?k]) (use ClearSessionUser_no_crash [OF s1] in auto)
  show ?thesis
  proof (cases b)
    case (Inl e)
    then show ?thesis using a b s2 by (simp add: session_user_def session_values_def)
  next
    case (Inr _)
    have v2: "session_values ?x2 = Some (row_del UserKey vs1)" using s2 by (simp add: session_values_def)
    let ?h = "\<lambda>s :: error + unit. case s of Inl e \<Rightarrow> fail_bad e | Inr _ \<Rightarrow> http_Redirect ''/'' 302"
    obtain c where c: "andThen (attempt (SetSessionUser u)) ?h ?x2 = ?h c (snd (SetSessionUser u ?x2))"
      by (rule andThen_attempt_snd [of "SetSessionUser u" ?x2 ?h]) (use session_no_crash(1) [OF v2] in auto)
    then have "start_session u x = ?h c (snd (SetSessionUser u ?x2))" using a b Inr by simp
    then have "x_session (snd (start_session u x)) = Some (row_put UserKey u (row_del UserKey vs1))"
      using session_ops(1) [OF v2] by (cases c) auto
    then show ?thesis by (simp add: session_user_def session_values_def)
  qed
qed

text \<open>
  C13. The login through the identity provider checks the state: the callback gives out a cookie
  only if the request's state is the one that the session of the browser was given at the
  start of the login and the provider has exchanged the code, with the verifier of the same
  session, for a user name; and the session then has this user or, if saving failed, none.
\<close>

theorem callback_state_checked:
  assumes "OIDCCallback x = (r, x')" "x_cookies x' \<noteq> x_cookies x"
  shows "\<exists>vs verifier user w. session_values x = Some vs
     \<and> map_of vs OIDCStateKey = Some (query_value ''state'' x) \<and> query_value ''state'' x \<noteq> []
     \<and> map_of vs OIDCCodeVerifierKey = Some verifier
     \<and> ExchangeCode (query_value ''code'' x) verifier (x_world x) = (Ok user, w)
     \<and> session_user x' \<in> {None, Some user}"
proof -
  let ?code = "query_value ''code'' x" and ?state = "query_value ''state'' x"
  have go: "query_value ''error'' x = []" "?code \<noteq> []" "?state \<noteq> []"
    using assms answers_keep(2) [of "''/#/login''" 302 x r x']
    by (auto simp: OIDCCallback_def query_Get_run split: if_splits)
  obtain vs where vs: "session_values x = Some vs"
    using assms go by (cases "session_values x")
      (auto simp: OIDCCallback_def query_Get_run GetOIDCState_def getSession_run attempt_def andThen_def)
  let ?y = "x\<lparr>x_session := Some vs\<rparr>"
  have no: "fail_bad e ?y \<noteq> (r, x')" for e using answers_keep(2) [of _ _ ?y r x' e] assms(2) by auto
  obtain v where state: "map_of vs OIDCStateKey = Some ?state" "map_of vs OIDCCodeVerifierKey = Some v"
    using assms(1) go no
    by (auto simp: OIDCCallback_def query_Get_run GetOIDCState_run [OF vs] attempt_def andThen_def split: option.splits if_splits)
  obtain q w where ex: "ExchangeCode ?code v (x_world x) = (q, w)" by fastforce
  let ?z = "?y\<lparr>x_world := w\<rparr>"
  have no: "fail_bad e ?z \<noteq> (r, x')" for e using answers_keep(2) [of _ _ ?z r x' e] assms(2) by auto
  have serve: "serve (ExchangeCode ?code v) ?y = (q, ?z)" using serve_run [of "ExchangeCode ?code v" ?y q w] ex by simp
  have run: "(r, x') = (case q of Err e \<Rightarrow> fail_bad e ?z | Ok u \<Rightarrow> start_session u ?z | Crash p \<Rightarrow> (Crash p, ?z))"
    using assms(1) go state serve
    by (cases q) (auto simp: OIDCCallback_def query_Get_run GetOIDCState_run [OF vs] attempt_def andThen_def)
  obtain u where u: "q = Ok u" "start_session u ?z = (r, x')"
  proof (cases q)
    case (Err e)
    then show ?thesis using run no [of e] by simp
  qed (use run assms(2) in auto)
  have "session_user (snd (start_session u ?z)) \<in> {None, Some u}" by (rule start_session_user) simp
  then have "session_user x' \<in> {None, Some u}" using u(2) by simp
  then show ?thesis using vs state go ex u(1) by blast
qed

text \<open>A browser in the middle of a login, and a provider that knows one user.\<close>

definition login_env :: environment where
  "login_env = calm\<lparr>e_http := (\<lambda>_ _. Inr \<lparr>StatusCode = 200, resp_Status = [], Body = Inr \<lparr>body_text = [],
       body_json = Some (JObj [(''id_token'', JStr ''i''), (''access_token'', JStr ''a''), (''preferred_username'', JStr ''bob'')])\<rparr>\<rparr>),
     e_str := (\<lambda>_ _. Inr ''t:bob''), e_seal := (\<lambda>_ _ _. Inr ''n''),
     e_unseal := (\<lambda>_ _ _. Some [(OIDCStateKey, ''s''), (OIDCCodeVerifierKey, ''v'')])\<rparr>"

definition login_exchange :: "data payload exchange" where
  "login_exchange = new_exchange ((start_world login_env)\<lparr>cookies_key := Some ''k''\<rparr>)
     ((plain_request (Some ''c''))\<lparr>rq_query := [(''code'', ''1''), (''state'', ''s'')], rq_json := Some (JObj [(''token'', JStr ''t'')])\<rparr>)"

lemma login_exchange_values:
  "session_values login_exchange = Some [(OIDCStateKey, ''s''), (OIDCCodeVerifierKey, ''v'')]"
  by (simp add: login_exchange_def session_values_def new_exchange_def plain_request_def decode_session_def login_env_def start_world_def)

lemma login_exchange_code:
  "\<exists>w. ExchangeCode ''1'' ''v'' (x_world login_exchange) = (Ok ''bob'', w) \<and> w_env w = login_env \<and> cookies_key w = Some ''k''"
proof -
  let ?w = "x_world login_exchange"
  have env: "w_env ?w = login_env" "cookies_key ?w = Some ''k''" "w_db ?w = fresh_db"
    by (simp_all add: login_exchange_def new_exchange_def start_world_def)
  obtain url where url: "cfg DeviceUrl ?w = (Ok url, ?w)"
    using env(3) by (simp add: cfg_def zoom_def DeviceUrl_def io_simps)
  show ?thesis
    by (simp add: ExchangeCode_def url fetchUsernameFromUserInfo_def wrap_err_def do_http_def read_body_simp json_body_def dec_token_def
        jkey_def env login_env_def attempt_def)
qed

theorem callback_state_checked_witness:
  "\<exists>r x'. OIDCCallback login_exchange = (r, x') \<and> x_cookies x' \<noteq> x_cookies login_exchange
     \<and> session_user x' \<in> {None, Some ''bob''}"
proof -
  let ?x = login_exchange and ?vs = "[(OIDCStateKey, ''s''), (OIDCCodeVerifierKey, ''v'')]"
  obtain w where w: "ExchangeCode ''1'' ''v'' (x_world ?x) = (Ok ''bob'', w)" "w_env w = login_env" "cookies_key w = Some ''k''"
    using login_exchange_code by blast
  have q: "query_value ''code'' ?x = ''1''" "query_value ''state'' ?x = ''s''" "query_value ''error'' ?x = []"
    by (simp_all add: query_value_def login_exchange_def new_exchange_def)
  let ?z = "?x\<lparr>x_session := Some ?vs, x_world := w\<rparr>"
  have "OIDCCallback ?x = start_session ''bob'' ?z"
    using w(1) q serve_run [of "ExchangeCode ''1'' ''v''" "?x\<lparr>x_session := Some ?vs\<rparr>"]
    by (simp add: OIDCCallback_def query_Get_run GetOIDCState_run [OF login_exchange_values] attempt_def OIDCStateKey_def OIDCCodeVerifierKey_def)
  moreover have "x_cookies (snd (start_session ''bob'' ?z)) = x_cookies ?x @ [''n'', ''n'', ''n'']"
    using w(2,3) by (simp add: start_session_def ClearOIDCState_def ClearSessionUser_def SetSessionUser_def getSession_run
        session_Save_run attempt_def answers_run(1) login_env_def session_values_def)
  ultimately obtain r x' where run: "OIDCCallback ?x = (r, x')" "x_cookies x' \<noteq> x_cookies ?x" by (metis append_self_conv list.discI prod.collapse)
  from callback_state_checked [OF this] obtain v u w' where
    "map_of ?vs OIDCCodeVerifierKey = Some v" "ExchangeCode (query_value ''code'' ?x) v (x_world ?x) = (Ok u, w')"
    "session_user x' \<in> {None, Some u}"
    using login_exchange_values by auto
  then have "u = ''bob''" using w(1) q by (auto simp: OIDCStateKey_def OIDCCodeVerifierKey_def)
  then show ?thesis using run \<open>session_user x' \<in> {None, Some u}\<close> by blast
qed

text \<open>
  C23. A login token works once: a session is started only for the token that the file holds,
  for the user behind it, and only after the file's removal was requested; nothing else
  is called.
\<close>

theorem login_token_checked:
  assumes "LoginToken x = (r, x')" "x_cookies x' \<noteq> x_cookies x"
  shows "\<exists>token user. token \<noteq> [] \<and> Option.bind (rq_json (x_req x)) (str_field ''token'') = Some token
     \<and> e_str (w_env (x_world x)) (w_hist (x_world x)) (Sys ''readfile'' [loginTokenFile]) = Inr (token @ '':'' @ user)
     \<and> w_hist (x_world x') = w_hist (x_world x) @ [Sys ''readfile'' [loginTokenFile], Sys ''remove'' [loginTokenFile]]
     \<and> session_user x' = Some user"
proof -
  let ?read = "Sys ''readfile'' [loginTokenFile]" and ?rm = "Sys ''remove'' [loginTokenFile]"
  have bad: "fail_bad e y \<noteq> (r, x')" if "x_cookies y = x_cookies x" for e y
    using answers_keep(2) [of _ _ y r x' e] assms(2) that by auto
  obtain t where t: "t \<noteq> []" "Option.bind (rq_json (x_req x)) (str_field ''token'') = Some t"
    using assms(1) bad [of x] by (auto simp: LoginToken_def split: option.splits if_splits)
  let ?y = "x\<lparr>x_world := record_call ?read (x_world x)\<rparr>" and ?z = "x\<lparr>x_world := record_call ?rm (record_call ?read (x_world x))\<rparr>"
  have reads: "serve (do_str ?read) x = (of_sum (e_str (w_env (x_world x)) (w_hist (x_world x)) ?read), ?y)"
    by (simp add: serve_def zoom_def do_str_def)
  have removes: "\<exists>a. andThen (attempt (serve (do_sys ''remove'' [loginTokenFile]))) k ?y = k a ?z" for k :: "error + unit \<Rightarrow> (data, unit) page"
    by (rule andThen_attempt_snd [of "serve (do_sys ''remove'' [loginTokenFile])" ?y k])
      (auto simp: serve_def zoom_def do_sys_def do_unit_def split: option.splits)
  obtain content where content: "e_str (w_env (x_world x)) (w_hist (x_world x)) ?read = Inr content"
    using assms(1) t bad [of ?y] reads
    by (cases "e_str (w_env (x_world x)) (w_hist (x_world x)) ?read") (auto simp: LoginToken_def attempt_def)
  obtain saved user where cut: "CutAt '':'' content = Some (saved, user)"
    using assms(1) t reads content bad [of ?z] removes [of "\<lambda>_. fail_bad (Error ''invalid token file'')"]
    by (cases "CutAt '':'' content") (auto simp: LoginToken_def attempt_def)
  have "saved = t"
    using assms(1) t reads content cut bad [of ?y] by (auto simp: LoginToken_def attempt_def split: if_splits)
  let ?h = "\<lambda>s :: error + unit. case s of Inl e \<Rightarrow> fail_bad e | Inr _ \<Rightarrow> andThen (write_status 200) (\<lambda>_. write_body (Api
       \<lparr>ar_Success = True, ar_Message = [], ar_Data = None, ar_Parameters = None\<rparr>))"
  have run: "andThen (attempt (SetSessionUser user)) ?h ?z = (r, x')"
    using assms(1) t reads content cut \<open>saved = t\<close> removes [of "\<lambda>_. andThen (attempt (SetSessionUser user)) ?h"]
    by (auto simp: LoginToken_def attempt_def)
  obtain vs where vs: "session_values ?z = Some vs"
    using run assms(2) by (cases "session_values ?z") (auto simp: SetSessionUser_def getSession_run attempt_def andThen_def)
  obtain a where a: "?h a (snd (SetSessionUser user ?z)) = (r, x')"
    by (rule andThen_attempt_snd [of "SetSessionUser user" ?z ?h]) (use session_no_crash(1) [OF vs] run in auto)
  have "x_session x' = Some (row_put UserKey user vs) \<and> x_world x' = x_world ?z"
    using a session_ops(1,2) [OF vs, of user]
    by (cases a) (auto simp: write_status_def write_body_def answers_keep(3,4) [OF disjI2])
  then show ?thesis using t content CutAt_Some [OF cut] \<open>saved = t\<close> by (auto simp: session_user_def session_values_def)
qed

theorem login_token_checked_witness:
  "\<exists>r x'. LoginToken login_exchange = (r, x') \<and> session_user x' = Some ''bob''
     \<and> w_hist (x_world x') = [Sys ''readfile'' [loginTokenFile], Sys ''remove'' [loginTokenFile]]"
proof -
  obtain r x' where run: "LoginToken login_exchange = (r, x')" by fastforce
  have cut: "CutAt '':'' ''t:bob'' = Some (''t'', ''bob'')" by code_simp
  have "x_cookies x' \<noteq> x_cookies login_exchange"
    using run by (auto simp del: CutAt.simps simp: cut LoginToken_def login_exchange_def new_exchange_def str_field_def jkey_def login_env_def serve_def zoom_def
        do_str_def do_sys_def do_unit_def attempt_def andThen_def SetSessionUser_def getSession_run session_values_def session_Save_run
        write_status_def write_body_def start_world_def calm_def)
  from login_token_checked [OF run this] show ?thesis using run
    by (auto simp: login_exchange_def new_exchange_def login_env_def str_field_def jkey_def)
qed

end
