(* ===== verification/Float64.thy ===== *)
theory Float64
  imports Main
begin

text \<open>
  The \<^verbatim>\<open>float64\<close> arithmetic that the sources do with ratios and scores: a non-negative number is
  a mantissa of at most 53 bits and a power of two. Every operation rounds its exact result
  to the nearest such number, and to the even mantissa when two are equally near, as
  IEEE 754 says. Zero is the pair of zeros. Infinities and the numbers below \<open>2 ^ -1022\<close> do not
  occur: the operands are counters of the kernel, percentages and constants.
\<close>

type_synonym f64 = "nat \<times> int"

fun bits :: "nat \<Rightarrow> nat" where
  "bits n = (if n = 0 then 0 else Suc (bits (n div 2)))"

declare bits.simps [simp del]

text \<open>The fraction \<open>p / q\<close> divided by \<open>2 ^ e\<close>, as a fraction again.\<close>

definition scale :: "nat \<Rightarrow> nat \<Rightarrow> int \<Rightarrow> nat \<times> nat" where
  "scale p q e = (if 0 \<le> e then (p, q * 2 ^ nat e) else (p * 2 ^ nat (- e), q))"

definition half_even :: "nat \<Rightarrow> nat \<Rightarrow> nat" where
  "half_even p q = (let m = p div q; r = p mod q in if q < 2 * r \<or> (2 * r = q \<and> odd m) then Suc m else m)"

text \<open>\<open>f64_round p q\<close> is the float nearest to \<open>p / q\<close>.\<close>

definition f64_round :: "nat \<Rightarrow> nat \<Rightarrow> f64" where
  "f64_round p q = (if p = 0 then (0, 0) else
     let e = int (bits p) - int (bits q) - 53;
         (a, b) = scale p q e;
         e' = (if 2 ^ 53 * b \<le> a then e + 1 else e);
         (a', b') = scale p q e';
         m = half_even a' b'
     in if m = 2 ^ 53 then (2 ^ 52, e' + 1) else (m, e'))"

definition f64_of_nat :: "nat \<Rightarrow> f64" where
  "f64_of_nat n = f64_round n 1"

definition fraction :: "f64 \<Rightarrow> nat \<times> nat" where
  "fraction x = (if 0 \<le> snd x then (fst x * 2 ^ nat (snd x), 1) else (fst x, 2 ^ nat (- snd x)))"

definition f64_div :: "f64 \<Rightarrow> f64 \<Rightarrow> f64" where
  "f64_div x y = (case (fraction x, fraction y) of ((a, b), (c, d)) \<Rightarrow> f64_round (a * d) (b * c))"

definition f64_mul :: "f64 \<Rightarrow> f64 \<Rightarrow> f64" where
  "f64_mul x y = (case (fraction x, fraction y) of ((a, b), (c, d)) \<Rightarrow> f64_round (a * c) (b * d))"

definition f64_add :: "f64 \<Rightarrow> f64 \<Rightarrow> f64" where
  "f64_add x y = (case (fraction x, fraction y) of ((a, b), (c, d)) \<Rightarrow> f64_round (a * d + c * b) (b * d))"

definition f64_less :: "f64 \<Rightarrow> f64 \<Rightarrow> bool" where
  "f64_less x y = (case (fraction x, fraction y) of ((a, b), (c, d)) \<Rightarrow> a * d < c * b)"

section \<open>The comparison is a linear preorder\<close>

lemma fraction_pos: "0 < snd (fraction x)"
  by (simp add: fraction_def)

lemma f64_less_irrefl [simp]: "\<not> f64_less x x"
  by (simp add: f64_less_def split: prod.splits)

lemma cross_less_trans:
  fixes a b c d e f :: nat
  assumes "0 < b" "0 < d" "0 < f" "a * d < c * b" "c * f \<le> e * d"
  shows "a * f < e * b"
proof -
  have "a * d * f < c * b * f" using assms(3,4) by simp
  also have "c * b * f = c * f * b" by (simp add: ac_simps)
  also have "\<dots> \<le> e * d * b" using assms(5) by simp
  finally have "(a * f) * d < (e * b) * d" by (simp add: ac_simps)
  then show ?thesis using assms(2) by simp
qed

lemma f64_less_trans: "f64_less x y \<Longrightarrow> \<not> f64_less z y \<Longrightarrow> f64_less x z"
  using fraction_pos [of x] fraction_pos [of y] fraction_pos [of z]
  by (auto simp: f64_less_def not_less split: prod.splits intro: cross_less_trans)

lemma f64_less_asym: "f64_less x y \<Longrightarrow> \<not> f64_less y x"
  by (auto simp: f64_less_def split: prod.splits)

section \<open>Rounding\<close>

lemma bits_bounds: "0 < n \<Longrightarrow> 2 ^ (bits n - 1) \<le> n \<and> n < 2 ^ bits n"
proof (induction n rule: bits.induct)
  case (1 n)
  show ?case
  proof (cases "n = 1")
    case True
    then show ?thesis by (simp add: bits.simps)
  next
    case False
    then have "0 < n div 2" using 1(2) by simp
    with 1 have IH: "2 ^ (bits (n div 2) - 1) \<le> n div 2" "n div 2 < 2 ^ bits (n div 2)" by auto
    have pos: "0 < bits (n div 2)" using \<open>0 < n div 2\<close> by (simp add: bits.simps)
    have "bits n = Suc (bits (n div 2))" using 1(2) by (simp add: bits.simps [of n])
    moreover have "2 ^ bits (n div 2) \<le> n" using IH(1) pos by (cases "bits (n div 2)") auto
    moreover have "n < 2 * 2 ^ bits (n div 2)" using IH(2) by linarith
    ultimately show ?thesis by simp
  qed
qed

text \<open>Values of constants, as a compiler computes them.\<close>

lemma f64_constants:
  "f64_round 8 100 = (5764607523034235, -56)" "f64_of_nat 40 = (5629499534213120, -47)"
  "f64_of_nat 1 = (4503599627370496, -52)" "f64_of_nat (2 ^ 53 + 1) = (4503599627370496, 1)"
  by (simp_all add: f64_of_nat_def f64_round_def bits.simps scale_def half_even_def)

text \<open>Rounding keeps to the type: the mantissa never has more than 53 bits, and all of them but for zero.\<close>

lemma half_even_bounds:
  assumes "0 < b" "l * b \<le> a" "a < u * b"
  shows "l \<le> half_even a b \<and> half_even a b \<le> u"
proof -
  have "l \<le> a div b" using assms(1,2) by (simp add: less_eq_div_iff_mult_less_eq)
  moreover have "a div b < u" using assms(1,3) by (simp add: div_less_iff_less_mult)
  ultimately show ?thesis by (simp add: half_even_def Let_def)
qed

lemma scale_pos: "0 < q \<Longrightarrow> 0 < snd (scale p q e)"
  by (simp add: scale_def)

text \<open>One more power of two: the fraction halves.\<close>

lemma scale_step: "fst (scale p q e) * snd (scale p q (e + 1)) = 2 * (fst (scale p q (e + 1)) * snd (scale p q e))"
proof (cases "0 \<le> e")
  case True
  then have "nat (e + 1) = Suc (nat e)" by simp
  then show ?thesis using True by (simp add: scale_def)
next
  case False
  show ?thesis
  proof (cases "e = -1")
    case True
    then show ?thesis by (simp add: scale_def)
  next
    case e: False
    then have "nat (- e) = Suc (nat (- (e + 1)))" using False by simp
    then show ?thesis using False e by (simp add: scale_def)
  qed
qed

lemma scale_window:
  assumes "0 < p" "0 < q" "e = int (bits p) - int (bits q) - 53" "scale p q e = (a, b)"
  shows "2 ^ 52 * b \<le> a \<and> a < 2 ^ 54 * b"
proof -
  have p: "2 ^ (bits p - 1) \<le> p" "p < 2 ^ bits p" and q: "2 ^ (bits q - 1) \<le> q" "q < 2 ^ bits q"
    using bits_bounds [OF assms(1)] bits_bounds [OF assms(2)] by auto
  have pos: "0 < bits p" "0 < bits q" using assms(1,2) by (simp_all add: bits.simps)
  show ?thesis
  proof (cases "0 \<le> e")
    case True
    define k where "k = nat e"
    have bp: "bits p = bits q + 53 + k" using True assms(3) by (simp add: k_def)
    have ab: "a = p" "b = q * 2 ^ k" using assms(4) True by (simp_all add: scale_def k_def)
    have "2 ^ 52 * (q * 2 ^ k) \<le> 2 ^ 52 * (2 ^ bits q * 2 ^ k)" using q(2) by simp
    also have "\<dots> = 2 ^ (52 + bits q + k)" by (simp add: power_add)
    also have "\<dots> = 2 ^ (bits p - 1)" using bp by (simp add: add.commute)
    also have "\<dots> \<le> p" by (rule p(1))
    finally have lo: "2 ^ 52 * b \<le> a" by (simp add: ab)
    have "2 ^ bits p = (2::nat) ^ (54 + (bits q - 1) + k)" using bp pos(2) by (intro arg_cong [of _ _ "\<lambda>n. 2 ^ n"]) linarith
    also have "\<dots> = 2 ^ 54 * (2 ^ (bits q - 1) * 2 ^ k)" by (simp add: power_add)
    also have "\<dots> \<le> 2 ^ 54 * (q * 2 ^ k)" using q(1) by simp
    finally show ?thesis using lo p(2) by (simp add: ab)
  next
    case False
    define k where "k = nat (- e)"
    have bp: "bits p + k = bits q + 53" using False assms(3) by (simp add: k_def)
    have ab: "a = p * 2 ^ k" "b = q" using assms(4) False by (simp_all add: scale_def k_def)
    have "2 ^ 52 * q \<le> 2 ^ 52 * 2 ^ bits q" using q(2) by simp
    also have "\<dots> = 2 ^ (52 + bits q)" by (simp add: power_add)
    also have "52 + bits q = bits p - 1 + k" using bp pos(1) by linarith
    also have "(2::nat) ^ (bits p - 1 + k) = 2 ^ (bits p - 1) * 2 ^ k" by (simp add: power_add)
    also have "\<dots> \<le> p * 2 ^ k" using p(1) by simp
    finally have lo: "2 ^ 52 * b \<le> a" by (simp add: ab)
    have "p * 2 ^ k < 2 ^ bits p * 2 ^ k" using p(2) by simp
    also have "\<dots> = 2 ^ (bits q + 53)" by (simp add: bp flip: power_add)
    also have "bits q + 53 = 54 + (bits q - 1)" using pos(2) by linarith
    also have "(2::nat) ^ (54 + (bits q - 1)) = 2 ^ 54 * (2 ^ (bits q - 1))" by (simp add: power_add)
    also have "\<dots> \<le> 2 ^ 54 * q" using q(1) by simp
    finally show ?thesis using lo by (simp add: ab)
  qed
qed

lemma f64_round_type:
  assumes "0 < p" "0 < q" "f64_round p q = (m, e)"
  shows "2 ^ 52 \<le> m \<and> m < 2 ^ 53"
proof -
  define e0 where "e0 = int (bits p) - int (bits q) - 53"
  obtain a b where ab: "scale p q e0 = (a, b)" by fastforce
  define e1 where "e1 = (if 2 ^ 53 * b \<le> a then e0 + 1 else e0)"
  obtain c d where cd: "scale p q e1 = (c, d)" by fastforce
  have win: "2 ^ 52 * b \<le> a" "a < 2 ^ 54 * b" using scale_window [OF assms(1,2) e0_def ab] by auto
  have pos: "0 < b" "0 < d" using scale_pos [OF assms(2)] ab cd by (metis snd_conv)+
  have "2 ^ 52 * d \<le> c \<and> c < 2 ^ 53 * d"
  proof (cases "2 ^ 53 * b \<le> a")
    case True
    then have step: "a * d = 2 * (c * b)" using scale_step [of p q e0] ab cd by (simp add: e1_def)
    have "2 ^ 53 * b * d \<le> a * d" using True by simp
    then have "(2 ^ 52 * d) * b \<le> c * b" using step by simp
    moreover have "a * d < 2 ^ 54 * b * d" using win(2) pos by simp
    then have "c * b < (2 ^ 53 * d) * b" using step by simp
    ultimately show ?thesis using pos(1) by simp
  next
    case False
    then show ?thesis using win ab cd by (simp add: e1_def)
  qed
  then have "2 ^ 52 \<le> half_even c d \<and> half_even c d \<le> 2 ^ 53" using half_even_bounds [OF pos(2)] by blast
  moreover have "f64_round p q = (if half_even c d = 2 ^ 53 then (2 ^ 52, e1 + 1) else (half_even c d, e1))"
    unfolding f64_round_def e0_def [symmetric] Let_def ab prod.case e1_def [symmetric] cd using assms(1) by simp
  ultimately show ?thesis using assms(3) by (auto split: if_splits)
qed

end
