(* ===== verification/Stability.thy ===== *)
theory Stability
  imports Float64 Health
begin

text \<open>
  The guard against memory pressure (\<^verbatim>\<open>backend/stability\<close>: \<^verbatim>\<open>meminfo.go\<close>, \<^verbatim>\<open>protect.go\<close>,
  \<^verbatim>\<open>proc.go\<close>, \<^verbatim>\<open>oom.go\<close>): every two seconds it compares the memory that is left with its limits and
  ends the process that weighs most. A float is written as text in plain decimals; the
  shortest text of a float, the sorting routine of the standard library (which is not
  stable) and the process id are parts of the configuration.
\<close>

section \<open>Memory\<close>

record mem_snap =
  ms_TotalKB :: "64 word"
  ms_AvailableKB :: "64 word"

definition AvailableRatio :: "mem_snap \<Rightarrow> f64" where
  "AvailableRatio s = (if ms_TotalKB s = 0 then f64_of_nat 1
     else f64_div (f64_of_nat (unat (ms_AvailableKB s))) (f64_of_nat (unat (ms_TotalKB s))))"

definition parseMemLine :: "string \<Rightarrow> string \<times> 64 word" where
  "parseMemLine line = (case CutAt '':'' line of
     None \<Rightarrow> ([], 0)
   | Some (key, rest) \<Rightarrow> (key, case ParseUint64 (TrimSuffix (TrimSpace rest) '' kB'') of None \<Rightarrow> 0 | Some n \<Rightarrow> of_nat n))"

definition mem_line :: "mem_snap \<Rightarrow> string \<Rightarrow> mem_snap" where
  "mem_line s line = (case parseMemLine line of (key, val) \<Rightarrow>
     if key = ''MemTotal'' then s\<lparr>ms_TotalKB := val\<rparr>
     else if key = ''MemAvailable'' then s\<lparr>ms_AvailableKB := val\<rparr> else s)"

definition Mem_Snapshot :: "mem_snap go" where
  "Mem_Snapshot = andThen (do_str (Sys ''readfile'' [''/proc/meminfo''])) (\<lambda>text.
     case scan text of
       (_, Some e) \<Rightarrow> throw e
     | (lines, None) \<Rightarrow> (let s = foldl mem_line \<lparr>ms_TotalKB = 0, ms_AvailableKB = 0\<rparr> lines in
         if ms_TotalKB s = 0 then throw (Error ''meminfo: MemTotal missing'') else ret s))"

definition PSIAvailable :: "bool go" where
  "PSIAvailable = andThen (attempt (do_sys ''stat'' [''/proc/pressure/memory''])) (\<lambda>r.
     ret (case r of Inl _ \<Rightarrow> False | Inr _ \<Rightarrow> True))"

definition ParseFloat :: "string \<Rightarrow> f64 option" where
  "ParseFloat s = (case Split s CHR ''.'' of
     [a] \<Rightarrow> if a = [] then None else map_option f64_of_nat (digits_val 0 a)
   | [a, b] \<Rightarrow> if a @ b = [] then None else map_option (\<lambda>n. f64_round n (10 ^ length b)) (digits_val 0 (a @ b))
   | _ \<Rightarrow> None)"

fun psi_field :: "string list \<Rightarrow> string option" where
  "psi_field [] = None"
| "psi_field (f # fs) = (case CutPrefix f ''avg10='' of Some v \<Rightarrow> Some v | None \<Rightarrow> psi_field fs)"

fun psi_line :: "string list \<Rightarrow> string option" where
  "psi_line [] = None"
| "psi_line (l # ls) = (case (if HasPrefix l ''some '' then psi_field (Fields l) else None) of
     Some v \<Rightarrow> Some v | None \<Rightarrow> psi_line ls)"

definition PSIMemoryAvg10 :: "f64 go" where
  "PSIMemoryAvg10 = andThen (do_str (Sys ''readfile'' [''/proc/pressure/memory''])) (\<lambda>text.
     case psi_line (fst (scan text)) of
       None \<Rightarrow> throw (Error (''pressure/memory: '' @ [CHR 0x27] @ ''some avg10'' @ [CHR 0x27] @ '' missing''))
     | Some v \<Rightarrow> (case ParseFloat v of None \<Rightarrow> throw (Error ''invalid syntax'') | Some x \<Rightarrow> ret x))"

section \<open>Processes\<close>

record victim =
  v_PID :: int
  v_Comm :: string
  v_App :: string
  v_Cgroup :: string
  v_RSSkB :: "64 word"
  v_OOMAdj :: int
  v_Score :: f64

record protect =
  p_Comms :: "string list"
  p_CgroupSubstrings :: "string list"

definition DefaultProtect :: protect where
  "DefaultProtect = \<lparr>p_Comms = [''systemd'', ''sshd'', ''init'', ''snapd'', ''dbus-daemon'', ''login''],
     p_CgroupSubstrings = [''snap.platform.'', ''snap.users.'', ''init.scope'', ''ssh.service'', ''sshd.service'']\<rparr>"

definition IsProtected :: "protect \<Rightarrow> victim \<Rightarrow> bool" where
  "IsProtected p v \<longleftrightarrow> v_Comm v \<in> set (p_Comms p) \<or> list_ex (Contains (v_Cgroup v)) (p_CgroupSubstrings p)"

text \<open>
  The last line whose last path element is a unit with a name; of its two kinds only one can
  end the line, and the name has no slash.
\<close>

definition unit_name :: "string \<Rightarrow> string option" where
  "unit_name line = (case rev (Split line CHR ''/'') of
     element # _ # _ \<Rightarrow>
       (case filter (\<lambda>kind. HasSuffix element kind \<and> length kind < length element) [''.service'', ''.scope''] of
          kind # _ \<Rightarrow> Some (TrimSuffix element kind) | [] \<Rightarrow> None)
   | _ \<Rightarrow> None)"

definition parseAppLabel :: "string \<Rightarrow> string" where
  "parseAppLabel cgroup = (case rev (List.map_filter unit_name (Split cgroup CHR 0x0A)) of
     [] \<Rightarrow> [] | name # _ \<Rightarrow> TrimPrefix name ''snap.'')"

definition status_line :: "victim \<Rightarrow> string \<Rightarrow> victim" where
  "status_line v line =
     (if HasPrefix line ''Name:'' then v\<lparr>v_Comm := TrimSpace (TrimPrefix line ''Name:'')\<rparr>
      else if HasPrefix line ''VmRSS:''
      then v\<lparr>v_RSSkB := uint_of (TrimSuffix (TrimSpace (TrimPrefix line ''VmRSS:'')) '' kB'')\<rparr>
      else v)"

definition readStatus :: "string \<Rightarrow> victim \<Rightarrow> victim go" where
  "readStatus path v = andThen (do_str (Sys ''readfile'' [path])) (\<lambda>text. case scan text of
     (_, Some e) \<Rightarrow> throw e | (lines, None) \<Rightarrow> ret (foldl status_line v lines))"

definition readInt :: "string \<Rightarrow> int go" where
  "readInt path = andThen (do_str (Sys ''readfile'' [path])) (\<lambda>b.
     let s = TrimSpace b in
     if s = [] then throw (Error ''empty'')
     else (case Atoi s of None \<Rightarrow> throw (Error ''invalid syntax'') | Some i \<Rightarrow> ret i))"

definition readVictim :: "int \<Rightarrow> victim go" where
  "readVictim pid = (let base = ''/proc/'' @ Itoa pid in
     andThen (readStatus (base @ ''/status'')
       \<lparr>v_PID = pid, v_Comm = [], v_App = [], v_Cgroup = [], v_RSSkB = 0, v_OOMAdj = 0, v_Score = (0, 0)\<rparr>) (\<lambda>v.
     andThen (attempt (readInt (base @ ''/oom_score_adj''))) (\<lambda>adj.
     andThen (attempt (do_str (Sys ''readfile'' [base @ ''/cgroup'']))) (\<lambda>cg.
       let v1 = (case adj of Inl _ \<Rightarrow> v | Inr i \<Rightarrow> v\<lparr>v_OOMAdj := i\<rparr>) in
       ret (case cg of Inl _ \<Rightarrow> v1 | Inr text \<Rightarrow> v1\<lparr>v_Cgroup := TrimSpace text, v_App := parseAppLabel (TrimSpace text)\<rparr>)))))"

definition score :: "64 word \<Rightarrow> int \<Rightarrow> f64" where
  "score rssKB adj = f64_mul (f64_of_nat (unat rssKB))
     (if 0 < adj then f64_add (f64_of_nat 1) (f64_div (f64_of_nat (nat adj)) (f64_of_nat 1000)) else f64_of_nat 1)"

fun eligible_of :: "protect \<Rightarrow> int \<Rightarrow> (string \<times> string) list \<Rightarrow> victim list go" where
  "eligible_of p selfPID [] = ret []"
| "eligible_of p selfPID ((name, kind) # rest) =
     (case (if kind = ''dir'' then Atoi name else None) of
        None \<Rightarrow> eligible_of p selfPID rest
      | Some pid \<Rightarrow>
          if pid \<le> 1 \<or> pid = selfPID then eligible_of p selfPID rest
          else andThen (attempt (readVictim pid)) (\<lambda>r. case r of
            Inl _ \<Rightarrow> eligible_of p selfPID rest
          | Inr v \<Rightarrow>
              if v_RSSkB v = 0 \<or> IsProtected p v then eligible_of p selfPID rest
              else andThen (eligible_of p selfPID rest) (\<lambda>vs.
                ret (v\<lparr>v_Score := score (v_RSSkB v) (v_OOMAdj v)\<rparr> # vs))))"

section \<open>The watcher\<close>

record watcher =
  wt_selfPID :: int
  wt_sort :: "victim list \<Rightarrow> victim list"
  wt_decimal :: "f64 \<Rightarrow> int \<times> int"
  wt_events :: string

definition availMin :: f64 where "availMin = f64_round 8 100"

definition psiMax :: f64 where "psiMax = f64_of_nat 40"

text \<open>In nanoseconds.\<close>

definition grace :: int where "grace = 4000000000"

definition Candidates :: "watcher \<Rightarrow> victim list go" where
  "Candidates t = andThen (do_pairs (Sys ''readdir'' [''/proc''])) (\<lambda>entries.
     andThen (eligible_of DefaultProtect (wt_selfPID t) entries) (\<lambda>vs. ret (wt_sort t vs)))"

definition kill :: "int \<Rightarrow> string \<Rightarrow> unit go" where
  "kill pid sig = do_sys ''kill'' [Itoa pid, sig]"

text \<open>The monotonic clock, which leaves no mark in the history.\<close>

definition clock :: "environment \<Rightarrow> call list \<Rightarrow> int" where
  "clock e h = (case e_int e h (Sys ''monotonic'' []) of Inl _ \<Rightarrow> 0 | Inr t \<Rightarrow> t)"

definition Now_ns :: "int go" where
  "Now_ns = gets (\<lambda>w. clock (w_env w) (w_hist w))"

text \<open>
  Waiting for the victim to end, with a bound on the number of rounds; the answer is whether
  it is gone.
\<close>

fun wait_gone :: "nat \<Rightarrow> int \<Rightarrow> int \<Rightarrow> bool go" where
  "wait_gone 0 deadline pid = crash ''out of fuel''"
| "wait_gone (Suc n) deadline pid = andThen Now_ns (\<lambda>now.
     if now < deadline
     then andThen (attempt (kill pid ''0'')) (\<lambda>r. case r of
         Inl _ \<Rightarrow> ret True
       | Inr _ \<Rightarrow> andThen (do_void (Sys ''sleep'' [''200ms''])) (\<lambda>_. wait_gone n deadline pid))
     else ret False)"

definition rounds :: nat where "rounds = 21"

definition victim_event :: "string \<Rightarrow> victim \<Rightarrow> event" where
  "victim_event kind v = zero_event\<lparr>ev_Kind := kind, ev_PID := v_PID v, ev_Comm := v_Comm v, ev_App := v_App v,
     ev_RSSkb := unat (v_RSSkB v), ev_Cgroup := v_Cgroup v\<rparr>"

definition kill_victim :: "watcher \<Rightarrow> victim \<Rightarrow> unit go" where
  "kill_victim t v =
     andThen (attempt (Append (wt_events t) (victim_event ''victim_sigterm'' v))) (\<lambda>_.
     andThen (attempt (kill (v_PID v) ''TERM'')) (\<lambda>r. case r of
       Inl e \<Rightarrow> if e = ESRCH then ret () else throw e
     | Inr _ \<Rightarrow> andThen Now_ns (\<lambda>now.
         andThen (wait_gone rounds (now + grace) (v_PID v)) (\<lambda>gone.
           if gone then ret ()
           else andThen (attempt (Append (wt_events t) (victim_event ''victim_sigkill'' v))) (\<lambda>_.
             andThen (attempt (kill (v_PID v) ''KILL'')) (\<lambda>r2. case r2 of
               Inl e \<Rightarrow> if e = ESRCH then ret () else throw e
             | Inr _ \<Rightarrow> ret ()))))))"

definition ErrNoVictim :: error where "ErrNoVictim = Error ''stability: no eligible victim''"

definition killWorst :: "watcher \<Rightarrow> unit go" where
  "killWorst t = andThen (Candidates t) (\<lambda>cands. case cands of
     [] \<Rightarrow> throw ErrNoVictim | v # _ \<Rightarrow> kill_victim t v)"

definition pressureExceeded :: "f64 \<Rightarrow> f64 option \<Rightarrow> bool" where
  "pressureExceeded avail psi \<longleftrightarrow> f64_less avail availMin
     \<or> (case psi of None \<Rightarrow> False | Some x \<Rightarrow> f64_less psiMax x)"

definition psi_value :: "f64 option go" where
  "psi_value = andThen PSIAvailable (\<lambda>available.
     if available then andThen (attempt PSIMemoryAvg10) (\<lambda>r. ret (case r of Inl _ \<Rightarrow> None | Inr x \<Rightarrow> Some x))
     else ret None)"

definition tick :: "watcher \<Rightarrow> unit go" where
  "tick t = andThen Mem_Snapshot (\<lambda>snap.
     let avail = AvailableRatio snap in
     andThen psi_value (\<lambda>psi.
       if \<not> pressureExceeded avail psi then ret ()
       else andThen (attempt (Append (wt_events t) (zero_event\<lparr>ev_Kind := ''pressure_detected'',
           ev_AvailRatio := wt_decimal t avail, ev_PSIavg10 := wt_decimal t (case psi of None \<Rightarrow> (0, 0) | Some x \<Rightarrow> x)\<rparr>))) (\<lambda>_.
         killWorst t)))"

section \<open>Who is ended, and how\<close>

text \<open>The sort puts no victim behind one with a smaller score, and loses none.\<close>

definition sorts :: "(victim list \<Rightarrow> victim list) \<Rightarrow> bool" where
  "sorts f \<longleftrightarrow> (\<forall>vs. set (f vs) = set vs \<and> sorted_wrt (\<lambda>a b. \<not> f64_less (v_Score a) (v_Score b)) (f vs))"

definition eligible :: "watcher \<Rightarrow> victim \<Rightarrow> bool" where
  "eligible t v \<longleftrightarrow> 1 < v_PID v \<and> v_PID v \<noteq> wt_selfPID t \<and> v_RSSkB v \<noteq> 0 \<and> \<not> IsProtected DefaultProtect v
     \<and> v_Score v = score (v_RSSkB v) (v_OOMAdj v)"

lemma foldl_status_PID: "v_PID (foldl status_line v ls) = v_PID v"
  by (induction ls arbitrary: v) (auto simp: status_line_def)

lemma readStatus_PID:
  assumes "readStatus path v w = (Ok v', w')"
  shows "v_PID v' = v_PID v"
proof -
  obtain content w1 where "(case scan content of (_, Some e) \<Rightarrow> throw e | (lines, None) \<Rightarrow> ret (foldl status_line v lines)) w1 = (Ok v', w')"
    using assms unfolding readStatus_def andThen_Ok_iff by blast
  then show ?thesis by (cases "scan content"; cases "snd (scan content)") (auto simp: foldl_status_PID)
qed

lemma readVictim_PID:
  assumes "readVictim pid w = (Ok v, w')"
  shows "v_PID v = pid"
proof -
  obtain v0 and adj :: "error + int" and cg :: "error + string" where "v_PID v0 = pid"
    and "v = (case cg of Inl _ \<Rightarrow> (case adj of Inl _ \<Rightarrow> v0 | Inr i \<Rightarrow> v0\<lparr>v_OOMAdj := i\<rparr>)
      | Inr t \<Rightarrow> (case adj of Inl _ \<Rightarrow> v0 | Inr i \<Rightarrow> v0\<lparr>v_OOMAdj := i\<rparr>)\<lparr>v_Cgroup := TrimSpace t, v_App := parseAppLabel (TrimSpace t)\<rparr>)"
    using assms unfolding readVictim_def Let_def andThen_Ok_iff ret_apply by (auto dest!: readStatus_PID)
  then show ?thesis by (cases adj; cases cg) auto
qed

lemma IsProtected_score [simp]: "IsProtected p (v\<lparr>v_Score := s\<rparr>) = IsProtected p v"
  by (simp add: IsProtected_def)

lemma eligible_of_eligible:
  "eligible_of DefaultProtect (wt_selfPID t) es w = (Ok vs, w') \<Longrightarrow> list_all (eligible t) vs"
proof (induction es arbitrary: w vs w')
  case (Cons x es)
  obtain name kind where x: "x = (name, kind)" by (cases x)
  show ?case
  proof (cases "if kind = ''dir'' then Atoi name else None")
    case (Some pid)
    show ?thesis
    proof (cases "pid \<le> 1 \<or> pid = wt_selfPID t")
      case False
      obtain r w1 where r: "attempt (readVictim pid) w = (r, w1)" by fastforce
      show ?thesis
      proof (cases r)
        case (Ok s)
        show ?thesis
        proof (cases s)
          case (Inr v)
          have pid: "v_PID v = pid" using r Ok Inr readVictim_PID [of pid w v]
            by (auto simp: attempt_def split: prod.splits res.splits)
          show ?thesis
            using Cons Some False x r Ok Inr pid
            by (auto simp: andThen_Ok_iff eligible_def split: if_splits)
        qed (use Cons Some False x r Ok in auto)
      qed (use Cons Some False x r in auto)
    qed (use Cons Some x in auto)
  qed (use Cons x in auto)
qed simp

lemma Candidates_eligible:
  assumes "sorts (wt_sort t)" "Candidates t w = (Ok vs, w')"
  shows "list_all (eligible t) vs \<and> sorted_wrt (\<lambda>a b. \<not> f64_less (v_Score a) (v_Score b)) vs"
proof -
  obtain us es w1 where us: "eligible_of DefaultProtect (wt_selfPID t) es w1 = (Ok us, w')" "vs = wt_sort t us"
    using assms(2) by (auto simp: Candidates_def andThen_Ok_iff)
  then show ?thesis using assms(1) eligible_of_eligible [OF us(1)] by (auto simp: sorts_def list_all_iff)
qed

text \<open>Nothing but \<open>kill\<close> sends a signal.\<close>

definition signal_of :: "call \<Rightarrow> (string \<times> string) option" where
  "signal_of c = (case c of Sys f [pid, sig] \<Rightarrow> if f = ''kill'' then Some (pid, sig) else None | _ \<Rightarrow> None)"

abbreviation silent :: "world \<Rightarrow> world \<Rightarrow> bool" where
  "silent \<equiv> within (\<lambda>c. signal_of c = None)"

lemma signal_of_other [simp]:
  "f \<noteq> ''kill'' \<Longrightarrow> signal_of (Sys f as) = None" "signal_of (WriteJson p j) = None" "signal_of (Sys f [a]) = None" "signal_of (Sys f []) = None"
  by (auto simp: signal_of_def split: list.splits)

lemma keeps_encode_all [keeps_intros]: "keeps silent (encode_all tmp es)"
  by (induction es) (auto intro!: keeps_intros split: sum.splits simp del: ret_apply throw_apply)

lemma keeps_readLastLocked [keeps_intros]: "keeps silent (readLastLocked path n b)"
  unfolding readLastLocked_def by (auto intro!: keeps_intros split: sum.splits simp del: ret_apply throw_apply)

lemma keeps_rotateLocked [keeps_intros]: "keeps silent (rotateLocked path n)"
  unfolding rotateLocked_def Let_def by (auto intro!: keeps_intros split: sum.splits simp del: ret_apply throw_apply)

lemma keeps_Append: "keeps silent (Append path e)"
  unfolding Append_def Let_def by (auto intro!: keeps_intros simp del: ret_apply)

lemma keeps_readVictim [keeps_intros]: "keeps silent (readVictim pid)"
  unfolding readVictim_def readStatus_def readInt_def Let_def
  by (intro keeps_intros) (auto intro!: keeps_intros split: prod.splits option.splits simp del: ret_apply throw_apply)

lemma keeps_eligible_of [keeps_intros]: "keeps silent (eligible_of p self es)"
  by (induction p self es rule: eligible_of.induct)
    (auto intro!: keeps_intros split: option.splits sum.splits simp del: ret_apply)

lemma keeps_Candidates: "keeps silent (Candidates t)"
  unfolding Candidates_def by (intro keeps_intros) simp_all

lemma keeps_Mem_Snapshot: "keeps silent Mem_Snapshot"
  unfolding Mem_Snapshot_def Let_def
  by (intro keeps_intros) (auto intro!: keeps_intros split: prod.splits option.splits simp del: ret_apply throw_apply)

lemma keeps_psi_value: "keeps silent psi_value"
  unfolding psi_value_def PSIAvailable_def PSIMemoryAvg10_def
  by (intro keeps_intros) (auto intro!: keeps_intros split: option.splits simp del: ret_apply throw_apply)

text \<open>Nothing of this panics.\<close>

lemma safe_eligible_of [safe_intros]: "safe (eligible_of p self es)"
proof -
  have victim: "safe (readVictim pid)" for pid
    unfolding readVictim_def readStatus_def readInt_def Let_def
    by (intro safe_intros) (auto intro!: safe_intros split: prod.splits option.splits simp del: ret_apply throw_apply)
  show ?thesis
    by (induction p self es rule: eligible_of.induct)
      (auto intro!: safe_intros victim split: option.splits sum.splits simp del: ret_apply)
qed

lemma safe_Append [safe_intros]: "safe (Append path e)"
proof -
  have encode: "safe (encode_all tmp es)" for tmp es
    by (induction es) (auto intro!: safe_intros split: sum.splits simp del: ret_apply throw_apply)
  show ?thesis
    unfolding Append_def rotateLocked_def readLastLocked_def Let_def
    by (auto intro!: safe_intros encode split: sum.splits simp del: ret_apply throw_apply)
qed

lemma safe_observations: "safe (Candidates t)" "safe Mem_Snapshot" "safe psi_value"
  unfolding Candidates_def Mem_Snapshot_def psi_value_def PSIAvailable_def PSIMemoryAvg10_def Let_def
  by (auto intro!: safe_intros split: prod.splits option.splits simp del: ret_apply throw_apply)

text \<open>The rounds of waiting: each probes the process and sleeps.\<close>

definition probe :: "int \<Rightarrow> call" where "probe pid = Sys ''kill'' [Itoa pid, ''0'']"

definition polls :: "int \<Rightarrow> nat \<Rightarrow> call list" where
  "polls pid k = concat (replicate k [probe pid, Sys ''sleep'' [''200ms'']])"

lemma wait_gone_run:
  "wait_gone n deadline pid w = (r, w') \<Longrightarrow> \<exists>k.
     (r = Ok True \<and> w' = w\<lparr>w_hist := w_hist w @ polls pid k @ [probe pid]\<rparr>)
   \<or> (r = Ok False \<and> w' = w\<lparr>w_hist := w_hist w @ polls pid k\<rparr> \<and> deadline \<le> clock (w_env w) (w_hist w'))
   \<or> r = Crash ''out of fuel''"
proof (induction n arbitrary: w)
  case (Suc n)
  show ?case
  proof (cases "clock (w_env w) (w_hist w) < deadline")
    case False
    then show ?thesis using Suc.prems by (intro exI [of _ 0]) (auto simp: Now_ns_def polls_def)
  next
    case True
    let ?w = "record_call (probe pid) w" and ?sleep = "Sys ''sleep'' [''200ms'']"
    show ?thesis
    proof (cases "e_unit (w_env w) (w_hist w) (probe pid)")
      case (Some e)
      then show ?thesis using Suc.prems True
        by (intro exI [of _ 0]) (auto simp: Now_ns_def kill_def do_sys_def do_unit_def probe_def polls_def attempt_def record_call_def)
    next
      case None
      then have "wait_gone n deadline pid (record_call ?sleep ?w) = (r, w')"
        using Suc.prems True by (simp add: Now_ns_def kill_def do_sys_def do_unit_def probe_def attempt_def do_void_def)
      from Suc.IH [OF this] obtain k where "(r = Ok True \<and> w' = (record_call ?sleep ?w)\<lparr>w_hist := w_hist (record_call ?sleep ?w) @ polls pid k @ [probe pid]\<rparr>)
        \<or> (r = Ok False \<and> w' = (record_call ?sleep ?w)\<lparr>w_hist := w_hist (record_call ?sleep ?w) @ polls pid k\<rparr>
           \<and> deadline \<le> clock (w_env w) (w_hist w'))
        \<or> r = Crash ''out of fuel''" by auto
      then show ?thesis by (intro exI [of _ "Suc k"]) (auto simp: polls_def record_call_def)
    qed
  qed
qed simp

text \<open>The clock of the machine: it never goes back, and a sleep takes at least as long as it should.\<close>

definition clock_runs :: "environment \<Rightarrow> bool" where
  "clock_runs e \<longleftrightarrow> (\<forall>h c. clock e h \<le> clock e (h @ [c])) \<and> (\<forall>h. clock e h + 200000000 \<le> clock e (h @ [Sys ''sleep'' [''200ms'']]))"

lemma wait_gone_returns:
  assumes "clock_runs (w_env w)" "deadline \<le> clock (w_env w) (w_hist w) + 200000000 * int n"
  shows "fst (wait_gone (Suc n) deadline pid w) \<noteq> Crash p"
  using assms
proof (induction n arbitrary: w)
  case 0
  then show ?case by (simp add: Now_ns_def)
next
  case (Suc n)
  let ?w = "record_call (probe pid) w" and ?sleep = "Sys ''sleep'' [''200ms'']"
  have step: "fst (wait_gone (Suc n) deadline pid (record_call ?sleep ?w)) \<noteq> Crash p"
  proof (rule Suc.IH)
    have "clock (w_env w) (w_hist w) \<le> clock (w_env w) (w_hist ?w)"
      "clock (w_env w) (w_hist ?w) + 200000000 \<le> clock (w_env w) (w_hist (record_call ?sleep ?w))"
      using Suc.prems(1) unfolding clock_runs_def record_call_sel by blast+
    then show "deadline \<le> clock (w_env (record_call ?sleep ?w)) (w_hist (record_call ?sleep ?w)) + 200000000 * int n"
      using Suc.prems(2) by (simp add: algebra_simps)
  qed (use Suc.prems in simp)
  show ?case
    using step by (cases "e_unit (w_env w) (w_hist w) (probe pid)")
      (auto simp del: wait_gone.simps(2) simp: wait_gone.simps(2) [of "Suc n"] Now_ns_def kill_def do_sys_def do_unit_def probe_def attempt_def do_void_def)
qed

text \<open>
  The calls that end a victim: a silent part, the request to terminate, and then either
  nothing more (the request failed), or rounds of waiting up to a probe that no longer
  finds the process, or rounds of waiting that took the whole grace period, and the kill.
\<close>

definition ends_only :: "environment \<Rightarrow> call list \<Rightarrow> int \<Rightarrow> call list \<Rightarrow> bool" where
  "ends_only e h pid cs \<longleftrightarrow> (\<exists>a k b. list_all (\<lambda>c. signal_of c = None) (a @ b) \<and>
     (let asked = a @ [Sys ''kill'' [Itoa pid, ''TERM'']] in
      cs = asked \<or> cs = asked @ polls pid k @ [probe pid]
      \<or> (cs = asked @ polls pid k @ b @ [Sys ''kill'' [Itoa pid, ''KILL'']]
         \<and> clock e (h @ asked) + grace \<le> clock e (h @ asked @ polls pid k))))"

lemma ends_onlyI:
  assumes "list_all (\<lambda>c. signal_of c = None) a" "list_all (\<lambda>c. signal_of c = None) b"
    and "cs = a @ [Sys ''kill'' [Itoa pid, ''TERM'']] \<or> cs = a @ [Sys ''kill'' [Itoa pid, ''TERM'']] @ polls pid k @ [probe pid]
      \<or> (cs = a @ [Sys ''kill'' [Itoa pid, ''TERM'']] @ polls pid k @ b @ [Sys ''kill'' [Itoa pid, ''KILL'']]
         \<and> clock e (h @ a @ [Sys ''kill'' [Itoa pid, ''TERM'']]) + grace
             \<le> clock e (h @ a @ [Sys ''kill'' [Itoa pid, ''TERM'']] @ polls pid k))"
  shows "ends_only e h pid cs"
  unfolding ends_only_def Let_def
  by (rule exI [of _ a], rule exI [of _ k], rule exI [of _ b]) (use assms in auto)

lemma silent_calls: "keeps silent m \<Longrightarrow> m w = (r, w') \<Longrightarrow>
    \<exists>a. w' = w\<lparr>w_hist := w_hist w @ a\<rparr> \<and> list_all (\<lambda>c. signal_of c = None) a"
  using keepsD [of silent m w r w'] by (auto simp: within_def)

lemma kill_run: "kill pid sig w = ((case e_unit (w_env w) (w_hist w) (Sys ''kill'' [Itoa pid, sig]) of None \<Rightarrow> Ok () | Some e \<Rightarrow> Err e),
    record_call (Sys ''kill'' [Itoa pid, sig]) w)"
  by (simp add: kill_def do_sys_def do_unit_def)

lemma attempt_kill: "\<exists>x. attempt (kill pid sig) w = (Ok x, record_call (Sys ''kill'' [Itoa pid, sig]) w)"
  by (simp add: attempt_def kill_run split: option.splits)

lemma attempt_Append:
  "\<exists>x a. attempt (Append path e) w = (Ok x, w\<lparr>w_hist := w_hist w @ a\<rparr>) \<and> list_all (\<lambda>c. signal_of c = None) a"
proof -
  obtain r w' where run: "Append path e w = (r, w')" by fastforce
  then have "r \<noteq> Crash p" for p using safeD [OF safe_Append] by blast
  then show ?thesis using silent_calls [OF keeps_Append run] run by (cases r) auto
qed

text \<open>The wait returns with enough fuel: the process is gone, or the grace period is over.\<close>

lemma wait_gone_trace:
  assumes "clock_runs (w_env w)" "d = clock (w_env w) (w_hist w) + grace" "wait_gone rounds d pid w = (q, w')"
  shows "\<exists>k. (q = Ok True \<and> w' = w\<lparr>w_hist := w_hist w @ polls pid k @ [probe pid]\<rparr>)
     \<or> (q = Ok False \<and> w' = w\<lparr>w_hist := w_hist w @ polls pid k\<rparr> \<and> d \<le> clock (w_env w) (w_hist w'))"
proof -
  have "fst (wait_gone (Suc 20) d pid w) \<noteq> Crash p" for p
    using assms(1,2) by (intro wait_gone_returns) (simp_all add: grace_def)
  then have "q \<noteq> Crash p" for p using assms(3) by (simp add: rounds_def eval_nat_numeral)
  then show ?thesis using wait_gone_run [OF assms(3)] by blast
qed

definition last_resort :: "watcher \<Rightarrow> victim \<Rightarrow> unit go" where
  "last_resort t v = andThen (attempt (Append (wt_events t) (victim_event ''victim_sigkill'' v))) (\<lambda>_.
     andThen (attempt (kill (v_PID v) ''KILL'')) (\<lambda>r2. case r2 of
       Inl e \<Rightarrow> if e = ESRCH then ret () else throw e | Inr _ \<Rightarrow> ret ()))"

lemma last_resort_trace:
  assumes "last_resort t v w = (r, w')"
  shows "(\<forall>p. r \<noteq> Crash p) \<and> (\<exists>b. list_all (\<lambda>c. signal_of c = None) b
     \<and> w' = w\<lparr>w_hist := w_hist w @ b @ [Sys ''kill'' [Itoa (v_PID v), ''KILL'']]\<rparr>)"
proof -
  let ?kill = "Sys ''kill'' [Itoa (v_PID v), ''KILL'']"
  obtain x b where b: "attempt (Append (wt_events t) (victim_event ''victim_sigkill'' v)) w = (Ok x, w\<lparr>w_hist := w_hist w @ b\<rparr>)"
    "list_all (\<lambda>c. signal_of c = None) b" using attempt_Append by blast
  obtain z where z: "attempt (kill (v_PID v) ''KILL'') (w\<lparr>w_hist := w_hist w @ b\<rparr>) = (Ok z, record_call ?kill (w\<lparr>w_hist := w_hist w @ b\<rparr>))"
    using attempt_kill by blast
  then have "w' = record_call ?kill (w\<lparr>w_hist := w_hist w @ b\<rparr>)" "\<forall>p. r \<noteq> Crash p"
    using assms b(1) by (cases z; auto simp: last_resort_def split: if_splits)+
  then show ?thesis using b(2) by (auto simp: record_call_def)
qed

lemma kill_victim_trace:
  assumes "clock_runs (w_env w)" "kill_victim t v w = (r, w')"
  shows "(\<forall>p. r \<noteq> Crash p) \<and> (\<exists>cs. w' = w\<lparr>w_hist := w_hist w @ cs\<rparr> \<and> ends_only (w_env w) (w_hist w) (v_PID v) cs)"
proof -
  let ?pid = "v_PID v" and ?stop = "Sys ''kill'' [Itoa (v_PID v), ''TERM'']" and ?kill = "Sys ''kill'' [Itoa (v_PID v), ''KILL'']"
  obtain x a where a: "attempt (Append (wt_events t) (victim_event ''victim_sigterm'' v)) w = (Ok x, w\<lparr>w_hist := w_hist w @ a\<rparr>)"
    "list_all (\<lambda>c. signal_of c = None) a" using attempt_Append by blast
  define w1 where "w1 = record_call ?stop (w\<lparr>w_hist := w_hist w @ a\<rparr>)"
  have w1: "w1 = w\<lparr>w_hist := w_hist w @ a @ [?stop]\<rparr>" by (simp add: w1_def record_call_def)
  obtain y where y: "attempt (kill ?pid ''TERM'') (w\<lparr>w_hist := w_hist w @ a\<rparr>) = (Ok y, w1)"
    using attempt_kill unfolding w1_def by blast
  show ?thesis
  proof (cases y)
    case (Inl e)
    then have "w' = w1" "\<forall>p. r \<noteq> Crash p" using assms(2) a(1) y by (auto simp: kill_victim_def split: if_splits)
    moreover have "ends_only (w_env w) (w_hist w) ?pid (a @ [?stop])"
      using a(2) by (intro ends_onlyI [of a "[]" _ _ 0]) auto
    ultimately show ?thesis using w1 by auto
  next
    case (Inr u)
    let ?d = "clock (w_env w) (w_hist w1) + grace"
    obtain q w2 where wait: "wait_gone rounds ?d ?pid w1 = (q, w2)" by fastforce
    obtain k where k: "(q = Ok True \<and> w2 = w1\<lparr>w_hist := w_hist w1 @ polls ?pid k @ [probe ?pid]\<rparr>)
      \<or> (q = Ok False \<and> w2 = w1\<lparr>w_hist := w_hist w1 @ polls ?pid k\<rparr> \<and> ?d \<le> clock (w_env w1) (w_hist w2))"
      using wait_gone_trace [OF _ _ wait] assms(1) w1 by auto
    have rest: "kill_victim t v w = andThen (wait_gone rounds ?d ?pid) (\<lambda>gone. if gone then ret () else last_resort t v) w1"
      unfolding last_resort_def using a(1) y Inr by (simp add: kill_victim_def Now_ns_def w1)
    from k show ?thesis
    proof
      assume gone: "q = Ok True \<and> w2 = w1\<lparr>w_hist := w_hist w1 @ polls ?pid k @ [probe ?pid]\<rparr>"
      then have "r = Ok ()" "w' = w2" using assms(2) rest wait by simp_all
      moreover have "ends_only (w_env w) (w_hist w) ?pid (a @ [?stop] @ polls ?pid k @ [probe ?pid])"
        using a(2) by (intro ends_onlyI [of a "[]" _ _ k]) auto
      ultimately show ?thesis using gone w1 by auto
    next
      assume stay: "q = Ok False \<and> w2 = w1\<lparr>w_hist := w_hist w1 @ polls ?pid k\<rparr> \<and> ?d \<le> clock (w_env w1) (w_hist w2)"
      then have kill: "last_resort t v w2 = (r, w')" using assms(2) rest wait by simp
      obtain b where b: "\<forall>p. r \<noteq> Crash p" "list_all (\<lambda>c. signal_of c = None) b" "w' = w2\<lparr>w_hist := w_hist w2 @ b @ [?kill]\<rparr>"
        using last_resort_trace [OF kill] by blast
      have "ends_only (w_env w) (w_hist w) ?pid (a @ [?stop] @ polls ?pid k @ b @ [?kill])"
        using a(2) b(2) stay w1 by (intro ends_onlyI [of a b _ _ k]) auto
      then show ?thesis using stay w1 b by auto
    qed
  qed
qed

lemma ends_only_later:
  assumes "ends_only e (h @ c) pid cs" "list_all (\<lambda>c. signal_of c = None) c"
  shows "ends_only e h pid (c @ cs)"
proof -
  from assms(1) obtain a k b where "list_all (\<lambda>c. signal_of c = None) (a @ b)"
    "let asked = a @ [Sys ''kill'' [Itoa pid, ''TERM'']] in
      cs = asked \<or> cs = asked @ polls pid k @ [probe pid]
      \<or> (cs = asked @ polls pid k @ b @ [Sys ''kill'' [Itoa pid, ''KILL'']]
         \<and> clock e (h @ c @ asked) + grace \<le> clock e (h @ c @ asked @ polls pid k))"
    unfolding ends_only_def by (auto simp: Let_def)
  then show ?thesis using assms(2) by (intro ends_onlyI [of "c @ a" b _ _ k]) auto
qed

lemma killWorst_trace:
  assumes "clock_runs (w_env w)" "sorts (wt_sort t)" "killWorst t w = (r, w')"
  shows "(\<forall>p. r \<noteq> Crash p) \<and> (\<exists>cs. w_hist w' = w_hist w @ cs \<and>
     (list_all (\<lambda>c. signal_of c = None) cs \<or> (\<exists>v. eligible t v \<and> ends_only (w_env w) (w_hist w) (v_PID v) cs)))"
proof -
  obtain q w1 where m: "Candidates t w = (q, w1)" by fastforce
  obtain a where a: "w1 = w\<lparr>w_hist := w_hist w @ a\<rparr>" "list_all (\<lambda>c. signal_of c = None) a"
    using silent_calls [OF keeps_Candidates m] by blast
  have c: "q \<noteq> Crash p" for p using safeD [OF safe_observations(1)] m by blast
  show ?thesis
  proof (cases "\<exists>v vs. q = Ok (v # vs)")
    case True
    then obtain v vs where v: "q = Ok (v # vs)" by blast
    then have "eligible t v" using Candidates_eligible [OF assms(2), of w "v # vs" w1] m by simp
    moreover have "kill_victim t v w1 = (r, w')" using assms(3) m v by (simp add: killWorst_def)
    from kill_victim_trace [OF _ this] a(1) assms(1) obtain cs where
      "\<forall>p. r \<noteq> Crash p" "w' = w1\<lparr>w_hist := w_hist w1 @ cs\<rparr>" "ends_only (w_env w) (w_hist w @ a) (v_PID v) cs" by auto
    ultimately show ?thesis using a(1) ends_only_later [OF _ a(2)] by auto
  next
    case False
    then have "w' = w1" "\<forall>p. r \<noteq> Crash p" using assms(3) m c by (cases q; auto simp: killWorst_def split: list.splits)+
    then show ?thesis using a by auto
  qed
qed

text \<open>A round of the guard, in full.\<close>

lemma tick_trace:
  assumes "clock_runs (w_env w)" "sorts (wt_sort t)" "tick t w = (r, w')"
  shows "(\<forall>p. r \<noteq> Crash p) \<and> (\<exists>cs. w_hist w' = w_hist w @ cs \<and>
     (list_all (\<lambda>c. signal_of c = None) cs \<or> (\<exists>v. eligible t v \<and> ends_only (w_env w) (w_hist w) (v_PID v) cs)))"
proof -
  let ?quiet = "list_all (\<lambda>c. signal_of c = None)"
  obtain q1 w1 where m1: "Mem_Snapshot w = (q1, w1)" by fastforce
  obtain a1 where a1: "w1 = w\<lparr>w_hist := w_hist w @ a1\<rparr>" "?quiet a1" using silent_calls [OF keeps_Mem_Snapshot m1] by blast
  have c1: "q1 \<noteq> Crash p" for p using safeD [OF safe_observations(2)] m1 by blast
  show ?thesis
  proof (cases q1)
    case (Ok snap)
    obtain q2 w2 where m2: "psi_value w1 = (q2, w2)" by fastforce
    obtain a2 where a2: "w2 = w1\<lparr>w_hist := w_hist w1 @ a2\<rparr>" "?quiet a2" using silent_calls [OF keeps_psi_value m2] by blast
    have c2: "q2 \<noteq> Crash p" for p using safeD [OF safe_observations(3)] m2 by blast
    show ?thesis
    proof (cases "\<exists>psi. q2 = Ok psi \<and> pressureExceeded (AvailableRatio snap) psi")
      case False
      then have "w' = w2" "\<forall>p. r \<noteq> Crash p" using assms(3) m1 Ok m2 c2 by (cases q2; auto simp: tick_def Let_def)+
      then show ?thesis using a1 a2 by auto
    next
      case True
      then obtain psi where psi: "q2 = Ok psi" "pressureExceeded (AvailableRatio snap) psi" by blast
      define e where "e = zero_event\<lparr>ev_Kind := ''pressure_detected'', ev_AvailRatio := wt_decimal t (AvailableRatio snap),
        ev_PSIavg10 := wt_decimal t (case psi of None \<Rightarrow> (0, 0) | Some x \<Rightarrow> x)\<rparr>"
      obtain x a3 where a3: "attempt (Append (wt_events t) e) w2 = (Ok x, w2\<lparr>w_hist := w_hist w2 @ a3\<rparr>)" "?quiet a3"
        using attempt_Append by blast
      define w3 where "w3 = w2\<lparr>w_hist := w_hist w2 @ a3\<rparr>"
      have run: "killWorst t w3 = (r, w')" using assms(3) m1 Ok m2 psi a3(1) by (simp add: tick_def Let_def e_def w3_def)
      have w3: "w3 = w\<lparr>w_hist := w_hist w @ a1 @ a2 @ a3\<rparr>" "?quiet (a1 @ a2 @ a3)" using a1 a2 a3(2) by (auto simp: w3_def)
      from killWorst_trace [OF _ assms(2) run] assms(1) w3(1) obtain cs where cs: "\<forall>p. r \<noteq> Crash p" "w_hist w' = w_hist w3 @ cs"
        "?quiet cs \<or> (\<exists>v. eligible t v \<and> ends_only (w_env w) (w_hist w3) (v_PID v) cs)" by auto
      then show ?thesis using w3 ends_only_later [of "w_env w" "w_hist w" "a1 @ a2 @ a3"]
        by (intro conjI exI [of _ "(a1 @ a2 @ a3) @ cs"]) auto
    qed
  qed (use assms(3) m1 a1 c1 in \<open>auto simp: tick_def\<close>)
qed


text \<open>Insertion by score is such a sort, and a clock that shows 200 ms per call is such a clock.\<close>

fun place :: "victim \<Rightarrow> victim list \<Rightarrow> victim list" where
  "place v [] = [v]"
| "place v (u # us) = (if f64_less (v_Score u) (v_Score v) then v # u # us else u # place v us)"

definition by_score :: "victim list \<Rightarrow> victim list" where
  "by_score vs = foldr place vs []"

lemma set_place: "set (place v us) = insert v (set us)"
  by (induction us) auto

lemma place_sorted:
  "sorted_wrt (\<lambda>a b. \<not> f64_less (v_Score a) (v_Score b)) us \<Longrightarrow> sorted_wrt (\<lambda>a b. \<not> f64_less (v_Score a) (v_Score b)) (place v us)"
proof (induction us)
  case (Cons u us)
  have "\<not> f64_less (v_Score v) (v_Score x)" if "f64_less (v_Score u) (v_Score v)" "x \<in> set (u # us)" for x
    using that Cons.prems f64_less_asym f64_less_trans [of "v_Score u" "v_Score v" "v_Score x"] by fastforce
  then show ?case using Cons by (auto simp: set_place)
qed simp

lemma sorts_by_score: "sorts by_score"
proof -
  have "set (by_score vs) = set vs \<and> sorted_wrt (\<lambda>a b. \<not> f64_less (v_Score a) (v_Score b)) (by_score vs)" for vs
    by (induction vs) (auto simp: by_score_def set_place place_sorted)
  then show ?thesis by (simp add: sorts_def)
qed

definition guard_env :: environment where
  "guard_env = calm\<lparr>
     e_str := (\<lambda>_ c. if c = Sys ''readfile'' [''/proc/meminfo''] then Inr (''MemTotal: 100 kB'' @ [CHR 0x0A] @ ''MemAvailable: 1 kB'')
       else if c = Sys ''readfile'' [''/proc/7/status''] then Inr ''VmRSS: 5 kB'' else Inl NotExist),
     e_pairs := (\<lambda>_ _. Inr [(''1'', ''dir''), (''7'', ''dir''), (''self'', ''link'')]),
     e_int := (\<lambda>h c. Inr (if c = Sys ''monotonic'' [] then 200000000 * int (length h) else 0))\<rparr>"

definition guard_sample :: watcher where
  "guard_sample = \<lparr>wt_selfPID = 3, wt_sort = by_score, wt_decimal = (\<lambda>_. (0, 0)), wt_events = ''events''\<rparr>"


end
