(* ===== verification/Zram.thy ===== *)
theory Zram
  imports Stability
begin

text \<open>
  Swap in compressed memory (\<^verbatim>\<open>backend/stability/zram.go\<close>): the device, its size, the header that
  makes it a swap area, and the swap files that it replaces. The header is written byte by
  byte, so the words of the source are kept at their width.
\<close>

unbundle bit_operations_syntax

section \<open>Words in little-endian bytes\<close>

definition byte_at :: "'a::len word \<Rightarrow> nat \<Rightarrow> char" where
  "byte_at x i = char_of (unat (drop_bit (8 * i) x AND 0xFF))"

definition PutUint32 :: "32 word \<Rightarrow> string" where
  "PutUint32 x = map (byte_at x) [0, 1, 2, 3]"

definition byte_word :: "char \<Rightarrow> 32 word" where
  "byte_word c = of_nat (of_char c)"

definition Uint32 :: "string \<Rightarrow> 32 word" where
  "Uint32 bs = byte_word (bs ! 0) OR push_bit 8 (byte_word (bs ! 1)) OR push_bit 16 (byte_word (bs ! 2)) OR push_bit 24 (byte_word (bs ! 3))"

section \<open>Devices and sizes\<close>

definition zramDevice :: string where "zramDevice = ''/dev/zram0''"

definition zramSysBlock :: string where "zramSysBlock = ''/sys/block/zram0''"

definition zramHotAdd :: string where "zramHotAdd = ''/sys/class/zram-control/hot_add''"

definition procSwaps :: string where "procSwaps = ''/proc/swaps''"

definition zramMaxSizeBytes :: "64 word" where "zramMaxSizeBytes = 2 * 1024 * 1024 * 1024"

definition zramPriority :: int where "zramPriority = 10"

definition swapMagicV1 :: string where "swapMagicV1 = ''SWAPSPACE2''"

definition sizeBytes :: "64 word \<Rightarrow> 64 word" where
  "sizeBytes totalBytes = (let half = totalBytes div 2 in if zramMaxSizeBytes < half then zramMaxSizeBytes else half)"

definition swaponFlags :: "int \<Rightarrow> int" where
  "swaponFlags priority = 0x8000 OR (priority AND 0x7FFF)"

definition fileSwaps :: "string \<Rightarrow> string list" where
  "fileSwaps content = List.map_filter (\<lambda>line. case Fields line of
     path # kind # _ \<Rightarrow> if path = ''Filename'' \<or> kind \<noteq> ''file'' then None else Some path
   | _ \<Rightarrow> None) (Split content CHR 0x0A)"

definition swapon :: "string \<Rightarrow> int \<Rightarrow> unit go" where
  "swapon path flags = (if CHR 0x00 \<in> set path then throw (Error ''invalid argument'') else do_sys ''swapon'' [path, Itoa flags])"

definition swapoff :: "string \<Rightarrow> unit go" where
  "swapoff path = (if CHR 0x00 \<in> set path then throw (Error ''invalid argument'') else do_sys ''swapoff'' [path])"

definition disableFileSwaps :: "string \<Rightarrow> unit go" where
  "disableFileSwaps events = andThen (do_str (Sys ''readfile'' [procSwaps])) (\<lambda>b.
     forEach (fileSwaps b) (\<lambda>path. andThen (attempt (swapoff path)) (\<lambda>r. case r of
       Inl _ \<Rightarrow> ret ()
     | Inr _ \<Rightarrow> andThen (attempt (Append events (zero_event\<lparr>ev_Kind := ''swapoff_file'', ev_Path := path\<rparr>))) (\<lambda>_. ret ()))))"

definition alreadyOn :: "bool go" where
  "alreadyOn = andThen (do_str (Sys ''readfile'' [procSwaps])) (\<lambda>b.
     ret (list_ex (\<lambda>line. case Fields line of [] \<Rightarrow> False | f # _ \<Rightarrow> f = zramDevice) (Split b CHR 0x0A)))"

definition loadModule :: "string \<Rightarrow> unit go" where
  "loadModule name = andThen (CombinedOutput ''modprobe'' [name]) (\<lambda>(out, err). case err of
     None \<Rightarrow> ret () | Some e \<Rightarrow> throw (Error (''modprobe '' @ name @ '': '' @ err_text e @ '': '' @ TrimSpace out)))"

definition exists_path :: "string \<Rightarrow> bool go" where
  "exists_path p = andThen (attempt (do_sys ''stat'' [p])) (\<lambda>r. ret (case r of Inl _ \<Rightarrow> False | Inr _ \<Rightarrow> True))"

definition ensureDevice :: "string \<Rightarrow> unit go" where
  "ensureDevice events = andThen (exists_path zramSysBlock) (\<lambda>there.
     if there then ret ()
     else andThen (exists_path zramHotAdd) (\<lambda>control.
       andThen (if control then ret ()
         else andThen (attempt (loadModule ''zram'')) (\<lambda>r. case r of
           Inl _ \<Rightarrow> ret ()
         | Inr _ \<Rightarrow> andThen (attempt (Append events (zero_event\<lparr>ev_Kind := ''zram_module_loaded''\<rparr>))) (\<lambda>_. ret ()))) (\<lambda>_.
       andThen (exists_path zramSysBlock) (\<lambda>there2.
         if there2 then ret ()
         else andThen (exists_path zramHotAdd) (\<lambda>control2.
           if \<not> control2 then throw (Error (''no zram and no hot_add at '' @ zramHotAdd))
           else andThen (do_str (Sys ''readfile'' [zramHotAdd])) (\<lambda>_. ret ()))))))"

definition disksize_call :: "64 word \<Rightarrow> call" where
  "disksize_call bytes = Sys ''writefile'' [path_join [zramSysBlock, ''disksize''], nat_dec (unat bytes), ''0644'']"

definition configureSysfs :: "64 word \<Rightarrow> unit go" where
  "configureSysfs bytes =
     andThen (attempt (do_sys ''writefile'' [path_join [zramSysBlock, ''comp_algorithm''], ''zstd'', ''0644''])) (\<lambda>_.
     do_unit (disksize_call bytes))"

section \<open>The header of a swap area\<close>

definition deviceSize :: "string \<Rightarrow> 64 word \<Rightarrow> 64 word go" where
  "deviceSize path statSize = andThen (do_str (Sys ''fstat-mode'' [path])) (\<lambda>mode.
     if mode \<noteq> ''device'' then ret statSize else do_u64 (Sys ''BLKGETSIZE64'' [path]))"

text \<open>The 128 bytes from offset 1024 on: version, last page, number of bad pages, uuid, label.\<close>

definition swap_header :: "32 word \<Rightarrow> string \<Rightarrow> string" where
  "swap_header lastPage uuid = PutUint32 1 @ PutUint32 lastPage @ PutUint32 0 @ uuid @ ''zram0'' @ replicate 95 (CHR 0x00)"

definition write_at :: "string \<Rightarrow> string \<Rightarrow> 64 word \<Rightarrow> unit go" where
  "write_at path bytes offset = do_sys ''writeat'' [path, bytes, nat_dec (unat offset)]"

text \<open>The size of a page is a constant of the machine; a read of the random source fills its buffer.\<close>

definition mkswapInPlace :: "64 word \<Rightarrow> string \<Rightarrow> unit go" where
  "mkswapInPlace pageSize path =
     andThen (do_sys ''open-rdwr'' [path]) (\<lambda>_.
     andThen (do_u64 (Sys ''fstat-size'' [path])) (\<lambda>statSize.
     andThen (deviceSize path statSize) (\<lambda>bytes.
     andThen (write_at path (replicate 1024 (CHR 0x00)) 0) (\<lambda>_.
     andThen (do_str (Sys ''rand'' [''16''])) (\<lambda>uuid.
     andThen (write_at path (swap_header (ucast (bytes div pageSize - 1)) (take 16 (uuid @ replicate 16 (CHR 0x00)))) 1024) (\<lambda>_.
     andThen (write_at path swapMagicV1 (pageSize - 10)) (\<lambda>_.
       do_sys ''fsync'' [path])))))))"

definition disable_logged :: "string \<Rightarrow> unit go" where
  "disable_logged events = andThen (attempt (disableFileSwaps events)) (\<lambda>_. ret ())"

definition EnsureConfigured :: "64 word \<Rightarrow> string \<Rightarrow> unit go" where
  "EnsureConfigured pageSize events =
     andThen (wrap_err ''zram: meminfo: '' Mem_Snapshot) (\<lambda>snap.
     andThen (wrap_err ''zram: check swaps: '' alreadyOn) (\<lambda>on.
       if on then disable_logged events
       else andThen (wrap_err ''zram: device: '' (ensureDevice events)) (\<lambda>_.
         let bytes = sizeBytes (ms_TotalKB snap * 1024) in
         andThen (wrap_err ''zram: configure: '' (configureSysfs bytes)) (\<lambda>_.
         andThen (wrap_err ''zram: mkswap: '' (mkswapInPlace pageSize zramDevice)) (\<lambda>_.
         andThen (wrap_err ''zram: swapon: '' (swapon zramDevice (swaponFlags zramPriority))) (\<lambda>_.
         andThen (attempt (Append events (zero_event\<lparr>ev_Kind := ''zram_enabled'', ev_SizeBytes := unat bytes\<rparr>))) (\<lambda>_.
           disable_logged events)))))))"

section \<open>Bytes\<close>

lemma byte_word_byte_at: "byte_word (byte_at x i) = drop_bit (8 * i) x AND 0xFF"
proof -
  have "unat (drop_bit (8 * i) x AND 0xFF) < 256"
    using word_and_le1 [of "drop_bit (8 * i) x" "0xFF"] by (simp add: word_le_nat_alt)
  then show ?thesis by (simp add: byte_word_def byte_at_def)
qed

lemma word_of_bytes:
  fixes x :: "32 word"
  shows "(x AND 0xFF) OR push_bit 8 (drop_bit 8 x AND 0xFF) OR push_bit 16 (drop_bit 16 x AND 0xFF) OR push_bit 24 (drop_bit 24 x AND 0xFF) = x"
proof -
  have mask: "(0xFF :: 32 word) = mask 8" by (simp add: mask_eq_decr_exp)
  show ?thesis unfolding mask
  proof (rule bit_word_eqI)
    fix n assume "n < LENGTH(32)"
    then consider "n < 8" | "8 \<le> n" "n < 16" | "16 \<le> n" "n < 24" | "24 \<le> n" "n < 32" by fastforce
    then show "bit ((x AND mask 8) OR push_bit 8 (drop_bit 8 x AND mask 8) OR push_bit 16 (drop_bit 16 x AND mask 8)
        OR push_bit 24 (drop_bit 24 x AND mask 8)) n = bit x n"
      by cases (auto simp: bit_simps)
  qed
qed

lemma Uint32_PutUint32: "Uint32 (PutUint32 x @ rest) = x"
  using word_of_bytes [of x] by (simp add: Uint32_def PutUint32_def byte_word_byte_at)

lemma PutUint32_length [simp]: "length (PutUint32 x) = 4"
  by (simp add: PutUint32_def)

lemma swap_header_fields:
  assumes "length uuid = 16"
  shows "length (swap_header p uuid) = 128" "Uint32 (swap_header p uuid) = 1" "Uint32 (drop 4 (swap_header p uuid)) = p"
    "Uint32 (drop 8 (swap_header p uuid)) = 0" "take 16 (drop 12 (swap_header p uuid)) = uuid"
    "take 5 (drop 28 (swap_header p uuid)) = ''zram0''"
  using assms Uint32_PutUint32 by (auto simp: swap_header_def)

text \<open>The number of the last page, as long as a 32 bit number can count the pages.\<close>

lemma last_page:
  fixes bytes pageSize :: "64 word"
  assumes "unat pageSize \<le> unat bytes" "0 < unat pageSize" "unat bytes div unat pageSize \<le> 2 ^ 32"
  shows "unat (ucast (bytes div pageSize - 1) :: 32 word) = unat bytes div unat pageSize - 1"
proof -
  let ?n = "unat bytes div unat pageSize"
  have "1 \<le> ?n" using assms(1,2) by (simp add: Suc_le_eq div_greater_zero_iff)
  then have one: "(1 :: 64 word) \<le> bytes div pageSize" by (simp add: word_le_nat_alt unat_div_distrib)
  then have "unat (bytes div pageSize - 1) = ?n - 1" by (simp add: unat_sub unat_div_distrib)
  moreover have "?n - 1 < 2 ^ 32" using assms(3) \<open>1 \<le> ?n\<close> by linarith
  ultimately show ?thesis by (simp add: unsigned_ucast_eq take_bit_eq_mod)
qed

text \<open>The calls of a successful run.\<close>

lemma mkswap_writes:
  assumes "mkswapInPlace pageSize path w = (Ok (), w')"
  obtains s w1 w2 bytes uuid d where "deviceSize path s w1 = (Ok bytes, w2)" "length uuid = 16"
    "list_all (\<lambda>c. \<nexists>args. c = Sys ''writeat'' args) d"
    "w_hist w' = w_hist w @ d @ [Sys ''writeat'' [path, replicate 1024 (CHR 0x00), nat_dec 0], Sys ''rand'' [''16''],
         Sys ''writeat'' [path, swap_header (ucast (bytes div pageSize - 1)) uuid, nat_dec 1024],
         Sys ''writeat'' [path, swapMagicV1, nat_dec (unat (pageSize - 10))], Sys ''fsync'' [path]]"
proof -
  obtain s w1 w2 bytes u where w1: "w1 = record_call (Sys ''fstat-size'' [path]) (record_call (Sys ''open-rdwr'' [path]) w)"
    and dev: "deviceSize path s w1 = (Ok bytes, w2)"
    and rest: "w_hist w' = w_hist w2 @ [Sys ''writeat'' [path, replicate 1024 (CHR 0x00), nat_dec 0], Sys ''rand'' [''16''],
         Sys ''writeat'' [path, swap_header (ucast (bytes div pageSize - 1)) (take 16 (u @ replicate 16 (CHR 0x00))), nat_dec 1024],
         Sys ''writeat'' [path, swapMagicV1, nat_dec (unat (pageSize - 10))], Sys ''fsync'' [path]]"
    using assms unfolding mkswapInPlace_def write_at_def
    by (auto simp: andThen_Ok_iff do_sys_def do_unit_def do_u64_def do_str_def split: option.splits)
  obtain d where d: "w_hist w2 = w_hist w1 @ d" "list_all (\<lambda>c. \<nexists>args. c = Sys ''writeat'' args) d"
    using dev by (auto simp: deviceSize_def andThen_Ok_iff do_str_def do_u64_def split: if_splits)
  show ?thesis
    by (rule that [OF dev, of "take 16 (u @ replicate 16 (CHR 0x00))" "[Sys ''open-rdwr'' [path], Sys ''fstat-size'' [path]] @ d"])
      (use rest d w1 in simp_all)
qed


definition zram_env :: environment where
  "zram_env = calm\<lparr>
     e_str := (\<lambda>_ c. if c = Sys ''readfile'' [''/proc/meminfo''] then Inr ''MemTotal: 4096 kB''
       else if c = Sys ''fstat-mode'' [''/dev/zram0''] then Inr ''device'' else Inr []),
     e_u64 := (\<lambda>_ c. Inr (if c = Sys ''BLKGETSIZE64'' [''/dev/zram0''] then 2097152 else 0))\<rparr>"

lemma mkswap_sample: "\<exists>w'. mkswapInPlace 4096 zramDevice (start_world zram_env) = (Ok (), w')"
  by (simp add: mkswapInPlace_def deviceSize_def write_at_def do_sys_def do_unit_def do_u64_def do_str_def zram_env_def calm_def zramDevice_def)


section \<open>When swap files go\<close>

text \<open>At most two gigabytes, and at most half of the memory.\<close>

lemma sizeBytes_bounds: "unat (sizeBytes t) \<le> 2 ^ 31 \<and> unat (sizeBytes t) \<le> unat t div 2"
proof -
  have "unat (t div 2) = unat t div 2" "unat zramMaxSizeBytes = 2 ^ 31" by (simp_all add: unat_div_distrib zramMaxSizeBytes_def)
  then show ?thesis by (auto simp: sizeBytes_def Let_def word_less_nat_alt)
qed

definition swap_off :: "call \<Rightarrow> bool" where
  "swap_off c \<longleftrightarrow> (\<exists>args. c = Sys ''swapoff'' args)"

abbreviation keeping :: "world \<Rightarrow> world \<Rightarrow> bool" where
  "keeping \<equiv> within (\<lambda>c. \<not> swap_off c)"

lemma swap_off_simps [simp]:
  "swap_off (Sys f as) \<longleftrightarrow> f = ''swapoff''" "\<not> swap_off (WriteJson p j)" "\<not> swap_off (Exec cmd as)"
  by (auto simp: swap_off_def)

lemma within_calls:
  "keeps (within P) m \<Longrightarrow> m w = (r, w') \<Longrightarrow> \<exists>a. w' = w\<lparr>w_hist := w_hist w @ a\<rparr> \<and> list_all P a"
  using keepsD [of "within P" m w r w'] by (auto simp: within_def)

lemma keeping_Append [keeps_intros]: "keeps keeping (Append path e)"
proof -
  have encode: "keeps keeping (encode_all tmp es)" for tmp es
    by (induction es) (auto intro!: keeps_intros split: sum.splits simp del: ret_apply throw_apply)
  have "keeps keeping (rotateLocked path keepEvents)"
    unfolding rotateLocked_def readLastLocked_def Let_def
    by (auto intro!: keeps_intros encode split: sum.splits simp del: ret_apply throw_apply)
  then show ?thesis unfolding Append_def Let_def by (auto intro!: keeps_intros simp del: ret_apply)
qed

lemma keeping_before:
  "keeps keeping Mem_Snapshot" "keeps keeping alreadyOn" "keeps keeping (ensureDevice events)"
  "keeps keeping (configureSysfs n)" "keeps keeping (mkswapInPlace page path)" "keeps keeping (swapon path flags)"
  unfolding Mem_Snapshot_def alreadyOn_def ensureDevice_def exists_path_def loadModule_def configureSysfs_def disksize_call_def
    mkswapInPlace_def deviceSize_def write_at_def swapon_def Let_def
  by (auto intro!: keeps_intros split: prod.splits option.splits sum.splits simp del: ret_apply throw_apply)

text \<open>Setting up the device until it is switched on.\<close>

definition swapon_call :: call where
  "swapon_call = Sys ''swapon'' [zramDevice, Itoa (swaponFlags zramPriority)]"

lemma swapon_flags: "swaponFlags zramPriority = 0x800A"
  by (simp add: swaponFlags_def zramPriority_def)

definition set_up :: "64 word \<Rightarrow> string \<Rightarrow> mem_snap \<Rightarrow> unit go" where
  "set_up pageSize events snap =
     andThen (wrap_err ''zram: device: '' (ensureDevice events)) (\<lambda>_.
     andThen (wrap_err ''zram: configure: '' (configureSysfs (sizeBytes (ms_TotalKB snap * 1024)))) (\<lambda>_.
       wrap_err ''zram: mkswap: '' (mkswapInPlace pageSize zramDevice)))"

lemma EnsureConfigured_split:
  "EnsureConfigured pageSize events =
     andThen (wrap_err ''zram: meminfo: '' Mem_Snapshot) (\<lambda>snap.
     andThen (wrap_err ''zram: check swaps: '' alreadyOn) (\<lambda>on.
       if on then disable_logged events
       else andThen (set_up pageSize events snap) (\<lambda>_.
         andThen (wrap_err ''zram: swapon: '' (swapon zramDevice (swaponFlags zramPriority))) (\<lambda>_.
         andThen (attempt (Append events (zero_event\<lparr>ev_Kind := ''zram_enabled'', ev_SizeBytes := unat (sizeBytes (ms_TotalKB snap * 1024))\<rparr>))) (\<lambda>_.
           disable_logged events)))))"
  unfolding EnsureConfigured_def set_up_def by (simp only: andThen_assoc Let_def)

lemma keeping_set_up: "keeps keeping (set_up pageSize events snap)"
  unfolding set_up_def by (intro keeps_intros keeping_before)

lemma set_up_configures:
  assumes "set_up pageSize events snap w = (Ok (), w')"
  shows "\<exists>n. disksize_call n \<in> set (w_hist w') \<and> unat n \<le> 2 ^ 31
     \<and> Sys ''writeat'' [zramDevice, swapMagicV1, nat_dec (unat (pageSize - 10))] \<in> set (w_hist w')"
proof -
  obtain w1 w2 where run: "configureSysfs (sizeBytes (ms_TotalKB snap * 1024)) w1 = (Ok (), w2)"
    "mkswapInPlace pageSize zramDevice w2 = (Ok (), w')"
    using assms unfolding set_up_def andThen_Ok_iff wrap_err_Ok by auto
  have "disksize_call (sizeBytes (ms_TotalKB snap * 1024)) \<in> set (w_hist w2)"
    using run(1) by (auto simp: configureSysfs_def andThen_Ok_iff do_unit_def split: option.splits)
  moreover have "set (w_hist w2) \<subseteq> set (w_hist w') \<and> Sys ''writeat'' [zramDevice, swapMagicV1, nat_dec (unat (pageSize - 10))] \<in> set (w_hist w')"
    by (rule mkswap_writes [OF run(2)]) auto
  ultimately show ?thesis using sizeBytes_bounds by (intro exI [of _ "sizeBytes (ms_TotalKB snap * 1024)"]) auto
qed

lemma grows_disable: "keeps only_calls (disable_logged events)"
  unfolding disable_logged_def disableFileSwaps_def swapoff_def
  by (intro keeps_intros) (auto intro!: keeps_intros keeps_within_mono [OF keeping_Append] split: sum.splits simp del: ret_apply throw_apply)

lemma grows_tail: "keeps only_calls (andThen (attempt (Append events e)) (\<lambda>_. disable_logged events))"
  by (intro keeps_andThen keeps_attempt transp_within grows_disable keeps_within_mono [OF keeping_Append]) simp

text \<open>
  \<open>switched_over\<close>: the calls up to \<open>w'\<close> touch no swap file but after the device was found in the list
  of swaps, or after it was set up and switched on.
\<close>

definition magic_call :: "64 word \<Rightarrow> call" where
  "magic_call pageSize = Sys ''writeat'' [zramDevice, swapMagicV1, nat_dec (unat (pageSize - 10))]"

definition switched_over :: "64 word \<Rightarrow> world \<Rightarrow> world \<Rightarrow> bool" where
  "switched_over pageSize w w' \<longleftrightarrow> w_env w' = w_env w \<and> (\<exists>a b. w_hist w' = w_hist w @ a @ b \<and> list_all (\<lambda>c. \<not> swap_off c) a \<and>
     (b = [] \<or> (\<exists>w1 w2. alreadyOn w1 = (Ok True, w2) \<and> w_hist w2 = w_hist w @ a)
      \<or> (\<exists>c n. a = c @ [swapon_call] \<and> e_unit (w_env w) (w_hist w @ c) swapon_call = None
          \<and> disksize_call n \<in> set (w_hist w @ c) \<and> unat n \<le> 2 ^ 31 \<and> magic_call pageSize \<in> set (w_hist w @ c))))"

lemma switched_over_keeping: "keeping w w' \<Longrightarrow> switched_over pageSize w w'"
proof -
  assume "keeping w w'"
  then obtain a where "w' = w\<lparr>w_hist := w_hist w @ a\<rparr>" "list_all (\<lambda>c. \<not> swap_off c) a" by (auto simp: within_def)
  then have "w_env w' = w_env w" "w_hist w' = w_hist w @ a @ []" "list_all (\<lambda>c. \<not> swap_off c) a" by simp_all
  then show ?thesis unfolding switched_over_def by blast
qed

lemma switched_over_after:
  assumes "keeping w w1" "switched_over pageSize w1 w'"
  shows "switched_over pageSize w w'"
proof -
  obtain d where d: "w_env w1 = w_env w" "w_hist w1 = w_hist w @ d" "list_all (\<lambda>c. \<not> swap_off c) d"
    using assms(1) by (auto simp: within_def)
  obtain a b where ab: "w_env w' = w_env w1" "w_hist w' = w_hist w1 @ a @ b" "list_all (\<lambda>c. \<not> swap_off c) a"
    and "b = [] \<or> (\<exists>w3 w2. alreadyOn w3 = (Ok True, w2) \<and> w_hist w2 = w_hist w1 @ a)
      \<or> (\<exists>c n. a = c @ [swapon_call] \<and> e_unit (w_env w1) (w_hist w1 @ c) swapon_call = None
          \<and> disksize_call n \<in> set (w_hist w1 @ c) \<and> unat n \<le> 2 ^ 31 \<and> magic_call pageSize \<in> set (w_hist w1 @ c))"
    using assms(2) unfolding switched_over_def by blast
  then have "b = [] \<or> (\<exists>w3 w2. alreadyOn w3 = (Ok True, w2) \<and> w_hist w2 = w_hist w @ d @ a)
      \<or> (\<exists>c n. d @ a = (d @ c) @ [swapon_call] \<and> e_unit (w_env w) (w_hist w @ d @ c) swapon_call = None
          \<and> disksize_call n \<in> set (w_hist w @ d @ c) \<and> unat n \<le> 2 ^ 31 \<and> magic_call pageSize \<in> set (w_hist w @ d @ c))"
    unfolding d(1,2) append.assoc by blast
  moreover have "w_hist w' = w_hist w @ (d @ a) @ b" "list_all (\<lambda>c. \<not> swap_off c) (d @ a)" "w_env w' = w_env w"
    using ab d by simp_all
  ultimately show ?thesis unfolding switched_over_def by blast
qed

text \<open>The steps after which swap files may be switched off.\<close>

lemma switched_over_found:
  assumes "alreadyOn w1 = (Ok True, w2)" "keeping w w2" "only_calls w2 w'"
  shows "switched_over pageSize w w'"
proof -
  obtain a where a: "w2 = w\<lparr>w_hist := w_hist w @ a\<rparr>" "list_all (\<lambda>c. \<not> swap_off c) a" using assms(2) by (auto simp: within_def)
  moreover obtain b where "w' = w2\<lparr>w_hist := w_hist w2 @ b\<rparr>" using assms(3) by (auto simp: within_def)
  ultimately have "w_env w' = w_env w" "w_hist w' = w_hist w @ a @ b" "w_hist w2 = w_hist w @ a" by simp_all
  with assms(1) a(2) show ?thesis unfolding switched_over_def by blast
qed

lemma switched_over_on:
  assumes "disksize_call n \<in> set (w_hist w)" "unat n \<le> 2 ^ 31" "magic_call pageSize \<in> set (w_hist w)"
    and "e_unit (w_env w) (w_hist w) swapon_call = None" "only_calls (record_call swapon_call w) w'"
  shows "switched_over pageSize w w'"
proof -
  obtain b where "w' = (record_call swapon_call w)\<lparr>w_hist := w_hist (record_call swapon_call w) @ b\<rparr>"
    using assms(5) by (auto simp: within_def)
  then have "w_env w' = w_env w" "w_hist w' = w_hist w @ ([] @ [swapon_call]) @ b" by simp_all
  moreover have "list_all (\<lambda>c. \<not> swap_off c) ([] @ [swapon_call])" by (simp add: swapon_call_def)
  ultimately show ?thesis using assms(1-4) unfolding switched_over_def by (metis append_Nil2)
qed

lemma switched_over_swapon:
  assumes "set_up pageSize events snap w2 = (Ok (), w)" "keeps only_calls k"
    and "andThen (wrap_err p (swapon zramDevice (swaponFlags zramPriority))) (\<lambda>_. k) w = (r, w')"
  shows "switched_over pageSize w w'"
proof -
  let ?on = "e_unit (w_env w) (w_hist w) swapon_call" and ?w = "record_call swapon_call w"
  have run: "swapon zramDevice (swaponFlags zramPriority) w = ((case ?on of None \<Rightarrow> Ok () | Some e \<Rightarrow> Err e), ?w)"
    by (simp add: swapon_def do_sys_def do_unit_def swapon_call_def zramDevice_def)
  show ?thesis
  proof (cases ?on)
    case None
    then have "k ?w = (r, w')" using assms(3) run by (simp add: wrap_err_cases)
    then have "only_calls ?w w'" using assms(2) keepsD by fast
    then show ?thesis using set_up_configures [OF assms(1)] None by (auto simp: magic_call_def intro: switched_over_on)
  next
    case (Some e)
    then have "w' = ?w" using assms(3) run by (simp add: wrap_err_cases)
    then show ?thesis by (simp add: switched_over_keeping swapon_call_def)
  qed
qed



end
