(* ===== verification/Lcd.thy ===== *)
theory Lcd
  imports Float64 Clock World
begin

text \<open>
  The display of the device (\<^verbatim>\<open>backend/hardware/lcd/display.go\<close>): sizes in units of 1000 or 1024,
  the five lines with clock, address, processor, memory and the biggest mounted partition, and
  the service that draws them every second. What the system library and the display driver do is
  behind calls; the pixels of a line are not modelled.
\<close>

unbundle bit_operations_syntax

section \<open>Sizes\<close>

text \<open>
  The loop multiplies \<open>div\<close> in 64 bits while it divides \<open>n\<close>. It need not end for every unit: not
  returning is \<open>None\<close>.
\<close>

partial_function (option) unit_loop :: "64 word \<Rightarrow> 64 word \<Rightarrow> 64 word \<Rightarrow> nat \<Rightarrow> (64 word \<times> nat) option" where
  "unit_loop unit n d suf =
     (if unit \<le> n then unit_loop unit (n div unit) (d * unit) (Suc suf) else Some (d, suf))"

text \<open>\<^verbatim>\<open>%.f\<close> and \<^verbatim>\<open>%.1f\<close>: the float's exact value, rounded to the nearest decimal, ties to even.\<close>

definition fixed0 :: "f64 \<Rightarrow> string" where
  "fixed0 x = (case fraction x of (a, b) \<Rightarrow> nat_dec (half_even a b))"

definition fixed1 :: "f64 \<Rightarrow> string" where
  "fixed1 x = (case fraction x of (a, b) \<Rightarrow> let n = half_even (10 * a) b in nat_dec (n div 10) @ ''.'' @ nat_dec (n mod 10))"

definition shown_value :: "64 word \<Rightarrow> 64 word \<Rightarrow> string" where
  "shown_value sz d = (let v = f64_div (f64_of_nat (unat sz)) (f64_of_nat (unat d)) in
     if f64_less v (f64_of_nat 100) then fixed1 v else fixed0 v)"

definition unit_letters :: string where "unit_letters = ''kMGTP''"

definition formatSize :: "64 word \<Rightarrow> 64 word \<Rightarrow> string res option" where
  "formatSize sz unit =
     (if sz < unit then Some (Ok (nat_dec (unat sz) @ ''B''))
      else if unit = 0 then Some (Crash ''integer divide by zero'')
      else map_option (\<lambda>(d, suf).
        if suf < length unit_letters then Ok (shown_value sz d @ [unit_letters ! suf]) else Crash ''index out of range'')
        (unit_loop unit (sz div unit) unit 0))"

section \<open>Lines of the display\<close>

text \<open>In these lines the units are 1024 and 1000, for which \<open>formatSize\<close> always returns.\<close>

definition put_size :: "64 word \<Rightarrow> 64 word \<Rightarrow> string go" where
  "put_size sz unit = (case formatSize sz unit of
     Some (Ok s) \<Rightarrow> ret s | Some (Crash p) \<Rightarrow> crash p | _ \<Rightarrow> crash ''does not return'')"

definition getMemString :: "string go" where
  "getMemString = andThen (attempt (andThen (do_u64 (Sys ''mem.VirtualMemory'' [''Used''])) (\<lambda>used.
       andThen (do_u64 (Sys ''mem.VirtualMemory'' [''Total''])) (\<lambda>tot. ret (used, tot))))) (\<lambda>r. case r of
     Inl _ \<Rightarrow> ret ''MEM: unavailable''
   | Inr (used, tot) \<Rightarrow> andThen (put_size used 1024) (\<lambda>a. andThen (put_size tot 1024) (\<lambda>b.
       ret (''MEM: '' @ a @ ''/'' @ b))))"

text \<open>The biggest partition so far: its mount point, used and total size.\<close>

fun biggest :: "string list \<Rightarrow> string \<times> 64 word \<times> 64 word \<Rightarrow> (string \<times> 64 word \<times> 64 word) go" where
  "biggest [] best = ret best"
| "biggest (m # ms) (name, used, tot) =
     andThen (attempt (andThen (do_u64 (Sys ''disk.Usage'' [m, ''Total''])) (\<lambda>t.
        andThen (do_u64 (Sys ''disk.Usage'' [m, ''Used''])) (\<lambda>u. ret (t, u))))) (\<lambda>r. case r of
       Inl _ \<Rightarrow> biggest ms (name, used, tot)
     | Inr (t, u) \<Rightarrow> biggest ms (if tot < t then (m, u, t) else (name, used, tot)))"

definition getHDDString :: "string go" where
  "getHDDString = andThen (attempt (do_strs (Sys ''disk.Partitions'' []))) (\<lambda>r. case r of
     Inl _ \<Rightarrow> ret ''DISK: unavailable''
   | Inr mounts \<Rightarrow> andThen (biggest mounts ([], 0, 0)) (\<lambda>(name, used, tot).
       if name = [] then ret ''DISK: unavailable''
       else andThen (put_size used 1000) (\<lambda>a. andThen (put_size tot 1000) (\<lambda>b.
         ret (name @ '': '' @ a @ ''/'' @ b)))))"

definition getIPAddrString :: "string go" where
  "getIPAddrString = andThen (attempt (do_str (Sys ''net.Dial'' [''udp'', ''8.8.8.8:80'']))) (\<lambda>r. ret (case r of
     Inl _ \<Rightarrow> ''IP: Network down'' | Inr ip \<Rightarrow> ''IP: '' @ ip))"

section \<open>Processor and clock\<close>

text \<open>A float of the system library comes as its 64 bits; none of them is negative or infinite.\<close>

definition f64_of_bits :: "64 word \<Rightarrow> f64" where
  "f64_of_bits b = (let e = unat (drop_bit 52 b AND 0x7FF); m = unat (b AND 0xFFFFFFFFFFFFF) in
     if e = 0 then (m, - 1074) else (2 ^ 52 + m, int e - 1075))"

definition do_f64 :: "call \<Rightarrow> f64 go" where
  "do_f64 c = andThen (do_u64 c) (\<lambda>b. ret (f64_of_bits b))"

text \<open>Without a list per processor \<^verbatim>\<open>cpu.Percent\<close> gives one number or an error.\<close>

definition getCPUString :: "string go" where
  "getCPUString = andThen (attempt (do_f64 (Sys ''cpu.Percent'' [''0'', ''false'']))) (\<lambda>r. case r of
     Inl _ \<Rightarrow> ret ''CPU: unavailable''
   | Inr v \<Rightarrow> andThen (attempt (andThen (do_f64 (Sys ''load.Avg'' [''Load1''])) (\<lambda>l1.
         andThen (do_f64 (Sys ''load.Avg'' [''Load5''])) (\<lambda>l5. ret (l1, l5))))) (\<lambda>l. ret (case l of
       Inl _ \<Rightarrow> ''CPU: '' @ fixed0 v @ ''%''
     | Inr (l1, l5) \<Rightarrow> ''CPU: '' @ fixed0 v @ ''% ('' @ fixed1 l1 @ '' '' @ fixed1 l5 @ '')'')))"

text \<open>The layout \<^verbatim>\<open>Jan 2 3:04:05 PM\<close>.\<close>

definition month_names :: "string list" where
  "month_names = [''Jan'', ''Feb'', ''Mar'', ''Apr'', ''May'', ''Jun'', ''Jul'', ''Aug'', ''Sep'', ''Oct'', ''Nov'', ''Dec'']"

definition clock_line :: "wall_clock \<Rightarrow> string" where
  "clock_line c = (let h = wc_hour c mod 12 in
     month_names ! (wc_month c - 1) @ '' '' @ nat_dec (wc_day c) @ '' '' @ nat_dec (if h = 0 then 12 else h) @ '':''
     @ pad 2 (wc_min c) @ '':'' @ pad 2 (wc_sec c) @ (if wc_hour c < 12 then '' AM'' else '' PM''))"

section \<open>The service\<close>

definition display_lines :: "string list go" where
  "display_lines =
     andThen Now (\<lambda>t. andThen (gets (\<lambda>w. e_tz (w_env w))) (\<lambda>tz.
     andThen getIPAddrString (\<lambda>ip.
     andThen getCPUString (\<lambda>cpu.
     andThen getMemString (\<lambda>mem.
     andThen getHDDString (\<lambda>hdd. ret [clock_line (wall tz t), ip, cpu, mem, hdd]))))))"

text \<open>Line \<open>i\<close> is drawn with its base at \<open>(height - 1) * (i + 1)\<close>, for the height of the font.\<close>

fun draw_lines :: "int \<Rightarrow> int \<Rightarrow> string list \<Rightarrow> unit go" where
  "draw_lines height i [] = ret ()"
| "draw_lines height i (s # ss) =
     andThen (do_void (Sys ''drawer.DrawString'' [Itoa ((height - 1) * (i + 1)), s])) (\<lambda>_. draw_lines height (i + 1) ss)"

definition display_frame :: "int \<Rightarrow> unit go" where
  "display_frame height = andThen display_lines (\<lambda>ss. andThen (draw_lines height 0 ss) (\<lambda>_.
     andThen (attempt (do_sys ''dev.Draw'' [])) (\<lambda>_. ret ())))"

text \<open>The first \<open>n\<close> turns of the endless loop, each after a tick of the clock.\<close>

fun display_frames :: "nat \<Rightarrow> int \<Rightarrow> unit go" where
  "display_frames 0 height = ret ()"
| "display_frames (Suc n) height =
     andThen (do_void (Sys ''ticker'' [''1s''])) (\<lambda>_. andThen (display_frame height) (\<lambda>_. display_frames n height))"

definition Display_run :: "nat \<Rightarrow> int \<Rightarrow> unit go" where
  "Display_run n height =
     andThen (wrap_err ''failed to initialize periph: '' (do_sys ''host.Init'' [])) (\<lambda>_.
     andThen (wrap_err ''failed to open I2C bus: '' (do_sys ''i2creg.Open'' [''''])) (\<lambda>_.
     andThen (attempt (wrap_err ''failed to initialize ssd1306: '' (do_sys ''ssd1306.NewI2C'' [''128'', ''64'']))) (\<lambda>r. case r of
       Inl e \<Rightarrow> andThen (attempt (do_sys ''i2c.Close'' [])) (\<lambda>_. throw e)
     | Inr _ \<Rightarrow> display_frames n height)))"

definition Display_isAvailable :: "bool go" where
  "Display_isAvailable = andThen (attempt (do_sys ''host.Init'' [])) (\<lambda>r. case r of
     Inl _ \<Rightarrow> ret False
   | Inr _ \<Rightarrow> andThen (attempt (do_sys ''i2creg.Open'' [''''])) (\<lambda>b. case b of
       Inl _ \<Rightarrow> ret False
     | Inr _ \<Rightarrow> andThen (attempt (do_sys ''i2c.Close'' [])) (\<lambda>_. ret True)))"

text \<open>Starting a goroutine leaves a mark with the name of its function in the history.\<close>

definition go_call :: "string \<Rightarrow> unit go" where
  "go_call f = do_void (Sys ''go'' [f])"

definition Display_Start :: "unit go" where
  "Display_Start = andThen Display_isAvailable (\<lambda>available.
     if available then go_call ''lcd.run'' else ret ())"

section \<open>The unit that is chosen\<close>

text \<open>
  With the same number of steps, \<open>n\<close> divided by the unit again and again ends below it, and the
  product of units never exceeds the size, so that it does not wrap around.
\<close>

lemma unit_loop_result:
  fixes unit sz :: "64 word"
  assumes "1 < unat unit" "unat d * unat n \<le> unat sz" "unat sz < unat d * Suc (unat n)" "unat d = unat unit ^ Suc suf" "0 < n"
  shows "\<exists>d' k. unit_loop unit n d suf = Some (d', k) \<and> unat d' = unat unit ^ Suc k
     \<and> unat unit ^ Suc k \<le> unat sz \<and> unat sz < unat unit ^ Suc (Suc k)"
  using assms
proof (induction "unat n" arbitrary: n d suf rule: less_induct)
  case less
  let ?u = "unat unit"
  show ?case
  proof (cases "unit \<le> n")
    case True
    have un: "?u \<le> unat n" using True by (simp add: word_le_nat_alt)
    have div: "unat (n div unit) = unat n div ?u" by (simp add: unat_div_distrib)
    have smaller: "unat (n div unit) < unat n" using un less.prems(1) by (simp add: div)
    have "unat d * ?u \<le> unat d * unat n" using un by simp
    also have "\<dots> \<le> unat sz" by (rule less.prems(2))
    also have "\<dots> < 2 ^ LENGTH(64)" by (rule unsigned_less)
    finally have "unat d * ?u < 2 ^ LENGTH(64)" .
    then have dd: "unat (d * unit) = unat d * ?u" by (rule unat_mult_lem [THEN iffD1])
    have "unat d * ?u * (unat n div ?u) \<le> unat d * unat n" by (simp add: mult.assoc)
    also note less.prems(2)
    finally have lo: "unat (d * unit) * unat (n div unit) \<le> unat sz" by (simp add: dd div)
    have "Suc (unat n) \<le> ?u * Suc (unat n div ?u)"
      using less.prems(1) dividend_less_times_div [of ?u "unat n"] by (simp add: Suc_le_eq)
    then have "unat d * Suc (unat n) \<le> unat d * (?u * Suc (unat n div ?u))" by (rule mult_le_mono2)
    with less.prems(3) have "unat sz < unat d * (?u * Suc (unat n div ?u))" by (rule less_le_trans)
    then have hi: "unat sz < unat (d * unit) * Suc (unat (n div unit))"
      by (simp only: dd div mult.assoc)
    have "0 < unat n div ?u" using un less.prems(1) by (simp add: div_greater_zero_iff)
    then have pos: "0 < n div unit" by (simp add: word_greater_zero_iff unat_eq_0 [symmetric] div)
    have pow: "unat (d * unit) = ?u ^ Suc (Suc suf)" using less.prems(4) by (simp add: dd)
    from less.hyps [OF smaller less.prems(1) lo hi pow pos] show ?thesis
      using True by (subst unit_loop.simps) simp
  next
    case False
    then have "unat n < ?u" by (simp add: word_le_nat_alt)
    then have "unat d * Suc (unat n) \<le> unat d * ?u" by (intro mult_le_mono2) simp
    moreover have "unat d \<le> unat sz" using less.prems(2,5)
      by (metis (no_types) le_trans mult_le_mono2 mult.right_neutral Suc_leI One_nat_def unat_gt_0 word_neq_0_conv)
    ultimately show ?thesis using False less.prems(3,4) by (subst unit_loop.simps) (auto simp: mult.commute)
  qed
qed

text \<open>
  The display chooses the right unit: for every unit above 1 \<open>formatSize\<close> returns. A size
  below the unit is shown in bytes; otherwise the value is divided by the largest power of
  the unit that is not above the size, computed without overflow, and shown with the
  letter of this power - or the program panics, exactly when this power is above the fifth.
\<close>

lemma format_size_unit:
  assumes "1 < unat unit"
  shows "if sz < unit then formatSize sz unit = Some (Ok (nat_dec (unat sz) @ ''B''))
     else \<exists>d k. unat d = unat unit ^ Suc k \<and> unat unit ^ Suc k \<le> unat sz \<and> unat sz < unat unit ^ Suc (Suc k)
       \<and> formatSize sz unit = Some (if k < 5 then Ok (shown_value sz d @ [unit_letters ! k]) else Crash ''index out of range'')"
proof (cases "sz < unit")
  case False
  let ?u = "unat unit"
  have un: "?u \<le> unat sz" using False by (simp add: word_le_nat_alt not_less)
  have div: "unat (sz div unit) = unat sz div ?u" by (simp add: unat_div_distrib)
  have "0 < unat sz div ?u" using un assms by (simp add: div_greater_zero_iff)
  then have pos: "0 < sz div unit" by (simp add: word_greater_zero_iff unat_eq_0 [symmetric] div)
  have lo: "?u * unat (sz div unit) \<le> unat sz" by (simp add: div)
  have hi: "unat sz < ?u * Suc (unat (sz div unit))"
    using assms dividend_less_times_div [of ?u "unat sz"] by (simp add: div)
  obtain d k where "unit_loop unit (sz div unit) unit 0 = Some (d, k)" "unat d = ?u ^ Suc k"
    "?u ^ Suc k \<le> unat sz" "unat sz < ?u ^ Suc (Suc k)"
    using unit_loop_result [OF assms lo hi _ pos, of 0] by auto
  moreover have "unit \<noteq> 0" using assms by auto
  ultimately show ?thesis using False
    by (auto simp: formatSize_def unit_letters_def intro!: exI [of _ d] exI [of _ k])
qed (simp add: formatSize_def)

lemma format_size_unit_example:
  "formatSize 1536 1024 = Some (Ok ''1.5k'') \<and> formatSize (2 ^ 60) 1024 = Some (Crash ''index out of range'')"
proof -
  have one: "k = 0" if "1024 ^ Suc k \<le> (1536::nat)" for k
  proof (cases k)
    case (Suc j)
    then have "(1024::nat) ^ 2 \<le> 1024 ^ Suc k" by (intro power_increasing) simp_all
    with that show ?thesis by simp
  qed
  have six: "k = 5" if "1024 ^ Suc k \<le> (2 ^ 60 :: nat)" "(2 ^ 60 :: nat) < 1024 ^ Suc (Suc k)" for k
  proof -
    have p: "(1024 :: nat) ^ m = 2 ^ (10 * m)" for m by (simp add: power_mult)
    have "10 * Suc k \<le> 60" by (rule power_le_imp_le_exp [of "2::nat"]) (use that(1) p [of "Suc k"] in simp_all)
    moreover have "60 < 10 * Suc (Suc k)" by (rule power_less_imp_less_exp [of "2::nat"]) (use that(2) p [of "Suc (Suc k)"] in simp_all)
    ultimately show ?thesis by simp
  qed
  have k: "d = 1024" if "unat d = 1024" for d :: "64 word"
    using that by (simp add: word_unat_eq_iff)
  have "char_of (49::nat) = CHR ''1''" "char_of (53::nat) = CHR ''5''" by code_simp+
  then have "shown_value 1536 1024 = ''1.5''"
    by (simp add: shown_value_def f64_of_nat_def f64_div_def f64_less_def fraction_def f64_round_def bits.simps scale_def half_even_def
        fixed1_def nat_dec.simps digit_char_def Let_def)
  note shown = this
  obtain d j where d: "unat d = 1024 ^ Suc j" "1024 ^ Suc j \<le> (1536::nat)"
    "formatSize 1536 1024 = Some (if j < 5 then Ok (shown_value 1536 d @ [unit_letters ! j]) else Crash ''index out of range'')"
    using format_size_unit [of 1024 1536] by (auto simp del: power_Suc)
  then have "j = 0" using one by blast
  with d(1) have "d = 1024" by (intro k) simp
  with d(3) shown \<open>j = 0\<close> have a: "formatSize 1536 1024 = Some (Ok ''1.5k'')" by (simp add: unit_letters_def)
  obtain e i where e: "1024 ^ Suc i \<le> (2 ^ 60 :: nat)" "(2 ^ 60 :: nat) < 1024 ^ Suc (Suc i)"
    "formatSize (2 ^ 60) 1024 = Some (if i < 5 then Ok (shown_value (2 ^ 60) e @ [unit_letters ! i]) else Crash ''index out of range'')"
    using format_size_unit [of 1024 "2 ^ 60"] by (auto simp del: power_Suc)
  with six a show ?thesis by (simp del: power_Suc)
qed

section \<open>The display keeps running\<close>

text \<open>
  A computation that returns a value with \<open>P\<close> in every world with the environment \<open>env\<close>, whatever
  its calls answer.
\<close>

definition returns_in :: "environment \<Rightarrow> 'a go \<Rightarrow> ('a \<Rightarrow> bool) \<Rightarrow> bool" where
  "returns_in env m P \<longleftrightarrow> (\<forall>w. w_env w = env \<longrightarrow> (\<exists>a w'. m w = (Ok a, w') \<and> P a \<and> w_env w' = env))"

named_theorems returns_in_intros \<open>computations that return\<close>

lemma returns_in_andThen [returns_in_intros]:
  "returns_in env m P \<Longrightarrow> (\<And>a. P a \<Longrightarrow> returns_in env (k a) Q) \<Longrightarrow> returns_in env (andThen m k) Q"
  unfolding returns_in_def by (metis andThen_Ok)

lemma returns_in_ret [returns_in_intros]: "P a \<Longrightarrow> returns_in env (ret a) P"
  by (simp add: returns_in_def)

text \<open>A call that is attempted returns; a value it gives is one that the environment can answer.\<close>

lemma returns_in_calls:
  "returns_in env (attempt (do_f64 c)) (\<lambda>_. True)" "returns_in env (attempt (do_str c)) (\<lambda>_. True)"
  "returns_in env (attempt (do_strs c)) (\<lambda>_. True)" "returns_in env (attempt (do_sys f as)) (\<lambda>_. True)"
  "returns_in env (do_void c) (\<lambda>_. True)" "returns_in env Now (\<lambda>_. True)" "returns_in env (gets g) (\<lambda>_. True)"
  by (auto simp: returns_in_def attempt_def do_f64_def andThen_def do_u64_def do_str_def do_strs_def do_sys_def do_unit_def
      do_void_def of_sum_def split: sum.splits option.splits res.splits prod.splits)

definition pair_of :: "'a go \<Rightarrow> 'a go \<Rightarrow> ('a \<times> 'a) go" where
  "pair_of m n = andThen m (\<lambda>a. andThen n (\<lambda>b. ret (a, b)))"

definition small :: "64 word \<Rightarrow> bool" where
  "small v \<longleftrightarrow> unat v < 1000 ^ 6"

text \<open>No memory or partition of an exabyte or more.\<close>

definition small_sizes :: "environment \<Rightarrow> bool" where
  "small_sizes env \<longleftrightarrow> (\<forall>h f as v. f \<in> {''mem.VirtualMemory'', ''disk.Usage''} \<longrightarrow> e_u64 env h (Sys f as) = Inr v \<longrightarrow> small v)"

lemma returns_in_sizes:
  assumes "small_sizes env" "f \<in> {''mem.VirtualMemory'', ''disk.Usage''}"
  shows "returns_in env (attempt (pair_of (do_u64 (Sys f as)) (do_u64 (Sys f bs))))
     (\<lambda>r. case r of Inl _ \<Rightarrow> True | Inr (a, b) \<Rightarrow> small a \<and> small b)"
proof -
  have "small v" if "e_u64 env h (Sys f cs) = Inr v" for h cs v
    using assms that unfolding small_sizes_def by blast
  then show ?thesis
    by (auto simp: returns_in_def attempt_def pair_of_def andThen_def do_u64_def of_sum_def ret_def split: sum.splits res.splits prod.splits)
qed

lemma returns_in_put_size:
  assumes "small sz" "unit \<in> {1000, 1024}"
  shows "returns_in env (put_size sz unit) (\<lambda>_. True)"
proof -
  have u: "1 < unat unit" "1000 \<le> unat unit" using assms(2) by auto
  have "k < 5" if "unat unit ^ Suc k \<le> unat sz" for k
  proof (rule ccontr)
    assume "\<not> k < 5"
    then have "(1000::nat) ^ 6 \<le> 1000 ^ Suc k" by (intro power_increasing) simp_all
    also have "\<dots> \<le> unat unit ^ Suc k" using u(2) by (intro power_mono) simp_all
    finally show False using that assms(1) by (simp add: small_def)
  qed
  then have "\<exists>s. formatSize sz unit = Some (Ok s)"
    using format_size_unit [OF u(1), of sz] by (auto split: if_splits)
  then show ?thesis by (auto simp: returns_in_def put_size_def)
qed

lemma returns_in_biggest:
  assumes "small_sizes env"
  shows "small used \<and> small tot \<Longrightarrow>
     returns_in env (biggest ms (name, used, tot)) (\<lambda>(_, u, t). small u \<and> small t)"
proof (induction ms arbitrary: name used tot)
  case Nil
  then show ?case by (auto intro: returns_in_ret simp del: ret_apply)
next
  case (Cons m ms)
  note usage = returns_in_sizes [OF assms, of "''disk.Usage''" "[m, ''Total'']" "[m, ''Used'']", unfolded pair_of_def]
  show ?case
    unfolding biggest.simps
    by (rule returns_in_andThen [OF usage]) (use Cons in \<open>auto split: sum.splits\<close>)
qed

lemma returns_in_lines:
  assumes "small_sizes env"
  shows "returns_in env getIPAddrString (\<lambda>_. True)" "returns_in env getCPUString (\<lambda>_. True)"
    "returns_in env getMemString (\<lambda>_. True)" "returns_in env getHDDString (\<lambda>_. True)"
proof -
  note shown = returns_in_put_size [of _ 1000] returns_in_put_size [of _ 1024]
  note mem = returns_in_sizes [OF assms, of "''mem.VirtualMemory''" "[''Used'']" "[''Total'']", unfolded pair_of_def]
  have load: "returns_in env (attempt (andThen (do_f64 c) (\<lambda>a. andThen (do_f64 d) (\<lambda>b. ret (a, b))))) (\<lambda>_. True)" for c d
    by (auto simp: returns_in_def attempt_def do_f64_def andThen_def do_u64_def of_sum_def ret_def split: sum.splits res.splits prod.splits)
  show "returns_in env getIPAddrString (\<lambda>_. True)" "returns_in env getCPUString (\<lambda>_. True)"
    unfolding getIPAddrString_def getCPUString_def
    by (auto split: sum.splits intro!: returns_in_intros returns_in_calls load)
  show "returns_in env getMemString (\<lambda>_. True)"
    unfolding getMemString_def
    by (rule returns_in_andThen [OF mem]) (auto split: sum.splits intro!: returns_in_intros shown)
  have "returns_in env (biggest ms ([], 0, 0)) (\<lambda>(_, u, t). small u \<and> small t)" for ms
    by (rule returns_in_biggest [OF assms]) (simp add: small_def)
  note big = this
  show "returns_in env getHDDString (\<lambda>_. True)"
    unfolding getHDDString_def
    by (rule returns_in_andThen [OF returns_in_calls(3)])
      (auto split: sum.splits intro!: returns_in_ret returns_in_andThen [OF big] returns_in_andThen [OF shown(1)] simp del: ret_apply)
qed

lemma returns_in_draw: "returns_in env (draw_lines height i ss) (\<lambda>_. True)"
  by (induction ss arbitrary: i) (auto intro!: returns_in_intros returns_in_calls)

text \<open>
  The display keeps running: whatever the system library, the driver and the clock answer,
  errors included, every turn of the loop returns, as long as no memory and no partition
  reaches an exabyte.
\<close>

lemma display_keeps_running:
  assumes "small_sizes (w_env w)"
  shows "\<exists>w'. display_frames n height w = (Ok (), w')"
proof -
  have "returns_in (w_env w) display_lines (\<lambda>_. True)"
    unfolding display_lines_def by (auto intro!: returns_in_intros returns_in_calls returns_in_lines assms)
  then have frame: "returns_in (w_env w) (display_frame height) (\<lambda>_. True)"
    unfolding display_frame_def by (auto intro!: returns_in_intros returns_in_calls returns_in_draw)
  have "returns_in (w_env w) (display_frames n height) (\<lambda>_. True)"
    by (induction n) (auto intro!: returns_in_intros returns_in_calls frame simp del: ret_apply)
  then show ?thesis by (auto simp: returns_in_def)
qed

text \<open>The clock a minute past noon.\<close>

lemma display_example:
  "clock_line (wall (\<lambda>_. 0) 43265) = ''Jan 1 12:01:05 PM''"
  by code_simp

end
