(* ===== verification/Hooks.thy ===== *)
theory Hooks
  imports Activation Disks Nginx Cert Access Cron
begin

text \<open>
  The hooks that snapd runs when the platform is installed, refreshed or configured
  (\<^verbatim>\<open>backend/hook/install.go\<close>, with \<^verbatim>\<open>backend/cli/remove.go\<close>), and the two periodic jobs that
  only delegate (\<^verbatim>\<open>backend/cron/certificate_job.go\<close>, \<^verbatim>\<open>external_address_job.go\<close>).
\<close>

section \<open>Files\<close>

text \<open>\<^verbatim>\<open>cli.Remove\<close>.\<close>

definition Remove :: "string \<Rightarrow> unit go" where
  "Remove pattern = andThen (do_strs (Sys ''glob'' [pattern])) (\<lambda>files.
     forEach files (\<lambda>f. do_sys ''remove'' [f]))"

definition createDir :: "string \<Rightarrow> unit go" where
  "createDir dir = andThen (attempt (do_sys ''stat'' [dir])) (\<lambda>r. case r of
     Inl e \<Rightarrow> if e = NotExist then do_sys ''mkdirall'' [dir, ''0755''] else throw e
   | Inr _ \<Rightarrow> ret ())"

section \<open>The hooks\<close>

definition hook_App :: string where "hook_App = ''platform''"

definition hook_CommonDir :: string where "hook_CommonDir = ''/var/snap/platform/common''"

definition hook_logDir :: string where "hook_logDir = path_join [hook_CommonDir, ''log'']"

definition Configure :: "sysconf \<Rightarrow> unit go" where
  "Configure c = ApplyConfig c"

definition InitConfigs :: "unit go" where
  "InitConfigs =
     andThen (forEach [hook_logDir, path_join [hook_DataDir, ''nginx''], path_join [hook_DataDir, ''openldap''],
        path_join [hook_DataDir, ''openldap-data'']] (\<lambda>dir. do_sys ''mkdirall'' [dir, ''0755''])) (\<lambda>_.
       do_sys ''cp.Copy'' [path_join [hook_AppDir, ''certs''], ''/usr/share/ca-certificates/mozilla''])"

definition InitDisk :: "sysconf \<Rightarrow> unit go" where
  "InitDisk c =
     andThen (createDir (DiskRoot c)) (\<lambda>_.
     andThen (createDir (InternalDiskDir c)) (\<lambda>_.
     andThen (ExternalDiskLinkExists c) (\<lambda>external.
       if \<not> external then RelinkDisk (DiskLink c) (InternalDiskDir c) else ret ())))"

definition Install :: "sysconf \<Rightarrow> unit go" where
  "Install c =
     andThen (do_sys ''linux.CreateUser'' [hook_App]) (\<lambda>_.
     andThen InitConfigs (\<lambda>_.
     andThen (InitDisk c) (\<lambda>_.
     andThen (Cert_Generate c) (\<lambda>_.
     andThen (Ldap_Init c) (\<lambda>_.
     andThen (Nginx_InitConfig c) (\<lambda>_.
     andThen (InitCustomProxyConfig c) (\<lambda>_. Authelia_InitConfig)))))))"

definition lcd_servicePath :: string where
  "lcd_servicePath = ''/etc/systemd/system/odroidhc4-display.service''"

definition lcd_binaryPath :: string where
  "lcd_binaryPath = ''/usr/bin/odroidhc4-display''"

text \<open>Every step ignores its error.\<close>

definition cleanupOldLcdService :: "unit go" where
  "cleanupOldLcdService =
     andThen (attempt (do_sys ''stat'' [lcd_servicePath])) (\<lambda>service.
     andThen (case service of Inl _ \<Rightarrow> ret () | Inr _ \<Rightarrow>
        andThen (attempt (StopService ''odroidhc4-display'')) (\<lambda>_.
        andThen (attempt (DisableService ''odroidhc4-display'')) (\<lambda>_.
        andThen (attempt (do_sys ''remove'' [lcd_servicePath])) (\<lambda>_.
        andThen (attempt DaemonReload) (\<lambda>_. ret ()))))) (\<lambda>_.
     andThen (attempt (do_sys ''stat'' [lcd_binaryPath])) (\<lambda>binary. case binary of Inl _ \<Rightarrow> ret () | Inr _ \<Rightarrow>
        andThen (attempt (do_sys ''remove'' [lcd_binaryPath])) (\<lambda>_. ret ()))))"

definition PostRefresh :: "sysconf \<Rightarrow> unit go" where
  "PostRefresh c =
     andThen InitConfigs (\<lambda>_.
     andThen (InitDisk c) (\<lambda>_.
     andThen (Nginx_InitConfig c) (\<lambda>_.
     andThen (InitCustomProxyConfig c) (\<lambda>_.
     andThen Authelia_InitConfig (\<lambda>_.
     andThen (Remove (hook_logDir @ ''/*.log'')) (\<lambda>_.
     andThen (attempt cleanupOldLcdService) (\<lambda>_. ret ())))))))"

section \<open>Jobs that delegate\<close>

definition CertificateJob_Run :: "sysconf \<Rightarrow> unit go" where
  "CertificateJob_Run c = Cert_Generate c"

definition ExternalAddressJob_Run :: "sysconf \<Rightarrow> unit go" where
  "ExternalAddressJob_Run c = Access_Sync c"

section \<open>The link to the data\<close>

abbreviation unlinked :: "world \<Rightarrow> world \<Rightarrow> bool" where
  "unlinked \<equiv> within (\<lambda>call. link_ev call = None)"

lemma unlinked_files:
  "keeps unlinked (Remove p)" "keeps unlinked (createDir d)" "keeps unlinked InitConfigs"
  unfolding Remove_def createDir_def InitConfigs_def
  by (auto simp: link_ev_quiet split: sum.splits intro!: keeps_intros simp del: ret_apply throw_apply)

lemma unlinked_lcd: "keeps unlinked cleanupOldLcdService"
  unfolding cleanupOldLcdService_def StopService_def DisableService_def DaemonReload_def
  by (auto simp: link_ev_quiet split: sum.splits intro!: keeps_intros simp del: ret_apply throw_apply)

lemma unlinked_nginx: "keeps unlinked (Nginx_InitConfig c)" "keeps unlinked (InitCustomProxyConfig c)"
proof -
  have "only_reads Proxy_List"
    by (auto simp: only_reads_def Proxy_List_def on_proxies_def on_table_def split: option.splits)
  then show "keeps unlinked (Nginx_InitConfig c)" "keeps unlinked (InitCustomProxyConfig c)"
    unfolding Nginx_InitConfig_def InitCustomProxyConfig_def writeCustomProxyConfig_def Let_def
    by (intro keeps_intros keeps_cfg_read reads; simp add: link_ev_quiet)+
qed

lemma unlinked_authelia: "keeps unlinked Authelia_InitConfig"
proof -
  have uuid: "keeps unlinked (getOrCreateUuid f)" for f
    unfolding getOrCreateUuid_def uuid_New_def
    by (auto simp: link_ev_quiet split: sum.splits intro!: keeps_intros simp del: ret_apply crash_apply)
  have rsa: "keeps unlinked (createRsaKeyFileIfMissing f)" for f
    unfolding createRsaKeyFileIfMissing_def
    by (auto simp: link_ev_quiet split: sum.splits intro!: keeps_intros simp del: ret_apply throw_apply)
  have urls: "keeps unlinked (with_urls cs)" for cs
    by (induction cs) (auto intro!: keeps_intros keeps_cfg_read reads simp del: ret_apply)
  have vars: "keeps unlinked authelia_variables"
    unfolding authelia_variables_def by (intro keeps_intros keeps_cfg_read reads uuid rsa urls)
  have copy: "keeps unlinked (copy_file s d)" for s d
    unfolding copy_file_def by (intro keeps_intros) (simp_all add: link_ev_quiet)
  have files: "keeps unlinked (template_files es)" for es
    by (induction es) (auto simp: link_ev_quiet intro!: keeps_intros simp del: ret_apply)
  have gen: "keeps unlinked (Generate i out as)" for i out as
    unfolding Generate_def parse_files_def template_write_def
    by (intro keeps_intros files) (auto simp: link_ev_quiet intro!: keeps_intros split: sum.splits)
  have render: "keeps unlinked (render_config v)" for v
    unfolding render_config_def copyAssetsDir_def
    by (intro keeps_intros gen) (auto simp: link_ev_quiet intro!: keeps_intros copy simp del: ret_apply)
  have check: "keeps unlinked check_config"
    by (simp add: keeps_def check_config_run validate_config_def link_ev_quiet)
  have dir: "keeps unlinked (copyDir n s d)" for n s d
    by (induction n arbitrary: s d) (auto simp: link_ev_quiet Let_def intro!: keeps_intros copy simp del: throw_apply)
  have "keeps unlinked install_config"
    unfolding install_config_def RestartService_def by (intro keeps_intros dir) (auto simp: link_ev_quiet)
  then show ?thesis
    unfolding Authelia_InitConfig_def
    by (intro keeps_intros vars render check) (simp_all add: link_ev_quiet)
qed

text \<open>The directories before the link is looked at, and what follows it in a refresh.\<close>

definition before_link :: "sysconf \<Rightarrow> unit go" where
  "before_link c = andThen InitConfigs (\<lambda>_. andThen (createDir (DiskRoot c)) (\<lambda>_. createDir (InternalDiskDir c)))"

definition after_link :: "sysconf \<Rightarrow> unit go" where
  "after_link c =
     andThen (Nginx_InitConfig c) (\<lambda>_.
     andThen (InitCustomProxyConfig c) (\<lambda>_.
     andThen Authelia_InitConfig (\<lambda>_.
     andThen (Remove (hook_logDir @ ''/*.log'')) (\<lambda>_.
     andThen (attempt cleanupOldLcdService) (\<lambda>_. ret ())))))"

lemma PostRefresh_split:
  "PostRefresh c = andThen (before_link c) (\<lambda>_. andThen (ExternalDiskLinkExists c) (\<lambda>external.
     andThen (if \<not> external then RelinkDisk (DiskLink c) (InternalDiskDir c) else ret ()) (\<lambda>_. after_link c)))"
  by (simp only: PostRefresh_def before_link_def after_link_def InitDisk_def andThen_assoc)

lemma emits_after_link: "emits link_ev (after_link c) []"
  unfolding after_link_def
  by (intro emits_quiet keeps_intros unlinked_files unlinked_nginx unlinked_authelia unlinked_lcd)

lemma emits_relink_then:
  "emits link_ev (andThen (if \<not> external then RelinkDisk l t else ret ()) (\<lambda>_. after_link c)) (if external then [] else [t])"
  using emits_andThen [OF emits_RelinkDisk [of l t] emits_after_link [of c]] emits_after_link [of c]
  by (simp add: andThen_ret_left)

text \<open>
  C16. A refresh of the platform never takes the data away from an external disk: after its
  directories are in place it looks once where the data link leads; when that is the external
  disk it makes no link at all, and otherwise exactly one, to the internal disk (none only when
  the refresh fails before). No other step of the refresh touches the link.
\<close>

theorem refresh_keeps_external_disk:
  assumes "PostRefresh c w = (r, w')"
  shows "\<exists>cs. w' = w\<lparr>w_hist := w_hist w @ cs\<rparr> \<and> ((\<not> is_Ok r \<and> List.map_filter link_ev cs = [])
     \<or> (\<exists>as bs. cs = as @ Sys ''evalsymlinks'' [DiskLink c] # bs \<and> List.map_filter link_ev as = []
         \<and> (let links = List.map_filter link_ev bs in
            if e_str (w_env w) (w_hist w @ as) (Sys ''evalsymlinks'' [DiskLink c]) = Inr (ExternalDiskDir c) then links = []
            else prefix links [InternalDiskDir c] \<and> (is_Ok r \<longrightarrow> links = [InternalDiskDir c]))))"
proof -
  let ?q = "Sys ''evalsymlinks'' [DiskLink c]"
  obtain r1 w1 where b: "before_link c w = (r1, w1)" by fastforce
  have "keeps unlinked (before_link c)"
    unfolding before_link_def by (intro keeps_intros unlinked_files)
  then have "unlinked w w1" using b by (rule keepsD)
  then obtain as where as: "w1 = w\<lparr>w_hist := w_hist w @ as\<rparr>" "list_all (\<lambda>c. link_ev c = None) as"
    unfolding within_def by blast
  note quiet = map_filter_none [OF as(2)]
  show ?thesis
  proof (cases r1)
    case (Ok u)
    define external where "external \<longleftrightarrow> e_str (w_env w) (w_hist w @ as) ?q = Inr (ExternalDiskDir c)"
    have "ExternalDiskLinkExists c w1 = (Ok external, record_call ?q w1)"
      by (cases "e_str (w_env w) (w_hist w @ as) ?q") (auto simp: ExternalDiskLinkExists_def do_str_def andThen_def attempt_def as(1) external_def)
    then have "andThen (if \<not> external then RelinkDisk (DiskLink c) (InternalDiskDir c) else ret ()) (\<lambda>_. after_link c) (record_call ?q w1) = (r, w')"
      using assms b Ok by (simp add: PostRefresh_split)
    from emitsD [OF emits_relink_then this] obtain bs where
      "w' = (record_call ?q w1)\<lparr>w_hist := w_hist (record_call ?q w1) @ bs\<rparr>"
      "prefix (List.map_filter link_ev bs) (if external then [] else [InternalDiskDir c])"
      "is_Ok r \<longrightarrow> List.map_filter link_ev bs = (if external then [] else [InternalDiskDir c])" by blast
    then show ?thesis
      using as(1) quiet unfolding external_def
      by (intro exI [of _ "as @ ?q # bs"]) (auto simp: Let_def record_call_def split: if_splits)
  qed (use assms b as(1) quiet in \<open>auto simp: PostRefresh_split andThen_def\<close>)
qed

definition on_disk_env :: environment where
  "on_disk_env = calm\<lparr>e_str := (\<lambda>_ _. Inr (ExternalDiskDir sample_conf))\<rparr>"

theorem refresh_keeps_external_disk_witness:
  "\<exists>r w'. PostRefresh sample_conf (start_world on_disk_env) = (r, w') \<and> List.map_filter link_ev (w_hist w') = []"
proof -
  obtain r w' where run: "PostRefresh sample_conf (start_world on_disk_env) = (r, w')" by fastforce
  have "e_str on_disk_env h q = Inr (ExternalDiskDir sample_conf)" for h q by (simp add: on_disk_env_def)
  with refresh_keeps_external_disk [OF run] have "List.map_filter link_ev (w_hist w') = []"
    by (auto simp: map_filter_append List.map_filter_simps link_ev_def)
  with run show ?thesis by blast
qed

end
