(* ===== verification/Cli_Commands.thy ===== *)
theory Cli_Commands
  imports Rest Hooks
begin

text \<open>
  The commands of the command line tool (\<^verbatim>\<open>backend/cmd/cli\<close>), run after the components are set up;
  a command gives what it prints, or the error that ends it. Commands that print the error of
  an operation succeed. The two commands that only show an address prefix or the state of the
  volume are left out, and so is the counting of arguments by the command line library.
\<close>

datatype printed =
    P_Text string
  | P_Backups "backup_file list"
  | P_Settings "string \<rightharpoonup> string"
  | P_Proxies "proxy_entry list"

definition nothing :: "unit go \<Rightarrow> printed go" where
  "nothing m = andThen m (\<lambda>_. ret (P_Text []))"

text \<open>An operation whose error is printed after the given text.\<close>

definition print_error :: "string \<Rightarrow> printed \<Rightarrow> unit go \<Rightarrow> printed go" where
  "print_error before done m = andThen (attempt m) (\<lambda>r. ret (case r of
     Inl e \<Rightarrow> P_Text (before @ err_text e @ [CHR 0x0A]) | Inr _ \<Rightarrow> done))"

definition backup_Dir :: string where "backup_Dir = ''/data/platform/backup''"

definition backup_VarDir :: string where "backup_VarDir = ''/var/snap''"

section \<open>Commands\<close>

definition backup_create_cmd :: "string \<Rightarrow> printed go" where
  "backup_create_cmd app = nothing (Backup_Create backup_Dir backup_VarDir app)"

definition backup_restore_cmd :: "string \<Rightarrow> printed go" where
  "backup_restore_cmd file = nothing (Backup_Restore backup_Dir backup_VarDir file)"

definition backup_list_cmd :: "printed go" where
  "backup_list_cmd = andThen (Backup_List backup_Dir) (\<lambda>files. ret (P_Backups files))"

definition certCmd :: "sysconf \<Rightarrow> bool \<Rightarrow> printed go" where
  "certCmd c fake = nothing (if fake then Fake_Generate c else Cert_Generate c)"

definition config_set_cmd :: "string \<Rightarrow> string \<Rightarrow> string \<Rightarrow> printed go" where
  "config_set_cmd configFile key v = andThen (cfg (Db_Upsert key v)) (\<lambda>_.
     ret (P_Text (''set config: '' @ configFile @ '', key: '' @ key @ '', value: '' @ v @ [CHR 0x0A])))"

definition config_get_cmd :: "string \<Rightarrow> printed go" where
  "config_get_cmd key = andThen (cfg (Db_Get key [])) (\<lambda>v. ret (P_Text (v @ [CHR 0x0A])))"

text \<open>The settings are printed in no particular order.\<close>

definition config_list_cmd :: "printed go" where
  "config_list_cmd = andThen (cfg Db_List) (\<lambda>m. ret (P_Settings m))"

definition cronCmd :: "unit go list \<Rightarrow> printed go" where
  "cronCmd jobs = nothing (StartSingle jobs)"

definition disable2faCmd :: "printed go" where
  "disable2faCmd = andThen (cfg (SetTwoFactorEnabled False)) (\<lambda>_.
     andThen (attempt Authelia_InitConfig) (\<lambda>r. ret (P_Text (''2FA disabled in config'' @ [CHR 0x0A] @ (case r of
       Inl e \<Rightarrow> ''warning: unable to regenerate authelia config: '' @ err_text e @ [CHR 0x0A]
     | Inr _ \<Rightarrow> ''Authelia config regenerated and service restarted'' @ [CHR 0x0A])))))"

definition ipv4Cmd :: "printed go" where
  "ipv4Cmd = andThen LocalIPv4 (\<lambda>ip. ret (P_Text ip))"

definition ipv4_public_cmd :: "printed go" where
  "ipv4_public_cmd = andThen PublicIPv4 (\<lambda>ip. ret (P_Text ip))"

text \<open>Here the process prints the error and exits with 1.\<close>

definition ipv6Cmd :: "printed go" where
  "ipv6Cmd = andThen IPv6 (\<lambda>ip. ret (P_Text ip))"

definition proxy_add_cmd :: "string \<Rightarrow> string \<Rightarrow> int \<Rightarrow> bool \<Rightarrow> bool \<Rightarrow> printed go" where
  "proxy_add_cmd name host port https authelia =
     print_error ''error: '' (P_Text []) (cfg (Proxy_Add name host port https authelia))"

definition proxy_remove_cmd :: "string \<Rightarrow> printed go" where
  "proxy_remove_cmd name = print_error ''error: '' (P_Text []) (cfg (Proxy_Remove name))"

definition proxy_list_cmd :: "printed go" where
  "proxy_list_cmd = andThen (attempt (cfg Proxy_List)) (\<lambda>r. ret (case r of
     Inl e \<Rightarrow> P_Text (''error: '' @ err_text e @ [CHR 0x0A]) | Inr proxies \<Rightarrow> P_Proxies proxies))"

definition resetTotpCmd :: "string \<Rightarrow> printed go" where
  "resetTotpCmd username = print_error ''error: '' (P_Text (''TOTP registration deleted'' @ [CHR 0x0A])) (TOTP_Reset username)"

definition in_quotes :: "string \<Rightarrow> string" where
  "in_quotes s = [CHR 0x27] @ s @ [CHR 0x27]"

definition userAddCmd :: "string \<Rightarrow> string \<Rightarrow> string \<Rightarrow> bool \<Rightarrow> printed go" where
  "userAddCmd username password email isAdmin =
     (if password = [] then throw (Error ''--password is required'')
      else print_error ''error: '' (P_Text (''User '' @ in_quotes username @ '' added'' @ [CHR 0x0A])) (AddUser username password email isAdmin))"

definition userRemoveCmd :: "string \<Rightarrow> printed go" where
  "userRemoveCmd username =
     print_error ''error: '' (P_Text (''User '' @ in_quotes username @ '' removed'' @ [CHR 0x0A])) (RemoveUser username)"

section \<open>The login token\<close>

definition TokenFile :: string where "TokenFile = ''/var/snap/platform/common/login-token''"

definition lower_hex :: "nat \<Rightarrow> char" where
  "lower_hex d = char_of (if d < 10 then 48 + d else 87 + d)"

definition EncodeToString :: "string \<Rightarrow> string" where
  "EncodeToString bs = concat (map (\<lambda>b. let n = of_char b :: nat in [lower_hex (n div 16), lower_hex (n mod 16)]) bs)"

definition token_bytes :: "string go" where
  "token_bytes = andThen (do_str (Sys ''rand'' [''32''])) (\<lambda>s. ret (take 32 (s @ replicate 32 (CHR 0x00))))"

definition loginCmd :: "string \<Rightarrow> string \<Rightarrow> printed go" where
  "loginCmd username password =
     andThen (wrap_err ''authentication failed: '' (Authenticate username password)) (\<lambda>ok.
       if \<not> ok then throw (Error ''authentication failed'')
       else andThen (wrap_err ''unable to generate token: '' token_bytes) (\<lambda>tokenBytes.
         let token = EncodeToString tokenBytes in
         andThen (wrap_err ''unable to write token file: '' (do_sys ''writefile'' [TokenFile, token @ '':'' @ username, ''0600''])) (\<lambda>_.
           ret (P_Text token))))"

lemma lower_hex_not_colon: "d < 16 \<Longrightarrow> lower_hex d \<noteq> CHR '':''"
proof
  assume "d < 16" and colon: "lower_hex d = CHR '':''"
  have "(of_char (lower_hex d) :: nat) = (if d < 10 then 48 + d else 87 + d)"
    using \<open>d < 16\<close> by (simp add: lower_hex_def)
  with colon show False using \<open>d < 16\<close> by (simp split: if_splits)
qed

lemma of_char_less: "(of_char c :: nat) < 256"
  using nat_of_char_less_256 [of c] by simp

lemma EncodeToString_no_colon: "CHR '':'' \<notin> set (EncodeToString bs)"
proof -
  have "CHR '':'' \<noteq> lower_hex (of_char b div 16)" "CHR '':'' \<noteq> lower_hex (of_char b mod 16)" for b :: char
    using lower_hex_not_colon [of "of_char b div 16"] lower_hex_not_colon [of "of_char b mod 16"] of_char_less [of b]
    by (auto simp: less_mult_imp_div_less)
  then show ?thesis by (auto simp: EncodeToString_def Let_def)
qed

lemma CutAt_colon: "CHR '':'' \<notin> set t \<Longrightarrow> CutAt '':'' (t @ '':'' @ u) = Some (t, u)"
  by (induction t) (auto simp: HasPrefix_def)

text \<open>The calls of a login that succeeds, and what it prints.\<close>

definition login_calls :: "string \<Rightarrow> string \<Rightarrow> string \<Rightarrow> call list" where
  "login_calls username password token =
     [Sys ''ldap-dial'' [''ldap://localhost:389''],
      Sys ''ldap-bind'' [''cn='' @ username @ '',ou=users,dc=syncloud,dc=org'', password],
      Sys ''ldap-search'' [AdminGroupDn, ''sub'', ''(memberUid='' @ username @ '')'', ''memberUid''],
      Sys ''rand'' [''32''], Sys ''writefile'' [TokenFile, token @ '':'' @ username, ''0600'']]"

lemma loginCmd_run:
  assumes "loginCmd u p w = (Ok out, w')"
  shows "\<exists>bs. length bs = 32 \<and> out = P_Text (EncodeToString bs)
     \<and> w' = w\<lparr>w_hist := w_hist w @ login_calls u p (EncodeToString bs)\<rparr>
     \<and> e_unit (w_env w) (w_hist w @ take 1 (login_calls u p [])) (login_calls u p [] ! 1) = None"
proof -
  let ?b = "\<lambda>s. take 32 (s @ replicate 32 (CHR 0x00))"
  obtain s where "out = P_Text (EncodeToString (?b s))"
    "w' = w\<lparr>w_hist := w_hist w @ login_calls u p (EncodeToString (?b s))\<rparr>"
    "e_unit (w_env w) (w_hist w @ take 1 (login_calls u p [])) (login_calls u p [] ! 1) = None"
    using assms
    by (auto simp: loginCmd_def Authenticate_def token_bytes_def login_calls_def wrap_err_def attempt_def andThen_def do_sys_def
        do_unit_def do_str_def do_ldap_def record_call_def of_sum_def Let_def
        split: option.splits sum.splits res.splits if_splits prod.splits)
  then show ?thesis by (intro exI [of _ "?b s"]) simp
qed

lemma EncodeToString_length: "length (EncodeToString bs) = 2 * length bs"
  by (induction bs) (auto simp: EncodeToString_def Let_def)

lemma LoginToken_accepts:
  fixes x :: "data payload exchange"
  defines "read \<equiv> Sys ''readfile'' [loginTokenFile]" and "rm \<equiv> Sys ''remove'' [loginTokenFile]"
  assumes "Option.bind (rq_json (x_req x)) (str_field ''token'') = Some t" "t \<noteq> []" "CHR '':'' \<notin> set t"
    and "e_str (w_env (x_world x)) (w_hist (x_world x)) read = Inr (t @ '':'' @ u)"
    and "cookies_key (x_world x) = Some key" "x_session x = None" "rq_cookie (x_req x) = None"
    and "e_seal (w_env (x_world x)) (w_hist (x_world x) @ [read, rm]) key [(UserKey, u)] = Inr cookie"
  shows "\<exists>x'. LoginToken x = (Ok (), x') \<and> session_user x' = Some u \<and> x_cookies x' = x_cookies x @ [cookie]"
proof -
  let ?z = "x\<lparr>x_world := record_call rm (record_call read (x_world x))\<rparr>"
  have vs: "session_values ?z = Some []"
    using assms(7-9) by (simp add: session_values_def decode_session_def)
  have set: "SetSessionUser u ?z = (Ok (), ?z\<lparr>x_session := Some [(UserKey, u)], x_cookies := x_cookies x @ [cookie]\<rparr>)"
    using assms(7,10) by (simp add: SetSessionUser_def getSession_run vs session_Save_run row_put_def)
  have rm: "\<exists>r. serve (do_sys ''remove'' [loginTokenFile]) (x\<lparr>x_world := record_call read (x_world x)\<rparr>) = (r, ?z) \<and> (\<forall>p. r \<noteq> Crash p)"
    by (auto simp: serve_def zoom_def do_sys_def do_unit_def rm_def split: option.splits)
  then obtain a where rm': "attempt (serve (do_sys ''remove'' [loginTokenFile])) (x\<lparr>x_world := record_call read (x_world x)\<rparr>) = (Ok a, ?z)"
    by (fastforce simp: attempt_def split: res.splits)
  have "serve (do_str read) x = (Ok (t @ '':'' @ u), x\<lparr>x_world := record_call read (x_world x)\<rparr>)"
    using assms(6) by (simp add: serve_def zoom_def do_str_def)
  then show ?thesis
    using assms(3,4) CutAt_colon [OF assms(5), of u] set rm'
    by (simp add: LoginToken_def read_def attempt_def andThen_def write_status_def write_body_def session_user_def session_values_def)
qed

text \<open>
  C14. The command line login reaches the web: when \<^verbatim>\<open>cli login\<close> prints a token, a bind of this user
  with this password was accepted, the last thing it did was to write the token file, and a
  request of a browser without a session that brings the token while the file holds what was written gets a session
  cookie for exactly this user.
\<close>

theorem cli_login_roundtrip:
  fixes x :: "data payload exchange"
  assumes login: "loginCmd u p w = (Ok (P_Text t), w')"
    and tok: "last (w_hist w') = Sys ''writefile'' [TokenFile, content, ''0600'']"
      "e_str (w_env (x_world x)) (w_hist (x_world x)) (Sys ''readfile'' [TokenFile]) = Inr content"
    and rq: "Option.bind (rq_json (x_req x)) (str_field ''token'') = Some t"
    and cookies: "cookies_key (x_world x) = Some key" "x_session x = None" "rq_cookie (x_req x) = None"
      "e_seal (w_env (x_world x)) (w_hist (x_world x) @ [Sys ''readfile'' [TokenFile], Sys ''remove'' [TokenFile]]) key
         [(UserKey, u)] = Inr cookie"
  shows "e_unit (w_env w) (w_hist w @ take 1 (login_calls u p [])) (login_calls u p [] ! 1) = None
     \<and> w_hist w' = w_hist w @ login_calls u p t
     \<and> (\<exists>x'. LoginToken x = (Ok (), x') \<and> session_user x' = Some u \<and> x_cookies x' = x_cookies x @ [cookie])"
proof -
  obtain bs where b: "length bs = 32" "t = EncodeToString bs" "w' = w\<lparr>w_hist := w_hist w @ login_calls u p t\<rparr>"
    "e_unit (w_env w) (w_hist w @ take 1 (login_calls u p [])) (login_calls u p [] ! 1) = None"
    using loginCmd_run [OF login] by auto
  have "content = t @ '':'' @ u" using tok(1) b(3) by (simp add: login_calls_def)
  moreover have "t \<noteq> []" using EncodeToString_length [of bs] b(1,2) by auto
  moreover have "loginTokenFile = TokenFile" by (simp add: loginTokenFile_def TokenFile_def)
  ultimately have "\<exists>x'. LoginToken x = (Ok (), x') \<and> session_user x' = Some u \<and> x_cookies x' = x_cookies x @ [cookie]"
    using tok(2) rq cookies EncodeToString_no_colon [of bs] b(2) by (intro LoginToken_accepts [of x t]) simp_all
  with b(3,4) show ?thesis by simp
qed

definition zero_token :: string where
  "zero_token = EncodeToString (replicate 32 (CHR 0x00))"

definition cli_env :: environment where
  "cli_env = calm\<lparr>e_ldap := (\<lambda>_ _. Inr [[]]), e_seal := (\<lambda>_ _ _. Inr ''c''),
     e_str := (\<lambda>_ c. if c = Sys ''readfile'' [TokenFile] then Inr (zero_token @ '':bob'') else Inr [])\<rparr>"

definition cli_exchange :: "data payload exchange" where
  "cli_exchange = new_exchange ((start_world cli_env)\<lparr>cookies_key := Some ''k''\<rparr>)
     ((plain_request None)\<lparr>rq_json := Some (JObj [(''token'', JStr zero_token)])\<rparr>)"

theorem cli_login_roundtrip_witness:
  "\<exists>w' x'. loginCmd ''bob'' ''secret'' (start_world cli_env) = (Ok (P_Text zero_token), w')
     \<and> LoginToken cli_exchange = (Ok (), x') \<and> session_user x' = Some ''bob''"
proof -
  let ?w = "(start_world cli_env)\<lparr>w_hist := login_calls ''bob'' ''secret'' zero_token\<rparr>"
  have run: "loginCmd ''bob'' ''secret'' (start_world cli_env) = (Ok (P_Text zero_token), ?w)"
    by (simp add: loginCmd_def Authenticate_def token_bytes_def wrap_err_def attempt_def andThen_def do_sys_def do_unit_def
        do_str_def do_ldap_def record_call_def cli_env_def calm_def start_world_def login_calls_def Let_def zero_token_def [symmetric])
  have x: "Option.bind (rq_json (x_req cli_exchange)) (str_field ''token'') = Some zero_token"
    "cookies_key (x_world cli_exchange) = Some ''k''" "x_session cli_exchange = None" "rq_cookie (x_req cli_exchange) = None"
    "w_env (x_world cli_exchange) = cli_env"
    by (simp_all add: cli_exchange_def new_exchange_def plain_request_def str_field_def jkey_def)
  show ?thesis
    using cli_login_roundtrip [OF run _ _ x(1-4), of "zero_token @ '':bob''" "''c''"] run x(5)
    by (auto simp: login_calls_def cli_env_def)
qed

end
