(* ===== verification/Programs.thy ===== *)
theory Programs
  imports Wiring Rest Zram Lcd Cli_Commands
begin

text \<open>
  The programs of the device: the services that \<^verbatim>\<open>backend/ioc/service.go\<close> starts in order, the
  endless loops behind them, and the main functions under \<^verbatim>\<open>backend/cmd\<close>. A server that is
  started serves until its listener fails; the call \<open>http.Serve\<close> stands for this whole
  time. The command line library is left out: a main function is what its command runs.
\<close>

section \<open>Services\<close>

definition cron_jobs :: "backend_conf \<Rightarrow> unit go list" where
  "cron_jobs b = [CertificateJob_Run (bc_sys b), ExternalAddressJob_Run (bc_sys b),
     BackupJob_Run \<lparr>backupDir = bc_backupDir b, varDir = bc_varDir b\<rparr>, TimeSyncJob_Run,
     SnapdUpgradeJob_Run (Channel (bc_sys b)), SnapshotsJob_Run]"

definition Cron_Start :: "unit go" where
  "Cron_Start = go_call ''cron''"

text \<open>The first \<open>n\<close> turns of the loop of the periodic jobs.\<close>

fun cron_rounds :: "nat \<Rightarrow> unit go list \<Rightarrow> unit go" where
  "cron_rounds 0 jobs = ret ()"
| "cron_rounds (Suc n) jobs =
     andThen (StartSingle jobs) (\<lambda>_. andThen (do_void (Sys ''sleep'' [''5m''])) (\<lambda>_. cron_rounds n jobs))"

definition listen_call :: "string \<Rightarrow> string \<Rightarrow> call" where
  "listen_call network address = Sys ''net.Listen'' [network, address]"

definition serve_call :: "string \<Rightarrow> call" where
  "serve_call address = Sys ''http.Serve'' [address]"

text \<open>The web backend listens, starts the worker of the job queue, builds its routes and serves.\<close>

definition Backend_router :: "backend_conf \<Rightarrow> string \<Rightarrow> string \<Rightarrow> route list go" where
  "Backend_router b network address =
     andThen (do_unit (listen_call network address)) (\<lambda>_.
     andThen (go_call ''worker'') (\<lambda>_.
     andThen (cfg Redirect_ApiUrl) (\<lambda>url.
     andThen (do_sys ''url.Parse'' [url]) (\<lambda>_. ret (backend_routes b url)))))"

definition Backend_Start :: "backend_conf \<Rightarrow> string \<Rightarrow> string \<Rightarrow> unit go" where
  "Backend_Start b network address = andThen (Backend_router b network address) (\<lambda>_. do_void (serve_call address))"

definition Api_router :: "backend_conf \<Rightarrow> string \<Rightarrow> string \<Rightarrow> route list go" where
  "Api_router b network address = andThen (do_unit (listen_call network address)) (\<lambda>_. ret (api_routes b))"

definition Api_Start :: "backend_conf \<Rightarrow> string \<Rightarrow> string \<Rightarrow> unit go" where
  "Api_Start b network address = andThen (Api_router b network address) (\<lambda>_. do_void (serve_call address))"

definition public_services :: "backend_conf \<Rightarrow> string \<Rightarrow> string \<Rightarrow> unit go list" where
  "public_services b network address =
     [Cron_Start, Backup_Start (bc_backupDir b), Cookies_Start, Backend_Start b network address, Display_Start]"

definition internal_services :: "backend_conf \<Rightarrow> string \<Rightarrow> string \<Rightarrow> unit go list" where
  "internal_services b network address = [Api_Start b network address]"

text \<open>The services one after the other, up to the first error.\<close>

definition ioc_Start :: "'c container \<Rightarrow> unit go list \<Rightarrow> 'c \<Rightarrow> unit go" where
  "ioc_Start lib services = c_Call lib [''[]Service''] (forEach services (\<lambda>service. service))"

section \<open>Main functions\<close>

definition backend_tcp :: "'c container \<Rightarrow> backend_conf \<Rightarrow> string \<Rightarrow> string \<Rightarrow> unit go" where
  "backend_tcp lib b systemConfig address = andThen (InitPublicApi lib systemConfig) (\<lambda>c.
     ioc_Start lib (public_services b ''tcp'' address) c)"

text \<open>On a Unix socket an old socket file is removed first, if there is one.\<close>

definition backend_unix :: "'c container \<Rightarrow> backend_conf \<Rightarrow> string \<Rightarrow> string \<Rightarrow> unit go" where
  "backend_unix lib b systemConfig address = andThen (attempt (do_sys ''remove'' [address])) (\<lambda>_.
     andThen (InitPublicApi lib systemConfig) (\<lambda>c. ioc_Start lib (public_services b ''unix'' address) c))"

definition DefaultSystemConfig :: string where
  "DefaultSystemConfig = ''/snap/platform/current/config/platform.cfg''"

definition api_unix :: "'c container \<Rightarrow> backend_conf \<Rightarrow> string \<Rightarrow> unit go" where
  "api_unix lib b address = andThen (attempt (do_sys ''remove'' [address])) (\<lambda>_.
     andThen (InitInternalApi lib DefaultSystemConfig) (\<lambda>c. ioc_Start lib (internal_services b ''unix'' address) c))"

text \<open>The hooks of snapd; a hook that fails ends with exit code 1.\<close>

definition hook_run :: "'c container \<Rightarrow> unit go \<Rightarrow> unit go" where
  "hook_run lib m = andThen (Init lib DefaultSystemConfig) (c_Call lib [''*hook.Install''] m)"

definition exit_code :: "unit go \<Rightarrow> int go" where
  "exit_code m = andThen (attempt m) (\<lambda>r. ret (case r of Inl _ \<Rightarrow> 1 | Inr _ \<Rightarrow> 0))"

definition install_main :: "'c container \<Rightarrow> sysconf \<Rightarrow> int go" where
  "install_main lib c = exit_code (hook_run lib (Install c))"

definition configure_main :: "'c container \<Rightarrow> sysconf \<Rightarrow> int go" where
  "configure_main lib c = exit_code (hook_run lib (Configure c))"

definition post_refresh_main :: "'c container \<Rightarrow> sysconf \<Rightarrow> int go" where
  "post_refresh_main lib c = exit_code (hook_run lib (PostRefresh c))"

text \<open>
  The login service listens on the socket of its first argument, if there is one; when its
  server returns, the process ends.
\<close>

definition login_main :: "string list \<Rightarrow> unit go" where
  "login_main args = (let socketPath = (if 1 < length args then args ! 1 else ''/var/snap/platform/current/login.sock'') in
     andThen (attempt (do_sys ''remove'' [socketPath])) (\<lambda>_.
     andThen (attempt (do_unit (listen_call ''unix'' socketPath))) (\<lambda>r. case r of
       Inl _ \<Rightarrow> crash ''log.Fatal''
     | Inr _ \<Rightarrow> andThen (do_void (serve_call socketPath)) (\<lambda>_. crash ''log.Fatal''))))"

text \<open>The first \<open>n\<close> turns of the loop of the memory guard; an error of a turn is logged.\<close>

fun watcher_rounds :: "nat \<Rightarrow> watcher \<Rightarrow> unit go" where
  "watcher_rounds 0 t = ret ()"
| "watcher_rounds (Suc n) t =
     andThen (do_void (Sys ''ticker'' [''2s''])) (\<lambda>_. andThen (attempt (tick t)) (\<lambda>_. watcher_rounds n t))"

definition events_path :: string where
  "events_path = path_join [hook_DataDir, ''stability-events.jsonl'']"

definition stability_main :: "nat \<Rightarrow> 64 word \<Rightarrow> watcher \<Rightarrow> unit go" where
  "stability_main n pageSize t =
     andThen (MigrateEventLog (path_join [hook_CommonDir, ''stability-events.jsonl'']) events_path) (\<lambda>_.
     andThen (attempt (EnsureConfigured pageSize events_path)) (\<lambda>_.
       watcher_rounds n (t\<lparr>wt_events := events_path\<rparr>)))"

section \<open>The web backend serves when it is ready\<close>

lemma go_call_run: "go_call f w = (Ok (), record_call (Sys ''go'' [f]) w)"
  by (simp add: go_call_def do_void_def)

definition backup_dir_calls :: "string \<Rightarrow> call list list" where
  "backup_dir_calls dir = [[Sys ''stat'' [dir]], [Sys ''stat'' [dir], Sys ''mkdirall'' [dir]]]"

lemma Backup_Start_run:
  assumes "Backup_Start dir w = (r, w')"
  shows "\<exists>bk\<in>set (backup_dir_calls dir). w' = w\<lparr>w_hist := w_hist w @ bk\<rparr> \<and> (r = Ok () \<or> (\<exists>e. r = Err e))"
  using assms
  by (auto simp: Backup_Start_def backup_dir_calls_def do_sys_def do_unit_def attempt_def andThen_def record_call_def
      split: option.splits if_splits)

definition web_key :: "database \<Rightarrow> string" where
  "web_key d = view_str d ''platform.web_secret_key'' ''default''"

lemma Cookies_Start_run: "db_ready (w_db w) \<Longrightarrow> Cookies_Start w = (Ok (), w\<lparr>cookies_key := Some (web_key (w_db w))\<rparr>)"
  by (simp add: Cookies_Start_def Cookies_Reset_def GetWebSecretKey_def web_key_def cfg_def zoom_def io_simps)

text \<open>The calls of the backend up to the one that serves.\<close>

definition server_calls :: "string \<Rightarrow> string \<Rightarrow> string \<Rightarrow> call list" where
  "server_calls network address url =
     [listen_call network address, Sys ''go'' [''worker''], Sys ''url.Parse'' [url], serve_call address]"

lemma Backend_Start_run:
  assumes "db_ready (w_db w)" "Backend_Start b network address w = (r, w')"
  shows "\<exists>cs. w' = w\<lparr>w_hist := w_hist w @ cs\<rparr> \<and> (if r = Ok () then cs = server_calls network address (api_url (w_db w))
     else (\<exists>e. r = Err e) \<and> prefix cs (butlast (server_calls network address (api_url (w_db w)))))"
proof -
  have url: "cfg Redirect_ApiUrl v = (Ok (api_url (w_db w)), v)" if "w_db v = w_db w" for v
    using cfg_ApiUrl [of v] assms(1) that by simp
  show ?thesis
    using assms(2)
    by (auto simp: Backend_Start_def Backend_router_def server_calls_def do_sys_def do_unit_def do_void_def go_call_run
        andThen_def record_call_def url split: option.splits)
qed

definition display_call :: "call \<Rightarrow> bool" where
  "display_call c \<longleftrightarrow> c \<in> {Sys ''host.Init'' [], Sys ''i2creg.Open'' [''''], Sys ''i2c.Close'' [], Sys ''go'' [''lcd.run'']}"

lemma Display_Start_run:
  "\<exists>ds. Display_Start w = (Ok (), w\<lparr>w_hist := w_hist w @ ds\<rparr>) \<and> list_all display_call ds"
  by (auto simp: Display_Start_def Display_isAvailable_def do_sys_def do_unit_def attempt_def andThen_def record_call_def go_call_run
      display_call_def split: option.splits)

text \<open>
  The five services in a row, on a database that is ready: \<open>served\<close> says that the server ran with
  its sessions, and that the display came after it.
\<close>

definition served :: "call list \<Rightarrow> string option \<Rightarrow> unit res \<Rightarrow> call list \<Rightarrow> world \<Rightarrow> bool" where
  "served plan key r cs w' \<longleftrightarrow> (if r = Ok () then \<exists>ds. cs = plan @ ds \<and> list_all display_call ds \<and> cookies_key w' = key
     else (\<exists>e. r = Err e) \<and> prefix cs (butlast plan))"

lemma public_services_run:
  assumes "db_ready (w_db w)" "forEach (public_services b network address) (\<lambda>service. service) w = (r, w')"
  shows "\<exists>bk\<in>set (backup_dir_calls (bc_backupDir b)). \<exists>cs. w_db w' = w_db w \<and> w_hist w' = w_hist w @ cs
     \<and> served (Sys ''go'' [''cron''] # bk @ server_calls network address (api_url (w_db w))) (Some (web_key (w_db w))) r cs w'"
proof -
  let ?w0 = "record_call (Sys ''go'' [''cron'']) w" and ?url = "api_url (w_db w)"
  obtain r1 w1 where b1: "Backup_Start (bc_backupDir b) ?w0 = (r1, w1)" by fastforce
  obtain bk where bk: "bk \<in> set (backup_dir_calls (bc_backupDir b))" "w1 = ?w0\<lparr>w_hist := w_hist ?w0 @ bk\<rparr>"
    "r1 = Ok () \<or> (\<exists>e. r1 = Err e)"
    using Backup_Start_run [OF b1] by blast
  show ?thesis
  proof (cases "r1 = Ok ()")
    case False
    then have "r = r1" "w' = w1" using bk(3) b1 assms(2) by (auto simp: public_services_def Cron_Start_def go_call_run)
    then show ?thesis using bk False
      by (auto simp: served_def server_calls_def butlast_append intro!: bexI [OF _ bk(1)])
  next
    case True
    define w2 where "w2 = w1\<lparr>cookies_key := Some (web_key (w_db w))\<rparr>"
    have w2: "w_db w2 = w_db w" "cookies_key w2 = Some (web_key (w_db w))" "w_hist w2 = w_hist w @ Sys ''go'' [''cron''] # bk"
      using bk(2) by (auto simp: w2_def)
    have c: "Cookies_Start w1 = (Ok (), w2)" using Cookies_Start_run [of w1] assms(1) bk(2) by (simp add: w2_def)
    obtain r3 w3 where b3: "Backend_Start b network address w2 = (r3, w3)" by fastforce
    obtain cs where cs: "w3 = w2\<lparr>w_hist := w_hist w2 @ cs\<rparr>" "if r3 = Ok () then cs = server_calls network address ?url
       else (\<exists>e. r3 = Err e) \<and> prefix cs (butlast (server_calls network address ?url))"
      using Backend_Start_run [OF _ b3, unfolded w2(1)] assms(1) by blast
    obtain ds where ds: "Display_Start w3 = (Ok (), w3\<lparr>w_hist := w_hist w3 @ ds\<rparr>)" "list_all display_call ds"
      using Display_Start_run by blast
    have run: "(if r3 = Ok () then (Ok (), w3\<lparr>w_hist := w_hist w3 @ ds\<rparr>) else (r3, w3)) = (r, w')"
      using assms(2) b1 True c b3 ds(1) cs(2)
      by (auto simp: public_services_def Cron_Start_def go_call_run split: if_splits)
    have "prefix as (butlast bs) \<Longrightarrow> bs \<noteq> [] \<Longrightarrow> prefix (d # bk @ as) (butlast (d # bk @ bs))" for as bs and d :: call
      by (auto simp: butlast_append)
    then show ?thesis using run cs w2 ds(2) bk(1)
      by (intro bexI [OF _ bk(1)] exI [of _ "Sys ''go'' [''cron''] # bk @ cs @ (if r3 = Ok () then ds else [])"])
        (auto simp: served_def server_calls_def split: if_splits)
  qed
qed

lemma current_schema_ready: "current_schema d \<Longrightarrow> db_ready d"
  by (auto simp: current_schema_def db_ready_def)

lemma fresh_memory_sel [simp]: "w_db (fresh_memory w) = w_db w" "w_hist (fresh_memory w) = w_hist w" "w_env (fresh_memory w) = w_env w"
  by (simp_all add: fresh_memory_def)

lemma container_calls: "container_works lib bound \<Longrightarrow> \<forall>p\<in>set params. (p, []) \<in> bound c \<Longrightarrow> c_Call lib params f c w = f w"
  by (simp add: container_works_def)

text \<open>Setting up and then calling a component that is there.\<close>

lemma setup_then_call:
  assumes "container_works lib bound" "rs \<in> {[], public_resolvers, internal_resolvers}"
    and "init = bind_all lib (common_resolvers conf @ rs) (c_New lib)" "(t, []) \<in> api_keys rs"
    and "db_up (w_db w)" "e_unit (w_env w) (w_hist w) (load_call conf) = None"
  shows "\<exists>d. current_schema d \<and> db_view d = db_view (w_db w)
     \<and> andThen init (c_Call lib [t] m) w = m (fresh_memory (w\<lparr>w_db := d, w_hist := w_hist w @ [load_call conf]\<rparr>))"
proof -
  obtain d c where d: "current_schema d" "db_view d = db_view (w_db w)"
    "init w = (Ok c, fresh_memory (w\<lparr>w_db := d, w_hist := w_hist w @ [load_call conf]\<rparr>))" "bound c = api_keys rs"
    using setup_outcome [OF assms(1-3), of w] assms(5,6) by (auto simp: Let_def)
  moreover have "c_Call lib [t] m c v = m v" for v
    using container_calls [OF assms(1), of "[t]" c m v] d(4) assms(4) by simp
  ultimately show ?thesis by (intro exI [of _ d]) (simp add: andThen_def)
qed

lemma service_keys:
  "(''[]Service'', []) \<in> api_keys public_resolvers" "(''[]Service'', []) \<in> api_keys internal_resolvers"
  "(''*hook.Install'', []) \<in> api_keys []"
  by (simp_all add: api_keys_def common_resolvers_def public_resolvers_def internal_resolvers_def web_resolvers_def resolver_defs image_Un)




section \<open>Hooks and commands\<close>

text \<open>
  A hook runs on components that are all there, after the database was migrated, and its
  program ends with 0 exactly when the hook returns without an error.
\<close>

lemma hook_exit_code:
  assumes "container_works lib bound" "db_up (w_db w)" "e_unit (w_env w) (w_hist w) (load_call DefaultSystemConfig) = None"
  shows "\<exists>d. current_schema d \<and> db_view d = db_view (w_db w)
     \<and> (let (r, w') = m (fresh_memory (w\<lparr>w_db := d, w_hist := w_hist w @ [load_call DefaultSystemConfig]\<rparr>)) in
        exit_code (hook_run lib m) w = (case r of Ok _ \<Rightarrow> (Ok 0, w') | Err _ \<Rightarrow> (Ok 1, w') | Crash p \<Rightarrow> (Crash p, w')))"
proof -
  obtain d where d: "current_schema d" "db_view d = db_view (w_db w)"
    "hook_run lib m w = m (fresh_memory (w\<lparr>w_db := d, w_hist := w_hist w @ [load_call DefaultSystemConfig]\<rparr>))"
    using setup_then_call [OF assms(1) _ api_inits(1) service_keys(3) assms(2,3), where m = m] by (auto simp: hook_run_def)
  then show ?thesis
    by (intro exI [of _ d]) (auto simp: exit_code_def attempt_def andThen_def split: prod.splits res.splits)
qed

section \<open>Loops\<close>

text \<open>
  The loop of the periodic jobs never ends by itself: whatever its jobs answer, each turn
  returns, as long as no job panics and the jobs leave the settings in place.
\<close>

lemma cron_keeps_running:
  assumes "\<forall>j\<in>set jobs. safe j \<and> (\<forall>v. db_ready (w_db v) \<longrightarrow> db_ready (w_db (snd (j v))))" "db_ready (w_db w)"
  shows "\<exists>w'. cron_rounds n jobs w = (Ok (), w') \<and> db_ready (w_db w')"
  using assms(2)
proof (induction n arbitrary: w)
  case (Suc n)
  obtain active where active: "cfg IsActivated w = (Ok active, w)"
    using Suc.prems by (simp add: cfg_def zoom_def IsActivated_def io_simps)
  have "db_ready (w_db v) \<Longrightarrow> db_ready (w_db (fold (\<lambda>j w. snd (j w)) jobs v))" for v
    using assms(1) by (induction jobs arbitrary: v) auto
  then obtain w1 where w1: "StartSingle jobs w = (Ok (), w1)" "db_ready (w_db w1)"
    using cron_runs_all_jobs [OF active] assms(1) Suc.prems by auto
  from Suc.IH [of "record_call (Sys ''sleep'' [''5m'']) w1"] w1(2) show ?case
    by (simp add: w1(1) do_void_def)
qed simp

lemma signals_ends_only:
  assumes "ends_only e h pid cs" "c \<in> set cs" "signal_of c = Some (p, sig)"
  shows "p = Itoa pid"
proof -
  have "set (polls pid k) \<subseteq> {probe pid, Sys ''sleep'' [''200ms'']}" for k by (auto simp: polls_def)
  then have "signal_of x = None \<or> signal_of x = Some (Itoa pid, ''0'')" if "x \<in> set (polls pid k)" for x k
    using that by (fastforce simp: probe_def signal_of_def)
  moreover have "list_all (\<lambda>c. signal_of c = None) a \<Longrightarrow> x \<in> set a \<Longrightarrow> signal_of x = None" for a x
    by (auto simp: list_all_iff)
  ultimately show ?thesis
    using assms unfolding ends_only_def Let_def probe_def
    by (fastforce simp: signal_of_def)
qed

lemma keeps_tick: "keeps only_calls (tick t)"
proof -
  have any: "keeps silent m \<Longrightarrow> keeps only_calls m" for m :: "'a go" by (rule keeps_within_mono) simp_all
  have clock: "keeps only_calls Now_ns" using reflpD [OF reflp_within] by (auto simp: keeps_def Now_ns_def)
  have wait: "keeps only_calls (wait_gone n d p)" for n d p
    by (induction n) (simp_all only: wait_gone.simps, auto simp: kill_def split: sum.splits intro!: keeps_intros clock
        simp del: ret_apply crash_apply throw_apply)
  show ?thesis
    unfolding tick_def killWorst_def kill_victim_def kill_def Let_def
    by (auto intro!: keeps_intros clock any [OF keeps_Append] any [OF keeps_Mem_Snapshot] any [OF keeps_psi_value] any [OF keeps_Candidates] wait
        split: sum.splits list.splits simp del: ret_apply throw_apply)
qed

text \<open>
  The memory guard keeps running, whatever its rounds and the set-up of the swap answer, and
  in all its rounds together it sends signals only to processes that may be ended.
\<close>

definition only_eligible :: "watcher \<Rightarrow> call list \<Rightarrow> bool" where
  "only_eligible t cs \<longleftrightarrow> (\<forall>c\<in>set cs. \<forall>p sig. signal_of c = Some (p, sig) \<longrightarrow> (\<exists>v. eligible t v \<and> p = Itoa (v_PID v)))"

lemma watcher_keeps_running:
  assumes "clock_runs (w_env w)" "sorts (wt_sort t)"
  shows "\<exists>w' cs. watcher_rounds n t w = (Ok (), w') \<and> w_hist w' = w_hist w @ cs \<and> only_eligible t cs"
  using assms(1)
proof (induction n arbitrary: w)
  case 0
  show ?case by (auto simp: only_eligible_def)
next
  case (Suc n)
  let ?tick = "Sys ''ticker'' [''2s'']" and ?w0 = "record_call (Sys ''ticker'' [''2s'']) w"
  obtain r w1 where t: "tick t ?w0 = (r, w1)" by fastforce
  have env: "w_env w1 = w_env w" using keepsD [OF keeps_tick t] by (auto simp: only_calls_def)
  obtain cs where cs: "\<forall>p. r \<noteq> Crash p" "w_hist w1 = w_hist ?w0 @ cs"
    "list_all (\<lambda>c. signal_of c = None) cs \<or> (\<exists>v. eligible t v \<and> ends_only (w_env ?w0) (w_hist ?w0) (v_PID v) cs)"
    using tick_trace [OF _ assms(2) t] Suc.prems by auto
  have "only_eligible t cs"
    using cs(3) signals_ends_only by (auto simp: only_eligible_def list_all_iff)
  moreover obtain w' ds where ds: "watcher_rounds n t w1 = (Ok (), w')" "w_hist w' = w_hist w1 @ ds" "only_eligible t ds"
    using Suc.IH [of w1] Suc.prems env by auto
  moreover have "watcher_rounds (Suc n) t w = (Ok (), w')"
    using cs(1) t ds(1) by (cases r) (auto simp: do_void_def attempt_def andThen_def)
  ultimately show ?case using cs(2)
    by (intro exI [of _ w'] exI [of _ "?tick # cs @ ds"]) (auto simp: only_eligible_def)
qed


lemma zram_returns:
  "keeps silent (EnsureConfigured pageSize events)" "safe (EnsureConfigured pageSize events)"
proof -
  have signal_exec: "signal_of (Exec cmd as) = None" for cmd as by (simp add: signal_of_def)
  note defs = EnsureConfigured_def disable_logged_def disableFileSwaps_def alreadyOn_def ensureDevice_def exists_path_def
    loadModule_def configureSysfs_def disksize_call_def mkswapInPlace_def deviceSize_def write_at_def swapon_def swapoff_def Let_def
  show "keeps silent (EnsureConfigured pageSize events)"
    unfolding defs
    by (auto simp: signal_exec intro!: keeps_intros keeps_Append keeps_Mem_Snapshot split: prod.splits option.splits sum.splits
        simp del: ret_apply throw_apply)
  show "safe (EnsureConfigured pageSize events)"
    unfolding defs
    by (auto intro!: safe_intros safe_observations split: prod.splits option.splits sum.splits simp del: ret_apply throw_apply)
qed

lemma migrate_log_returns: "\<exists>w' as. MigrateEventLog old new w = (Ok (), w') \<and> w' = w\<lparr>w_hist := w_hist w @ as\<rparr>
    \<and> list_all (\<lambda>c. signal_of c = None) as"
  by (auto simp: MigrateEventLog_def do_sys_def do_unit_def attempt_def andThen_def record_call_def split: option.splits)

text \<open>
  The program of the memory guard never ends by itself, whatever the swap set-up and its
  rounds answer, and it signals only processes that may be ended.
\<close>

lemma stability_keeps_running:
  assumes "clock_runs (w_env w)" "sorts (wt_sort t)"
  shows "\<exists>w' cs. stability_main n pageSize t w = (Ok (), w') \<and> w_hist w' = w_hist w @ cs \<and> only_eligible t cs"
proof -
  let ?t = "t\<lparr>wt_events := events_path\<rparr>"
  obtain w1 as where w1: "MigrateEventLog (path_join [hook_CommonDir, ''stability-events.jsonl'']) events_path w = (Ok (), w1)"
    "w1 = w\<lparr>w_hist := w_hist w @ as\<rparr>" "list_all (\<lambda>c. signal_of c = None) as"
    using migrate_log_returns by blast
  obtain r w2 where z: "EnsureConfigured pageSize events_path w1 = (r, w2)" by fastforce
  obtain bs where bs: "w2 = w1\<lparr>w_hist := w_hist w1 @ bs\<rparr>" "list_all (\<lambda>c. signal_of c = None) bs"
    using silent_calls [OF zram_returns(1) z] by blast
  have "r \<noteq> Crash p" for p using safeD [OF zram_returns(2)] z by blast
  then obtain x where "attempt (EnsureConfigured pageSize events_path) w1 = (Ok x, w2)"
    using z by (cases r) (auto simp: attempt_def)
  moreover obtain w' cs where cs: "watcher_rounds n ?t w2 = (Ok (), w')" "w_hist w' = w_hist w2 @ cs" "only_eligible ?t cs"
    using watcher_keeps_running [of w2 ?t n] assms w1(2) bs(1) by auto
  ultimately have "stability_main n pageSize t w = (Ok (), w')" using w1(1) by (simp add: stability_main_def)
  moreover have "only_eligible t (as @ bs @ cs)"
    using cs(3) w1(3) bs(2) by (fastforce simp: only_eligible_def list_all_iff eligible_def)
  ultimately show ?thesis using cs(2) w1(2) bs(1) by auto
qed

lemma stability_keeps_running_example:
  "\<exists>w' cs. stability_main 2 4096 guard_sample (start_world guard_env) = (Ok (), w') \<and> w_hist w' = cs \<and> only_eligible guard_sample cs"
  using stability_keeps_running [of "start_world guard_env" guard_sample 2 4096]
  by (auto simp: clock_runs_def clock_def guard_env_def guard_sample_def sorts_by_score)


section \<open>The worker\<close>

text \<open>
  \<^verbatim>\<open>Worker.Do\<close> on the queue of the world: while the job runs, the queue is busy with it. An
  error of the job or of \<open>Complete\<close> is logged; a panic ends the program.
\<close>

definition Worker_Do :: "backend_conf \<Rightarrow> bool go" where
  "Worker_Do b = (\<lambda>w. case Take (w_jobs w) of
     (None, m) \<Rightarrow> (Ok False, w\<lparr>w_jobs := m\<rparr>)
   | (Some j, m) \<Rightarrow> (case run_closure b j (w\<lparr>w_jobs := m\<rparr>) of
       (Crash p, w1) \<Rightarrow> (Crash p, w1)
     | (_, w1) \<Rightarrow> (Ok True, w1\<lparr>w_jobs := snd (Complete (w_jobs w1))\<rparr>)))"

text \<open>The first \<open>n\<close> turns of its loop.\<close>

fun worker_rounds :: "nat \<Rightarrow> backend_conf \<Rightarrow> unit go" where
  "worker_rounds 0 b = ret ()"
| "worker_rounds (Suc n) b = andThen (Worker_Do b) (\<lambda>did.
     andThen (if did then ret () else do_void (Sys ''sleep'' [''1s''])) (\<lambda>_. worker_rounds n b))"

text \<open>No job touches the queue.\<close>

definition same_jobs :: "world \<Rightarrow> world \<Rightarrow> bool" where
  "same_jobs w w' \<longleftrightarrow> w_jobs w' = w_jobs w"

lemma same_jobs_rel [keeps_intros]: "reflp same_jobs" "transp same_jobs"
  by (auto simp: same_jobs_def reflp_def transp_def)

lemma calls_same_jobs: "keeps (within P) m \<Longrightarrow> keeps same_jobs m"
  by (auto simp: keeps_def within_def same_jobs_def) fastforce

lemma emits_same_jobs: "emits ev m plan \<Longrightarrow> keeps same_jobs m"
  by (auto simp: keeps_def emits_def same_jobs_def) fastforce

lemma same_jobs_backup: "keeps same_jobs (Backup_Create bd vd app)" "keeps same_jobs (Backup_Restore bd vd fn)"
proof -
  have cli: "keeps only_calls (Cli_Stop app)" "keeps only_calls (Cli_Start app)" for app
    unfolding Cli_Stop_def Cli_Start_def by (intro keeps_Cli_run TrueI)+
  have dir: "keeps only_calls (restore_dir s d app)" for s d app
    unfolding restore_dir_def recreateDir_def backup_chown_def
    by (auto split: prod.splits sum.splits intro!: keeps_intros simp del: ret_apply throw_apply)
  have "keeps only_calls (Backup_Create bd vd app)"
    unfolding Backup_Create_def Let_def
    by (auto split: option.splits intro!: keeps_intros cli simp del: ret_apply throw_apply)
  moreover have "keeps only_calls (Backup_Restore bd vd fn)"
    unfolding Backup_Restore_def Let_def
    by (auto split: option.splits sum.splits intro!: keeps_intros cli dir simp del: ret_apply throw_apply)
  ultimately show "keeps same_jobs (Backup_Create bd vd app)" "keeps same_jobs (Backup_Restore bd vd fn)"
    by (blast intro: calls_same_jobs)+
qed

lemma same_jobs_disks: "keeps same_jobs (ActivateDisks c ds f)" "keeps same_jobs (ActivatePartition c d)"
proof -
  have "keeps same_jobs (modify (\<lambda>w. w\<lparr>disks_lastError := x\<rparr>))" for x
    by (simp add: keeps_def same_jobs_def)
  then show "keeps same_jobs (ActivateDisks c ds f)"
    unfolding ActivateDisks_def
    by (auto intro!: keeps_intros emits_same_jobs [OF emits_activateDisks] split: sum.splits simp del: ret_apply throw_apply modify_apply)
  have "keeps only_calls (AllDisks c)"
    unfolding AllDisks_def parseLsblkOutput_def by (intro keeps_intros keeps_parse_lines TrueI)
  then have "keeps only_calls (FindPartitionByDevice c d)"
    unfolding FindPartitionByDevice_def
    by (auto split: option.splits intro!: keeps_intros simp del: ret_apply throw_apply)
  then show "keeps same_jobs (ActivatePartition c d)"
    unfolding ActivatePartition_def
    by (auto intro!: keeps_intros emits_same_jobs [OF emits_Deactivate] emits_same_jobs [OF emits_activateCommon]
        calls_same_jobs [OF keeps_AddMount] dest: calls_same_jobs simp del: throw_apply)
qed

lemma same_jobs_upgrade: "keeps same_jobs (Snapd_Upgrade arch v)"
proof -
  have script: "keeps same_jobs (run_cmd upgrade_script_cmd [])" by (rule emits_same_jobs [of "\<lambda>_. None"])
      (auto simp: emits_def dest!: run_script_calls simp: record_call_def List.map_filter_simps)
  have "keeps same_jobs (verify (TrimSpace v))"
  proof (rule keepsI)
    fix w r w' assume "verify (TrimSpace v) w = (r, w')"
    then obtain ds where "w' = w\<lparr>w_hist := w_hist w @ ds\<rparr>" by (rule verify_calls)
    then show "same_jobs w w'" by (simp add: same_jobs_def)
  qed
  then show ?thesis
    unfolding Snapd_Upgrade_split by (intro keeps_intros script calls_same_jobs [OF keeps_upgrade_prep])
qed

lemma same_jobs_closure: "keeps same_jobs (run_closure b j)"
proof -
  have "keeps only_calls (shutdown_task args)" for args
    unfolding shutdown_task_def by (intro keeps_intros TrueI)
  then show ?thesis
    unfolding run_closure_def
    by (auto intro: same_jobs_backup same_jobs_disks same_jobs_upgrade calls_same_jobs [OF only_calls_boot] calls_same_jobs
        split: closure.splits)
qed

text \<open>
  A job that a handler has offered is the one that the next turn of the worker runs, and
  whether it fails or not, the queue is free again afterwards for the next offer.
\<close>

lemma offered_job_runs:
  assumes "offer_job name j w = (Ok (), w1)" "run_closure b j (w1\<lparr>w_jobs := (w_jobs w1)\<lparr>m_status := Busy\<rparr>\<rparr>) = (r, w2)"
    and "\<forall>p. r \<noteq> Crash p"
  shows "Worker_Do b w1 = (Ok True, w2\<lparr>w_jobs := NewMaster\<rparr>) \<and> fst (offer_job next k (snd (Worker_Do b w1))) = Ok ()"
proof -
  have w1: "w_jobs w1 = (w_jobs w)\<lparr>m_status := Waiting, m_job := Some j, m_name := name\<rparr>"
    using assms(1) by (auto simp: offer_job_def zoom_def Offer_def split: if_splits)
  have "w_jobs w2 = (w_jobs w1)\<lparr>m_status := Busy\<rparr>"
    using keepsD [OF same_jobs_closure assms(2)] by (simp add: same_jobs_def)
  then have "snd (Complete (w_jobs w2)) = NewMaster" by (simp add: w1 Complete_def NewMaster_def)
  then have "Worker_Do b w1 = (Ok True, w2\<lparr>w_jobs := NewMaster\<rparr>)"
    using assms(2,3) by (cases r) (auto simp: Worker_Do_def Take_def w1)
  then show ?thesis by (simp add: offer_job_def zoom_def Offer_def NewMaster_def)
qed

end
