(* ===== verification/Settings_Typing.thy ===== *)
theory Settings_Typing
  imports User_Config
begin

text \<open>
  The operations of the user settings (\<^verbatim>\<open>backend/config/user_config.go\<close>) as a language: each
  operation with its arguments, the type of its result, and its run on the database. A
  database that has its settings table is well-formed; the theory shows that no sequence of
  operations leaves the well-formed databases, fails or ends the process, and that every
  result has its type - for numbers, that they are in the range of the Go type, whatever text
  is stored.
\<close>

datatype (plugins only: code) setting_op =
    Op_IsIpv4Enabled
  | Op_SetIpv4Enabled bool
  | Op_IsIpv4Public
  | Op_SetIpv4Public bool
  | Op_IsIpv6Enabled
  | Op_SetIpv6Enabled bool
  | Op_IsRelayEnabled
  | Op_SetRelayEnabled bool
  | Op_IsMailRelayEnabled
  | Op_SetMailRelayEnabled bool
  | Op_IsRedirectEnabled
  | Op_SetRedirectEnabled bool
  | Op_IsTwoFactorEnabled
  | Op_SetTwoFactorEnabled bool
  | Op_IsActivated
  | Op_SetActivated
  | Op_SetDeactivated
  | Op_IsCertbotStaging
  | Op_SetWebSecretKey string
  | Op_GetWebSecretKey
  | Op_SetDomain string
  | Op_UpdateDomainToken string
  | Op_GetDomainUpdateToken
  | Op_GetDkimKey
  | Op_SetDkimKey "string option"
  | Op_GetMailInboundSocket
  | Op_SetMailInboundSocket "string option"
  | Op_SetPublicIp "string option"
  | Op_GetPublicIp
  | Op_SetPublicPort "int option"
  | Op_GetPublicPort
  | Op_GetCustomDomain
  | Op_SetCustomDomain string
  | Op_GetTimezone
  | Op_SetTimezone string
  | Op_GetBackupAuto
  | Op_SetBackupAuto string
  | Op_GetBackupAutoDay
  | Op_SetBackupAutoDay int
  | Op_GetBackupAutoHour
  | Op_SetBackupAutoHour int
  | Op_GetBackupAppTime string string
  | Op_SetBackupAppTime string string int
  | Op_GetDeviceDomain
  | Op_DeviceUrl
  | Op_AppDomain string
  | Op_Url string

datatype setting_type = T_Unit | T_Bool | T_String | T_StringPtr | T_Int | T_IntPtr | T_Time

datatype setting_value =
    V_Unit
  | V_Bool bool
  | V_String string
  | V_StringPtr "string option"
  | V_Int int
  | V_IntPtr "int option"
  | V_Time int

text \<open>An \<^verbatim>\<open>int\<close> has 64 bits; a stored time is in 32 bits, or there is none.\<close>

fun has_type :: "setting_value \<Rightarrow> setting_type \<Rightarrow> bool" where
  "has_type V_Unit T_Unit = True"
| "has_type (V_Bool _) T_Bool = True"
| "has_type (V_String _) T_String = True"
| "has_type (V_StringPtr _) T_StringPtr = True"
| "has_type (V_Int i) T_Int = in_bits 64 i"
| "has_type (V_IntPtr i) T_IntPtr = (case i of None \<Rightarrow> True | Some n \<Rightarrow> in_bits 64 n)"
| "has_type (V_Time t) T_Time = (t = zero_time \<or> in_bits 32 t)"
| "has_type _ _ = False"

primrec result_type :: "setting_op \<Rightarrow> setting_type" where
  "result_type Op_IsIpv4Enabled = T_Bool"
| "result_type (Op_SetIpv4Enabled a) = T_Unit"
| "result_type Op_IsIpv4Public = T_Bool"
| "result_type (Op_SetIpv4Public a) = T_Unit"
| "result_type Op_IsIpv6Enabled = T_Bool"
| "result_type (Op_SetIpv6Enabled a) = T_Unit"
| "result_type Op_IsRelayEnabled = T_Bool"
| "result_type (Op_SetRelayEnabled a) = T_Unit"
| "result_type Op_IsMailRelayEnabled = T_Bool"
| "result_type (Op_SetMailRelayEnabled a) = T_Unit"
| "result_type Op_IsRedirectEnabled = T_Bool"
| "result_type (Op_SetRedirectEnabled a) = T_Unit"
| "result_type Op_IsTwoFactorEnabled = T_Bool"
| "result_type (Op_SetTwoFactorEnabled a) = T_Unit"
| "result_type Op_IsActivated = T_Bool"
| "result_type Op_SetActivated = T_Unit"
| "result_type Op_SetDeactivated = T_Unit"
| "result_type Op_IsCertbotStaging = T_Bool"
| "result_type (Op_SetWebSecretKey a) = T_Unit"
| "result_type Op_GetWebSecretKey = T_String"
| "result_type (Op_SetDomain a) = T_Unit"
| "result_type (Op_UpdateDomainToken a) = T_Unit"
| "result_type Op_GetDomainUpdateToken = T_StringPtr"
| "result_type Op_GetDkimKey = T_StringPtr"
| "result_type (Op_SetDkimKey a) = T_Unit"
| "result_type Op_GetMailInboundSocket = T_StringPtr"
| "result_type (Op_SetMailInboundSocket a) = T_Unit"
| "result_type (Op_SetPublicIp a) = T_Unit"
| "result_type Op_GetPublicIp = T_StringPtr"
| "result_type (Op_SetPublicPort a) = T_Unit"
| "result_type Op_GetPublicPort = T_IntPtr"
| "result_type Op_GetCustomDomain = T_StringPtr"
| "result_type (Op_SetCustomDomain a) = T_Unit"
| "result_type Op_GetTimezone = T_String"
| "result_type (Op_SetTimezone a) = T_Unit"
| "result_type Op_GetBackupAuto = T_String"
| "result_type (Op_SetBackupAuto a) = T_Unit"
| "result_type Op_GetBackupAutoDay = T_Int"
| "result_type (Op_SetBackupAutoDay a) = T_Unit"
| "result_type Op_GetBackupAutoHour = T_Int"
| "result_type (Op_SetBackupAutoHour a) = T_Unit"
| "result_type (Op_GetBackupAppTime a b) = T_Time"
| "result_type (Op_SetBackupAppTime a b e) = T_Unit"
| "result_type Op_GetDeviceDomain = T_String"
| "result_type Op_DeviceUrl = T_String"
| "result_type (Op_AppDomain a) = T_String"
| "result_type (Op_Url a) = T_String"

definition as_value :: "('a \<Rightarrow> setting_value) \<Rightarrow> 'a cfg \<Rightarrow> setting_value cfg" where
  "as_value f m = andThen m (\<lambda>a. ret (f a))"

primrec run_setting :: "setting_op \<Rightarrow> setting_value cfg" where
  "run_setting Op_IsIpv4Enabled = as_value V_Bool IsIpv4Enabled"
| "run_setting (Op_SetIpv4Enabled a) = as_value (\<lambda>_. V_Unit) (SetIpv4Enabled a)"
| "run_setting Op_IsIpv4Public = as_value V_Bool IsIpv4Public"
| "run_setting (Op_SetIpv4Public a) = as_value (\<lambda>_. V_Unit) (SetIpv4Public a)"
| "run_setting Op_IsIpv6Enabled = as_value V_Bool IsIpv6Enabled"
| "run_setting (Op_SetIpv6Enabled a) = as_value (\<lambda>_. V_Unit) (SetIpv6Enabled a)"
| "run_setting Op_IsRelayEnabled = as_value V_Bool IsRelayEnabled"
| "run_setting (Op_SetRelayEnabled a) = as_value (\<lambda>_. V_Unit) (SetRelayEnabled a)"
| "run_setting Op_IsMailRelayEnabled = as_value V_Bool IsMailRelayEnabled"
| "run_setting (Op_SetMailRelayEnabled a) = as_value (\<lambda>_. V_Unit) (SetMailRelayEnabled a)"
| "run_setting Op_IsRedirectEnabled = as_value V_Bool IsRedirectEnabled"
| "run_setting (Op_SetRedirectEnabled a) = as_value (\<lambda>_. V_Unit) (SetRedirectEnabled a)"
| "run_setting Op_IsTwoFactorEnabled = as_value V_Bool IsTwoFactorEnabled"
| "run_setting (Op_SetTwoFactorEnabled a) = as_value (\<lambda>_. V_Unit) (SetTwoFactorEnabled a)"
| "run_setting Op_IsActivated = as_value V_Bool IsActivated"
| "run_setting Op_SetActivated = as_value (\<lambda>_. V_Unit) SetActivated"
| "run_setting Op_SetDeactivated = as_value (\<lambda>_. V_Unit) SetDeactivated"
| "run_setting Op_IsCertbotStaging = as_value V_Bool IsCertbotStaging"
| "run_setting (Op_SetWebSecretKey a) = as_value (\<lambda>_. V_Unit) (SetWebSecretKey a)"
| "run_setting Op_GetWebSecretKey = as_value V_String GetWebSecretKey"
| "run_setting (Op_SetDomain a) = as_value (\<lambda>_. V_Unit) (SetDomain a)"
| "run_setting (Op_UpdateDomainToken a) = as_value (\<lambda>_. V_Unit) (UpdateDomainToken a)"
| "run_setting Op_GetDomainUpdateToken = as_value V_StringPtr GetDomainUpdateToken"
| "run_setting Op_GetDkimKey = as_value V_StringPtr GetDkimKey"
| "run_setting (Op_SetDkimKey a) = as_value (\<lambda>_. V_Unit) (SetDkimKey a)"
| "run_setting Op_GetMailInboundSocket = as_value V_StringPtr GetMailInboundSocket"
| "run_setting (Op_SetMailInboundSocket a) = as_value (\<lambda>_. V_Unit) (SetMailInboundSocket a)"
| "run_setting (Op_SetPublicIp a) = as_value (\<lambda>_. V_Unit) (SetPublicIp a)"
| "run_setting Op_GetPublicIp = as_value V_StringPtr GetPublicIp"
| "run_setting (Op_SetPublicPort a) = as_value (\<lambda>_. V_Unit) (SetPublicPort a)"
| "run_setting Op_GetPublicPort = as_value V_IntPtr GetPublicPort"
| "run_setting Op_GetCustomDomain = as_value V_StringPtr GetCustomDomain"
| "run_setting (Op_SetCustomDomain a) = as_value (\<lambda>_. V_Unit) (SetCustomDomain a)"
| "run_setting Op_GetTimezone = as_value V_String GetTimezone"
| "run_setting (Op_SetTimezone a) = as_value (\<lambda>_. V_Unit) (SetTimezone a)"
| "run_setting Op_GetBackupAuto = as_value V_String GetBackupAuto"
| "run_setting (Op_SetBackupAuto a) = as_value (\<lambda>_. V_Unit) (SetBackupAuto a)"
| "run_setting Op_GetBackupAutoDay = as_value V_Int GetBackupAutoDay"
| "run_setting (Op_SetBackupAutoDay a) = as_value (\<lambda>_. V_Unit) (SetBackupAutoDay a)"
| "run_setting Op_GetBackupAutoHour = as_value V_Int GetBackupAutoHour"
| "run_setting (Op_SetBackupAutoHour a) = as_value (\<lambda>_. V_Unit) (SetBackupAutoHour a)"
| "run_setting (Op_GetBackupAppTime a b) = as_value V_Time (GetBackupAppTime a b)"
| "run_setting (Op_SetBackupAppTime a b e) = as_value (\<lambda>_. V_Unit) (SetBackupAppTime a b e)"
| "run_setting Op_GetDeviceDomain = as_value V_String GetDeviceDomain"
| "run_setting Op_DeviceUrl = as_value V_String DeviceUrl"
| "run_setting (Op_AppDomain a) = as_value V_String (AppDomain a)"
| "run_setting (Op_Url a) = as_value V_String (Url a)"

fun run_settings :: "setting_op list \<Rightarrow> setting_value list cfg" where
  "run_settings [] = ret []"
| "run_settings (op # ops) = andThen (run_setting op) (\<lambda>v. andThen (run_settings ops) (\<lambda>vs. ret (v # vs)))"

section \<open>Results\<close>

text \<open>An operation that returns on a well-formed database and leaves one.\<close>

definition returns :: "'a cfg \<Rightarrow> ('a \<Rightarrow> bool) \<Rightarrow> bool" where
  "returns m P \<longleftrightarrow> (\<forall>d. db_ready d \<longrightarrow> (\<exists>a d'. m d = (Ok a, d') \<and> P a \<and> db_ready d'))"

named_theorems returns_intros \<open>operations that return\<close>

lemma returns_andThen: "returns m P \<Longrightarrow> (\<And>a. P a \<Longrightarrow> returns (k a) Q) \<Longrightarrow> returns (andThen m k) Q"
  unfolding returns_def by (metis andThen_Ok)

lemma returns_ret: "P a \<Longrightarrow> returns (ret a) P"
  by (auto simp: returns_def)

lemma returns_as_value: "returns m P \<Longrightarrow> (\<And>a. P a \<Longrightarrow> Q (f a)) \<Longrightarrow> returns (as_value f m) Q"
  unfolding as_value_def by (rule returns_andThen [of m P]) (auto intro: returns_ret)

lemma returns_writes [returns_intros]:
  "returns (Db_Upsert k v) (\<lambda>_. True)" "returns (Db_UpsertBool k b) (\<lambda>_. True)" "returns (set_or_delete k x) (\<lambda>_. True)"
  by (auto simp: returns_def set_or_delete_def io_simps split: option.splits)

lemma returns_reads [returns_intros]:
  "returns (Db_GetOrNilString k) (\<lambda>_. True)" "returns (Db_GetBool k b) (\<lambda>_. True)" "returns (Db_Get k s) (\<lambda>_. True)"
  "returns (Db_GetOrDefaultString k s) (\<lambda>_. True)"
  by (auto simp: returns_def io_simps)

lemma returns_numbers [returns_intros]:
  "returns (Db_GetOrNilInt k) (\<lambda>i. case i of None \<Rightarrow> True | Some n \<Rightarrow> in_bits 64 n)"
  "in_bits 64 dflt \<Longrightarrow> returns (Db_GetOrDefaultInt k dflt) (in_bits 64)"
  "returns (Db_GetOrNilInt64 k) (\<lambda>i. case i of None \<Rightarrow> True | Some n \<Rightarrow> in_bits 32 n)"
  by (auto simp: returns_def io_simps Atoi_def split: option.splits bind_splits dest: ParseInt_in_bits)

lemma returns_time [returns_intros]: "returns (GetBackupAppTime app mode) (\<lambda>t. t = zero_time \<or> in_bits 32 t)"
  unfolding GetBackupAppTime_def
  by (rule returns_andThen [OF returns_numbers(3)]) (auto split: option.splits intro: returns_ret)

lemma returns_device_domain [returns_intros]: "returns GetDeviceDomain (\<lambda>_. True)"
  unfolding GetDeviceDomain_def IsRedirectEnabled_def getDomain_def GetCustomDomain_def
  by (rule returns_andThen [OF returns_reads(2)])
    (auto split: option.splits intro!: returns_andThen [OF returns_reads(1)] returns_ret)

lemma returns_urls [returns_intros]: "returns DeviceUrl (\<lambda>_. True)" "returns (Url a) (\<lambda>_. True)" "returns (AppDomain a) (\<lambda>_. True)"
  unfolding DeviceUrl_def Url_def AppDomain_def GetPublicPort_def
  by (auto intro!: returns_andThen [OF returns_numbers(1)] returns_andThen [OF returns_device_domain] returns_ret)

lemma returns_modes [returns_intros]: "returns GetBackupAuto (\<lambda>_. True)" "returns (SetBackupAuto m) (\<lambda>_. True)"
  unfolding GetBackupAuto_def SetBackupAuto_def
  by (auto intro!: returns_andThen [OF returns_reads(1)] returns_ret returns_writes split: option.splits)

lemmas setting_defs =
  GetBackupAutoDay_def GetBackupAutoHour_def GetCustomDomain_def GetDkimKey_def GetDomainUpdateToken_def GetMailInboundSocket_def GetPublicIp_def GetPublicPort_def GetTimezone_def GetWebSecretKey_def IsActivated_def IsCertbotStaging_def IsIpv4Enabled_def IsIpv4Public_def IsIpv6Enabled_def IsMailRelayEnabled_def IsRedirectEnabled_def IsRelayEnabled_def IsTwoFactorEnabled_def SetActivated_def SetBackupAppTime_def SetBackupAutoDay_def SetBackupAutoHour_def SetCustomDomain_def SetDeactivated_def SetDkimKey_def SetDomain_def SetIpv4Enabled_def SetIpv4Public_def SetIpv6Enabled_def SetMailInboundSocket_def SetMailRelayEnabled_def SetPublicIp_def SetPublicPort_def SetRedirectEnabled_def SetRelayEnabled_def SetTimezone_def SetTwoFactorEnabled_def SetWebSecretKey_def UpdateDomainToken_def

lemma run_setting_typed: "returns (run_setting op) (\<lambda>v. has_type v (result_type op))"
  by (cases op; simp only: run_setting.simps result_type.simps setting_defs; rule returns_as_value, rule returns_intros;
      simp add: in_bits_def)

text \<open>
  C17. The settings are type safe: on a database that has its settings table, every sequence of
  operations of the user settings runs to its end without an error and without ending the
  process, each result has the type of its operation (numbers are in the range of their Go
  type, whatever text is stored), and the table is there afterwards.
\<close>

theorem settings_type_safe:
  assumes "db_ready d"
  shows "\<exists>vs d'. run_settings ops d = (Ok vs, d') \<and> list_all2 has_type vs (map result_type ops) \<and> db_ready d'"
proof -
  have "returns (run_settings ops) (\<lambda>vs. list_all2 has_type vs (map result_type ops))"
  proof (induction ops)
    case (Cons op ops)
    show ?case unfolding run_settings.simps
      by (rule returns_andThen [OF run_setting_typed], rule returns_andThen [OF Cons.IH]) (auto intro: returns_ret)
  qed (simp add: returns_def)
  with assms show ?thesis by (simp add: returns_def)
qed

theorem settings_type_safe_witness:
  "\<exists>v d'. run_settings [Op_SetPublicPort (Some 8443), Op_DeviceUrl] fresh_db = (Ok [V_Unit, V_String v], d')"
proof -
  obtain vs d' where run: "run_settings [Op_SetPublicPort (Some 8443), Op_DeviceUrl] fresh_db = (Ok vs, d')"
    and "list_all2 has_type vs [T_Unit, T_String]"
    using settings_type_safe [OF fresh_db_ready, of "[Op_SetPublicPort (Some 8443), Op_DeviceUrl]"] by auto
  then obtain a b where "vs = [a, b]" "has_type a T_Unit" "has_type b T_String" by (auto simp: list_all2_Cons2)
  then show ?thesis using run by (cases a; cases b) auto
qed

end
