(* ===== verification/Visual_Diff.thy ===== *)
theory Visual_Diff
  imports Float64 Snap
begin

text \<open>
  The tool that compares screenshots of two builds (\<^verbatim>\<open>visual-diff/cmd\<close>): two images are the same up to a
  number of pixels, a tolerance of colours and shifts by one pixel. Decoding and encoding of
  PNG are parameters; decoded images start at the origin. What the tool prints is left out,
  its exit status is the result of a command. A directory that cannot be read counts as empty.
\<close>

section \<open>Images\<close>

type_synonym pixel = "32 word \<times> 32 word \<times> 32 word \<times> 32 word"

record image =
  im_Dx :: nat
  im_Dy :: nat
  im_At :: "nat \<Rightarrow> nat \<Rightarrow> pixel"

text \<open>An image to write: colours of 8 bits.\<close>

record diff_image =
  di_Dx :: nat
  di_Dy :: nat
  di_At :: "nat \<Rightarrow> nat \<Rightarrow> 8 word \<times> 8 word \<times> 8 word \<times> 8 word"

record comparator =
  pixelThreshold :: int
  fuzz :: f64
  views :: "string list"
  png_Decode :: "string \<Rightarrow> error + image"
  png_Encode :: "diff_image \<Rightarrow> string"

definition NewComparator :: "int \<Rightarrow> f64 \<Rightarrow> string list \<Rightarrow> (string \<Rightarrow> error + image) \<Rightarrow> (diff_image \<Rightarrow> string) \<Rightarrow> comparator" where
  "NewComparator threshold fuzzPercent vs dec enc = \<lparr>pixelThreshold = threshold,
     fuzz = f64_mul (f64_div fuzzPercent (f64_of_nat 100)) (f64_of_nat 65535), views = vs, png_Decode = dec, png_Encode = enc\<rparr>"

text \<open>Both operands have 32 bits, so conversion and difference are exact.\<close>

definition colorDiff :: "32 word \<Rightarrow> 32 word \<Rightarrow> f64" where
  "colorDiff a b = f64_of_nat (nat \<bar>int (unat a) - int (unat b)\<bar>)"

definition pixelDiffers :: "comparator \<Rightarrow> image \<Rightarrow> image \<Rightarrow> nat \<Rightarrow> nat \<Rightarrow> bool" where
  "pixelDiffers c img1 img2 x y = (case (im_At img1 x y, im_At img2 x y) of ((r1, g1, b1, a1), (r2, g2, b2, a2)) \<Rightarrow>
     f64_less (fuzz c) (colorDiff r1 r2) \<or> f64_less (fuzz c) (colorDiff g1 g2)
     \<or> f64_less (fuzz c) (colorDiff b1 b2) \<or> f64_less (fuzz c) (colorDiff a1 a2))"

definition colorMatches :: "comparator \<Rightarrow> pixel \<Rightarrow> pixel \<Rightarrow> bool" where
  "colorMatches c p q = (case (p, q) of ((pr, pg, pb, pa), (r, g, b, a)) \<Rightarrow>
     \<not> f64_less (fuzz c) (colorDiff pr r) \<and> \<not> f64_less (fuzz c) (colorDiff pg g)
     \<and> \<not> f64_less (fuzz c) (colorDiff pb b) \<and> \<not> f64_less (fuzz c) (colorDiff pa a))"

definition offsets :: "(int \<times> int) list" where
  "offsets = [(-1, -1), (0, -1), (1, -1), (-1, 0), (1, 0), (-1, 1), (0, 1), (1, 1)]"

definition isAntialiased :: "comparator \<Rightarrow> image \<Rightarrow> image \<Rightarrow> nat \<Rightarrow> nat \<Rightarrow> bool" where
  "isAntialiased c img1 img2 x y = list_ex (\<lambda>(dx, dy).
     let nx = int x + dx; ny = int y + dy in
     0 \<le> nx \<and> nx < int (im_Dx img1) \<and> 0 \<le> ny \<and> ny < int (im_Dy img1)
     \<and> (colorMatches c (im_At img1 (nat nx) (nat ny)) (im_At img2 x y)
        \<or> colorMatches c (im_At img2 (nat nx) (nat ny)) (im_At img1 x y))) offsets"

definition counts :: "comparator \<Rightarrow> image \<Rightarrow> image \<Rightarrow> nat \<times> nat \<Rightarrow> bool" where
  "counts c img1 img2 = (\<lambda>(x, y). pixelDiffers c img1 img2 x y \<and> \<not> isAntialiased c img1 img2 x y)"

text \<open>The pixels row by row, as the loops visit them.\<close>

definition raster :: "image \<Rightarrow> (nat \<times> nat) list" where
  "raster img = concat (map (\<lambda>y. map (\<lambda>x. (x, y)) [0..<im_Dx img]) [0..<im_Dy img])"

fun count_loop :: "(nat \<times> nat \<Rightarrow> bool) \<Rightarrow> (nat \<times> nat) list \<Rightarrow> int \<Rightarrow> int" where
  "count_loop P [] n = n"
| "count_loop P (p # ps) n = count_loop P ps (if P p then n + 1 else n)"

definition gray_pixel :: "pixel \<Rightarrow> 8 word \<times> 8 word \<times> 8 word \<times> 8 word" where
  "gray_pixel p = (case p of (r, g, bl, a) \<Rightarrow> let gray = ucast (drop_bit 8 ((r + g + bl) div 3)) in
     (gray, gray, gray, ucast (drop_bit 8 a)))"

text \<open>The mask is a function of the pixel; without one nothing is marked.\<close>

definition diff_picture :: "image \<Rightarrow> (nat \<times> nat \<Rightarrow> bool) \<Rightarrow> diff_image" where
  "diff_picture base marked = \<lparr>di_Dx = im_Dx base, di_Dy = im_Dy base,
     di_At = (\<lambda>x y. if marked (x, y) then (255, 0, 0, 255) else gray_pixel (im_At base x y))\<rparr>"

definition filepath_Dir :: "string \<Rightarrow> string" where
  "filepath_Dir path = Clean (rev (dropWhile (\<lambda>ch. ch \<noteq> CHR ''/'') (rev path)))"

definition writeDiffPNG :: "comparator \<Rightarrow> image \<Rightarrow> (nat \<times> nat \<Rightarrow> bool) \<Rightarrow> string \<Rightarrow> unit go" where
  "writeDiffPNG c base marked path =
     andThen (do_sys ''mkdirall'' [filepath_Dir path, ''0755'']) (\<lambda>_.
     andThen (do_sys ''create'' [path]) (\<lambda>_. do_sys ''write'' [path, png_Encode c (diff_picture base marked)]))"

definition loadPNG :: "comparator \<Rightarrow> string \<Rightarrow> image go" where
  "loadPNG c path = andThen (do_str (Sys ''readfile'' [path])) (\<lambda>content.
     case png_Decode c content of Inl e \<Rightarrow> throw e | Inr img \<Rightarrow> ret img)"

text \<open>Products of sizes stay below the range of \<^verbatim>\<open>int\<close> for images that fit into memory.\<close>

definition compareImages :: "comparator \<Rightarrow> string \<Rightarrow> string \<Rightarrow> string \<Rightarrow> int go" where
  "compareImages c path1 path2 diffPath =
     andThen (wrap_err (''loading '' @ path1 @ '': '') (loadPNG c path1)) (\<lambda>img1.
     andThen (wrap_err (''loading '' @ path2 @ '': '') (loadPNG c path2)) (\<lambda>img2.
       if im_Dx img1 \<noteq> im_Dx img2 \<or> im_Dy img1 \<noteq> im_Dy img2
       then andThen (if diffPath \<noteq> [] then andThen (attempt (writeDiffPNG c img2 (\<lambda>_. False) diffPath)) (\<lambda>_. ret ()) else ret ()) (\<lambda>_.
         ret (int (im_Dx img1 * im_Dy img1)))
       else (let diffCount = count_loop (counts c img1 img2) (raster img1) 0 in
         andThen (if diffPath \<noteq> [] \<and> diffCount > 0
           then andThen (attempt (writeDiffPNG c img1 (counts c img1 img2) diffPath)) (\<lambda>_. ret ()) else ret ()) (\<lambda>_.
         ret diffCount))))"

section \<open>Directories\<close>

definition shouldSkip :: "string \<Rightarrow> bool" where
  "shouldSkip name \<longleftrightarrow> HasPrefix name ''exception'' \<or> Contains name ''_unstable''"

definition relevant :: "string \<Rightarrow> bool" where
  "relevant name \<longleftrightarrow> HasSuffix name ''.png'' \<and> \<not> shouldSkip name"

definition list_dir :: "string \<Rightarrow> (string \<times> string) list go" where
  "list_dir dir = andThen (attempt (do_pairs (Sys ''readdir'' [dir]))) (\<lambda>r. ret (case r of Inl _ \<Rightarrow> [] | Inr es \<Rightarrow> es))"

definition hasPNGs :: "string \<Rightarrow> bool go" where
  "hasPNGs dir = andThen (list_dir dir) (\<lambda>es. ret (list_ex (\<lambda>(name, kind). kind \<noteq> ''dir'' \<and> HasSuffix name ''.png'') es))"

definition resolveView :: "string \<Rightarrow> string \<Rightarrow> string go" where
  "resolveView dir view =
     (if dir = [] then ret []
      else let screenshots = path_join [dir, view, ''screenshot'']; plain = path_join [dir, view] in
        andThen (hasPNGs screenshots) (\<lambda>a. if a then ret screenshots
        else andThen (hasPNGs plain) (\<lambda>b. ret (if b then plain else []))))"

text \<open>One image of the base directory: whether it changed, and whether it was compared at all.\<close>

definition compare_entry :: "comparator \<Rightarrow> string \<Rightarrow> string \<Rightarrow> string \<Rightarrow> string \<Rightarrow> (bool \<times> bool) go" where
  "compare_entry c baseDir cmpDir diffDir name =
     (let cmpPath = path_join [cmpDir, name]; diffPath = (if diffDir \<noteq> [] then path_join [diffDir, name] else []) in
      andThen (attempt (do_sys ''stat'' [cmpPath])) (\<lambda>st.
        if st = Inl NotExist then ret (False, False)
        else andThen (attempt (compareImages c (path_join [baseDir, name]) cmpPath diffPath)) (\<lambda>r. case r of
          Inl _ \<Rightarrow> ret (True, True)
        | Inr pixels \<Rightarrow>
            if pixels \<le> pixelThreshold c
            then andThen (if diffPath \<noteq> [] then andThen (attempt (do_sys ''remove'' [diffPath])) (\<lambda>_. ret ()) else ret ()) (\<lambda>_. ret (False, True))
            else ret (True, True))))"

fun compare_entries :: "comparator \<Rightarrow> string \<Rightarrow> string \<Rightarrow> string \<Rightarrow> string list \<Rightarrow> int \<Rightarrow> int \<Rightarrow> (int \<times> int) go" where
  "compare_entries c baseDir cmpDir diffDir [] changed compared = ret (changed, compared)"
| "compare_entries c baseDir cmpDir diffDir (name # names) changed compared =
     (if \<not> relevant name then compare_entries c baseDir cmpDir diffDir names changed compared
      else andThen (compare_entry c baseDir cmpDir diffDir name) (\<lambda>(ch, co).
        compare_entries c baseDir cmpDir diffDir names (if ch then changed + 1 else changed) (if co then compared + 1 else compared)))"

text \<open>Images that only the compared directory has are looked up to be reported.\<close>

definition compareDir :: "comparator \<Rightarrow> string \<Rightarrow> string \<Rightarrow> string \<Rightarrow> (int \<times> int) go" where
  "compareDir c baseDir cmpDir diffDir =
     andThen (list_dir baseDir) (\<lambda>entries.
     andThen (compare_entries c baseDir cmpDir diffDir (map fst entries) 0 0) (\<lambda>result.
     andThen (list_dir cmpDir) (\<lambda>cmpEntries.
     andThen (forEach (filter relevant (map fst cmpEntries))
        (\<lambda>name. andThen (attempt (do_sys ''stat'' [path_join [baseDir, name]])) (\<lambda>_. ret ()))) (\<lambda>_. ret result))))"

fun compare_views :: "comparator \<Rightarrow> string \<Rightarrow> string \<Rightarrow> string \<Rightarrow> string list \<Rightarrow> int \<Rightarrow> int \<Rightarrow> (int \<times> int) go" where
  "compare_views c baseRoot cmpRoot diffRoot [] changed compared = ret (changed, compared)"
| "compare_views c baseRoot cmpRoot diffRoot (view # vs) changed compared =
     andThen (resolveView baseRoot view) (\<lambda>baseView.
     andThen (resolveView cmpRoot view) (\<lambda>cmpView.
       if baseView = [] \<or> cmpView = [] then compare_views c baseRoot cmpRoot diffRoot vs changed compared
       else (let diffView = (if diffRoot \<noteq> [] then path_join [diffRoot, view] else []) in
         andThen (if diffRoot \<noteq> [] then andThen (attempt (do_sys ''mkdirall'' [diffView, ''0755''])) (\<lambda>_. ret ()) else ret ()) (\<lambda>_.
         andThen (compareDir c baseView cmpView diffView) (\<lambda>(ch, co).
           compare_views c baseRoot cmpRoot diffRoot vs (changed + ch) (compared + co))))))"

definition CompareTrees :: "comparator \<Rightarrow> string \<Rightarrow> string \<Rightarrow> string \<Rightarrow> (int \<times> int) go" where
  "CompareTrees c baseRoot cmpRoot diffRoot = compare_views c baseRoot cmpRoot diffRoot (views c) 0 0"

section \<open>Builds of the continuous integration\<close>

record ci_client =
  apiURL :: string
  filesURL :: string
  arch :: string

definition dec_build :: "json \<Rightarrow> (int \<times> string) option" where
  "dec_build = dec_obj (\<lambda>k. Option.bind (dec_int (k ''number'')) (\<lambda>n. Option.bind (dec_str (k ''source'')) (\<lambda>_.
     map_option (\<lambda>status. (n, status)) (dec_str (k ''status'')))))"

definition FindLatestBuild :: "ci_client \<Rightarrow> string \<Rightarrow> string go" where
  "FindLatestBuild ci branch =
     andThen (attempt (andThen (do_http (HttpGet (apiURL ci @ ''/builds?limit=10&branch='' @ branch))) (\<lambda>resp.
       andThen (read_body resp) (\<lambda>b. json_body b (dec_list dec_build))))) (\<lambda>r. ret (case r of
         Inl _ \<Rightarrow> []
       | Inr builds \<Rightarrow> (case filter (\<lambda>(_, status). status = ''success'') builds of [] \<Rightarrow> [] | (n, _) # _ \<Rightarrow> Itoa n)))"

text \<open>A listing that is no JSON is an empty one.\<close>

definition listRemotePNGs :: "string \<Rightarrow> string list go" where
  "listRemotePNGs url = andThen (do_http (HttpGet (url @ ''/''))) (\<lambda>resp.
     andThen (attempt (andThen (read_body resp) (\<lambda>b. json_body b (dec_list (dec_obj (\<lambda>k. dec_str (k ''name''))))))) (\<lambda>r.
       ret (case r of Inl _ \<Rightarrow> [] | Inr names \<Rightarrow> filter (\<lambda>name. HasSuffix name ''.png'') names)))"

definition downloadFile :: "string \<Rightarrow> string \<Rightarrow> unit go" where
  "downloadFile url path =
     andThen (do_http (HttpGet url)) (\<lambda>resp.
     andThen (do_sys ''create'' [path]) (\<lambda>_.
     andThen (read_body resp) (\<lambda>b. do_sys ''write'' [path, body_text b])))"

definition downloadPNGs :: "string \<Rightarrow> string \<Rightarrow> unit go" where
  "downloadPNGs url dir = andThen (listRemotePNGs url) (\<lambda>names.
     forEach names (\<lambda>name. let target = path_join [dir, name] in
       andThen (attempt (do_sys ''stat'' [target])) (\<lambda>st. case st of
         Inr _ \<Rightarrow> ret ()
       | Inl _ \<Rightarrow> wrap_err (''downloading '' @ name @ '': '') (downloadFile (url @ ''/'' @ name) target))))"

definition DownloadBuild :: "ci_client \<Rightarrow> string \<Rightarrow> string \<Rightarrow> unit go" where
  "DownloadBuild ci buildNum outDir =
     andThen (attempt (do_sys ''removeall'' [outDir])) (\<lambda>_.
       forEach [''desktop'', ''mobile''] (\<lambda>view.
         let dir = path_join [outDir, view] in
         andThen (do_sys ''mkdirall'' [dir, ''0755'']) (\<lambda>_.
           downloadPNGs (filesURL ci @ ''/'' @ buildNum @ ''-'' @ arch ci @ ''/playwright/'' @ view @ ''/screenshot'') dir)))"

definition DownloadBranch :: "ci_client \<Rightarrow> string \<Rightarrow> string \<Rightarrow> unit go" where
  "DownloadBranch ci branch outDir = andThen (FindLatestBuild ci branch) (\<lambda>b.
     if b = [] then throw (Error (''no successful build for branch '' @ [CHR 0x22] @ branch @ [CHR 0x22])) else DownloadBuild ci b outDir)"

section \<open>Commands\<close>

definition reportResult :: "int \<Rightarrow> int \<Rightarrow> int" where
  "reportResult changed compared = (if compared = 0 then 2 else if changed > 0 then 1 else 0)"

definition Diff_cmd :: "comparator \<Rightarrow> string list \<Rightarrow> int go" where
  "Diff_cmd c args = (case args of
     baseDir # cmpDir # rest \<Rightarrow> andThen (CompareTrees c baseDir cmpDir (case rest of [] \<Rightarrow> [] | d # _ \<Rightarrow> d)) (\<lambda>(changed, compared).
       ret (reportResult changed compared))
   | _ \<Rightarrow> ret 1)"

definition CIDiff_cmd :: "comparator \<Rightarrow> ci_client \<Rightarrow> string \<Rightarrow> string list \<Rightarrow> int go" where
  "CIDiff_cmd c ci tempDir args = (case args of
     [] \<Rightarrow> ret 1
   | localDir # rest \<Rightarrow> andThen (FindLatestBuild ci ''stable'') (\<lambda>b.
       if b = [] \<or> (case rest of [] \<Rightarrow> False | skip # _ \<Rightarrow> skip \<noteq> [] \<and> skip = b) then ret 0
       else (let stableDir = path_join [tempDir, ''visual-diff-stable''] in
         andThen (attempt (do_sys ''removeall'' [stableDir])) (\<lambda>_.
         andThen (attempt (DownloadBuild ci b stableDir)) (\<lambda>r. case r of
           Inl _ \<Rightarrow> ret 1
         | Inr _ \<Rightarrow> andThen (CompareTrees c stableDir localDir []) (\<lambda>(changed, compared). ret (reportResult changed compared)))))))"

text \<open>Copies for a gallery, without a root nothing is done; every error is ignored.\<close>

definition copyFile :: "string \<Rightarrow> string \<Rightarrow> unit go" where
  "copyFile src dst =
     andThen (do_sys ''open'' [src]) (\<lambda>_.
     andThen (do_sys ''create'' [dst]) (\<lambda>_. do_sys ''copy'' [dst, src]))"

definition copyViews :: "string \<Rightarrow> string \<Rightarrow> string list \<Rightarrow> unit go" where
  "copyViews src dst vs = forEach vs (\<lambda>view.
     andThen (resolveView src view) (\<lambda>srcView.
       if srcView = [] then ret ()
       else andThen (attempt (do_sys ''mkdirall'' [dst, ''0755''])) (\<lambda>r. case r of
         Inl _ \<Rightarrow> ret ()
       | Inr _ \<Rightarrow> andThen (list_dir srcView) (\<lambda>entries.
           forEach (filter (\<lambda>(name, kind). kind \<noteq> ''dir'' \<and> HasSuffix name ''.png'') entries) (\<lambda>(name, _).
             andThen (attempt (copyFile (path_join [srcView, name]) (path_join [dst, name]))) (\<lambda>_. ret ()))))))"

definition Pictures_Copy :: "string \<Rightarrow> string \<Rightarrow> string \<Rightarrow> string \<Rightarrow> string list \<Rightarrow> unit go" where
  "Pictures_Copy root baseDir cmpDir diffDir vs =
     (if root = [] then ret ()
      else (let target = path_join [root, ''screenshot-diff''] in
        andThen (attempt (do_sys ''removeall'' [target])) (\<lambda>_.
        andThen (copyViews baseDir (path_join [target, ''base'']) vs) (\<lambda>_.
        andThen (copyViews cmpDir (path_join [target, ''compare'']) vs) (\<lambda>_.
          copyViews diffDir (path_join [target, ''diff'']) vs)))))"

definition CopyBranch :: "string \<Rightarrow> string \<Rightarrow> string \<Rightarrow> string list \<Rightarrow> unit go" where
  "CopyBranch root srcDir label vs =
     (if root = [] then ret ()
      else (let target = path_join [root, ''syncloud-'' @ label] in
        andThen (attempt (do_sys ''removeall'' [target])) (\<lambda>_. copyViews srcDir target vs)))"

definition Download_cmd :: "comparator \<Rightarrow> ci_client \<Rightarrow> string \<Rightarrow> string \<Rightarrow> string list \<Rightarrow> int go" where
  "Download_cmd c ci root tempDir args = (case args of
     [] \<Rightarrow> ret 1
   | branch # rest \<Rightarrow> (let outDir = (case rest of [] \<Rightarrow> path_join [tempDir, ''visual-diff-cache'', branch] | d # _ \<Rightarrow> d) in
       andThen (attempt (DownloadBranch ci branch outDir)) (\<lambda>r. case r of
         Inl _ \<Rightarrow> ret 1
       | Inr _ \<Rightarrow> andThen (CopyBranch root outDir branch (views c)) (\<lambda>_. ret 0))))"

definition Branches_cmd :: "comparator \<Rightarrow> ci_client \<Rightarrow> string \<Rightarrow> string \<Rightarrow> string list \<Rightarrow> int go" where
  "Branches_cmd c ci root tempDir args = (case args of
     base # cmp # _ \<Rightarrow> (let cache = path_join [tempDir, ''visual-diff-cache'']; baseDir = path_join [cache, base];
         cmpDir = path_join [cache, cmp]; diffDir = path_join [cache, ''diff''] in
       andThen (attempt (do_sys ''removeall'' [diffDir])) (\<lambda>_.
       andThen (attempt (DownloadBranch ci base baseDir)) (\<lambda>r1. case r1 of
         Inl _ \<Rightarrow> ret 1
       | Inr _ \<Rightarrow> andThen (attempt (DownloadBranch ci cmp cmpDir)) (\<lambda>r2. case r2 of
           Inl _ \<Rightarrow> ret 1
         | Inr _ \<Rightarrow> andThen (CompareTrees c baseDir cmpDir diffDir) (\<lambda>(changed, compared).
             andThen (Pictures_Copy root baseDir cmpDir diffDir (views c)) (\<lambda>_. ret (reportResult changed compared)))))))
   | _ \<Rightarrow> ret 1)"

section \<open>The count of changed pixels\<close>

definition same_size :: "image \<Rightarrow> image \<Rightarrow> bool" where
  "same_size img1 img2 \<longleftrightarrow> im_Dx img1 = im_Dx img2 \<and> im_Dy img1 = im_Dy img2"

lemma set_raster: "set (raster img) = {0..<im_Dx img} \<times> {0..<im_Dy img}"
  by (auto simp: raster_def)

lemma raster_product: "raster img = map prod.swap (List.product [0..<im_Dy img] [0..<im_Dx img])"
proof -
  have "concat (map (\<lambda>y. map (\<lambda>x. (x, y)) xs) ys) = map prod.swap (List.product ys xs)" for xs ys :: "nat list"
    by (induction ys) auto
  then show ?thesis by (simp add: raster_def)
qed

lemma distinct_raster: "distinct (raster img)"
  by (simp add: raster_product distinct_map distinct_product)

lemma count_loop_card:
  assumes "distinct ps"
  shows "count_loop P ps n = n + int (card {p \<in> set ps. P p})"
  using assms
proof (induction ps arbitrary: n)
  case (Cons p ps)
  have "{q \<in> set (p # ps). P q} = (if P p then insert p {q \<in> set ps. P q} else {q \<in> set ps. P q})" by auto
  with Cons show ?case by simp
qed simp

lemma colorDiff_sym: "colorDiff a b = colorDiff b a"
  by (simp add: colorDiff_def abs_minus_commute)

lemma counts_sym: "same_size img1 img2 \<Longrightarrow> counts c img1 img2 = counts c img2 img1"
  by (auto simp: counts_def pixelDiffers_def isAntialiased_def same_size_def colorDiff_sym disj_commute split: prod.splits)

text \<open>
  The number that decides about an image is the size of the set of its pixels that differ
  beyond the tolerance and have no match next to them; it does not depend on which of
  two images of the same size is the base.
\<close>

lemma diff_count:
  assumes "same_size img1 img2"
  shows "count_loop (counts c img1 img2) (raster img1) 0
       = int (card {(x, y). x < im_Dx img1 \<and> y < im_Dy img1 \<and> pixelDiffers c img1 img2 x y \<and> \<not> isAntialiased c img1 img2 x y})"
    "count_loop (counts c img1 img2) (raster img1) 0 = count_loop (counts c img2 img1) (raster img2) 0"
proof -
  have "{p \<in> set (raster img1). counts c img1 img2 p}
      = {(x, y). x < im_Dx img1 \<and> y < im_Dy img1 \<and> pixelDiffers c img1 img2 x y \<and> \<not> isAntialiased c img1 img2 x y}"
    by (auto simp: set_raster counts_def)
  then show "count_loop (counts c img1 img2) (raster img1) 0
       = int (card {(x, y). x < im_Dx img1 \<and> y < im_Dy img1 \<and> pixelDiffers c img1 img2 x y \<and> \<not> isAntialiased c img1 img2 x y})"
    by (simp add: count_loop_card [OF distinct_raster])
  have "raster img1 = raster img2" using assms by (simp add: raster_def same_size_def)
  then show "count_loop (counts c img1 img2) (raster img1) 0 = count_loop (counts c img2 img1) (raster img2) 0"
    by (simp add: counts_sym [OF assms])
qed

text \<open>
  An image passes only if both files could be decoded and, when they have the same size, at
  most the allowed number of pixels changed. Of images of different size only the area of the
  base counts.
\<close>

lemma loadPNG_Ok: "loadPNG c path w = (Ok img, w') \<Longrightarrow>
    \<exists>content. e_str (w_env w) (w_hist w) (Sys ''readfile'' [path]) = Inr content \<and> png_Decode c content = Inr img
      \<and> w' = record_call (Sys ''readfile'' [path]) w"
  by (cases "e_str (w_env w) (w_hist w) (Sys ''readfile'' [path])")
    (auto simp: loadPNG_def do_str_def andThen_def split: sum.splits)

lemma compareImages_count:
  assumes "compareImages c path1 path2 diffPath w = (Ok n, w')"
  shows "\<exists>img1 img2 h1 h2 s1 s2. e_str (w_env w) h1 (Sys ''readfile'' [path1]) = Inr s1 \<and> png_Decode c s1 = Inr img1
     \<and> e_str (w_env w) h2 (Sys ''readfile'' [path2]) = Inr s2 \<and> png_Decode c s2 = Inr img2
     \<and> n = (if same_size img1 img2
         then int (card {(x, y). x < im_Dx img1 \<and> y < im_Dy img1 \<and> pixelDiffers c img1 img2 x y \<and> \<not> isAntialiased c img1 img2 x y})
         else int (im_Dx img1 * im_Dy img1))"
proof -
  obtain img1 w1 img2 w2 where l1: "loadPNG c path1 w = (Ok img1, w1)" and l2: "loadPNG c path2 w1 = (Ok img2, w2)"
    using assms unfolding compareImages_def andThen_Ok_iff wrap_err_Ok by blast
  then have r1: "wrap_err p (loadPNG c path1) w = (Ok img1, w1)" and r2: "wrap_err p (loadPNG c path2) w1 = (Ok img2, w2)" for p
    by (simp_all add: wrap_err_Ok)
  have n: "n = (if same_size img1 img2 then count_loop (counts c img1 img2) (raster img1) 0 else int (im_Dx img1 * im_Dy img1))"
    using assms r1 r2 by (auto simp: compareImages_def same_size_def Let_def andThen_Ok_iff split: if_splits)
  obtain s1 where s1: "e_str (w_env w) (w_hist w) (Sys ''readfile'' [path1]) = Inr s1" "png_Decode c s1 = Inr img1"
    "w1 = record_call (Sys ''readfile'' [path1]) w" using loadPNG_Ok [OF l1] by blast
  obtain s2 where "e_str (w_env w) (w_hist w1) (Sys ''readfile'' [path2]) = Inr s2" "png_Decode c s2 = Inr img2"
    using loadPNG_Ok [OF l2] s1(3) by auto
  moreover have "n = (if same_size img1 img2
      then int (card {(x, y). x < im_Dx img1 \<and> y < im_Dy img1 \<and> pixelDiffers c img1 img2 x y \<and> \<not> isAntialiased c img1 img2 x y})
      else int (im_Dx img1 * im_Dy img1))"
    using n diff_count(1) by simp
  ultimately show ?thesis using s1(1,2) by blast
qed

end
