(* ===== verification/Spec2Isabelle.thy ===== *)
theory Spec2Isabelle
  imports Access_Change Directory Login_Service Programs Settings_Typing Visual_Diff
begin

text \<open>
  Verification library of the Syncloud platform backend (the Go code under \<^verbatim>\<open>src/backend\<close>).

  \<^bold>\<open>The program.\<close> The platform runs a device: an activated device has a domain, a certificate, a
  web server (nginx), single sign-on (Authelia over an LDAP directory), apps (snaps), disks, and
  backups. A web backend and an internal API for apps offer all of it as HTTP routes; a job queue runs
  one long operation at a time; periodic jobs renew, back up and upgrade; hooks run at install
  and refresh; a guard process watches memory; a login service sets up second factors; a
  command line tool does the same from a shell.

  \<^bold>\<open>The model.\<close> A Go function that can fail or panic is a state transformer with the results \<open>Ok\<close>,
  \<open>Err\<close> (an \<^verbatim>\<open>error\<close>) and \<open>Crash\<close> (a panic, or \<^verbatim>\<open>log.Fatal\<close>). Settings operations run on the
  \<open>database\<close>; components that act on the outside run on the \<open>world\<close>: database, memory of the
  long-lived objects, and the history of calls. A call to a command, a service or the file
  system is appended to the history and answered by an environment that is a parameter and may
  answer differently each time; theorems hold for every environment, except where they name as
  a hypothesis what they rely on. Web handlers run on an \<open>exchange\<close>, a world with a request and
  the answer written so far. Concurrency is by interleaving of critical sections as step
  relations (job queue, access change runner). Words keep their width where it matters (sizes,
  the swap header), \<^verbatim>\<open>int\<close> results are checked or wrapped at 64 bits, floats round as IEEE 754 says.

  \<^bold>\<open>Theories and sources.\<close>
  \<^item> \<open>Go_Prelude\<close>: the monad, error values, strings, paths, decimal numbers, and the collections of
    rules (\<open>io_simps\<close>, \<open>str_simps\<close>, \<open>safe_intros\<close>, \<open>keeps_intros\<close>); \<open>Clock\<close>: dates and zones; \<open>Base64\<close>,
    \<open>Float64\<close>, \<open>Ip_Address\<close>: encodings, floats and \<^verbatim>\<open>net.ParseIP\<close> of the standard library.
  \<^item> \<open>Job\<close> (\<^verbatim>\<open>job\<close>) and \<open>Access_Change\<close> (\<^verbatim>\<open>event/access_change.go\<close>): the two concurrent components. The
    contract of the queue towards its worker is the locale \<open>job_source\<close>.
  \<^item> \<open>Config_Db\<close>, \<open>User_Config\<close>, \<open>Config_Tables\<close>, \<open>Settings_Typing\<close>, \<open>Settings_Readers\<close> (\<^verbatim>\<open>config\<close>): the
    settings; \<open>settings_store\<close> is the contract of a key-value store that the accessors use.
  \<^item> \<open>World\<close>: calls, environments, plans (\<open>follows\<close>) and events (\<open>emits\<close>) of computations.
  \<^item> \<open>Snap\<close>, \<open>Snapd\<close> (\<^verbatim>\<open>snap\<close>, \<^verbatim>\<open>event/trigger.go\<close>), \<open>Tar\<close>, \<open>Backup\<close> (\<^verbatim>\<open>backup\<close>, \<^verbatim>\<open>du\<close>), \<open>Cron\<close> (\<^verbatim>\<open>cron\<close>; locale
    \<open>scheduler\<close>), \<open>Systemd\<close> (\<^verbatim>\<open>systemd\<close>), \<open>Lsblk\<close>, \<open>Disks\<close> (\<^verbatim>\<open>storage\<close>).
  \<^item> \<open>Redirect_Service\<close> (\<^verbatim>\<open>redirect\<close>, \<^verbatim>\<open>identification\<close>, \<^verbatim>\<open>network\<close>, \<^verbatim>\<open>version\<close>), \<open>Access\<close> (\<^verbatim>\<open>access\<close>), \<open>Nginx\<close>
    (\<^verbatim>\<open>nginx\<close>), \<open>Cert\<close> (\<^verbatim>\<open>cert\<close>).
  \<^item> \<open>Accounts\<close> and \<open>Directory\<close> (\<^verbatim>\<open>auth\<close>: users, groups): requests to LDAP, and their effect on a
    directory that behaves as documented; \<open>Web_Auth\<close> (\<^verbatim>\<open>auth\<close>: Authelia, OIDC, one-time passwords),
    \<open>Session\<close> (\<^verbatim>\<open>session\<close>), \<open>Login_Service\<close> (\<^verbatim>\<open>cmd/login\<close>).
  \<^item> \<open>Activation\<close> (\<^verbatim>\<open>activation\<close>, \<^verbatim>\<open>auth/initializer.go\<close>), \<open>Hooks\<close> (\<^verbatim>\<open>hook\<close>), \<open>Health\<close> (\<^verbatim>\<open>health\<close>,
    \<^verbatim>\<open>stability/events.go\<close>), \<open>Stability\<close> and \<open>Zram\<close> (\<^verbatim>\<open>stability\<close>), \<open>Support\<close> (\<^verbatim>\<open>support\<close>), \<open>Lcd\<close>
    (\<^verbatim>\<open>hardware/lcd\<close>).
  \<^item> \<open>Middleware\<close>, \<open>Rest_Handlers\<close>, \<open>Rest_Api\<close>, \<open>Rest\<close> (\<^verbatim>\<open>rest\<close>): guards as the locale \<open>guard\<close> with its
    composition \<open>guard_pair\<close>, the handlers, the tables of routes; \<open>Cli_Commands\<close> (\<^verbatim>\<open>cmd/cli\<close>).
  \<^item> \<open>Wiring\<close> (\<^verbatim>\<open>ioc\<close>): the table of the 95 constructors with the types they need, and the set-up of the
    programs over a container that is a parameter; \<open>Programs\<close> (\<^verbatim>\<open>ioc/service.go\<close>, \<^verbatim>\<open>cmd\<close>): the services in
    their order, the main functions, and the loops of cron, worker and guard.
  \<^item> \<open>Visual_Diff\<close> (\<^verbatim>\<open>src/visual-diff\<close>): the tool that compares the screenshots of two builds.

  \<^bold>\<open>What is shown.\<close>
  \<^item> Concurrency: every accepted job runs exactly once and none is overwritten; triggers of the
    access change event are never lost, at most one runner is active, and it stops.
  \<^item> Access control: without a session nothing but the public routes is served, and nothing but
    the user routes without administrator rights; logins need the state of the same session, the
    token of the file, or a password that LDAP accepted; sessions and command line tokens
    round trip; granting and revoking rights refines the operation on the set of administrators,
    and the last one is kept.
  \<^item> Ordering and all-or-nothing: backup and restore, disk activation, access updates,
    activation, configuration that is validated before it is installed, swap that is switched
    before files are dropped, refresh that keeps external disks.
  \<^item> Data: archives, backup times and swap headers round trip; the settings are type safe, the last
    write wins, migrations reach the schema; the ring of the event log equals its list
    specification; ids are fresh; schedules run once per slot.
  \<^item> Programs: every constructor finds its parameters, the set-up migrates the database and fails
    only for the reasons of the device; the web backend serves only with its sessions and worker
    in place; an offered job is the one the worker runs next, and the queue is free again
    afterwards; the loops of cron, guard and display survive every error of their turns.
  \<^item> Errors: links that an archive cannot hold, tunnels that do not come up, upgrades that are not
    verified.

  \<^bold>\<open>Bounds.\<close> Loops of the source with a bound keep it: ten checks of an upgrade, thirty of the relay
  tunnel and of Authelia, ten retries of LDAP. The wait for a process to end is at most 21 rounds:
  each sleeps 200 ms of a grace of 4 s, if the clock runs. Copying a directory is cut at
  4096 levels, which no path of the system can have. The unit loop of the display is a partial function
  that is shown to return. The endless loops of the programs are given by their first \<open>n\<close> turns,
  for every \<open>n\<close>.

  \<^bold>\<open>Limits.\<close> Case mapping and classes of characters are those of ASCII, but for letters and
  digits, which are parameters. JSON keys match by their exact spelling; floats are read from
  plain decimals. \<^verbatim>\<open>sort.Slice\<close>, the router, the container of components, the cookie codec, X.509 and ACME, the JSON parser
  and hash functions are parameters.

  \<^bold>\<open>Not modelled.\<close> The parsing of the command line; logging; the pixels of the display; the texts of
  templates; the sockets under HTTP, LDAP and snapd, so that \<open>http.Serve\<close> is one call whose
  requests are the theorems about routes; the copying of directories by a library; the
  user interface and the test apps, which are not part of the device's backend.
\<close>

end
